(* ===== verification/Prelude.thy ===== *)
theory Prelude
  imports Main "HOL-Library.Word"
begin

text \<open>
  Shared vocabulary of the development: Go's fixed-width integers as words, Go's
  \<^verbatim>\<open>error\<close> values and the parts of \<^verbatim>\<open>errors\<close>, \<^verbatim>\<open>fmt\<close> and
  \<^verbatim>\<open>strings\<close> that the sources call, instants of time, and the generic lemmas on
  words, keyed lists and effectful calls that the component theories share.
\<close>

section \<open>Automation collections\<close>

named_theorems go_string \<open>definitions of string constants and string helpers\<close>
named_theorems repo_simps \<open>how each database call changes each table\<close>
named_theorems step_defs \<open>the Execute and Compensate bodies of the saga steps\<close>

section \<open>Integers\<close>

text \<open>Go's \<^verbatim>\<open>int64\<close> (and \<^verbatim>\<open>int\<close> on a 64-bit target) and \<^verbatim>\<open>int32\<close>: addition and
  subtraction wrap, comparisons read the two's complement value with \<^const>\<open>sint\<close>.\<close>

type_synonym int64 = "64 word"
type_synonym int32 = "32 word"

definition slt :: "int64 \<Rightarrow> int64 \<Rightarrow> bool" where
  "slt a b \<longleftrightarrow> sint a < sint b"

definition sle :: "int64 \<Rightarrow> int64 \<Rightarrow> bool" where
  "sle a b \<longleftrightarrow> sint a \<le> sint b"

text \<open>Go's integer division truncates towards zero.\<close>

definition go_div :: "int64 \<Rightarrow> int64 \<Rightarrow> int64" where
  "go_div a b = word_of_int (sgn (sint a) * sgn (sint b) * (\<bar>sint a\<bar> div \<bar>sint b\<bar>))"

definition fits64 :: "int \<Rightarrow> bool" where
  "fits64 i \<longleftrightarrow> - (2 ^ 63) \<le> i \<and> i < 2 ^ 63"

section \<open>Instants and durations\<close>

text \<open>An instant is the number of nanoseconds since Go's zero time (year 1, January 1,
  00:00 UTC), so \<^verbatim>\<open>t.IsZero()\<close> is \<open>t = 0\<close>; a duration is a number of nanoseconds.\<close>

type_synonym time = int
type_synonym duration = int

definition Second :: duration where "Second = 1000000000"
definition Minute :: duration where "Minute = 60 * Second"
definition Hour :: duration where "Hour = 60 * Minute"

definition IsZero :: "time \<Rightarrow> bool" where
  "IsZero t \<longleftrightarrow> t = 0"

text \<open>\<^verbatim>\<open>t.Truncate(d)\<close> rounds down to a multiple of \<open>d\<close> since the zero time.\<close>

definition Truncate :: "time \<Rightarrow> duration \<Rightarrow> time" where
  "Truncate t d = (if d \<le> 0 then t else t - t mod d)"

section \<open>Strings\<close>

text \<open>Go strings are byte sequences.\<close>

definition lower_char :: "char \<Rightarrow> char" where
  "lower_char c = (if 65 \<le> (of_char c :: nat) \<and> (of_char c :: nat) \<le> 90
                   then char_of ((of_char c :: nat) + 32) else c)"

definition ToLower :: "string \<Rightarrow> string" where
  "ToLower s = map lower_char s"

fun Contains :: "string \<Rightarrow> string \<Rightarrow> bool" where
  "Contains s sub =
     (if take (length sub) s = sub then True
      else (case s of [] \<Rightarrow> False | _ # t \<Rightarrow> Contains t sub))"

declare Contains.simps [simp del]

fun nat_digits :: "nat \<Rightarrow> string" where
  "nat_digits n =
     (if n < 10 then [char_of (n + 48)] else nat_digits (n div 10) @ [char_of (n mod 10 + 48)])"

declare nat_digits.simps [simp del]

text \<open>The verb \<^verbatim>\<open>%d\<close> of \<^verbatim>\<open>fmt\<close>.\<close>

definition fmt_int :: "int \<Rightarrow> string" where
  "fmt_int i = (if i < 0 then ''-'' @ nat_digits (nat (- i)) else nat_digits (nat i))"

definition fmt_d :: "int64 \<Rightarrow> string" where
  "fmt_d a = fmt_int (sint a)"

section \<open>Errors\<close>

text \<open>
  A Go error: a plain message (\<^verbatim>\<open>fmt.Errorf\<close> without \<^verbatim>\<open>%w\<close>), an error the database
  reported (\<^verbatim>\<open>*pgconn.PgError\<close>, with its SQLSTATE code and its text), the sentinel
  \<^verbatim>\<open>pgx.ErrNoRows\<close>, and an error wrapped by \<^verbatim>\<open>fmt.Errorf("...: %w", err)\<close>.
\<close>

datatype goerror =
    ErrMsg string
  | ErrPg string string
  | ErrNoRows
  | ErrWrap string goerror

fun Error :: "goerror \<Rightarrow> string" where
  "Error (ErrMsg m) = m"
| "Error (ErrPg c m) = m"
| "Error ErrNoRows = ''no rows in result set''"
| "Error (ErrWrap pre e) = pre @ Error e"

text \<open>\<^verbatim>\<open>errors.As(err, &pgErr)\<close> followed by \<^verbatim>\<open>pgErr.Code\<close>, and \<^verbatim>\<open>errors.Is(err, pgx.ErrNoRows)\<close>.\<close>

fun AsPgCode :: "goerror \<Rightarrow> string option" where
  "AsPgCode (ErrMsg m) = None"
| "AsPgCode (ErrPg c m) = Some c"
| "AsPgCode ErrNoRows = None"
| "AsPgCode (ErrWrap pre e) = AsPgCode e"

fun IsNoRows :: "goerror \<Rightarrow> bool" where
  "IsNoRows (ErrMsg m) = False"
| "IsNoRows (ErrPg c m) = False"
| "IsNoRows ErrNoRows = True"
| "IsNoRows (ErrWrap pre e) = IsNoRows e"

section \<open>Calls with an effect\<close>

text \<open>A Go call that returns \<^verbatim>\<open>(T, error)\<close> and may change the state \<open>'w\<close>. \<open>bindE\<close> is the
  \<^verbatim>\<open>if err != nil { return err }\<close> idiom between two such calls.\<close>

type_synonym ('w, 'a) call = "'w \<Rightarrow> (goerror + 'a) \<times> 'w"

definition okE :: "'a \<Rightarrow> ('w, 'a) call" where
  "okE a w = (Inr a, w)"

definition failE :: "goerror \<Rightarrow> ('w, 'a) call" where
  "failE e w = (Inl e, w)"

definition bindE :: "('w, 'a) call \<Rightarrow> ('a \<Rightarrow> ('w, 'b) call) \<Rightarrow> ('w, 'b) call" where
  "bindE m f w = (case m w of (Inl e, w') \<Rightarrow> (Inl e, w') | (Inr a, w') \<Rightarrow> f a w')"

text \<open>The error result of a call whose value is of no interest: \<^verbatim>\<open>nil\<close> is \<^const>\<open>None\<close>.\<close>

definition err_of :: "goerror + 'a \<Rightarrow> goerror option" where
  "err_of r = (case r of Inl e \<Rightarrow> Some e | Inr _ \<Rightarrow> None)"

section \<open>Keyed lists\<close>

text \<open>A table is a list of rows with a key; \<open>upd_where\<close> is \<^verbatim>\<open>UPDATE ... WHERE\<close>.\<close>

definition upd_where :: "('r \<Rightarrow> bool) \<Rightarrow> ('r \<Rightarrow> 'r) \<Rightarrow> 'r list \<Rightarrow> 'r list" where
  "upd_where P f rs = map (\<lambda>r. if P r then f r else r) rs"

definition row_by :: "('r \<Rightarrow> 'k) \<Rightarrow> 'k \<Rightarrow> 'r list \<Rightarrow> 'r option" where
  "row_by key k rs = find (\<lambda>r. key r = k) rs"

section \<open>Lemmas\<close>

lemma okE_eq [simp]: "okE a w = (Inr a, w)"
  by (simp add: okE_def)

lemma failE_eq [simp]: "failE e w = (Inl e, w)"
  by (simp add: failE_def)

lemma err_of_simps [simp]: "err_of (Inl e) = Some e" "err_of (Inr a) = None"
  by (simp_all add: err_of_def)

lemma bindE_Inl: "m w = (Inl e, w') \<Longrightarrow> bindE m f w = (Inl e, w')"
  by (simp add: bindE_def)

lemma bindE_Inr: "m w = (Inr a, w') \<Longrightarrow> bindE m f w = f a w'"
  by (simp add: bindE_def)

lemma bindE_okD:
  assumes "bindE m f w = (Inr b, w'')"
  obtains a w' where "m w = (Inr a, w')" and "f a w' = (Inr b, w'')"
  using assms by (auto simp: bindE_def split: prod.splits sum.splits)

lemma find_upd_where:
  assumes "\<And>r. P (f r) = P r" "\<And>r. Q r \<Longrightarrow> P (f r) = P r"
  shows "find P (upd_where Q f rs) = map_option (\<lambda>r. if Q r then f r else r) (find P rs)"
  using assms by (induction rs) (auto simp: upd_where_def)

lemma row_by_upd:
  assumes "\<And>r. key (f r) = key r"
  shows "row_by key k (upd_where Q f rs) =
         map_option (\<lambda>r. if Q r then f r else r) (row_by key k rs)"
  using assms by (induction rs) (auto simp: row_by_def upd_where_def)

lemma row_by_append [simp]:
  "row_by key k (rs @ [r]) =
     (case row_by key k rs of Some x \<Rightarrow> Some x | None \<Rightarrow> if key r = k then Some r else None)"
  by (induction rs) (auto simp: row_by_def)

lemma row_by_Nil [simp]: "row_by key k [] = None"
  by (simp add: row_by_def)

lemma row_by_SomeD: "row_by key k rs = Some r \<Longrightarrow> r \<in> set rs \<and> key r = k"
  by (auto simp: row_by_def find_Some_iff)

lemma row_by_None_iff: "row_by key k rs = None \<longleftrightarrow> k \<notin> key ` set rs"
  by (auto simp: row_by_def find_None_iff)

lemma map_upd_where:
  assumes "\<And>r. key (f r) = key r"
  shows "map key (upd_where Q f rs) = map key rs"
  using assms by (induction rs) (auto simp: upd_where_def)

lemma length_upd_where [simp]: "length (upd_where Q f rs) = length rs"
  by (simp add: upd_where_def)

subsection \<open>Signed words\<close>

lemma sint_fits64: "fits64 (sint (a :: int64))"
  using sint_greater_eq [of a] sint_less [of a] by (simp add: fits64_def)

lemma sint_word_of_int64: "fits64 i \<Longrightarrow> sint (word_of_int i :: int64) = i"
  by (simp add: fits64_def sint_sbintrunc' signed_take_bit_int_eq_self)

lemma sint_add64: "fits64 (sint a + sint b) \<Longrightarrow> sint ((a :: int64) + b) = sint a + sint b"
proof -
  assume "fits64 (sint a + sint b)"
  then have "sint (word_of_int (sint a + sint b) :: int64) = sint a + sint b"
    by (rule sint_word_of_int64)
  then show ?thesis by simp
qed

lemma sint_sub64: "fits64 (sint a - sint b) \<Longrightarrow> sint ((a :: int64) - b) = sint a - sint b"
proof -
  assume "fits64 (sint a - sint b)"
  then have "sint (word_of_int (sint a - sint b) :: int64) = sint a - sint b"
    by (rule sint_word_of_int64)
  then show ?thesis by simp
qed

end
