(* ===== verification/Domain.thy ===== *)
theory Domain
  imports Prelude
begin

text \<open>
  The domain types of \<^verbatim>\<open>internal/orchestrator/domain/payment.go\<close> and the port interfaces of
  \<^verbatim>\<open>internal/orchestrator/ports/ports.go\<close>. A Go interface is a record of functions over the
  state \<open>'w\<close> that its implementations share, so that a saga step holds its ports as the Go
  structs do.
\<close>

section \<open>domain/payment.go\<close>

type_synonym PaymentStatus = string

definition StatusReceived :: PaymentStatus where [go_string]: "StatusReceived = ''RECEIVED''"
definition StatusValidated :: PaymentStatus where [go_string]: "StatusValidated = ''VALIDATED''"
definition StatusLookedUp :: PaymentStatus where [go_string]: "StatusLookedUp = ''LOOKED_UP''"
definition StatusRouted :: PaymentStatus where [go_string]: "StatusRouted = ''ROUTED''"
definition StatusQuoted :: PaymentStatus where [go_string]: "StatusQuoted = ''QUOTED''"
definition StatusScreened :: PaymentStatus where [go_string]: "StatusScreened = ''SCREENED''"
definition StatusReserved :: PaymentStatus where [go_string]: "StatusReserved = ''RESERVED''"
definition StatusCommitted :: PaymentStatus where [go_string]: "StatusCommitted = ''COMMITTED''"
definition StatusSettled :: PaymentStatus where [go_string]: "StatusSettled = ''SETTLED''"
definition StatusAborted :: PaymentStatus where [go_string]: "StatusAborted = ''ABORTED''"

text \<open>Pointer fields (\<^verbatim>\<open>*string\<close>, \<^verbatim>\<open>*time.Time\<close>) are options.\<close>

record Payment =
  pID :: string
  pEndToEndID :: string
  pSourceBIC :: string
  pDestinationBIC :: string
  pSourceAccount :: string
  pDestAccount :: string
  pAmount :: int64
  pCurrency :: string
  pStatus :: PaymentStatus
  pUETR :: string
  pInstrID :: string
  pChargeBearer :: string
  pSettlementDate :: time
  pDebtorName :: string
  pCreditorName :: string
  pPurposeCode :: string
  pRemittanceInfo :: string
  pQuoteID :: "string option"
  pRouteFee :: int64
  pRouteEstimatedMs :: int64
  pReservedAt :: "time option"
  pExpiresAt :: "time option"
  pCreatedAt :: time
  pUpdatedAt :: time

record Reservation =
  rsPaymentID :: string
  rsSourceAccount :: string
  rsAmount :: int64
  rsStatus :: string
  rsReservedAt :: time
  rsExpiresAt :: time

record PaymentEvent =
  evPaymentID :: string
  evEndToEndID :: string
  evFromStatus :: PaymentStatus
  evToStatus :: PaymentStatus
  evSourceBIC :: string
  evDestBIC :: string
  evAmount :: int64
  evCurrency :: string
  evTimestamp :: time

record ComplianceResult =
  Cleared :: bool
  Reason :: string

section \<open>ports/ports.go\<close>

text \<open>A call that takes \<^verbatim>\<open>p *domain.Payment\<close> and may write through the pointer returns the
  payment it leaves behind beside its error.\<close>

type_synonym 'w pay_call = "Payment \<Rightarrow> 'w \<Rightarrow> goerror option \<times> Payment \<times> 'w"

record 'w PaymentRepository =
  repoCreate :: "'w pay_call"
  repoCreateWithEvent :: "'w pay_call"
  repoUpdateStatus :: "string \<Rightarrow> PaymentStatus \<Rightarrow> 'w \<Rightarrow> goerror option \<times> 'w"
  repoGetByID :: "string \<Rightarrow> ('w, Payment option) call"
  repoGetByEndToEndID :: "string \<Rightarrow> ('w, Payment option) call"
  repoFindExpiredReservations :: "time \<Rightarrow> ('w, Reservation list) call"
  repoMarkReserved :: "string \<Rightarrow> duration \<Rightarrow> 'w \<Rightarrow> goerror option \<times> 'w"
  repoUpdateRoute :: "string \<Rightarrow> int64 \<Rightarrow> int64 \<Rightarrow> 'w \<Rightarrow> goerror option \<times> 'w"

type_synonym 'w bank_op = "string \<Rightarrow> string \<Rightarrow> int64 \<Rightarrow> 'w \<Rightarrow> goerror option \<times> 'w"

record 'w BankClient =
  bankReserve :: "'w bank_op"
  bankReleaseReservation :: "'w bank_op"
  bankCredit :: "'w bank_op"
  bankReverseCredit :: "'w bank_op"

text \<open>The single-method interfaces are the method itself.\<close>

type_synonym 'w ComplianceClient = "Payment \<Rightarrow> ('w, ComplianceResult) call"
type_synonym 'w LookupClient = "string \<Rightarrow> ('w, string \<times> string) call"
type_synonym 'w QuotingClient =
  "string \<Rightarrow> string \<Rightarrow> int64 \<Rightarrow> string \<Rightarrow> ('w, string \<times> int64 \<times> int64) call"
type_synonym 'w NotificationClient =
  "string \<Rightarrow> string \<Rightarrow> string \<Rightarrow> string \<Rightarrow> string \<Rightarrow> string \<Rightarrow> 'w \<Rightarrow> goerror option \<times> 'w"
type_synonym 'w SettlementClient = "Payment \<Rightarrow> 'w \<Rightarrow> goerror option \<times> 'w"
type_synonym 'w ReconciliationClient =
  "string \<Rightarrow> string \<Rightarrow> string \<Rightarrow> int64 \<Rightarrow> string \<Rightarrow> string \<Rightarrow> 'w \<Rightarrow> goerror option \<times> 'w"
type_synonym 'w RoutingClient =
  "string \<Rightarrow> string \<Rightarrow> string \<Rightarrow> ('w, int64 \<times> int64) call"

section \<open>Facts on the status constants\<close>

text \<open>The ten statuses in the order of the constant block.\<close>

definition all_statuses :: "PaymentStatus list" where
  "all_statuses = [StatusReceived, StatusValidated, StatusLookedUp, StatusRouted, StatusQuoted,
     StatusScreened, StatusReserved, StatusCommitted, StatusSettled, StatusAborted]"

lemma distinct_all_statuses: "distinct all_statuses"
  by (simp add: all_statuses_def go_string)

end
