(* ===== verification/Postgres.thy ===== *)
theory Postgres
  imports Domain
begin

text \<open>
  The Postgres database as the switch uses it: the tables of \<^verbatim>\<open>migrations/postgres\<close> that the
  orchestrator, the outbox relay and the gateway read and write, the two synchronisation triggers
  of \<^verbatim>\<open>0010_sync_payments_trigger.sql\<close>, and the life of a transaction.

  A statement can fail for reasons outside the sources (the connection, a timeout of the context,
  the server). The field \<open>pg_faults\<close> says, statement by statement, which ones do and with what
  error; a failed statement has no effect. Theorems quantify over it, so they hold for every
  pattern of failures. Column values are the ones the column types store: \<^verbatim>\<open>CHAR(n)\<close> pads
  with blanks, \<^verbatim>\<open>DATE\<close> drops the time of day, \<^verbatim>\<open>TIMESTAMPTZ\<close> keeps microseconds.
  The \<^verbatim>\<open>UUID\<close> key of a payment is kept as its canonical text, the text \<^verbatim>\<open>uuid.New\<close>
  makes; other spellings of a key are not identified with it.
\<close>

section \<open>Rows\<close>

text \<open>A row of \<^verbatim>\<open>payment\<close>: \<^verbatim>\<open>sqlc.Payment\<close>, a nullable column is an option.\<close>

record payment_row =
  rID :: string
  rEndToEndID :: string
  rSourceBic :: string
  rDestinationBic :: string
  rSourceAccount :: string
  rDestAccount :: string
  rAmount :: int64
  rCurrency :: string
  rStatus :: string
  rQuoteID :: "string option"
  rRouteFee :: "int64 option"
  rRouteEstimatedMs :: "int32 option"
  rReservedAt :: "time option"
  rExpiresAt :: "time option"
  rCreatedAt :: time
  rUpdatedAt :: time
  rUetr :: "string option"
  rInstrID :: "string option"
  rChargeBearer :: "string option"
  rSttlmDt :: "time option"
  rDebtorName :: "string option"
  rCreditorName :: "string option"
  rPurposeCode :: "string option"
  rRemittanceInfo :: "string option"

text \<open>The payload column holds the JSON of a payment event; the event itself stands for it.\<close>

record outbox_row =
  oID :: nat
  oTopic :: string
  oKey :: string
  oPayload :: PaymentEvent
  oStatus :: string
  oCreatedAt :: time
  oPublishedAt :: "time option"

record bank_row =
  bID :: string
  bBic :: string
  bName :: string
  bCountry :: string
  bStatus :: string
  bSettlementAccount :: string
  bNotes :: "string option"
  bOnboardedAt :: "time option"
  bCreatedAt :: time
  bApiBaseUrl :: "string option"
  bApiKey :: "string option"
  bApiEnabled :: bool
  bCallbackUrl :: "string option"
  bLookupApiUrl :: "string option"
  bPaymentApiUrl :: "string option"
  bStatusCheckApiUrl :: "string option"

record txview_row =
  tvPaymentID :: string
  tvEndToEndID :: string
  tvUetr :: "string option"
  tvInstructionID :: "string option"
  tvSourceBic :: string
  tvSourceBankName :: string
  tvDestinationBic :: string
  tvDestinationBankName :: string
  tvAmount :: int64
  tvCurrency :: string
  tvStatus :: string
  tvAbortReason :: "string option"
  tvChargeBearer :: "string option"
  tvSettlementDate :: "time option"
  tvDebtorName :: "string option"
  tvCreditorName :: "string option"
  tvPurposeCode :: "string option"
  tvRemittanceInfo :: "string option"
  tvCreatedAt :: time
  tvUpdatedAt :: time

record txevent_row =
  tePaymentID :: string
  teEventType :: string
  teDetail :: PaymentEvent
  teOccurredAt :: time

record pg =
  payment_tbl :: "payment_row list"
  outbox_tbl :: "outbox_row list"
  outbox_seq :: nat
  bank_tbl :: "bank_row list"
  txview_tbl :: "txview_row list"
  txevent_tbl :: "txevent_row list"
  pg_clock :: time
  pg_faults :: "goerror option list"

section \<open>Statements and transactions\<close>

definition stmt :: "(pg, 'a) call \<Rightarrow> (pg, 'a) call" where
  "stmt body s =
     (case pg_faults s of
        [] \<Rightarrow> body s
      | None # fs \<Rightarrow> body (s\<lparr>pg_faults := fs\<rparr>)
      | Some e # fs \<Rightarrow> (Inl e, s\<lparr>pg_faults := fs\<rparr>))"

text \<open>\<^verbatim>\<open>tx.Rollback\<close>: every table as when the transaction began. A sequence is not rolled back.\<close>

definition tx_rollback :: "pg \<Rightarrow> pg \<Rightarrow> pg" where
  "tx_rollback s0 s = s0\<lparr>outbox_seq := outbox_seq s, pg_faults := pg_faults s\<rparr>"

text \<open>The idiom \<^verbatim>\<open>tx, err := pool.Begin(ctx); defer tx.Rollback(ctx); ...; return tx.Commit(ctx)\<close>:
  an error of \<^verbatim>\<open>Begin\<close>, of the body or of \<^verbatim>\<open>Commit\<close> is returned and rolled back.\<close>

definition with_tx :: "(pg, 'a) call \<Rightarrow> (pg, 'a) call" where
  "with_tx body s =
     (case stmt (okE ()) s of
        (Inl e, s1) \<Rightarrow> (Inl e, s1)
      | (Inr _, s1) \<Rightarrow>
          (case body s1 of
             (Inl e, s2) \<Rightarrow> (Inl e, tx_rollback s1 s2)
           | (Inr a, s2) \<Rightarrow>
               (case stmt (okE ()) s2 of
                  (Inl e, s3) \<Rightarrow> (Inl e, tx_rollback s1 s3)
                | (Inr _, s3) \<Rightarrow> (Inr a, s3))))"

section \<open>Column types\<close>

definition bpchar :: "nat \<Rightarrow> string \<Rightarrow> string option" where
  "bpchar n s =
     (if length s \<le> n then Some (s @ replicate (n - length s) CHR '' '')
      else if list_all (\<lambda>c. c = CHR '' '') (drop n s) then Some (take n s)
      else None)"

definition bpchar_null :: "nat \<Rightarrow> string option \<Rightarrow> string option option" where
  "bpchar_null n v = (case v of None \<Rightarrow> Some None | Some s \<Rightarrow> map_option Some (bpchar n s))"

definition pg_date :: "time \<Rightarrow> time" where
  "pg_date t = Truncate t (24 * Hour)"

definition pg_timestamp :: "time \<Rightarrow> time" where
  "pg_timestamp t = Truncate t 1000"

text \<open>The current time of a statement.\<close>

definition pg_now :: "pg \<Rightarrow> time" where
  "pg_now s = pg_timestamp (pg_clock s)"

section \<open>Triggers of 0010_sync_payments_trigger.sql\<close>

definition bank_name_of :: "pg \<Rightarrow> string \<Rightarrow> string" where
  "bank_name_of s bic = (case row_by bBic bic (bank_tbl s) of Some b \<Rightarrow> bName b | None \<Rightarrow> bic)"

text \<open>The text-to-\<^verbatim>\<open>uuid\<close> cast: sixteen bytes in hexadecimal, optionally in braces, with an
  optional hyphen after every second byte; the value prints in lower case as 8-4-4-4-12 digits.\<close>

definition hex_char :: "char \<Rightarrow> bool" where
  "hex_char c \<longleftrightarrow> (let n = (of_char c :: nat) in (48 \<le> n \<and> n \<le> 57) \<or> (65 \<le> n \<and> n \<le> 70) \<or> (97 \<le> n \<and> n \<le> 102))"

fun uuid_bytes :: "nat \<Rightarrow> string \<Rightarrow> (string \<times> string) option" where
  "uuid_bytes 0 s = Some ([], s)"
| "uuid_bytes (Suc k) (a # b # s) =
     (if hex_char a \<and> hex_char b then
        (let s' = (case s of c # t \<Rightarrow> if c = CHR ''-'' \<and> odd (15 - k) \<and> 0 < k then t else s | [] \<Rightarrow> s) in
         map_option (\<lambda>(ds, rest). (lower_char a # lower_char b # ds, rest)) (uuid_bytes k s'))
      else None)"
| "uuid_bytes (Suc k) s = None"

definition uuid_text :: "string \<Rightarrow> string" where
  "uuid_text ds = take 8 ds @ ''-'' @ take 4 (drop 8 ds) @ ''-'' @ take 4 (drop 12 ds) @ ''-'' @
     take 4 (drop 16 ds) @ ''-'' @ drop 20 ds"

definition uuid_in :: "string \<Rightarrow> string option" where
  "uuid_in s =
     (let braces = (take 1 s = ''{'') in
      case uuid_bytes 16 (if braces then drop 1 s else s) of
        None \<Rightarrow> None
      | Some (ds, rest) \<Rightarrow> if rest = (if braces then ''}'' else []) then Some (uuid_text ds) else None)"

definition view_uetr :: "payment_row \<Rightarrow> string option" where
  "view_uetr r = (case rUetr r of None \<Rightarrow> None | Some u \<Rightarrow> if u = '''' then None else uuid_in u)"

definition uetr_castable :: "payment_row \<Rightarrow> bool" where
  "uetr_castable r \<longleftrightarrow> (case rUetr r of None \<Rightarrow> True | Some u \<Rightarrow> u = '''' \<or> uuid_in u \<noteq> None)"

definition new_view :: "pg \<Rightarrow> payment_row \<Rightarrow> txview_row" where
  "new_view s r =
     \<lparr>tvPaymentID = rID r, tvEndToEndID = rEndToEndID r, tvUetr = view_uetr r,
      tvInstructionID = rInstrID r,
      tvSourceBic = rSourceBic r, tvSourceBankName = bank_name_of s (rSourceBic r),
      tvDestinationBic = rDestinationBic r,
      tvDestinationBankName = bank_name_of s (rDestinationBic r),
      tvAmount = rAmount r, tvCurrency = rCurrency r, tvStatus = rStatus r, tvAbortReason = None,
      tvChargeBearer = rChargeBearer r, tvSettlementDate = rSttlmDt r,
      tvDebtorName = rDebtorName r, tvCreditorName = rCreditorName r,
      tvPurposeCode = rPurposeCode r, tvRemittanceInfo = rRemittanceInfo r,
      tvCreatedAt = rCreatedAt r, tvUpdatedAt = rUpdatedAt r\<rparr>"

definition refresh_view :: "payment_row \<Rightarrow> txview_row \<Rightarrow> txview_row" where
  "refresh_view r v = v\<lparr>tvStatus := rStatus r, tvUetr := view_uetr r,
     tvInstructionID := rInstrID r, tvUpdatedAt := rUpdatedAt r, tvSettlementDate := rSttlmDt r\<rparr>"

text \<open>\<^verbatim>\<open>INSERT ... ON CONFLICT (payment_id) DO UPDATE\<close>. The cast of the UETR can fail only on
  the insert of a payment (\<open>uetr_castable\<close>): no statement changes the UETR of a stored payment.\<close>

definition sync_payment_to_transaction_view :: "payment_row \<Rightarrow> pg \<Rightarrow> pg" where
  "sync_payment_to_transaction_view r s =
     (if row_by tvPaymentID (rID r) (txview_tbl s) = None
      then s\<lparr>txview_tbl := txview_tbl s @ [new_view s r]\<rparr>
      else s\<lparr>txview_tbl := upd_where (\<lambda>v. tvPaymentID v = rID r) (refresh_view r) (txview_tbl s)\<rparr>)"

text \<open>\<^verbatim>\<open>LIKE 'payment.%'\<close>, the zero time of Go's JSON, and the foreign key to
  \<^verbatim>\<open>transaction_view\<close>.\<close>

definition sync_outbox_to_transaction_event_view :: "outbox_row \<Rightarrow> (pg, unit) call" where
  "sync_outbox_to_transaction_event_view ob s =
     (let ev = oPayload ob in
      if take 8 (oTopic ob) = ''payment.'' \<and> evPaymentID ev \<noteq> '''' then
        if row_by tvPaymentID (evPaymentID ev) (txview_tbl s) = None
        then (Inl (ErrPg ''23503'' ''violates foreign key constraint''), s)
        else (Inr (), s\<lparr>txevent_tbl := txevent_tbl s @
               [\<lparr>tePaymentID = evPaymentID ev, teEventType = oTopic ob, teDetail = ev,
                 teOccurredAt = (if IsZero (evTimestamp ev) then oCreatedAt ob
                                 else pg_timestamp (evTimestamp ev))\<rparr>]\<rparr>)
      else (Inr (), s))"

section \<open>Lemmas\<close>

text \<open>What a client can see of the database: its tables.\<close>

definition tables :: "pg \<Rightarrow> payment_row list \<times> outbox_row list \<times> bank_row list \<times>
    txview_row list \<times> txevent_row list" where
  "tables s = (payment_tbl s, outbox_tbl s, bank_tbl s, txview_tbl s, txevent_tbl s)"

lemma tables_faults [simp]: "tables (s\<lparr>pg_faults := fs\<rparr>) = tables s"
  by (simp add: tables_def)

lemma tables_rollback [simp]: "tables (tx_rollback s0 s) = tables s0"
  by (simp add: tables_def tx_rollback_def)

text \<open>No fault is scheduled from here on.\<close>

definition no_faults :: "pg \<Rightarrow> bool" where
  "no_faults s \<longleftrightarrow> list_all (\<lambda>f. f = None) (pg_faults s)"

lemma stmt_cases:
  assumes "stmt body s = (r, s')"
  obtains e fs where "pg_faults s = Some e # fs" "r = Inl e" "s' = s\<lparr>pg_faults := fs\<rparr>"
  | fs where "body (s\<lparr>pg_faults := fs\<rparr>) = (r, s')" "no_faults s \<Longrightarrow> no_faults (s\<lparr>pg_faults := fs\<rparr>)"
proof (cases "pg_faults s")
  case Nil
  with assms have "body (s\<lparr>pg_faults := []\<rparr>) = (r, s')"
    by (cases s) (auto simp: stmt_def)
  then show thesis using that(2) by (auto simp: no_faults_def)
next
  case (Cons f fs)
  then show thesis
    using assms that by (cases f) (auto simp: stmt_def no_faults_def)
qed

lemma stmt_InrE:
  assumes "stmt body s = (Inr a, s')"
  obtains fs where "body (s\<lparr>pg_faults := fs\<rparr>) = (Inr a, s')"
  using assms by (elim stmt_cases) auto

lemma stmt_ok_unit:
  assumes "stmt (okE ()) s = (r, s')"
  shows "\<exists>fs. s' = s\<lparr>pg_faults := fs\<rparr>"
  using assms by (elim stmt_cases) auto

lemma with_tx_Inl_tables:
  assumes "with_tx body s = (Inl e, s')"
  shows "tables s' = tables s"
proof -
  obtain r1 s1 where b: "stmt (okE ()) s = (r1, s1)" by (cases "stmt (okE ()) s")
  then have t1: "tables s1 = tables s" using stmt_ok_unit by fastforce
  obtain r2 s2 where c: "body s1 = (r2, s2)" by (cases "body s1")
  obtain r3 s3 where d: "stmt (okE ()) s2 = (r3, s3)" by (cases "stmt (okE ()) s2")
  from assms b c d t1 show ?thesis
    by (auto simp: with_tx_def split: sum.splits)
qed

lemma with_tx_InrE:
  assumes "with_tx body s = (Inr a, s')"
  obtains fs1 s2 fs2 where "body (s\<lparr>pg_faults := fs1\<rparr>) = (Inr a, s2)" "s' = s2\<lparr>pg_faults := fs2\<rparr>"
proof -
  obtain r1 s1 where b: "stmt (okE ()) s = (r1, s1)" by (cases "stmt (okE ()) s")
  then obtain fs1 where s1: "s1 = s\<lparr>pg_faults := fs1\<rparr>" using stmt_ok_unit by blast
  obtain r2 s2 where c: "body s1 = (r2, s2)" by (cases "body s1")
  obtain r3 s3 where d: "stmt (okE ()) s2 = (r3, s3)" by (cases "stmt (okE ()) s2")
  then obtain fs2 where s3: "s3 = s2\<lparr>pg_faults := fs2\<rparr>" using stmt_ok_unit by blast
  from assms b c d s1 s3 that show thesis
    by (auto simp: with_tx_def split: sum.splits)
qed

lemma no_faults_stmt: "no_faults s \<Longrightarrow> stmt body s = body (s\<lparr>pg_faults := tl (pg_faults s)\<rparr>)"
  by (cases s; cases "pg_faults s") (auto simp: stmt_def no_faults_def)

lemma no_faults_tl [simp]: "no_faults s \<Longrightarrow> no_faults (s\<lparr>pg_faults := tl (pg_faults s)\<rparr>)"
  by (cases "pg_faults s") (auto simp: no_faults_def)

lemma no_faults_rollback [simp]: "no_faults (tx_rollback s0 s) = no_faults s"
  by (simp add: no_faults_def tx_rollback_def)

end
