(* ===== verification/PaymentRepo.thy ===== *)
theory PaymentRepo
  imports Postgres
begin

text \<open>
  The payment repository: the sqlc queries of
  \<^verbatim>\<open>internal/orchestrator/db/sqlc/payment.sql.go\<close>, the outbox writer \<^verbatim>\<open>pkg/outbox/outbox.go\<close>
  and \<^verbatim>\<open>internal/orchestrator/db/payment_repo.go\<close>. The lemmas give, for every operation, what it
  does to each table on success and that a failure changes no table.
\<close>

section \<open>sqlc/payment.sql.go\<close>

record CreatePaymentParams =
  cpID :: string
  cpEndToEndID :: string
  cpSourceBic :: string
  cpDestinationBic :: string
  cpSourceAccount :: string
  cpDestAccount :: string
  cpAmount :: int64
  cpCurrency :: string
  cpStatus :: string
  cpUetr :: "string option"
  cpInstrID :: "string option"
  cpChargeBearer :: "string option"
  cpSttlmDt :: "time option"
  cpDebtorName :: "string option"
  cpCreditorName :: "string option"
  cpPurposeCode :: "string option"
  cpRemittanceInfo :: "string option"
  cpRouteFee :: "int64 option"
  cpRouteEstimatedMs :: "int32 option"

definition unique_violation :: goerror where
  "unique_violation = ErrPg ''23505'' ''duplicate key value violates unique constraint''"

definition value_too_long :: goerror where
  "value_too_long = ErrPg ''22001'' ''value too long for type character''"

definition invalid_uuid :: goerror where
  "invalid_uuid = ErrPg ''22P02'' ''invalid input syntax for type uuid''"

text \<open>The row an INSERT stores: column types applied, defaults filled in.\<close>

definition insert_row :: "time \<Rightarrow> CreatePaymentParams \<Rightarrow> payment_row option" where
  "insert_row now a =
     (case (bpchar 3 (cpCurrency a), bpchar_null 4 (cpChargeBearer a), bpchar_null 4 (cpPurposeCode a)) of
        (Some ccy, Some cb, Some pc) \<Rightarrow> Some
          \<lparr>rID = cpID a, rEndToEndID = cpEndToEndID a, rSourceBic = cpSourceBic a,
           rDestinationBic = cpDestinationBic a, rSourceAccount = cpSourceAccount a,
           rDestAccount = cpDestAccount a, rAmount = cpAmount a, rCurrency = ccy,
           rStatus = cpStatus a, rQuoteID = None, rRouteFee = cpRouteFee a,
           rRouteEstimatedMs = cpRouteEstimatedMs a, rReservedAt = None, rExpiresAt = None,
           rCreatedAt = now, rUpdatedAt = now, rUetr = cpUetr a, rInstrID = cpInstrID a,
           rChargeBearer = cb, rSttlmDt = map_option pg_date (cpSttlmDt a),
           rDebtorName = cpDebtorName a, rCreditorName = cpCreditorName a,
           rPurposeCode = pc, rRemittanceInfo = cpRemittanceInfo a\<rparr>
      | _ \<Rightarrow> None)"

definition payment_conflict :: "pg \<Rightarrow> CreatePaymentParams \<Rightarrow> bool" where
  "payment_conflict s a \<longleftrightarrow>
     list_ex (\<lambda>r. rID r = cpID a \<or>
       (rSourceBic r = cpSourceBic a \<and> rEndToEndID r = cpEndToEndID a)) (payment_tbl s)"

definition CreatePayment :: "CreatePaymentParams \<Rightarrow> (pg, payment_row) call" where
  "CreatePayment a = stmt (\<lambda>s.
     (case insert_row (pg_now s) a of
        None \<Rightarrow> (Inl value_too_long, s)
      | Some r \<Rightarrow>
          if payment_conflict s a then (Inl unique_violation, s)
          else if \<not> uetr_castable r then (Inl invalid_uuid, s)
          else (Inr r, sync_payment_to_transaction_view r
                         (s\<lparr>payment_tbl := payment_tbl s @ [r]\<rparr>))))"

text \<open>\<^verbatim>\<open>UPDATE payment SET ... WHERE id = $n\<close>: the number of rows, and the trigger per row.\<close>

definition update_payment :: "string \<Rightarrow> (payment_row \<Rightarrow> payment_row) \<Rightarrow> pg \<Rightarrow> pg" where
  "update_payment pid f s =
     (case row_by rID pid (payment_tbl s) of
        None \<Rightarrow> s
      | Some r \<Rightarrow> sync_payment_to_transaction_view (f r)
                    (s\<lparr>payment_tbl := upd_where (\<lambda>r. rID r = pid) f (payment_tbl s)\<rparr>))"

record FindExpiredReservationsRow =
  feID :: string
  feSourceAccount :: string
  feAmount :: int64
  feReservedAt :: "time option"
  feExpiresAt :: "time option"

definition is_expired :: "time \<Rightarrow> payment_row \<Rightarrow> bool" where
  "is_expired before r \<longleftrightarrow> rStatus r = ''RESERVED'' \<and>
     (case rExpiresAt r of None \<Rightarrow> False | Some t \<Rightarrow> t < pg_timestamp before)"

definition FindExpiredReservations_q :: "time \<Rightarrow> (pg, FindExpiredReservationsRow list) call" where
  "FindExpiredReservations_q before = stmt (\<lambda>s.
     (Inr (map (\<lambda>r. \<lparr>feID = rID r, feSourceAccount = rSourceAccount r, feAmount = rAmount r,
                      feReservedAt = rReservedAt r, feExpiresAt = rExpiresAt r\<rparr>)
               (filter (is_expired before) (payment_tbl s))), s))"

definition GetPaymentByEndToEndID :: "string \<Rightarrow> (pg, payment_row) call" where
  "GetPaymentByEndToEndID e2e = stmt (\<lambda>s.
     (case row_by rEndToEndID e2e (payment_tbl s) of
        None \<Rightarrow> (Inl ErrNoRows, s) | Some r \<Rightarrow> (Inr r, s)))"

definition GetPaymentByID :: "string \<Rightarrow> (pg, payment_row) call" where
  "GetPaymentByID pid = stmt (\<lambda>s.
     (case row_by rID pid (payment_tbl s) of
        None \<Rightarrow> (Inl ErrNoRows, s) | Some r \<Rightarrow> (Inr r, s)))"

record GetPaymentEventFieldsRow =
  gfID :: string
  gfEndToEndID :: string
  gfSourceBic :: string
  gfDestinationBic :: string
  gfAmount :: int64
  gfCurrency :: string

definition event_fields :: "payment_row \<Rightarrow> GetPaymentEventFieldsRow" where
  "event_fields r = \<lparr>gfID = rID r, gfEndToEndID = rEndToEndID r, gfSourceBic = rSourceBic r,
     gfDestinationBic = rDestinationBic r, gfAmount = rAmount r, gfCurrency = rCurrency r\<rparr>"

definition GetPaymentEventFields :: "string \<Rightarrow> (pg, GetPaymentEventFieldsRow) call" where
  "GetPaymentEventFields pid = stmt (\<lambda>s.
     (case row_by rID pid (payment_tbl s) of
        None \<Rightarrow> (Inl ErrNoRows, s) | Some r \<Rightarrow> (Inr (event_fields r), s)))"

definition MarkPaymentReserved :: "string \<Rightarrow> time \<Rightarrow> time \<Rightarrow> string \<Rightarrow> (pg, unit) call" where
  "MarkPaymentReserved status reservedAt expiresAt pid = stmt (\<lambda>s.
     (Inr (), update_payment pid (\<lambda>r. r\<lparr>rStatus := status,
        rReservedAt := Some (pg_timestamp reservedAt), rExpiresAt := Some (pg_timestamp expiresAt),
        rUpdatedAt := pg_now s\<rparr>) s))"

definition UpdatePaymentRoute :: "int64 \<Rightarrow> int32 \<Rightarrow> string \<Rightarrow> string \<Rightarrow> (pg, unit) call" where
  "UpdatePaymentRoute fee ms status pid = stmt (\<lambda>s.
     (Inr (), update_payment pid (\<lambda>r. r\<lparr>rRouteFee := Some fee, rRouteEstimatedMs := Some ms,
        rStatus := status, rUpdatedAt := pg_now s\<rparr>) s))"

definition UpdatePaymentStatus :: "string \<Rightarrow> string \<Rightarrow> (pg, unit) call" where
  "UpdatePaymentStatus status pid = stmt (\<lambda>s.
     (Inr (), update_payment pid (\<lambda>r. r\<lparr>rStatus := status, rUpdatedAt := pg_now s\<rparr>) s))"

text \<open>\<^verbatim>\<open>RETURNING status\<close> yields the value after the update.\<close>

definition UpdatePaymentStatusReturning :: "string \<Rightarrow> string \<Rightarrow> (pg, string) call" where
  "UpdatePaymentStatusReturning status pid = stmt (\<lambda>s.
     (case row_by rID pid (payment_tbl s) of
        None \<Rightarrow> (Inl ErrNoRows, s)
      | Some r \<Rightarrow>
          (let f = (\<lambda>r. r\<lparr>rStatus := status, rUpdatedAt := pg_now s\<rparr>)
           in (Inr (rStatus (f r)), update_payment pid f s))))"

section \<open>pkg/outbox/outbox.go\<close>

definition outbox_Write :: "string \<Rightarrow> string \<Rightarrow> PaymentEvent \<Rightarrow> (pg, unit) call" where
  "outbox_Write topic key event = stmt (\<lambda>s.
     (let ob = \<lparr>oID = outbox_seq s, oTopic = topic, oKey = key, oPayload = event,
                oStatus = ''PENDING'', oCreatedAt = pg_now s, oPublishedAt = None\<rparr>;
          s1 = s\<lparr>outbox_tbl := outbox_tbl s @ [ob], outbox_seq := Suc (outbox_seq s)\<rparr>
      in case sync_outbox_to_transaction_event_view ob s1 of
           (Inl e, _) \<Rightarrow> (Inl e, s\<lparr>outbox_seq := Suc (outbox_seq s)\<rparr>)
         | (Inr u, s2) \<Rightarrow> (Inr u, s2)))"

section \<open>payment_repo.go\<close>

definition textOrNull :: "string \<Rightarrow> string option" where
  "textOrNull s = (if s = '''' then None else Some s)"

definition dateOrNull :: "time \<Rightarrow> time option" where
  "dateOrNull t = (if IsZero t then None else Some t)"

definition create_params :: "Payment \<Rightarrow> CreatePaymentParams" where
  "create_params p =
     \<lparr>cpID = pID p, cpEndToEndID = pEndToEndID p, cpSourceBic = pSourceBIC p,
      cpDestinationBic = pDestinationBIC p, cpSourceAccount = pSourceAccount p,
      cpDestAccount = pDestAccount p, cpAmount = pAmount p, cpCurrency = pCurrency p,
      cpStatus = pStatus p, cpUetr = textOrNull (pUETR p), cpInstrID = textOrNull (pInstrID p),
      cpChargeBearer = textOrNull (pChargeBearer p), cpSttlmDt = dateOrNull (pSettlementDate p),
      cpDebtorName = textOrNull (pDebtorName p), cpCreditorName = textOrNull (pCreditorName p),
      cpPurposeCode = textOrNull (pPurposeCode p),
      cpRemittanceInfo = textOrNull (pRemittanceInfo p),
      cpRouteFee = Some (pRouteFee p),
      cpRouteEstimatedMs = Some (ucast (pRouteEstimatedMs p))\<rparr>"

definition opt_or :: "'a \<Rightarrow> 'a option \<Rightarrow> 'a" where
  "opt_or d v = (case v of None \<Rightarrow> d | Some x \<Rightarrow> x)"

definition mapToDomain :: "payment_row \<Rightarrow> Payment \<Rightarrow> Payment" where
  "mapToDomain s p = p\<lparr>
     pCreatedAt := rCreatedAt s, pUpdatedAt := rUpdatedAt s,
     pQuoteID := (case rQuoteID s of Some q \<Rightarrow> Some q | None \<Rightarrow> pQuoteID p),
     pRouteFee := opt_or (pRouteFee p) (rRouteFee s),
     pRouteEstimatedMs := opt_or (pRouteEstimatedMs p) (map_option scast (rRouteEstimatedMs s)),
     pReservedAt := (case rReservedAt s of Some t \<Rightarrow> Some t | None \<Rightarrow> pReservedAt p),
     pExpiresAt := (case rExpiresAt s of Some t \<Rightarrow> Some t | None \<Rightarrow> pExpiresAt p)\<rparr>"

definition mapFromSQLC :: "payment_row \<Rightarrow> Payment" where
  "mapFromSQLC s =
     \<lparr>pID = rID s, pEndToEndID = rEndToEndID s, pSourceBIC = rSourceBic s,
      pDestinationBIC = rDestinationBic s, pSourceAccount = rSourceAccount s,
      pDestAccount = rDestAccount s, pAmount = rAmount s, pCurrency = rCurrency s,
      pStatus = rStatus s,
      pUETR = opt_or '''' (rUetr s), pInstrID = opt_or '''' (rInstrID s),
      pChargeBearer = opt_or '''' (rChargeBearer s), pSettlementDate = opt_or 0 (rSttlmDt s),
      pDebtorName = opt_or '''' (rDebtorName s), pCreditorName = opt_or '''' (rCreditorName s),
      pPurposeCode = opt_or '''' (rPurposeCode s),
      pRemittanceInfo = opt_or '''' (rRemittanceInfo s),
      pQuoteID = rQuoteID s, pRouteFee = opt_or 0 (rRouteFee s),
      pRouteEstimatedMs = opt_or 0 (map_option scast (rRouteEstimatedMs s)),
      pReservedAt = rReservedAt s, pExpiresAt = rExpiresAt s,
      pCreatedAt = rCreatedAt s, pUpdatedAt = rUpdatedAt s\<rparr>"

definition repo_Create :: "pg pay_call" where
  "repo_Create p s =
     (case CreatePayment (create_params p) s of
        (Inl e, s') \<Rightarrow> (Some e, p, s')
      | (Inr row, s') \<Rightarrow> (None, mapToDomain row p, s'))"

definition received_event :: "Payment \<Rightarrow> payment_row \<Rightarrow> PaymentEvent" where
  "received_event p row =
     \<lparr>evPaymentID = pID p, evEndToEndID = pEndToEndID p, evFromStatus = '''',
      evToStatus = StatusReceived, evSourceBIC = pSourceBIC p, evDestBIC = pDestinationBIC p,
      evAmount = pAmount p, evCurrency = pCurrency p, evTimestamp = rCreatedAt row\<rparr>"

definition create_tx :: "Payment \<Rightarrow> (pg, payment_row) call" where
  "create_tx p = with_tx (bindE (CreatePayment (create_params p)) (\<lambda>row.
     bindE (outbox_Write ''payment.received'' (pEndToEndID p) (received_event p row)) (\<lambda>_.
     okE row)))"

text \<open>\<^verbatim>\<open>mapToDomain\<close> writes through the pointer as soon as the INSERT has returned its row, also
  when the outbox write or the commit fails afterwards.\<close>

definition created_row :: "Payment \<Rightarrow> pg \<Rightarrow> payment_row option" where
  "created_row p s =
     (case bindE (stmt (okE ())) (\<lambda>_. CreatePayment (create_params p)) s of
        (Inr row, _) \<Rightarrow> Some row | (Inl e, _) \<Rightarrow> None)"

definition repo_CreateWithEvent :: "pg pay_call" where
  "repo_CreateWithEvent p s =
     (let p' = (case created_row p s of Some row \<Rightarrow> mapToDomain row p | None \<Rightarrow> p) in
      case create_tx p s of (r, s') \<Rightarrow> (err_of r, p', s'))"

definition transition_event ::
    "GetPaymentEventFieldsRow \<Rightarrow> PaymentStatus \<Rightarrow> PaymentStatus \<Rightarrow> PaymentEvent" where
  "transition_event row from to =
     \<lparr>evPaymentID = gfID row, evEndToEndID = gfEndToEndID row, evFromStatus = from,
      evToStatus = to, evSourceBIC = gfSourceBic row, evDestBIC = gfDestinationBic row,
      evAmount = gfAmount row, evCurrency = gfCurrency row, evTimestamp = 0\<rparr>"

definition writeEventTx :: "string \<Rightarrow> PaymentStatus \<Rightarrow> PaymentStatus \<Rightarrow> (pg, unit) call" where
  "writeEventTx paymentID from to =
     bindE (GetPaymentEventFields paymentID) (\<lambda>row.
       outbox_Write (''payment.'' @ ToLower to) (gfEndToEndID row) (transition_event row from to))"

definition repo_UpdateStatus :: "string \<Rightarrow> PaymentStatus \<Rightarrow> pg \<Rightarrow> goerror option \<times> pg" where
  "repo_UpdateStatus pid status s =
     (case with_tx (bindE (UpdatePaymentStatusReturning status pid) (\<lambda>fromStatus.
              writeEventTx pid fromStatus status)) s of
        (r, s') \<Rightarrow> (err_of r, s'))"

definition repo_MarkReserved :: "string \<Rightarrow> duration \<Rightarrow> pg \<Rightarrow> goerror option \<times> pg" where
  "repo_MarkReserved pid ttl s =
     (let now = pg_clock s; expiresAt = now + ttl in
      case with_tx (bindE (MarkPaymentReserved StatusReserved now expiresAt pid) (\<lambda>_.
              writeEventTx pid StatusValidated StatusReserved)) s of
        (r, s') \<Rightarrow> (err_of r, s'))"

definition no_rows_as_nil :: "(goerror + payment_row) \<times> pg \<Rightarrow> (goerror + Payment option) \<times> pg" where
  "no_rows_as_nil x =
     (case x of
        (Inl e, s') \<Rightarrow> if e = ErrNoRows then (Inr None, s') else (Inl e, s')
      | (Inr r, s') \<Rightarrow> (Inr (Some (mapFromSQLC r)), s'))"

definition repo_GetByID :: "string \<Rightarrow> (pg, Payment option) call" where
  "repo_GetByID pid s = no_rows_as_nil (GetPaymentByID pid s)"

definition repo_GetByEndToEndID :: "string \<Rightarrow> (pg, Payment option) call" where
  "repo_GetByEndToEndID e2e s = no_rows_as_nil (GetPaymentByEndToEndID e2e s)"

definition repo_UpdateRoute :: "string \<Rightarrow> int64 \<Rightarrow> int64 \<Rightarrow> pg \<Rightarrow> goerror option \<times> pg" where
  "repo_UpdateRoute pid fee estimatedMs s =
     (case UpdatePaymentRoute fee (ucast estimatedMs) StatusRouted pid s of
        (r, s') \<Rightarrow> (err_of r, s'))"

definition reservation_of :: "FindExpiredReservationsRow \<Rightarrow> Reservation" where
  "reservation_of row =
     \<lparr>rsPaymentID = feID row, rsSourceAccount = feSourceAccount row, rsAmount = feAmount row,
      rsStatus = ''RESERVED'', rsReservedAt = opt_or 0 (feReservedAt row),
      rsExpiresAt = opt_or 0 (feExpiresAt row)\<rparr>"

definition repo_FindExpiredReservations :: "time \<Rightarrow> (pg, Reservation list) call" where
  "repo_FindExpiredReservations before s =
     (case FindExpiredReservations_q before s of
        (Inl e, s') \<Rightarrow> (Inl e, s')
      | (Inr rows, s') \<Rightarrow> (Inr (map reservation_of rows), s'))"

definition pg_repo :: "pg PaymentRepository" where
  "pg_repo =
     \<lparr>repoCreate = repo_Create, repoCreateWithEvent = repo_CreateWithEvent,
      repoUpdateStatus = repo_UpdateStatus, repoGetByID = repo_GetByID,
      repoGetByEndToEndID = repo_GetByEndToEndID,
      repoFindExpiredReservations = repo_FindExpiredReservations,
      repoMarkReserved = repo_MarkReserved, repoUpdateRoute = repo_UpdateRoute\<rparr>"

section \<open>Lemmas: single statements\<close>

lemma sync_payment_frame [repo_simps, simp]:
  "payment_tbl (sync_payment_to_transaction_view r s) = payment_tbl s"
  "outbox_tbl (sync_payment_to_transaction_view r s) = outbox_tbl s"
  "outbox_seq (sync_payment_to_transaction_view r s) = outbox_seq s"
  "bank_tbl (sync_payment_to_transaction_view r s) = bank_tbl s"
  "txevent_tbl (sync_payment_to_transaction_view r s) = txevent_tbl s"
  "pg_clock (sync_payment_to_transaction_view r s) = pg_clock s"
  "pg_faults (sync_payment_to_transaction_view r s) = pg_faults s"
  by (simp_all add: sync_payment_to_transaction_view_def)

lemma pg_now_frame [simp]:
  "pg_now (sync_payment_to_transaction_view r s) = pg_now s"
  "pg_now (s\<lparr>pg_faults := fs\<rparr>) = pg_now s"
  "pg_now (s\<lparr>payment_tbl := ps\<rparr>) = pg_now s"
  by (simp_all add: pg_now_def)

lemma row_by_None_upd: "row_by key k rs = None \<Longrightarrow> upd_where (\<lambda>r. key r = k) f rs = rs"
  by (induction rs) (auto simp: row_by_def upd_where_def split: if_splits)

lemma update_payment_frame [repo_simps, simp]:
  "payment_tbl (update_payment pid f s) = upd_where (\<lambda>r. rID r = pid) f (payment_tbl s)"
  "outbox_tbl (update_payment pid f s) = outbox_tbl s"
  "outbox_seq (update_payment pid f s) = outbox_seq s"
  "bank_tbl (update_payment pid f s) = bank_tbl s"
  "txevent_tbl (update_payment pid f s) = txevent_tbl s"
  "pg_clock (update_payment pid f s) = pg_clock s"
  "pg_faults (update_payment pid f s) = pg_faults s"
  "pg_now (update_payment pid f s) = pg_now s"
  by (auto simp: update_payment_def row_by_None_upd pg_now_def split: option.splits)

lemma txview_update_payment:
  "txview_tbl (update_payment pid f s) =
     (case row_by rID pid (payment_tbl s) of
        None \<Rightarrow> txview_tbl s
      | Some r \<Rightarrow> txview_tbl (sync_payment_to_transaction_view (f r) s))"
  by (auto simp: update_payment_def sync_payment_to_transaction_view_def new_view_def
      bank_name_of_def split: option.splits)

text \<open>A synchronised view row shows the status of the payment row.\<close>

lemma row_by_sync:
  "row_by tvPaymentID i (txview_tbl (sync_payment_to_transaction_view r s)) =
     (if i = rID r
      then Some (case row_by tvPaymentID i (txview_tbl s) of
                   None \<Rightarrow> new_view s r | Some v \<Rightarrow> refresh_view r v)
      else row_by tvPaymentID i (txview_tbl s))"
proof -
  have "row_by tvPaymentID i (upd_where (\<lambda>v. tvPaymentID v = rID r) (refresh_view r) (txview_tbl s)) =
        map_option (\<lambda>v. if tvPaymentID v = rID r then refresh_view r v else v)
          (row_by tvPaymentID i (txview_tbl s))"
    by (rule row_by_upd) (simp add: refresh_view_def)
  moreover have "tvPaymentID (new_view s r) = rID r" by (simp add: new_view_def)
  ultimately show ?thesis
    by (cases "row_by tvPaymentID i (txview_tbl s)"; cases "i = rID r")
      (auto simp: sync_payment_to_transaction_view_def dest: row_by_SomeD)
qed

lemma sync_outbox_okD:
  assumes "sync_outbox_to_transaction_event_view ob s = (Inr u, s')"
  shows "outbox_tbl s' = outbox_tbl s" "outbox_seq s' = outbox_seq s" "payment_tbl s' = payment_tbl s"
    "bank_tbl s' = bank_tbl s" "txview_tbl s' = txview_tbl s" "pg_clock s' = pg_clock s"
    "pg_faults s' = pg_faults s"
proof -
  have "(\<exists>es. s\<lparr>txevent_tbl := es\<rparr> = s') \<or> s = s'"
    using assms unfolding sync_outbox_to_transaction_event_view_def Let_def
    by (simp split: if_split_asm) blast+
  then show "outbox_tbl s' = outbox_tbl s" "outbox_seq s' = outbox_seq s" "payment_tbl s' = payment_tbl s"
    "bank_tbl s' = bank_tbl s" "txview_tbl s' = txview_tbl s" "pg_clock s' = pg_clock s"
    "pg_faults s' = pg_faults s" by auto
qed

definition pending_row :: "pg \<Rightarrow> string \<Rightarrow> string \<Rightarrow> PaymentEvent \<Rightarrow> outbox_row" where
  "pending_row s topic key ev =
     \<lparr>oID = outbox_seq s, oTopic = topic, oKey = key, oPayload = ev,
      oStatus = ''PENDING'', oCreatedAt = pg_now s, oPublishedAt = None\<rparr>"

lemma pending_row_faults [simp]: "pending_row (s\<lparr>pg_faults := fs\<rparr>) = pending_row s"
  by (intro ext) (simp add: pending_row_def)

lemma outbox_Write_okE:
  assumes "outbox_Write topic key ev s = (Inr u, s')"
  shows "outbox_tbl s' = outbox_tbl s @ [pending_row s topic key ev]"
    and "outbox_seq s' = Suc (outbox_seq s)"
    and "payment_tbl s' = payment_tbl s" and "bank_tbl s' = bank_tbl s"
    and "txview_tbl s' = txview_tbl s" and "pg_clock s' = pg_clock s"
proof -
  let ?ob = "pending_row s topic key ev"
  let ?s1 = "\<lambda>fs. s\<lparr>pg_faults := fs, outbox_tbl := outbox_tbl s @ [?ob], outbox_seq := Suc (outbox_seq s)\<rparr>"
  obtain fs s3 where b: "(case sync_outbox_to_transaction_event_view ?ob (?s1 fs) of
      (Inl e, _) \<Rightarrow> (Inl e, s3) | (Inr u, s2) \<Rightarrow> (Inr u, s2)) = (Inr u, s')"
    by (rule stmt_InrE [OF assms [unfolded outbox_Write_def Let_def]]) (simp add: pending_row_def)
  obtain r s2 where c: "sync_outbox_to_transaction_event_view ?ob (?s1 fs) = (r, s2)" by fastforce
  with b have "sync_outbox_to_transaction_event_view ?ob (?s1 fs) = (Inr u, s')"
    by (cases r) simp_all
  note sync_outbox_okD [OF this]
  then show "outbox_tbl s' = outbox_tbl s @ [pending_row s topic key ev]"
    and "outbox_seq s' = Suc (outbox_seq s)"
    and "payment_tbl s' = payment_tbl s" and "bank_tbl s' = bank_tbl s"
    and "txview_tbl s' = txview_tbl s" and "pg_clock s' = pg_clock s" by simp_all
qed

lemma GetPaymentEventFields_okE:
  assumes "GetPaymentEventFields pid s = (Inr row, s')"
  obtains r fs where "row_by rID pid (payment_tbl s) = Some r" "row = event_fields r"
    "s' = s\<lparr>pg_faults := fs\<rparr>"
  using assms
  by (auto simp: GetPaymentEventFields_def elim!: stmt_InrE split: option.splits)

lemma writeEventTx_okE:
  assumes "writeEventTx pid from to s = (Inr u, s')"
  obtains r where "row_by rID pid (payment_tbl s) = Some r"
    and "outbox_tbl s' = outbox_tbl s @
           [pending_row s (''payment.'' @ ToLower to) (rEndToEndID r)
             (transition_event (event_fields r) from to)]"
    and "outbox_seq s' = Suc (outbox_seq s)"
    and "payment_tbl s' = payment_tbl s" and "bank_tbl s' = bank_tbl s"
    and "txview_tbl s' = txview_tbl s" and "pg_clock s' = pg_clock s"
proof -
  from assms obtain row s1 where g: "GetPaymentEventFields pid s = (Inr row, s1)"
    and o: "outbox_Write (''payment.'' @ ToLower to) (gfEndToEndID row)
              (transition_event row from to) s1 = (Inr u, s')"
    unfolding writeEventTx_def by (elim bindE_okD)
  from g obtain r fs where r: "row_by rID pid (payment_tbl s) = Some r" "row = event_fields r"
    "s1 = s\<lparr>pg_faults := fs\<rparr>" by (rule GetPaymentEventFields_okE)
  have e: "gfEndToEndID row = rEndToEndID r" by (simp add: r(2) event_fields_def)
  note w = outbox_Write_okE [OF o, unfolded e, unfolded r(2)]
  show thesis using w by (intro that [OF r(1)]) (simp_all add: r(3))
qed

section \<open>Lemmas: repository operations\<close>

text \<open>A failed operation changes no table.\<close>

lemma repo_UpdateStatus_err: "repo_UpdateStatus pid st s = (Some e, s') \<Longrightarrow> tables s' = tables s"
  by (auto simp: repo_UpdateStatus_def err_of_def dest!: with_tx_Inl_tables
      split: prod.splits sum.splits)

lemma repo_MarkReserved_err: "repo_MarkReserved pid ttl s = (Some e, s') \<Longrightarrow> tables s' = tables s"
  by (auto simp: repo_MarkReserved_def err_of_def Let_def dest!: with_tx_Inl_tables
      split: prod.splits sum.splits)

lemma repo_CreateWithEvent_err:
  "repo_CreateWithEvent p s = (Some e, p', s') \<Longrightarrow> tables s' = tables s"
  by (auto simp: repo_CreateWithEvent_def create_tx_def err_of_def Let_def dest!: with_tx_Inl_tables
      split: prod.splits sum.splits)

lemma repo_UpdateRoute_err: "repo_UpdateRoute pid fee ms s = (Some e, s') \<Longrightarrow> tables s' = tables s"
  by (auto simp: repo_UpdateRoute_def UpdatePaymentRoute_def err_of_def
      elim!: stmt_cases split: prod.splits sum.splits)

lemma repo_Create_err: "repo_Create p s = (Some e, p', s') \<Longrightarrow> tables s' = tables s"
  by (auto simp: repo_Create_def CreatePayment_def
      elim!: stmt_cases split: prod.splits sum.splits option.splits if_splits)

lemmas repo_errs = repo_UpdateStatus_err repo_MarkReserved_err repo_CreateWithEvent_err
  repo_UpdateRoute_err repo_Create_err

text \<open>What a successful status change does: the row, one outbox event, and the view.\<close>

lemma pending_row_update [simp]: "pending_row (update_payment pid f s) = pending_row s"
  by (intro ext) (simp add: pending_row_def)

lemma txview_update_faults [simp]:
  "txview_tbl (update_payment pid f (s\<lparr>pg_faults := fs\<rparr>)) = txview_tbl (update_payment pid f s)"
  by (simp add: txview_update_payment sync_payment_to_transaction_view_def new_view_def
      bank_name_of_def split: option.splits)

text \<open>The shape both status changes share: update the row of \<open>pid\<close>, then write one event.\<close>

lemma update_then_event:
  assumes w: "writeEventTx pid from to (update_payment pid f (s\<lparr>pg_faults := fs\<rparr>)) = (Inr u, s')"
    and ev: "\<And>r. event_fields (f r) = event_fields r" "\<And>r. rID (f r) = rID r"
  obtains r where "row_by rID pid (payment_tbl s) = Some r"
    and "payment_tbl s' = upd_where (\<lambda>r. rID r = pid) f (payment_tbl s)"
    and "outbox_tbl s' = outbox_tbl s @
           [pending_row s (''payment.'' @ ToLower to) (rEndToEndID r)
             (transition_event (event_fields r) from to)]"
    and "outbox_seq s' = Suc (outbox_seq s)" and "bank_tbl s' = bank_tbl s"
    and "txview_tbl s' = txview_tbl (update_payment pid f s)" and "pg_clock s' = pg_clock s"
proof -
  from w obtain r1 where
    r1: "row_by rID pid (payment_tbl (update_payment pid f (s\<lparr>pg_faults := fs\<rparr>))) = Some r1" and
    rest: "outbox_tbl s' = outbox_tbl s @
           [pending_row s (''payment.'' @ ToLower to) (rEndToEndID r1)
             (transition_event (event_fields r1) from to)]"
      "payment_tbl s' = upd_where (\<lambda>r. rID r = pid) f (payment_tbl s)"
      "outbox_seq s' = Suc (outbox_seq s)" "bank_tbl s' = bank_tbl s"
      "txview_tbl s' = txview_tbl (update_payment pid f s)" "pg_clock s' = pg_clock s"
    by (elim writeEventTx_okE) simp
  from r1 obtain r where r: "row_by rID pid (payment_tbl s) = Some r"
      "r1 = (if rID r = pid then f r else r)"
    by (auto simp: row_by_upd [of rID, OF ev(2)])
  then have "r1 = f r" by (auto dest: row_by_SomeD)
  note r = r(1) this
  have "rEndToEndID (f r) = rEndToEndID r" using ev(1) [of r] by (simp add: event_fields_def)
  with rest r ev(1) show thesis by (intro that [OF r(1)]) simp_all
qed

lemma repo_UpdateStatus_okE:
  assumes "repo_UpdateStatus pid st s = (None, s')"
  obtains r where "row_by rID pid (payment_tbl s) = Some r"
    and "payment_tbl s' = upd_where (\<lambda>r. rID r = pid)
           (\<lambda>r. r\<lparr>rStatus := st, rUpdatedAt := pg_now s\<rparr>) (payment_tbl s)"
    and "outbox_tbl s' = outbox_tbl s @
           [pending_row s (''payment.'' @ ToLower st) (rEndToEndID r)
             (transition_event (event_fields r) st st)]"
    and "outbox_seq s' = Suc (outbox_seq s)" and "bank_tbl s' = bank_tbl s"
    and "txview_tbl s' = txview_tbl (update_payment pid
           (\<lambda>r. r\<lparr>rStatus := st, rUpdatedAt := pg_now s\<rparr>) s)"
    and "pg_clock s' = pg_clock s"
proof -
  let ?f = "\<lambda>r. r\<lparr>rStatus := st, rUpdatedAt := pg_now s\<rparr>"
  from assms obtain u where "with_tx (bindE (UpdatePaymentStatusReturning st pid) (\<lambda>fromStatus.
      writeEventTx pid fromStatus st)) s = (Inr u, s')"
    by (auto simp: repo_UpdateStatus_def err_of_def split: prod.splits sum.splits)
  then obtain fs1 s2 fs2 where
    b: "bindE (UpdatePaymentStatusReturning st pid) (\<lambda>fromStatus. writeEventTx pid fromStatus st)
         (s\<lparr>pg_faults := fs1\<rparr>) = (Inr u, s2)" and s': "s' = s2\<lparr>pg_faults := fs2\<rparr>"
    by (rule with_tx_InrE)
  from b obtain frm s1 where
    u: "UpdatePaymentStatusReturning st pid (s\<lparr>pg_faults := fs1\<rparr>) = (Inr frm, s1)" and
    w: "writeEventTx pid frm st s1 = (Inr u, s2)" by (rule bindE_okD)
  from u obtain fs where "frm = st" "s1 = update_payment pid ?f (s\<lparr>pg_faults := fs\<rparr>)"
    by (auto simp: UpdatePaymentStatusReturning_def Let_def elim!: stmt_InrE split: option.splits)
  with w have "writeEventTx pid st st (update_payment pid ?f (s\<lparr>pg_faults := fs\<rparr>)) = (Inr u, s2)"
    by simp
  then show thesis
  proof (rule update_then_event)
    show "event_fields (?f r) = event_fields r" for r by (simp add: event_fields_def)
  qed (auto simp: s' intro: that)
qed

lemma repo_MarkReserved_okE:
  assumes "repo_MarkReserved pid ttl s = (None, s')"
  obtains r where "row_by rID pid (payment_tbl s) = Some r"
    and "payment_tbl s' = upd_where (\<lambda>r. rID r = pid)
           (\<lambda>r. r\<lparr>rStatus := StatusReserved, rReservedAt := Some (pg_now s),
                    rExpiresAt := Some (pg_timestamp (pg_clock s + ttl)), rUpdatedAt := pg_now s\<rparr>)
           (payment_tbl s)"
    and "outbox_tbl s' = outbox_tbl s @
           [pending_row s (''payment.'' @ ToLower StatusReserved) (rEndToEndID r)
             (transition_event (event_fields r) StatusValidated StatusReserved)]"
    and "outbox_seq s' = Suc (outbox_seq s)" and "bank_tbl s' = bank_tbl s"
    and "txview_tbl s' = txview_tbl (update_payment pid
           (\<lambda>r. r\<lparr>rStatus := StatusReserved, rReservedAt := Some (pg_now s),
                    rExpiresAt := Some (pg_timestamp (pg_clock s + ttl)), rUpdatedAt := pg_now s\<rparr>) s)"
    and "pg_clock s' = pg_clock s"
proof -
  let ?f = "\<lambda>r. r\<lparr>rStatus := StatusReserved, rReservedAt := Some (pg_now s),
                    rExpiresAt := Some (pg_timestamp (pg_clock s + ttl)), rUpdatedAt := pg_now s\<rparr>"
  from assms obtain u where "with_tx (bindE (MarkPaymentReserved StatusReserved (pg_clock s)
      (pg_clock s + ttl) pid) (\<lambda>_. writeEventTx pid StatusValidated StatusReserved)) s = (Inr u, s')"
    by (auto simp: repo_MarkReserved_def err_of_def Let_def split: prod.splits sum.splits)
  then obtain fs1 s2 fs2 where
    b: "bindE (MarkPaymentReserved StatusReserved (pg_clock s) (pg_clock s + ttl) pid)
          (\<lambda>_. writeEventTx pid StatusValidated StatusReserved)
         (s\<lparr>pg_faults := fs1\<rparr>) = (Inr u, s2)" and s': "s' = s2\<lparr>pg_faults := fs2\<rparr>"
    by (rule with_tx_InrE)
  from b obtain x s1 where
    u: "MarkPaymentReserved StatusReserved (pg_clock s) (pg_clock s + ttl) pid
          (s\<lparr>pg_faults := fs1\<rparr>) = (Inr x, s1)" and
    w: "writeEventTx pid StatusValidated StatusReserved s1 = (Inr u, s2)" by (rule bindE_okD)
  from u obtain fs where "s1 = update_payment pid ?f (s\<lparr>pg_faults := fs\<rparr>)"
    unfolding MarkPaymentReserved_def by (elim stmt_InrE) (auto simp: pg_now_def)
  with w have "writeEventTx pid StatusValidated StatusReserved
      (update_payment pid ?f (s\<lparr>pg_faults := fs\<rparr>)) = (Inr u, s2)" by simp
  then show thesis
  proof (rule update_then_event)
    show "event_fields (?f r) = event_fields r" for r by (simp add: event_fields_def)
  qed (auto simp: s' intro: that)
qed

lemma repo_UpdateRoute_okE:
  assumes "repo_UpdateRoute pid fee ms s = (None, s')"
  obtains fs where "s' = update_payment pid (\<lambda>r. r\<lparr>rRouteFee := Some fee,
      rRouteEstimatedMs := Some (ucast ms), rStatus := StatusRouted, rUpdatedAt := pg_now s\<rparr>)
      (s\<lparr>pg_faults := fs\<rparr>)"
proof -
  from assms obtain u where "UpdatePaymentRoute fee (ucast ms) StatusRouted pid s = (Inr u, s')"
    by (auto simp: repo_UpdateRoute_def err_of_def split: prod.splits sum.splits)
  then show thesis unfolding UpdatePaymentRoute_def by (elim stmt_InrE) (auto intro: that)
qed

lemma CreatePayment_okE:
  assumes "CreatePayment a s = (Inr row, s')"
  obtains fs where "insert_row (pg_now s) a = Some row" "\<not> payment_conflict s a"
    "s' = sync_payment_to_transaction_view row
            (s\<lparr>pg_faults := fs, payment_tbl := payment_tbl s @ [row]\<rparr>)"
  using assms unfolding CreatePayment_def
  by (elim stmt_InrE) (auto simp: payment_conflict_def intro: that split: option.splits if_splits)

lemma insert_row_fields:
  assumes "insert_row t a = Some r"
  shows "rID r = cpID a" "rSourceBic r = cpSourceBic a" "rEndToEndID r = cpEndToEndID a"
    "rStatus r = cpStatus a" "rAmount r = cpAmount a" "rCreatedAt r = t"
    "rDestinationBic r = cpDestinationBic a"
  using assms by (auto simp: insert_row_def split: option.splits)

lemma pending_row_sync [simp]:
  "pending_row (sync_payment_to_transaction_view r s) = pending_row s"
  "pending_row (s\<lparr>payment_tbl := ps\<rparr>) = pending_row s"
  by (auto intro!: ext simp: pending_row_def)

lemma create_tx_okE:
  assumes "create_tx p s = (Inr row, s')"
  obtains "insert_row (pg_now s) (create_params p) = Some row"
    and "\<not> payment_conflict s (create_params p)"
    and "payment_tbl s' = payment_tbl s @ [row]"
    and "outbox_tbl s' = outbox_tbl s @
          [pending_row s ''payment.received'' (pEndToEndID p) (received_event p row)]"
    and "outbox_seq s' = Suc (outbox_seq s)" and "bank_tbl s' = bank_tbl s"
    and "txview_tbl s' = txview_tbl (sync_payment_to_transaction_view row s)"
    and "pg_clock s' = pg_clock s"
proof -
  from assms obtain fs1 s2 fs2 where
    b: "bindE (CreatePayment (create_params p)) (\<lambda>row.
       bindE (outbox_Write ''payment.received'' (pEndToEndID p) (received_event p row)) (\<lambda>_. okE row))
         (s\<lparr>pg_faults := fs1\<rparr>) = (Inr row, s2)" and s': "s' = s2\<lparr>pg_faults := fs2\<rparr>"
    unfolding create_tx_def by (rule with_tx_InrE)
  from b obtain row1 s1 where c: "CreatePayment (create_params p) (s\<lparr>pg_faults := fs1\<rparr>) = (Inr row1, s1)"
    and d: "bindE (outbox_Write ''payment.received'' (pEndToEndID p) (received_event p row1))
              (\<lambda>_. okE row1) s1 = (Inr row, s2)" by (rule bindE_okD)
  from d obtain x s3 where o: "outbox_Write ''payment.received'' (pEndToEndID p)
      (received_event p row1) s1 = (Inr x, s3)" and "row = row1" "s2 = s3"
    by (rule bindE_okD) simp
  note w = outbox_Write_okE [OF o] this(2,3)
  from c obtain fs where e: "insert_row (pg_now s) (create_params p) = Some row1"
    "\<not> payment_conflict s (create_params p)"
    "s1 = sync_payment_to_transaction_view row1
            (s\<lparr>pg_faults := fs, payment_tbl := payment_tbl s @ [row1]\<rparr>)"
    by (elim CreatePayment_okE) (simp add: payment_conflict_def)
  have "txview_tbl s1 = txview_tbl (sync_payment_to_transaction_view row1 s)"
    by (simp add: e(3) sync_payment_to_transaction_view_def new_view_def bank_name_of_def)
  with w e show thesis by (intro that) (simp_all add: s')
qed

end
