(* ===== verification/Saga.thy ===== *)
theory Saga
  imports Domain
begin

text \<open>
  The saga engine of \<^verbatim>\<open>internal/orchestrator/saga/saga.go\<close>: running the steps in order,
  rolling the completed ones back when one fails, and compensating a payment from its stored
  status. \<^verbatim>\<open>forward\<close> and \<^verbatim>\<open>compensate_all\<close> describe what a run should do; the lemmas
  characterise \<open>Run\<close> by them, and the locale \<^verbatim>\<open>saga_outline\<close> is the contract under which a
  failed run leaves a view of the world as it was.
\<close>

section \<open>saga.go\<close>

record 'w Step =
  stepName :: string
  Execute :: "'w pay_call"
  Compensate :: "'w pay_call"

record 'w Saga =
  sagaSteps :: "'w Step list"
  completedSteps :: int

definition New_saga :: "'w Step list \<Rightarrow> 'w Saga" where
  "New_saga sts = \<lparr>sagaSteps = sts, completedSteps = 0\<rparr>"

text \<open>The loop of \<^verbatim>\<open>rollback\<close>: compensate in the given order, dropping every error.\<close>

fun compensate_all :: "'w Step list \<Rightarrow> Payment \<Rightarrow> 'w \<Rightarrow> Payment \<times> 'w" where
  "compensate_all [] p w = (p, w)"
| "compensate_all (st # sts) p w =
     (case Compensate st p w of (_, p', w') \<Rightarrow> compensate_all sts p' w')"

definition rollback :: "Payment \<Rightarrow> 'w Step list \<Rightarrow> 'w \<Rightarrow> Payment \<times> 'w" where
  "rollback p completed w = compensate_all (rev completed) p w"

definition execStep :: "'w Step \<Rightarrow> 'w pay_call" where
  "execStep st p w = Execute st p w"

text \<open>The loop of \<^verbatim>\<open>Run\<close>; \<open>n\<close> is \<^verbatim>\<open>s.completedSteps\<close>.\<close>

fun run_loop :: "'w Step list \<Rightarrow> 'w Step list \<Rightarrow> int \<Rightarrow> Payment \<Rightarrow> 'w
    \<Rightarrow> goerror option \<times> int \<times> Payment \<times> 'w" where
  "run_loop [] completed n p w = (None, n, p, w)"
| "run_loop (st # sts) completed n p w =
     (case execStep st p w of
        (Some e, p', w') \<Rightarrow>
          (case rollback p' completed w' of (p'', w'') \<Rightarrow> (Some e, n, p'', w''))
      | (None, p', w') \<Rightarrow> run_loop sts (completed @ [st]) (n + 1) p' w')"

definition Run :: "'w Saga \<Rightarrow> Payment \<Rightarrow> 'w \<Rightarrow> goerror option \<times> 'w Saga \<times> Payment \<times> 'w" where
  "Run s p w =
     (case run_loop (sagaSteps s) [] 0 p w of
        (r, n, p', w') \<Rightarrow> (r, s\<lparr>completedSteps := n\<rparr>, p', w'))"

definition statusToStepCount :: "PaymentStatus \<Rightarrow> int" where
  "statusToStepCount status =
     (if status = StatusReceived then 0
      else if status = StatusValidated then 1
      else if status = StatusLookedUp then 2
      else if status = StatusRouted then 3
      else if status = StatusQuoted then 4
      else if status = StatusScreened then 5
      else if status = StatusReserved then 6
      else if status = StatusCommitted then 7
      else if status = StatusSettled then 8
      else 0)"

text \<open>The loop of \<^verbatim>\<open>CompensatePayment\<close> stops at the first error.\<close>

fun compensate_until_error :: "'w Step list \<Rightarrow> 'w pay_call" where
  "compensate_until_error [] p w = (None, p, w)"
| "compensate_until_error (st # sts) p w =
     (case Compensate st p w of
        (Some e, p', w') \<Rightarrow> (Some e, p', w')
      | (None, p', w') \<Rightarrow> compensate_until_error sts p' w')"

definition compensation_count :: "'w Saga \<Rightarrow> Payment \<Rightarrow> nat" where
  "compensation_count s p =
     (let n = completedSteps s;
          n = (if n \<le> 0 then statusToStepCount (pStatus p) else n);
          n = (if n > int (length (sagaSteps s)) then int (length (sagaSteps s)) else n)
      in nat n)"

definition CompensatePayment :: "'w Saga \<Rightarrow> 'w pay_call" where
  "CompensatePayment s p w =
     compensate_until_error (rev (take (compensation_count s p) (sagaSteps s))) p w"

section \<open>What a run is meant to do\<close>

text \<open>\<open>forward sts p w p' w'\<close>: every step of \<open>sts\<close> succeeds in order, from \<open>(p, w)\<close> to \<open>(p', w')\<close>.\<close>

fun forward :: "'w Step list \<Rightarrow> Payment \<Rightarrow> 'w \<Rightarrow> (Payment \<times> 'w) option" where
  "forward [] p w = Some (p, w)"
| "forward (st # sts) p w =
     (case Execute st p w of
        (None, p', w') \<Rightarrow> forward sts p' w'
      | (Some e, p', w') \<Rightarrow> None)"

lemma forward_append:
  "forward (xs @ ys) p w = (case forward xs p w of None \<Rightarrow> None | Some (p', w') \<Rightarrow> forward ys p' w')"
  by (induction xs arbitrary: p w) (auto split: prod.splits option.splits)

lemma forward_split:
  assumes "forward sts p w = Some (p', w')"
  obtains p1 w1 where "forward (take k sts) p w = Some (p1, w1)"
    and "forward (drop k sts) p1 w1 = Some (p', w')"
proof -
  have "forward (take k sts @ drop k sts) p w = Some (p', w')" using assms by simp
  then show thesis by (auto simp only: forward_append split: option.splits intro: that)
qed

lemma forward_lastE:
  assumes "forward (sts @ [st]) p w = Some (p', w')"
  obtains p1 w1 where "forward sts p w = Some (p1, w1)" and "Execute st p1 w1 = (None, p', w')"
  using assms by (auto simp: forward_append split: option.splits prod.splits)

lemma compensate_all_append:
  "compensate_all (xs @ ys) p w = (case compensate_all xs p w of (p', w') \<Rightarrow> compensate_all ys p' w')"
  by (induction xs arbitrary: p w) (auto split: prod.splits)

text \<open>\<open>attempt\<close> executes the steps until one fails: how many completed, the error if any, and
  where that leaves the payment and the world.\<close>

fun attempt :: "'w Step list \<Rightarrow> Payment \<Rightarrow> 'w \<Rightarrow> nat \<times> goerror option \<times> Payment \<times> 'w" where
  "attempt [] p w = (0, None, p, w)"
| "attempt (st # sts) p w =
     (case Execute st p w of
        (Some e, p', w') \<Rightarrow> (0, Some e, p', w')
      | (None, p', w') \<Rightarrow> (case attempt sts p' w' of (k, r) \<Rightarrow> (Suc k, r)))"

lemma attempt_Suc_iff:
  "(case x of (k, r) \<Rightarrow> (Suc k, r)) = (m, r') \<longleftrightarrow> (\<exists>k. m = Suc k \<and> x = (k, r'))"
  by (cases x) auto

lemma attempt_ok_iff:
  "attempt sts p w = (k, None, p', w') \<longleftrightarrow> forward sts p w = Some (p', w') \<and> k = length sts"
proof (induction sts arbitrary: p w k)
  case (Cons st sts)
  obtain r q v where "Execute st p w = (r, q, v)" by (cases "Execute st p w") auto
  then show ?case by (cases r) (auto simp: attempt_Suc_iff Cons.IH)
qed auto

lemma attempt_err_iff:
  "attempt sts p w = (k, Some e, p2, w2) \<longleftrightarrow>
     k < length sts \<and>
     (\<exists>p1 w1. forward (take k sts) p w = Some (p1, w1) \<and> Execute (sts ! k) p1 w1 = (Some e, p2, w2))"
proof (induction sts arbitrary: p w k)
  case (Cons st sts)
  obtain r q v where "Execute st p w = (r, q, v)" by (cases "Execute st p w") auto
  then show ?case
    by (cases r; cases k) (auto simp: attempt_Suc_iff Cons.IH split: option.splits)
qed simp

lemma run_loop_attempt:
  "run_loop sts done n p w =
     (case attempt sts p w of
        (k, None, p', w') \<Rightarrow> (None, n + int k, p', w')
      | (k, Some e, p', w') \<Rightarrow>
          (case rollback p' (done @ take k sts) w' of (p'', w'') \<Rightarrow> (Some e, n + int k, p'', w'')))"
  by (induction sts arbitrary: "done" n p w)
    (auto simp: execStep_def split: prod.splits option.splits)

lemma Run_attempt:
  "Run s p w =
     (case attempt (sagaSteps s) p w of
        (k, None, p', w') \<Rightarrow> (None, s\<lparr>completedSteps := int k\<rparr>, p', w')
      | (k, Some e, p', w') \<Rightarrow>
          (case compensate_all (rev (take k (sagaSteps s))) p' w' of
             (p'', w'') \<Rightarrow> (Some e, s\<lparr>completedSteps := int k\<rparr>, p'', w'')))"
  by (simp add: Run_def run_loop_attempt rollback_def split: prod.splits option.splits)

lemma Run_okE:
  assumes "Run s p w = (None, s', p', w')"
  shows "forward (sagaSteps s) p w = Some (p', w')"
    and "s' = s\<lparr>completedSteps := int (length (sagaSteps s))\<rparr>"
  using assms by (auto simp: Run_attempt attempt_ok_iff split: prod.splits option.splits)

lemma Run_errE:
  assumes "Run s p w = (Some e, s', p', w')"
  obtains k p1 w1 p2 w2 where "k < length (sagaSteps s)"
    and "forward (take k (sagaSteps s)) p w = Some (p1, w1)"
    and "Execute (sagaSteps s ! k) p1 w1 = (Some e, p2, w2)"
    and "compensate_all (rev (take k (sagaSteps s))) p2 w2 = (p', w')"
    and "s' = s\<lparr>completedSteps := int k\<rparr>"
  using assms by (auto simp: Run_attempt attempt_err_iff split: prod.splits option.splits)

lemma Run_forward:
  assumes "forward (sagaSteps s) p w = Some (p', w')"
  shows "Run s p w = (None, s\<lparr>completedSteps := int (length (sagaSteps s))\<rparr>, p', w')"
proof -
  have "attempt (sagaSteps s) p w = (length (sagaSteps s), None, p', w')"
    using assms by (simp add: attempt_ok_iff)
  then show ?thesis by (simp add: Run_attempt)
qed

lemma Run_fails_at:
  assumes "k < length (sagaSteps s)" and "forward (take k (sagaSteps s)) p w = Some (p1, w1)"
    and "Execute (sagaSteps s ! k) p1 w1 = (Some e, p2, w2)"
    and "compensate_all (rev (take k (sagaSteps s))) p2 w2 = (p', w')"
  shows "Run s p w = (Some e, s\<lparr>completedSteps := int k\<rparr>, p', w')"
proof -
  have "attempt (sagaSteps s) p w = (k, Some e, p2, w2)"
    using assms(1-3) by (simp add: attempt_err_iff)
  with assms(4) show ?thesis by (simp add: Run_attempt)
qed

section \<open>A contract under which a failed run changes nothing\<close>

text \<open>
  An outline annotates the steps: \<open>good i p w\<close> holds between step \<open>i - 1\<close> and step \<open>i\<close>. Each step
  establishes the next annotation or fails without changing the view; compensating a step from
  any state with the view it left behind restores the view it started from.
\<close>

locale saga_outline =
  fixes sts :: "'w Step list"
    and good :: "nat \<Rightarrow> Payment \<Rightarrow> 'w \<Rightarrow> bool"
    and view :: "Payment \<Rightarrow> 'w \<Rightarrow> 'v"
  assumes exec_ok: "\<lbrakk>i < length sts; good i p w; Execute (sts ! i) p w = (None, p', w')\<rbrakk>
      \<Longrightarrow> good (Suc i) p' w'"
    and exec_err: "\<lbrakk>i < length sts; good i p w; Execute (sts ! i) p w = (Some e, p', w')\<rbrakk>
      \<Longrightarrow> good i p' w' \<and> view p' w' = view p w"
    and undo: "\<lbrakk>i < length sts; good i p w; Execute (sts ! i) p w = (None, p1, w1);
        good (Suc i) p2 w2; view p2 w2 = view p1 w1; Compensate (sts ! i) p2 w2 = (r, p3, w3)\<rbrakk>
      \<Longrightarrow> good i p3 w3 \<and> view p3 w3 = view p w"
begin

lemma forward_good:
  "\<lbrakk>k \<le> length sts; good 0 p w; forward (take k sts) p w = Some (p', w')\<rbrakk> \<Longrightarrow> good k p' w'"
proof (induction k arbitrary: p' w')
  case 0
  then show ?case by simp
next
  case (Suc k)
  from Suc.prems(1) have tk: "take (Suc k) sts = take k sts @ [sts ! k]"
    by (simp add: take_Suc_conv_app_nth)
  with Suc.prems(3) obtain p1 w1 where f: "forward (take k sts) p w = Some (p1, w1)"
    and ex: "Execute (sts ! k) p1 w1 = (None, p', w')"
    by (auto simp: forward_append split: option.splits prod.splits)
  from Suc.IH [OF _ Suc.prems(2) f] Suc.prems(1) have "good k p1 w1" by simp
  with exec_ok ex Suc.prems(1) show ?case by auto
qed

lemma rollback_restores:
  "\<lbrakk>k \<le> length sts; good 0 p w; forward (take k sts) p w = Some (p1, w1);
    good k p2 w2; view p2 w2 = view p1 w1; compensate_all (rev (take k sts)) p2 w2 = (p', w')\<rbrakk>
   \<Longrightarrow> good 0 p' w' \<and> view p' w' = view p w"
proof (induction k arbitrary: p1 w1 p2 w2)
  case 0
  then show ?case by simp
next
  case (Suc k)
  from Suc.prems(1) have tk: "take (Suc k) sts = take k sts @ [sts ! k]"
    by (simp add: take_Suc_conv_app_nth)
  with Suc.prems(3) obtain q v where f: "forward (take k sts) p w = Some (q, v)"
    and ex: "Execute (sts ! k) q v = (None, p1, w1)"
    by (auto simp: forward_append split: option.splits prod.splits)
  obtain r p3 w3 where c: "Compensate (sts ! k) p2 w2 = (r, p3, w3)"
    by (cases "Compensate (sts ! k) p2 w2") auto
  from f Suc.prems(1,2) have "good k q v" by (auto intro: forward_good)
  with undo ex c Suc.prems(1,4,5) have u: "good k p3 w3 \<and> view p3 w3 = view q v"
    by (metis Suc_le_lessD)
  from Suc.prems(6) tk c have "compensate_all (rev (take k sts)) p3 w3 = (p', w')" by simp
  with Suc.IH [OF _ Suc.prems(2) f] u Suc.prems(1) show ?case by auto
qed

theorem run_atomic:
  assumes "sagaSteps s = sts" and "good 0 p w" and "Run s p w = (Some e, s', p', w')"
  shows "good 0 p' w' \<and> view p' w' = view p w"
proof -
  from assms(3) obtain k p1 w1 p2 w2 where k: "k < length sts"
    and f: "forward (take k sts) p w = Some (p1, w1)"
    and ex: "Execute (sts ! k) p1 w1 = (Some e, p2, w2)"
    and c: "compensate_all (rev (take k sts)) p2 w2 = (p', w')"
    by (elim Run_errE) (simp add: assms(1))
  from f k assms(2) have "good k p1 w1" by (auto intro: forward_good)
  with exec_err [OF k _ ex] have "good k p2 w2" "view p2 w2 = view p1 w1" by auto
  with rollback_restores [OF _ assms(2) f _ _ c] k show ?thesis by simp
qed

end

end
