(* ===== verification/SagaSteps.thy ===== *)
theory SagaSteps
  imports Saga
begin

text \<open>
  The ten saga steps of \<^verbatim>\<open>internal/orchestrator/saga/steps.go\<close> and the step list that
  \<^verbatim>\<open>cmd/gateway/main.go\<close> assembles. A step takes the ports its Go struct holds; every
  \<^verbatim>\<open>Execute\<close> and \<^verbatim>\<open>Compensate\<close> is one definition with the early returns of the source.
\<close>

section \<open>steps.go\<close>

definition DefaultReservationTTL :: duration where
  "DefaultReservationTTL = 5 * Minute"

definition wrap_err :: "string \<Rightarrow> goerror option \<Rightarrow> goerror option" where
  "wrap_err pre r = map_option (ErrWrap pre) r"

text \<open>The tail most steps share: write the status to the repository, wrap its error, and only
  on success assign \<^verbatim>\<open>p.Status\<close>.\<close>

definition set_status :: "'w PaymentRepository \<Rightarrow> string \<Rightarrow> PaymentStatus \<Rightarrow> 'w pay_call" where
  "set_status repo pre st p w =
     (case repoUpdateStatus repo (pID p) st w of
        (Some e, w') \<Rightarrow> (Some (ErrWrap pre e), p, w')
      | (None, w') \<Rightarrow> (None, p\<lparr>pStatus := st\<rparr>, w'))"

definition abort_status :: "'w PaymentRepository \<Rightarrow> 'w pay_call" where
  "abort_status repo p w =
     (case repoUpdateStatus repo (pID p) StatusAborted w of (r, w') \<Rightarrow> (r, p, w'))"

definition ValidateStep_Execute :: "'w PaymentRepository \<Rightarrow> 'w pay_call" where [step_defs]:
  "ValidateStep_Execute repo p w =
     (if sle (pAmount p) 0 then (Some (ErrMsg (''invalid amount: '' @ fmt_d (pAmount p))), p, w)
      else if pSourceBIC p = '''' \<or> pDestinationBIC p = '''' then
        (Some (ErrMsg ''source and destination BIC are required''), p, w)
      else if pSourceAccount p = '''' \<or> pDestAccount p = '''' then
        (Some (ErrMsg ''source and destination accounts are required''), p, w)
      else if pCurrency p = '''' then (Some (ErrMsg ''currency is required''), p, w)
      else set_status repo ''update status to VALIDATED: '' StatusValidated p w)"

definition ValidateStep :: "'w PaymentRepository \<Rightarrow> 'w Step" where
  "ValidateStep repo = \<lparr>stepName = ''validate'', Execute = ValidateStep_Execute repo,
     Compensate = abort_status repo\<rparr>"

definition no_compensation :: "'w pay_call" where
  "no_compensation p w = (None, p, w)"

definition LookupStep_Execute :: "'w LookupClient \<Rightarrow> 'w PaymentRepository \<Rightarrow> 'w pay_call" where
  [step_defs]: "LookupStep_Execute client repo p w =
     (case client (pDestinationBIC p) w of
        (Inl e, w') \<Rightarrow> (Some (ErrWrap ''lookup destination BIC: '' e), p, w')
      | (Inr _, w') \<Rightarrow> set_status repo ''update status after BIC lookup: '' StatusLookedUp p w')"

definition LookupStep :: "'w LookupClient \<Rightarrow> 'w PaymentRepository \<Rightarrow> 'w Step" where
  "LookupStep client repo = \<lparr>stepName = ''lookup_bic'', Execute = LookupStep_Execute client repo,
     Compensate = no_compensation\<rparr>"

text \<open>\<^verbatim>\<open>RouteStep\<close> assigns the fee and the estimate before it writes them; the repository call
  also sets the stored status.\<close>

definition RouteStep_Execute :: "'w RoutingClient \<Rightarrow> 'w PaymentRepository \<Rightarrow> 'w pay_call" where
  [step_defs]: "RouteStep_Execute client repo p w =
     (case client (pSourceBIC p) (pDestinationBIC p) (pCurrency p) w of
        (Inl e, w') \<Rightarrow> (Some (ErrWrap ''find route: '' e), p, w')
      | (Inr (fee, estimatedMs), w') \<Rightarrow>
          (let p1 = p\<lparr>pRouteFee := fee, pRouteEstimatedMs := estimatedMs\<rparr> in
           (case repoUpdateRoute repo (pID p1) fee estimatedMs w' of
              (Some e, w'') \<Rightarrow> (Some (ErrWrap ''update route info: '' e), p1, w'')
            | (None, w'') \<Rightarrow> (None, p1\<lparr>pStatus := StatusRouted\<rparr>, w''))))"

definition RouteStep :: "'w RoutingClient \<Rightarrow> 'w PaymentRepository \<Rightarrow> 'w Step" where
  "RouteStep client repo = \<lparr>stepName = ''route'', Execute = RouteStep_Execute client repo,
     Compensate = no_compensation\<rparr>"

definition QuoteStep_Execute :: "'w QuotingClient \<Rightarrow> 'w PaymentRepository \<Rightarrow> 'w pay_call" where
  [step_defs]: "QuoteStep_Execute client repo p w =
     (case client (pSourceBIC p) (pDestinationBIC p) (pAmount p) (pCurrency p) w of
        (Inl e, w') \<Rightarrow> (Some (ErrWrap ''get quote: '' e), p, w')
      | (Inr (quoteID, fee, total0), w') \<Rightarrow>
          set_status repo ''update status to QUOTED: '' StatusQuoted
            (p\<lparr>pQuoteID := Some quoteID\<rparr>) w')"

definition QuoteStep :: "'w QuotingClient \<Rightarrow> 'w PaymentRepository \<Rightarrow> 'w Step" where
  "QuoteStep client repo = \<lparr>stepName = ''quote'', Execute = QuoteStep_Execute client repo,
     Compensate = abort_status repo\<rparr>"

definition ScreenStep_Execute :: "'w ComplianceClient \<Rightarrow> 'w PaymentRepository \<Rightarrow> 'w pay_call" where
  [step_defs]: "ScreenStep_Execute client repo p w =
     (case client p w of
        (Inl e, w') \<Rightarrow> (Some (ErrWrap ''compliance screen: '' e), p, w')
      | (Inr result, w') \<Rightarrow>
          (if \<not> Cleared result
           then (Some (ErrMsg (''compliance check failed: '' @ Reason result)), p, w')
           else set_status repo ''update status to SCREENED: '' StatusScreened p w'))"

definition ScreenStep :: "'w ComplianceClient \<Rightarrow> 'w PaymentRepository \<Rightarrow> 'w Step" where
  "ScreenStep client repo = \<lparr>stepName = ''screen'', Execute = ScreenStep_Execute client repo,
     Compensate = abort_status repo\<rparr>"

definition ReserveStep_Execute ::
    "'w PaymentRepository \<Rightarrow> 'w BankClient \<Rightarrow> duration \<Rightarrow> 'w pay_call" where
  [step_defs]: "ReserveStep_Execute repo bank ttl0 p w =
     (case bankReserve bank (pSourceBIC p) (pSourceAccount p) (pAmount p) w of
        (Some e, w') \<Rightarrow> (Some (ErrWrap ''reserve at source bank: '' e), p, w')
      | (None, w') \<Rightarrow>
          (let ttl = (if ttl0 \<le> 0 then DefaultReservationTTL else ttl0) in
           (case repoMarkReserved repo (pID p) ttl w' of
              (Some e, w'') \<Rightarrow> (Some (ErrWrap ''mark reserved: '' e), p, w'')
            | (None, w'') \<Rightarrow> (None, p\<lparr>pStatus := StatusReserved\<rparr>, w''))))"

definition ReserveStep_Compensate :: "'w PaymentRepository \<Rightarrow> 'w BankClient \<Rightarrow> 'w pay_call" where
  [step_defs]: "ReserveStep_Compensate repo bank p w =
     (case bankReleaseReservation bank (pSourceBIC p) (pSourceAccount p) (pAmount p) w of
        (_, w') \<Rightarrow> abort_status repo p w')"

definition ReserveStep :: "'w PaymentRepository \<Rightarrow> 'w BankClient \<Rightarrow> duration \<Rightarrow> 'w Step" where
  "ReserveStep repo bank ttl = \<lparr>stepName = ''reserve_source'',
     Execute = ReserveStep_Execute repo bank ttl, Compensate = ReserveStep_Compensate repo bank\<rparr>"

definition CommitStep_Execute :: "'w PaymentRepository \<Rightarrow> 'w BankClient \<Rightarrow> 'w pay_call" where
  [step_defs]: "CommitStep_Execute repo bank p w =
     (case bankCredit bank (pDestinationBIC p) (pDestAccount p) (pAmount p) w of
        (Some e, w') \<Rightarrow> (Some (ErrWrap ''credit destination bank: '' e), p, w')
      | (None, w') \<Rightarrow> set_status repo ''update status to COMMITTED: '' StatusCommitted p w')"

definition CommitStep_Compensate :: "'w PaymentRepository \<Rightarrow> 'w BankClient \<Rightarrow> 'w pay_call" where
  [step_defs]: "CommitStep_Compensate repo bank p w =
     (case bankReverseCredit bank (pDestinationBIC p) (pDestAccount p) (pAmount p) w of
        (_, w') \<Rightarrow> abort_status repo p w')"

definition CommitStep :: "'w PaymentRepository \<Rightarrow> 'w BankClient \<Rightarrow> 'w Step" where
  "CommitStep repo bank = \<lparr>stepName = ''credit_destination'',
     Execute = CommitStep_Execute repo bank, Compensate = CommitStep_Compensate repo bank\<rparr>"

definition SettleStep_Execute :: "'w SettlementClient \<Rightarrow> 'w PaymentRepository \<Rightarrow> 'w pay_call" where
  [step_defs]: "SettleStep_Execute client repo p w =
     (case client p w of
        (Some e, w') \<Rightarrow> (Some (ErrWrap ''submit for settlement: '' e), p, w')
      | (None, w') \<Rightarrow> set_status repo ''update status to SETTLED: '' StatusSettled p w')"

definition SettleStep :: "'w SettlementClient \<Rightarrow> 'w PaymentRepository \<Rightarrow> 'w Step" where
  "SettleStep client repo = \<lparr>stepName = ''settle'', Execute = SettleStep_Execute client repo,
     Compensate = abort_status repo\<rparr>"

text \<open>The last two steps only log the errors of their clients.\<close>

definition RecordReconciliationStep_Execute :: "'w ReconciliationClient \<Rightarrow> 'w pay_call" where
  [step_defs]: "RecordReconciliationStep_Execute client p w =
     (case client (pID p) (pSourceBIC p) (pDestinationBIC p) (pAmount p) (pCurrency p) (pStatus p) w of
        (_, w') \<Rightarrow> (None, p, w'))"

definition RecordReconciliationStep :: "'w ReconciliationClient \<Rightarrow> 'w Step" where
  "RecordReconciliationStep client = \<lparr>stepName = ''record_reconciliation'',
     Execute = RecordReconciliationStep_Execute client, Compensate = no_compensation\<rparr>"

definition NotifyStep_Execute :: "'w NotificationClient \<Rightarrow> 'w pay_call" where
  [step_defs]: "NotifyStep_Execute client p w =
     (case client (pSourceBIC p) ''webhook'' ''Payment Processed''
             ''Your payment has been processed.'' (pID p) (pStatus p) w of
        (_, w') \<Rightarrow>
     (case client (pDestinationBIC p) ''webhook'' ''Payment Received''
             ''A payment has been credited to your account.'' (pID p) (pStatus p) w' of
        (_, w'') \<Rightarrow> (None, p, w'')))"

definition NotifyStep :: "'w NotificationClient \<Rightarrow> 'w Step" where
  "NotifyStep client = \<lparr>stepName = ''notify'', Execute = NotifyStep_Execute client,
     Compensate = no_compensation\<rparr>"

section \<open>The step list of cmd/gateway/main.go\<close>

record 'w ports =
  portRepo :: "'w PaymentRepository"
  portBank :: "'w BankClient"
  portLookup :: "'w LookupClient"
  portRouting :: "'w RoutingClient"
  portQuoting :: "'w QuotingClient"
  portCompliance :: "'w ComplianceClient"
  portSettlement :: "'w SettlementClient option"
  portReconciliation :: "'w ReconciliationClient"
  portNotification :: "'w NotificationClient"

text \<open>\<^verbatim>\<open>SettleStep\<close> is present when \<^verbatim>\<open>SETTLEMENT_ADDR\<close> is configured.\<close>

definition gateway_steps :: "'w ports \<Rightarrow> 'w Step list" where
  "gateway_steps P =
     [ValidateStep (portRepo P),
      LookupStep (portLookup P) (portRepo P),
      RouteStep (portRouting P) (portRepo P),
      QuoteStep (portQuoting P) (portRepo P),
      ScreenStep (portCompliance P) (portRepo P),
      ReserveStep (portRepo P) (portBank P) DefaultReservationTTL,
      CommitStep (portRepo P) (portBank P)]
     @ (case portSettlement P of Some c \<Rightarrow> [SettleStep c (portRepo P)] | None \<Rightarrow> [])
     @ [RecordReconciliationStep (portReconciliation P), NotifyStep (portNotification P)]"

section \<open>Lemmas on single steps\<close>

lemmas step_ctors = ValidateStep_def LookupStep_def RouteStep_def QuoteStep_def ScreenStep_def
  ReserveStep_def CommitStep_def SettleStep_def RecordReconciliationStep_def NotifyStep_def

text \<open>The identity and the money of a payment: no step changes any of it.\<close>

definition pay_core :: "Payment \<Rightarrow> string \<times> string \<times> string \<times> string \<times> string \<times> int64 \<times> string" where
  "pay_core p = (pID p, pSourceBIC p, pDestinationBIC p, pSourceAccount p, pDestAccount p,
     pAmount p, pCurrency p)"

lemma pay_core_upd [simp]:
  "pay_core (p\<lparr>pStatus := s\<rparr>) = pay_core p"
  "pay_core (p\<lparr>pQuoteID := q\<rparr>) = pay_core p"
  "pay_core (p\<lparr>pRouteFee := f, pRouteEstimatedMs := m\<rparr>) = pay_core p"
  "pay_core (p\<lparr>pRouteFee := f, pRouteEstimatedMs := m, pStatus := s\<rparr>) = pay_core p"
  by (simp_all add: pay_core_def)

lemma set_status_cases:
  "set_status repo pre st p w = (r, p', w') \<longleftrightarrow>
     (\<exists>r0. repoUpdateStatus repo (pID p) st w = (r0, w') \<and>
        (case r0 of None \<Rightarrow> r = None \<and> p' = p\<lparr>pStatus := st\<rparr>
         | Some e \<Rightarrow> r = Some (ErrWrap pre e) \<and> p' = p))"
  by (auto simp: set_status_def split: prod.splits option.splits)

lemma abort_status_cases:
  "abort_status repo p w = (r, p', w') \<longleftrightarrow>
     repoUpdateStatus repo (pID p) StatusAborted w = (r, w') \<and> p' = p"
  by (auto simp: abort_status_def split: prod.splits)

lemma set_status_core: "set_status repo pre st p w = (r, p', w') \<Longrightarrow> pay_core p' = pay_core p"
  by (auto simp: set_status_cases split: option.splits)

lemma gateway_step_core:
  assumes "st \<in> set (gateway_steps P)" and "Execute st p w = (r, p', w')"
  shows "pay_core p' = pay_core p"
  using assms
  by (auto simp: gateway_steps_def step_ctors step_defs Let_def
      split: option.splits if_splits prod.splits sum.splits dest!: set_status_core)

lemma gateway_compensate_payment:
  assumes "st \<in> set (gateway_steps P)" and "Compensate st p w = (r, p', w')"
  shows "p' = p"
  using assms
  by (auto simp: gateway_steps_def step_ctors step_defs no_compensation_def abort_status_def
      split: option.splits prod.splits)

text \<open>The status in memory after each successful step.\<close>

definition step_statuses :: "PaymentStatus list" where
  "step_statuses = [StatusValidated, StatusLookedUp, StatusRouted, StatusQuoted, StatusScreened,
     StatusReserved, StatusCommitted]"

lemma set_status_ok_status:
  "set_status repo pre st p w = (None, p', w') \<Longrightarrow> pStatus p' = st"
  by (auto simp: set_status_cases split: option.splits)

lemma gateway_steps_length:
  "length (gateway_steps P) = (if portSettlement P = None then 9 else 10)"
  by (simp add: gateway_steps_def split: option.splits)

lemma gateway_steps_take7:
  "take 7 (gateway_steps P) =
     [ValidateStep (portRepo P), LookupStep (portLookup P) (portRepo P),
      RouteStep (portRouting P) (portRepo P), QuoteStep (portQuoting P) (portRepo P),
      ScreenStep (portCompliance P) (portRepo P),
      ReserveStep (portRepo P) (portBank P) DefaultReservationTTL,
      CommitStep (portRepo P) (portBank P)]"
  by (simp add: gateway_steps_def)

end
