(* ===== verification/SagaStatus.thy ===== *)
theory SagaStatus
  imports SagaSteps
begin

text \<open>
  What the steps do to the stored status of a payment, from a contract of the repository alone.
  \<^verbatim>\<open>payment_repository\<close> states what the writing operations of
  \<^verbatim>\<open>ports.PaymentRepository\<close> promise about stored statuses; \<^verbatim>\<open>switch_ports\<close> adds that
  the other ports do not touch them; \<^verbatim>\<open>live_repository\<close> adds when a write succeeds. The
  lemmas follow the status through \<open>Run\<close> and \<open>CompensatePayment\<close>.
\<close>

section \<open>The repository contract\<close>

locale payment_repository =
  fixes repo :: "'w PaymentRepository"
    and status_of :: "'w \<Rightarrow> string \<Rightarrow> PaymentStatus option"
  assumes UpdateStatus_ok: "repoUpdateStatus repo pid st w = (None, w') \<Longrightarrow>
        status_of w pid \<noteq> None \<and> status_of w' = (status_of w)(pid \<mapsto> st)"
    and UpdateStatus_err: "repoUpdateStatus repo pid st w = (Some e, w') \<Longrightarrow> status_of w' = status_of w"
    and MarkReserved_ok: "repoMarkReserved repo pid ttl w = (None, w') \<Longrightarrow>
        status_of w pid \<noteq> None \<and> status_of w' = (status_of w)(pid \<mapsto> StatusReserved)"
    and MarkReserved_err: "repoMarkReserved repo pid ttl w = (Some e, w') \<Longrightarrow> status_of w' = status_of w"
    and UpdateRoute_ok: "repoUpdateRoute repo pid fee ms w = (None, w') \<Longrightarrow>
        status_of w' = (if status_of w pid = None then status_of w
                        else (status_of w)(pid \<mapsto> StatusRouted))"
    and UpdateRoute_err: "repoUpdateRoute repo pid fee ms w = (Some e, w') \<Longrightarrow> status_of w' = status_of w"
begin

lemma set_status_ok:
  assumes "set_status repo pre st p w = (None, p', w')"
  shows "p' = p\<lparr>pStatus := st\<rparr>" "status_of w' = (status_of w)(pID p \<mapsto> st)"
  using assms by (auto simp: set_status_cases dest: UpdateStatus_ok split: option.splits)

lemma set_status_okD:
  "set_status repo pre st p w = (None, p', w') \<Longrightarrow>
     p' = p\<lparr>pStatus := st\<rparr> \<and> status_of w' = (status_of w)(pID p \<mapsto> st)"
  by (auto dest: set_status_ok)

lemma set_status_err:
  assumes "set_status repo pre st p w = (Some e, p', w')"
  shows "p' = p" "status_of w' = status_of w"
  using assms by (auto simp: set_status_cases dest: UpdateStatus_err split: option.splits)

lemma abort_status_of:
  assumes "abort_status repo p w = (r, p', w')"
  shows "p' = p" "r = None \<Longrightarrow> status_of w' = (status_of w)(pID p \<mapsto> StatusAborted)"
    "r \<noteq> None \<Longrightarrow> status_of w' = status_of w"
  using assms by (auto simp: abort_status_cases dest: UpdateStatus_ok UpdateStatus_err)

lemma abort_status_effect:
  assumes "abort_status repo p w = (r, p', w')"
  shows "p' = p \<and> (status_of w' = status_of w \<or> status_of w' = (status_of w)(pID p \<mapsto> StatusAborted))"
  using abort_status_of [OF assms] by (cases r) auto

end

section \<open>The other ports\<close>

locale switch_ports = payment_repository "portRepo P" status_of
  for P :: "'w ports" and status_of :: "'w \<Rightarrow> string \<Rightarrow> PaymentStatus option" +
  assumes bank_frame:
      "bankReserve (portBank P) b a m w = (r0, w') \<Longrightarrow> status_of w' = status_of w"
      "bankReleaseReservation (portBank P) b a m w = (r0, w') \<Longrightarrow> status_of w' = status_of w"
      "bankCredit (portBank P) b a m w = (r0, w') \<Longrightarrow> status_of w' = status_of w"
      "bankReverseCredit (portBank P) b a m w = (r0, w') \<Longrightarrow> status_of w' = status_of w"
    and lookup_frame: "portLookup P bic w = (r1, w') \<Longrightarrow> status_of w' = status_of w"
    and routing_frame: "portRouting P sb db ccy w = (r2, w') \<Longrightarrow> status_of w' = status_of w"
    and quoting_frame: "portQuoting P sb db m ccy w = (r3, w') \<Longrightarrow> status_of w' = status_of w"
    and compliance_frame: "portCompliance P pay w = (r4, w') \<Longrightarrow> status_of w' = status_of w"
    and settlement_frame:
      "portSettlement P = Some cl \<Longrightarrow> cl pay w = (r0, w') \<Longrightarrow> status_of w' = status_of w"
    and reconciliation_frame:
      "portReconciliation P i sb db m ccy stat w = (r0, w') \<Longrightarrow> status_of w' = status_of w"
    and notification_frame:
      "portNotification P b ch sj bd i stat w = (r0, w') \<Longrightarrow> status_of w' = status_of w"
begin

lemmas frames = bank_frame lookup_frame routing_frame quoting_frame compliance_frame
  reconciliation_frame notification_frame

lemma settle_Execute:
  assumes "Some cl = portSettlement P" and "SettleStep_Execute cl (portRepo P) p w = (r, p', w')"
  shows "(r = None \<longrightarrow> p' = p\<lparr>pStatus := StatusSettled\<rparr> \<and>
            status_of w' = (status_of w)(pID p \<mapsto> StatusSettled)) \<and>
         (r \<noteq> None \<longrightarrow> p' = p \<and> status_of w' = status_of w)"
proof -
  obtain x w1 where c: "cl p w = (x, w1)" by fastforce
  have w1: "status_of w1 = status_of w" by (rule settlement_frame [OF assms(1) [symmetric] c])
  show ?thesis
  proof (cases x)
    case None
    with assms(2) c have s: "set_status (portRepo P) ''update status to SETTLED: '' StatusSettled p w1 = (r, p', w')"
      by (simp add: SettleStep_Execute_def)
    show ?thesis
      using s w1 set_status_okD [of _ _ p w1 p' w'] set_status_err [of _ _ p w1 _ p' w'] by (cases r) auto
  next
    case (Some e)
    with assms(2) c w1 show ?thesis by (auto simp: SettleStep_Execute_def)
  qed
qed

lemmas other_step_defs = ValidateStep_Execute_def LookupStep_Execute_def RouteStep_Execute_def
  QuoteStep_Execute_def ScreenStep_Execute_def ReserveStep_Execute_def CommitStep_Execute_def
  RecordReconciliationStep_Execute_def NotifyStep_Execute_def

text \<open>A step that fails leaves every stored status; one that succeeds leaves the stored status of
  its payment equal to the one in memory, and touches no other payment.\<close>

lemma step_err_status:
  assumes "stp \<in> set (gateway_steps P)" and "Execute stp p w = (Some e, p', w')"
  shows "status_of w' = status_of w"
  using assms
  by (auto simp: gateway_steps_def step_ctors other_step_defs Let_def
      split: option.splits if_splits prod.splits sum.splits
      dest!: set_status_err(2) frames MarkReserved_err UpdateRoute_err
      dest: settle_Execute)

lemma step_ok_status:
  assumes "stp \<in> set (gateway_steps P)" and "Execute stp p w = (None, p', w')"
    and "status_of w (pID p) = Some (pStatus p)"
  shows "status_of w' = (status_of w)(pID p \<mapsto> pStatus p')" "pID p' = pID p"
  using assms
  by (auto simp: gateway_steps_def step_ctors other_step_defs Let_def fun_upd_idem
      split: option.splits if_splits prod.splits sum.splits
      dest!: set_status_okD frames MarkReserved_ok UpdateRoute_ok
      dest: settle_Execute)

lemma forward_status:
  assumes "set sts \<subseteq> set (gateway_steps P)" and "forward sts p w = Some (p', w')"
    and "status_of w (pID p) = Some (pStatus p)"
  shows "status_of w' = (status_of w)(pID p \<mapsto> pStatus p') \<and> pID p' = pID p"
  using assms
proof (induction sts arbitrary: p w)
  case (Cons stp sts)
  then obtain p1 w1 where e: "Execute stp p w = (None, p1, w1)" and f: "forward sts p1 w1 = Some (p', w')"
    by (auto split: prod.splits option.splits)
  have "status_of w1 = (status_of w)(pID p \<mapsto> pStatus p1)" "pID p1 = pID p"
    using step_ok_status [OF _ e Cons.prems(3)] Cons.prems(1) by auto
  moreover from this Cons.IH [OF _ f] Cons.prems(1)
  have "status_of w' = (status_of w1)(pID p \<mapsto> pStatus p')" "pID p' = pID p" by auto
  ultimately show ?case by (auto simp: fun_eq_iff)
qed (auto simp: fun_upd_idem)

text \<open>A compensation writes \<^verbatim>\<open>ABORTED\<close> or changes no status.\<close>

lemma compensate_status:
  assumes "stp \<in> set (gateway_steps P)" and "Compensate stp p w = (r, p', w')"
  shows "p' = p \<and> (status_of w' = status_of w \<or> status_of w' = (status_of w)(pID p \<mapsto> StatusAborted))"
proof -
  have "p' = p" using assms by (rule gateway_compensate_payment)
  moreover have "status_of w' = status_of w \<or> status_of w' = (status_of w)(pID p \<mapsto> StatusAborted)"
    using assms
    by (auto simp: gateway_steps_def step_ctors step_defs no_compensation_def
        split: option.splits prod.splits dest!: abort_status_effect frames)
  ultimately show ?thesis by simp
qed

lemma compensate_all_status:
  assumes "set sts \<subseteq> set (gateway_steps P)" and "compensate_all sts p w = (p', w')"
  shows "p' = p \<and> (status_of w' = status_of w \<or> status_of w' = (status_of w)(pID p \<mapsto> StatusAborted))"
  using assms
proof (induction sts arbitrary: p w)
  case (Cons stp sts)
  obtain r p1 w1 where c: "Compensate stp p w = (r, p1, w1)" by (cases "Compensate stp p w") auto
  with Cons.prems have "compensate_all sts p1 w1 = (p', w')" by simp
  with Cons.IH [of p1 w1] Cons.prems(1) compensate_status [OF _ c] show ?case by (auto simp: fun_eq_iff)
qed simp

lemma compensate_until_error_status:
  assumes "set sts \<subseteq> set (gateway_steps P)" and "compensate_until_error sts p w = (r, p', w')"
  shows "p' = p \<and> (status_of w' = status_of w \<or> status_of w' = (status_of w)(pID p \<mapsto> StatusAborted))"
  using assms
proof (induction sts arbitrary: p w)
  case (Cons stp sts)
  obtain r1 p1 w1 where c: "Compensate stp p w = (r1, p1, w1)" by (cases "Compensate stp p w") auto
  with Cons.prems have "(r1 = None \<and> compensate_until_error sts p1 w1 = (r, p', w')) \<or> (p1, w1) = (p', w')"
    by (cases r1) auto
  with Cons.IH [of p1 w1] Cons.prems(1) compensate_status [OF _ c] show ?case by (auto simp: fun_eq_iff)
qed simp

text \<open>The status after a successful run.\<close>

lemma Run_ok_status:
  assumes "Run (s\<lparr>sagaSteps := gateway_steps P\<rparr>) p w = (None, s', p', w')"
    and "status_of w (pID p) = Some (pStatus p)"
  shows "pStatus p' = (if portSettlement P = None then StatusCommitted else StatusSettled)"
    and "status_of w' = (status_of w)(pID p \<mapsto> pStatus p')"
proof -
  have f: "forward (gateway_steps P) p w = Some (p', w')" using Run_okE(1) [OF assms(1)] by simp
  show "status_of w' = (status_of w)(pID p \<mapsto> pStatus p')"
    using forward_status [OF _ f assms(2)] by simp
  obtain p1 w1 where f7: "forward (take 7 (gateway_steps P)) p w = Some (p1, w1)"
    and r: "forward (drop 7 (gateway_steps P)) p1 w1 = Some (p', w')"
    using f by (rule forward_split)
  have "take 7 (gateway_steps P) = take 6 (gateway_steps P) @ [CommitStep (portRepo P) (portBank P)]"
    by (simp add: gateway_steps_def)
  with f7 obtain p0 w0 where "CommitStep_Execute (portRepo P) (portBank P) p0 w0 = (None, p1, w1)"
    by (auto simp: CommitStep_def elim: forward_lastE)
  then have p1: "pStatus p1 = StatusCommitted"
    by (auto simp: CommitStep_Execute_def split: prod.splits option.splits dest: set_status_ok(1))
  show "pStatus p' = (if portSettlement P = None then StatusCommitted else StatusSettled)"
  proof (cases "portSettlement P")
    case None
    with r p1 show ?thesis
      by (auto simp: gateway_steps_def step_ctors NotifyStep_Execute_def
          RecordReconciliationStep_Execute_def split: prod.splits)
  next
    case (Some cl)
    with r obtain p2 w2 where "SettleStep_Execute cl (portRepo P) p1 w1 = (None, p2, w2)"
      "pStatus p' = pStatus p2"
      by (auto simp: gateway_steps_def step_ctors NotifyStep_Execute_def
          RecordReconciliationStep_Execute_def split: prod.splits option.splits)
    with settle_Execute [OF Some [symmetric] this(1)] Some show ?thesis by simp
  qed
qed

text \<open>The status after a failed run: \<^verbatim>\<open>ABORTED\<close>, or the one the last completed step wrote.\<close>

lemma Run_err_status:
  assumes "Run (s\<lparr>sagaSteps := gateway_steps P\<rparr>) p w = (Some e, s', p', w')"
    and "status_of w (pID p) = Some (pStatus p)"
  shows "status_of w' (pID p) \<in> {Some StatusAborted, Some (pStatus p')}"
    and "i \<noteq> pID p \<Longrightarrow> status_of w' i = status_of w i"
proof -
  from assms(1) obtain k p1 w1 p2 w2 where k: "k < length (gateway_steps P)"
    and f: "forward (take k (gateway_steps P)) p w = Some (p1, w1)"
    and ex: "Execute (gateway_steps P ! k) p1 w1 = (Some e, p2, w2)"
    and c: "compensate_all (rev (take k (gateway_steps P))) p2 w2 = (p', w')"
    by (elim Run_errE) simp
  have s1: "status_of w1 = (status_of w)(pID p \<mapsto> pStatus p1)" "pID p1 = pID p"
    using forward_status [OF _ f assms(2)] by (auto dest: in_set_takeD)
  have s2: "status_of w2 = status_of w1" using nth_mem [OF k] ex by (rule step_err_status)
  have core: "pay_core p2 = pay_core p1" using nth_mem [OF k] ex by (rule gateway_step_core)
  have st: "pStatus p2 = pStatus p1"
    using k ex nth_mem [OF k]
    by (auto simp: gateway_steps_def step_ctors step_defs Let_def
        split: option.splits if_splits prod.splits sum.splits dest!: set_status_err(1))
  have s3: "p' = p2" "status_of w' = status_of w2 \<or> status_of w' = (status_of w2)(pID p2 \<mapsto> StatusAborted)"
    using compensate_all_status [OF _ c] by (auto dest: in_set_takeD)
  show "status_of w' (pID p) \<in> {Some StatusAborted, Some (pStatus p')}"
    "i \<noteq> pID p \<Longrightarrow> status_of w' i = status_of w i"
    using s1 s2 s3 core st by (auto simp: pay_core_def)
qed

end

section \<open>When writes succeed\<close>

locale live_repository = switch_ports +
  fixes live :: "'w \<Rightarrow> bool"
  assumes UpdateStatus_live: "live w \<Longrightarrow> status_of w pid \<noteq> None \<Longrightarrow> \<exists>w'. repoUpdateStatus (portRepo P) pid st w = (None, w')"
    and step_live: "live w \<Longrightarrow> stp \<in> set (gateway_steps P) \<Longrightarrow> Execute stp p w = (r, p', w') \<Longrightarrow> live w'"
    and compensate_live: "live w \<Longrightarrow> stp \<in> set (gateway_steps P) \<Longrightarrow> Compensate stp p w = (r, p', w') \<Longrightarrow> live w'"
begin

lemma forward_live:
  "set sts \<subseteq> set (gateway_steps P) \<Longrightarrow> forward sts p w = Some (p', w') \<Longrightarrow> live w \<Longrightarrow> live w'"
  by (induction sts arbitrary: p w) (auto split: prod.splits option.splits intro: step_live)

lemma compensate_all_live:
  "set sts \<subseteq> set (gateway_steps P) \<Longrightarrow> compensate_all sts p w = (p', w') \<Longrightarrow> live w \<Longrightarrow> live w'"
  by (induction sts arbitrary: p w) (auto split: prod.splits intro: compensate_live)

text \<open>Once validated, a payment whose run fails is stored as \<^verbatim>\<open>ABORTED\<close>: the first step's
  compensation runs last and its write succeeds.\<close>

lemma Run_err_aborts:
  assumes "Run (s\<lparr>sagaSteps := gateway_steps P\<rparr>) p w = (Some e, s', p', w')"
    and "status_of w (pID p) = Some (pStatus p)" and "live w" and "completedSteps s' > 0"
  shows "status_of w' (pID p) = Some StatusAborted"
proof -
  from assms(1) obtain k p1 w1 p2 w2 where k: "k < length (gateway_steps P)"
    and f: "forward (take k (gateway_steps P)) p w = Some (p1, w1)"
    and ex: "Execute (gateway_steps P ! k) p1 w1 = (Some e, p2, w2)"
    and c: "compensate_all (rev (take k (gateway_steps P))) p2 w2 = (p', w')"
    and n: "s' = s\<lparr>sagaSteps := gateway_steps P, completedSteps := int k\<rparr>"
    by (elim Run_errE) simp
  from n assms(4) obtain j where j: "k = Suc j" by (cases k) auto
  let ?rest = "rev (tl (take k (gateway_steps P)))"
  have hd: "take k (gateway_steps P) = ValidateStep (portRepo P) # tl (take k (gateway_steps P))"
    by (simp add: j gateway_steps_def)
  obtain p3 w3 where c3: "compensate_all ?rest p2 w2 = (p3, w3)" by fastforce
  have sub: "set ?rest \<subseteq> set (gateway_steps P)" by (metis hd set_rev set_subset_Cons set_take_subset subset_trans)
  have "compensate_all (?rest @ [ValidateStep (portRepo P)]) p2 w2 = (p', w')"
    using c hd by (metis rev.simps(2))
  with c3 have v: "snd (abort_status (portRepo P) p3 w3) = (p', w')"
    by (auto simp: compensate_all_append ValidateStep_def split: prod.splits)
  have s1: "status_of w1 = (status_of w)(pID p \<mapsto> pStatus p1)" "pID p1 = pID p"
    using forward_status [OF _ f assms(2)] by (auto dest: in_set_takeD)
  have s2: "status_of w2 = status_of w1" "pID p2 = pID p1"
    using step_err_status [OF nth_mem [OF k] ex] gateway_step_core [OF nth_mem [OF k] ex]
    by (auto simp: pay_core_def)
  have s3: "p3 = p2" "status_of w3 (pID p) \<noteq> None"
    using compensate_all_status [OF sub c3] s1 s2 by auto
  have "live w1" using forward_live [OF _ f assms(3)] by (auto dest: in_set_takeD)
  then have "live w2" using nth_mem [OF k] ex by (rule step_live)
  then have "live w3" using compensate_all_live [OF sub c3] by simp
  then obtain w4 where "repoUpdateStatus (portRepo P) (pID p) StatusAborted w3 = (None, w4)"
    using UpdateStatus_live s3(2) by blast
  with v s1 s2 s3 show ?thesis by (auto simp: abort_status_def dest: UpdateStatus_ok)
qed

end

section \<open>Steps and their count\<close>

lemma step_status_nth:
  assumes "i \<le> 7" "i = 7 \<longrightarrow> portSettlement P \<noteq> None" "Execute (gateway_steps P ! i) q v = (None, q', v')"
  shows "pStatus q' = (step_statuses @ [StatusSettled]) ! i"
proof -
  have "i = 0 \<or> i = 1 \<or> i = 2 \<or> i = 3 \<or> i = 4 \<or> i = 5 \<or> i = 6 \<or> i = 7" using assms(1) by linarith
  then show ?thesis
    using assms(2,3)
    by (elim disjE)
      (auto simp: gateway_steps_def step_ctors step_defs step_statuses_def Let_def
        split: prod.splits sum.splits option.splits if_splits dest: set_status_ok_status)
qed

lemma statusToStepCount_nth:
  assumes "i \<le> 7"
  shows "statusToStepCount ((step_statuses @ [StatusSettled]) ! i) = int (Suc i)"
proof -
  have "i = 0 \<or> i = 1 \<or> i = 2 \<or> i = 3 \<or> i = 4 \<or> i = 5 \<or> i = 6 \<or> i = 7" using assms by linarith
  then show ?thesis by (elim disjE) (simp_all add: step_statuses_def statusToStepCount_def go_string)
qed

lemma statusToStepCount_forward:
  assumes "k \<le> 8" "k = 8 \<longrightarrow> portSettlement P \<noteq> None"
    and "forward (take k (gateway_steps P)) p w = Some (p', w')" and "pStatus p = StatusReceived"
  shows "statusToStepCount (pStatus p') = int k"
proof (cases k)
  case 0
  with assms(3,4) show ?thesis by (simp add: statusToStepCount_def)
next
  case (Suc i)
  have i: "i < length (gateway_steps P)" "i \<le> 7"
    using assms(1,2) Suc by (auto simp: gateway_steps_length)
  from assms(3) obtain q v where "Execute (gateway_steps P ! i) q v = (None, p', w')"
    unfolding Suc take_Suc_conv_app_nth [OF i(1)] by (rule forward_lastE)
  with step_status_nth [of i P q v p' w'] i assms(2) Suc statusToStepCount_nth [OF i(2)] show ?thesis by simp
qed

end
