(* ===== verification/RepoInvariant.thy ===== *)
theory RepoInvariant
  imports PaymentRepo SagaStatus
begin

text \<open>
  The invariant of the payment database and the contract of the repository. \<open>pg_wf\<close> says that
  payment ids and (source BIC, end-to-end id) pairs are unique, that outbox ids increase and are
  below the sequence, that every event names a stored payment, and that the transaction view shows
  the status of every payment. Every repository operation keeps it, whatever statements fail. The
  locale \<^verbatim>\<open>payment_repository\<close> is what the saga relies on; it is interpreted on the Postgres
  repository.
\<close>

section \<open>What every database call keeps\<close>

definition pg_evolves :: "pg \<Rightarrow> pg \<Rightarrow> bool" where
  "pg_evolves s s' \<longleftrightarrow> outbox_seq s \<le> outbox_seq s' \<and> (no_faults s \<longrightarrow> no_faults s') \<and>
     pg_clock s' = pg_clock s \<and> bank_tbl s' = bank_tbl s"

definition evolving :: "(pg, 'a) call \<Rightarrow> bool" where
  "evolving m \<longleftrightarrow> (\<forall>s r s'. m s = (r, s') \<longrightarrow> pg_evolves s s')"

lemma pg_evolves_refl [simp]: "pg_evolves s s"
  by (simp add: pg_evolves_def)

lemma pg_evolves_trans [trans]: "pg_evolves a b \<Longrightarrow> pg_evolves b c \<Longrightarrow> pg_evolves a c"
  by (auto simp: pg_evolves_def)

lemma evolvingI: "(\<And>s r s'. m s = (r, s') \<Longrightarrow> pg_evolves s s') \<Longrightarrow> evolving m"
  by (simp add: evolving_def)

lemma evolvingD: "evolving m \<Longrightarrow> m s = (r, s') \<Longrightarrow> pg_evolves s s'"
  by (auto simp: evolving_def)

lemma evolving_okE [intro!]: "evolving (okE a)"
  by (rule evolvingI) simp

lemma evolving_stmt [intro!]:
  assumes "\<And>s r s'. m s = (r, s') \<Longrightarrow> pg_evolves s s'"
  shows "evolving (stmt m)"
proof (rule evolvingI)
  fix s r s' assume "stmt m s = (r, s')"
  then show "pg_evolves s s'"
  proof (rule stmt_cases)
    fix e fs assume "pg_faults s = Some e # fs" "s' = s\<lparr>pg_faults := fs\<rparr>"
    then show ?thesis by (simp add: pg_evolves_def no_faults_def)
  next
    fix fs assume m: "m (s\<lparr>pg_faults := fs\<rparr>) = (r, s')"
      and f: "no_faults s \<Longrightarrow> no_faults (s\<lparr>pg_faults := fs\<rparr>)"
    have "pg_evolves s (s\<lparr>pg_faults := fs\<rparr>)" using f by (auto simp: pg_evolves_def)
    also note assms [OF m]
    finally show ?thesis .
  qed
qed

lemma evolving_bindE [intro!]:
  assumes "evolving m" and "\<And>a. evolving (f a)"
  shows "evolving (bindE m f)"
proof (rule evolvingI)
  fix s r s' assume b: "bindE m f s = (r, s')"
  obtain x s1 where m: "m s = (x, s1)" by fastforce
  then have e: "pg_evolves s s1" by (rule evolvingD [OF assms(1)])
  show "pg_evolves s s'"
  proof (cases x)
    case Inl
    with b m e show ?thesis by (auto simp: bindE_def)
  next
    case (Inr a)
    with b m have "f a s1 = (r, s')" by (simp add: bindE_def)
    with e show ?thesis using evolvingD [OF assms(2)] pg_evolves_trans by blast
  qed
qed

lemma pg_evolves_rollback: "pg_evolves s0 s \<Longrightarrow> pg_evolves s0 (tx_rollback s0 s)"
  by (auto simp: pg_evolves_def tx_rollback_def no_faults_def)

lemma evolving_with_tx [intro!]:
  assumes "evolving m"
  shows "evolving (with_tx m)"
proof (rule evolvingI)
  fix s r s' assume t: "with_tx m s = (r, s')"
  have ok: "evolving (stmt (okE ()))" by (rule evolving_stmt) simp
  obtain x1 s1 where b: "stmt (okE ()) s = (x1, s1)" by fastforce
  obtain x2 s2 where c: "m s1 = (x2, s2)" by fastforce
  obtain x3 s3 where d: "stmt (okE ()) s2 = (x3, s3)" by fastforce
  note e1 = evolvingD [OF ok b] and e2 = evolvingD [OF assms c]
    and e3 = pg_evolves_trans [OF evolvingD [OF assms c] evolvingD [OF ok d]]
  from t b c d have "s' = s1 \<or> s' = tx_rollback s1 s2 \<or> s' = tx_rollback s1 s3 \<or> s' = s3"
    by (auto simp: with_tx_def split: sum.splits)
  then have "pg_evolves s1 s'" using e2 e3 pg_evolves_rollback by auto
  with e1 show "pg_evolves s s'" by (rule pg_evolves_trans)
qed

lemma evolves_update: "pg_evolves s (update_payment pid f s)"
  by (simp add: pg_evolves_def no_faults_def)

lemma evolves_sync_outbox:
  "sync_outbox_to_transaction_event_view ob s = (r, s') \<Longrightarrow> pg_evolves s s'"
  by (auto simp: sync_outbox_to_transaction_event_view_def Let_def pg_evolves_def no_faults_def
      split: if_splits)

lemma evolving_queries:
  "evolving (CreatePayment a)" "evolving (GetPaymentByID pid)" "evolving (GetPaymentByEndToEndID e)"
  "evolving (GetPaymentEventFields pid)" "evolving (MarkPaymentReserved st t1 t2 pid)"
  "evolving (UpdatePaymentRoute fee ms st pid)" "evolving (UpdatePaymentStatusReturning st pid)"
  "evolving (FindExpiredReservations_q t)"
  unfolding CreatePayment_def GetPaymentByID_def GetPaymentByEndToEndID_def
    GetPaymentEventFields_def MarkPaymentReserved_def UpdatePaymentRoute_def
    UpdatePaymentStatusReturning_def FindExpiredReservations_q_def
  by (rule evolving_stmt, auto simp: evolves_update Let_def pg_evolves_def no_faults_def
      split: option.splits if_splits)+

lemma evolving_outbox_Write: "evolving (outbox_Write topic key ev)"
  unfolding outbox_Write_def Let_def
proof (rule evolving_stmt, goal_cases)
  case (1 s r s')
  let ?s1 = "s\<lparr>outbox_tbl := outbox_tbl s @ [pending_row s topic key ev], outbox_seq := Suc (outbox_seq s)\<rparr>"
  obtain x s2 where c: "sync_outbox_to_transaction_event_view (pending_row s topic key ev) ?s1 = (x, s2)"
    by fastforce
  have "pg_evolves s ?s1" by (simp add: pg_evolves_def no_faults_def)
  also note evolves_sync_outbox [OF c]
  finally have "pg_evolves s s2" .
  moreover have "pg_evolves s (s\<lparr>outbox_seq := Suc (outbox_seq s)\<rparr>)"
    by (simp add: pg_evolves_def no_faults_def)
  moreover from 1 c have "s' = s2 \<or> s' = s\<lparr>outbox_seq := Suc (outbox_seq s)\<rparr>"
    by (cases x) (simp_all add: pending_row_def)
  ultimately show ?case by auto
qed

lemma evolving_writeEventTx: "evolving (writeEventTx pid a b)"
  unfolding writeEventTx_def by (intro evolving_bindE evolving_queries evolving_outbox_Write)

lemma repo_evolves:
  "repo_UpdateStatus pid st s = (r, s') \<Longrightarrow> pg_evolves s s'"
  "repo_MarkReserved pid ttl s = (r, s') \<Longrightarrow> pg_evolves s s'"
  "repo_UpdateRoute pid fee ms s = (r, s') \<Longrightarrow> pg_evolves s s'"
  "repo_CreateWithEvent p s = (r, p', s') \<Longrightarrow> pg_evolves s s'"
proof -
  have a: "evolving (with_tx (bindE (UpdatePaymentStatusReturning st pid)
      (\<lambda>fromStatus. writeEventTx pid fromStatus st)))"
    by (intro evolving_with_tx evolving_bindE evolving_queries evolving_writeEventTx)
  have b: "evolving (with_tx (bindE (MarkPaymentReserved StatusReserved t t' pid)
      (\<lambda>_. writeEventTx pid StatusValidated StatusReserved)))" for t t'
    by (intro evolving_with_tx evolving_bindE evolving_queries evolving_writeEventTx)
  have c: "evolving (create_tx p)" unfolding create_tx_def
    by (intro evolving_with_tx evolving_bindE evolving_queries evolving_outbox_Write evolving_okE)
  show "repo_UpdateStatus pid st s = (r, s') \<Longrightarrow> pg_evolves s s'"
    by (auto simp: repo_UpdateStatus_def dest: evolvingD [OF a] split: prod.splits)
  show "repo_MarkReserved pid ttl s = (r, s') \<Longrightarrow> pg_evolves s s'"
    by (auto simp: repo_MarkReserved_def Let_def dest: evolvingD [OF b] split: prod.splits)
  show "repo_UpdateRoute pid fee ms s = (r, s') \<Longrightarrow> pg_evolves s s'"
    by (auto simp: repo_UpdateRoute_def dest: evolvingD [OF evolving_queries(6)] split: prod.splits)
  show "repo_CreateWithEvent p s = (r, p', s') \<Longrightarrow> pg_evolves s s'"
    by (auto simp: repo_CreateWithEvent_def Let_def dest: evolvingD [OF c] split: prod.splits)
qed

section \<open>The invariant\<close>

definition mirrored :: "txview_row list \<Rightarrow> payment_row \<Rightarrow> bool" where
  "mirrored vs r \<longleftrightarrow>
     (case row_by tvPaymentID (rID r) vs of None \<Rightarrow> False | Some v \<Rightarrow> tvStatus v = rStatus r)"

definition keys_wf :: "payment_row list \<Rightarrow> bool" where
  "keys_wf ps \<longleftrightarrow> distinct (map rID ps) \<and> distinct (map (\<lambda>r. (rSourceBic r, rEndToEndID r)) ps)"

definition outbox_wf :: "payment_row list \<Rightarrow> nat \<Rightarrow> outbox_row list \<Rightarrow> bool" where
  "outbox_wf ps n obs \<longleftrightarrow> sorted_wrt (<) (map oID obs) \<and>
     list_all (\<lambda>ob. oID ob < n \<and> evPaymentID (oPayload ob) \<in> rID ` set ps) obs"

definition pg_wf :: "pg \<Rightarrow> bool" where
  "pg_wf s \<longleftrightarrow> keys_wf (payment_tbl s) \<and> outbox_wf (payment_tbl s) (outbox_seq s) (outbox_tbl s) \<and>
     list_all (mirrored (txview_tbl s)) (payment_tbl s)"

lemma pg_wf_tables:
  assumes "pg_wf s" and "tables s' = tables s" and "outbox_seq s \<le> outbox_seq s'"
  shows "pg_wf s'"
  using assms by (auto simp: pg_wf_def tables_def outbox_wf_def list_all_iff)

lemma upd_where_in: "x \<in> set (upd_where Q f rs) \<longleftrightarrow> (\<exists>r\<in>set rs. x = (if Q r then f r else r))"
  by (auto simp: upd_where_def)

lemma mirrored_sync_same: "mirrored (txview_tbl (sync_payment_to_transaction_view r s)) r"
  by (simp add: mirrored_def row_by_sync new_view_def refresh_view_def split: option.splits)

lemma mirrored_sync_other:
  "rID x \<noteq> rID r \<Longrightarrow>
   mirrored (txview_tbl (sync_payment_to_transaction_view r s)) x = mirrored (txview_tbl s) x"
  by (simp add: mirrored_def row_by_sync)

lemma mirrored_update:
  assumes d: "distinct (map rID (payment_tbl s))" and m: "list_all (mirrored (txview_tbl s)) (payment_tbl s)"
    and f: "\<And>r. rID (f r) = rID r"
  shows "list_all (mirrored (txview_tbl (update_payment pid f s)))
           (upd_where (\<lambda>r. rID r = pid) f (payment_tbl s))"
proof (cases "row_by rID pid (payment_tbl s)")
  case None
  then show ?thesis using m by (simp add: txview_update_payment row_by_None_upd)
next
  case (Some r)
  then have r: "r \<in> set (payment_tbl s)" "rID r = pid" by (auto dest: row_by_SomeD)
  have "mirrored (txview_tbl (sync_payment_to_transaction_view (f r) s)) (if rID x = pid then f x else x)"
    if x: "x \<in> set (payment_tbl s)" for x
  proof (cases "rID x = pid")
    case True
    with x r d have "x = r" by (auto simp: distinct_map inj_on_def)
    with True show ?thesis by (simp add: mirrored_sync_same)
  next
    case False
    with x m r f show ?thesis by (auto simp: mirrored_sync_other list_all_iff)
  qed
  with Some show ?thesis by (auto simp: txview_update_payment list_all_iff upd_where_in)
qed

lemma keys_wf_upd:
  assumes "keys_wf ps" and "\<And>r. rID (f r) = rID r" "\<And>r. rSourceBic (f r) = rSourceBic r"
    "\<And>r. rEndToEndID (f r) = rEndToEndID r"
  shows "keys_wf (upd_where Q f ps)"
  using assms by (simp add: keys_wf_def map_upd_where)

lemma outbox_wf_upd:
  assumes "outbox_wf ps n obs" and "\<And>r. rID (f r) = rID r"
  shows "outbox_wf (upd_where Q f ps) n obs"
proof -
  have "set (map rID (upd_where Q f ps)) = set (map rID ps)" using assms(2) by (simp add: map_upd_where)
  then show ?thesis using assms(1) by (simp add: outbox_wf_def)
qed

lemma outbox_wf_snoc:
  assumes "outbox_wf ps n obs" and "oID ob = n" and "evPaymentID (oPayload ob) \<in> rID ` set ps"
  shows "outbox_wf ps (Suc n) (obs @ [ob])"
  using assms by (auto simp: outbox_wf_def sorted_wrt_append list_all_iff)

text \<open>The change shared by \<^verbatim>\<open>UpdateStatus\<close> and \<^verbatim>\<open>MarkReserved\<close>.\<close>

lemma pg_wf_transition:
  assumes "pg_wf s" and "row_by rID pid (payment_tbl s) = Some r"
    and "payment_tbl s' = upd_where (\<lambda>r. rID r = pid) f (payment_tbl s)"
    and "outbox_tbl s' = outbox_tbl s @ [pending_row s topic key (transition_event (event_fields r) a b)]"
    and "outbox_seq s' = Suc (outbox_seq s)"
    and "txview_tbl s' = txview_tbl (update_payment pid f s)"
    and "\<And>r. rID (f r) = rID r" "\<And>r. rSourceBic (f r) = rSourceBic r"
    "\<And>r. rEndToEndID (f r) = rEndToEndID r"
  shows "pg_wf s'"
proof -
  have ids: "rID ` set (upd_where Q f ps) = rID ` set ps" for Q ps
    using map_upd_where [of rID f Q ps, OF assms(7)] by (metis set_map)
  have "rID r \<in> rID ` set (payment_tbl s)" using assms(2) by (auto dest: row_by_SomeD)
  then have "outbox_wf (payment_tbl s') (outbox_seq s') (outbox_tbl s')"
    using assms(1) unfolding assms(3-5)
    by (intro outbox_wf_snoc outbox_wf_upd [OF _ assms(7)])
      (simp_all add: pg_wf_def pending_row_def transition_event_def event_fields_def ids)
  moreover have "list_all (mirrored (txview_tbl s')) (payment_tbl s')"
    using assms(1) unfolding assms(3,6) by (intro mirrored_update assms(7)) (simp_all add: pg_wf_def keys_wf_def)
  ultimately show ?thesis
    using assms(1,3) keys_wf_upd [OF _ assms(7-9)] by (simp add: pg_wf_def)
qed

lemma pg_wf_UpdateStatus:
  assumes "pg_wf s" and u: "repo_UpdateStatus pid st s = (e, s')"
  shows "pg_wf s'"
proof (cases e)
  case None
  with u show ?thesis
    by (auto elim!: repo_UpdateStatus_okE intro: pg_wf_transition [OF assms(1)])
next
  case (Some x)
  with u repo_UpdateStatus_err repo_evolves(1) [OF u] assms(1) show ?thesis
    by (auto intro: pg_wf_tables simp: pg_evolves_def)
qed

lemma pg_wf_MarkReserved:
  assumes "pg_wf s" and u: "repo_MarkReserved pid ttl s = (e, s')"
  shows "pg_wf s'"
proof (cases e)
  case None
  with u show ?thesis
    by (auto elim!: repo_MarkReserved_okE intro: pg_wf_transition [OF assms(1)])
next
  case (Some x)
  with u repo_MarkReserved_err repo_evolves(2) [OF u] assms(1) show ?thesis
    by (auto intro: pg_wf_tables simp: pg_evolves_def)
qed

lemma pg_wf_UpdateRoute:
  assumes "pg_wf s" and u: "repo_UpdateRoute pid fee ms s = (e, s')"
  shows "pg_wf s'"
proof (cases e)
  case None
  let ?f = "\<lambda>r. r\<lparr>rRouteFee := Some fee, rRouteEstimatedMs := Some (ucast ms),
                    rStatus := StatusRouted, rUpdatedAt := pg_now s\<rparr>"
  from None u obtain fs where s': "s' = update_payment pid ?f (s\<lparr>pg_faults := fs\<rparr>)"
    by (auto elim: repo_UpdateRoute_okE)
  have m: "list_all (mirrored (txview_tbl (update_payment pid ?f s)))
      (upd_where (\<lambda>r. rID r = pid) ?f (payment_tbl s))"
    by (rule mirrored_update) (use assms(1) in \<open>simp_all add: pg_wf_def keys_wf_def\<close>)
  have "keys_wf (upd_where (\<lambda>r. rID r = pid) ?f (payment_tbl s))"
    by (rule keys_wf_upd) (use assms(1) in \<open>simp_all add: pg_wf_def\<close>)
  moreover have "outbox_wf (upd_where (\<lambda>r. rID r = pid) ?f (payment_tbl s)) (outbox_seq s) (outbox_tbl s)"
    by (rule outbox_wf_upd) (use assms(1) in \<open>simp_all add: pg_wf_def\<close>)
  ultimately show ?thesis using m by (simp add: pg_wf_def s')
next
  case (Some x)
  with u repo_UpdateRoute_err repo_evolves(3) [OF u] assms(1) show ?thesis
    by (auto intro: pg_wf_tables simp: pg_evolves_def)
qed

lemma pg_wf_insert:
  assumes w: "pg_wf s" and n: "rID row \<notin> rID ` set (payment_tbl s)"
    "(rSourceBic row, rEndToEndID row) \<notin> (\<lambda>r. (rSourceBic r, rEndToEndID r)) ` set (payment_tbl s)"
    and s': "payment_tbl s' = payment_tbl s @ [row]"
    "txview_tbl s' = txview_tbl (sync_payment_to_transaction_view row s)"
    "outbox_tbl s' = outbox_tbl s @ [pending_row s topic key (received_event p row)]"
    "outbox_seq s' = Suc (outbox_seq s)" "rID row = pID p"
  shows "pg_wf s'"
proof -
  have "keys_wf (payment_tbl s')" using w n by (auto simp: pg_wf_def keys_wf_def s')
  moreover have "list_all (mirrored (txview_tbl s')) (payment_tbl s')"
    using w n(1) by (auto simp: pg_wf_def s' list_all_iff mirrored_sync_same mirrored_sync_other image_iff)
  moreover have "outbox_wf (payment_tbl s @ [row]) (outbox_seq s) (outbox_tbl s)"
    using w by (auto simp: pg_wf_def outbox_wf_def list_all_iff)
  then have "outbox_wf (payment_tbl s') (outbox_seq s') (outbox_tbl s')"
    unfolding s' by (rule outbox_wf_snoc) (simp_all add: pending_row_def received_event_def s'(5))
  ultimately show ?thesis by (simp add: pg_wf_def)
qed

lemma pg_wf_CreateWithEvent:
  assumes "pg_wf s" and u: "repo_CreateWithEvent p s = (e, p', s')"
  shows "pg_wf s'"
proof (cases e)
  case None
  with u obtain row where t: "create_tx p s = (Inr row, s')"
    by (auto simp: repo_CreateWithEvent_def Let_def err_of_def split: prod.splits sum.splits)
  then show ?thesis
  proof (rule create_tx_okE)
    assume a: "insert_row (pg_now s) (create_params p) = Some row"
      and c: "\<not> payment_conflict s (create_params p)"
      and s': "payment_tbl s' = payment_tbl s @ [row]"
        "outbox_tbl s' = outbox_tbl s @
          [pending_row s ''payment.received'' (pEndToEndID p) (received_event p row)]"
        "outbox_seq s' = Suc (outbox_seq s)"
        "txview_tbl s' = txview_tbl (sync_payment_to_transaction_view row s)"
    note k = insert_row_fields [OF a]
    show ?thesis
      by (rule pg_wf_insert [OF assms(1) _ _ s'(1,4,2,3)])
        (use c k in \<open>auto simp: payment_conflict_def list_ex_iff create_params_def\<close>)
  qed
next
  case (Some x)
  with u repo_CreateWithEvent_err repo_evolves(4) [OF u] assms(1) show ?thesis
    by (auto intro: pg_wf_tables simp: pg_evolves_def)
qed

section \<open>The repository contract\<close>

definition pg_status :: "pg \<Rightarrow> string \<Rightarrow> PaymentStatus option" where
  "pg_status s pid = map_option rStatus (row_by rID pid (payment_tbl s))"

lemma pg_status_tables: "tables s' = tables s \<Longrightarrow> pg_status s' = pg_status s"
  by (auto simp: pg_status_def tables_def fun_eq_iff)

lemma pg_status_upd:
  assumes "payment_tbl s' = upd_where (\<lambda>r. rID r = pid) f (payment_tbl s)"
    and "\<And>r. rID (f r) = rID r" and "\<And>r. rStatus (f r) = st"
  shows "pg_status s' = (if pg_status s pid = None then pg_status s else (pg_status s)(pid \<mapsto> st))"
proof
  fix i
  have "row_by rID i (payment_tbl s') =
      map_option (\<lambda>r. if rID r = pid then f r else r) (row_by rID i (payment_tbl s))"
    unfolding assms(1) by (rule row_by_upd) (rule assms(2))
  then show "pg_status s' i =
      (if pg_status s pid = None then pg_status s else (pg_status s)(pid \<mapsto> st)) i"
    by (cases "row_by rID i (payment_tbl s)") (auto simp: pg_status_def assms(3) dest: row_by_SomeD)
qed

lemma pg_status_transition:
  assumes "row_by rID pid (payment_tbl s) = Some r"
    and "payment_tbl s' = upd_where (\<lambda>r. rID r = pid) f (payment_tbl s)"
    and "\<And>r. rID (f r) = rID r" and "\<And>r. rStatus (f r) = st"
  shows "pg_status s pid \<noteq> None \<and> pg_status s' = (pg_status s)(pid \<mapsto> st)"
  using pg_status_upd [OF assms(2-4)] assms(1) by (simp add: pg_status_def)

lemma pg_repo_contract: "payment_repository pg_repo pg_status"
proof (unfold_locales, goal_cases)
  case (1 pid st w w')
  then have "repo_UpdateStatus pid st w = (None, w')" by (simp add: pg_repo_def)
  then show ?case by (rule repo_UpdateStatus_okE) (rule pg_status_transition, assumption, assumption, simp_all)
next
  case (2 pid st w e w')
  then show ?case by (auto simp: pg_repo_def intro: pg_status_tables repo_errs)
next
  case (3 pid ttl w w')
  then have "repo_MarkReserved pid ttl w = (None, w')" by (simp add: pg_repo_def)
  then show ?case by (rule repo_MarkReserved_okE) (rule pg_status_transition, assumption, assumption, simp_all)
next
  case (4 pid ttl w e w')
  then show ?case by (auto simp: pg_repo_def intro: pg_status_tables repo_errs)
next
  case (5 pid fee ms w w')
  then have "repo_UpdateRoute pid fee ms w = (None, w')" by (simp add: pg_repo_def)
  then show ?case by (rule repo_UpdateRoute_okE)
      (rule pg_status_upd [where f = "\<lambda>r. r\<lparr>rRouteFee := Some fee,
         rRouteEstimatedMs := Some (ucast ms), rStatus := StatusRouted, rUpdatedAt := pg_now w\<rparr>"],
       simp_all)
next
  case (6 pid fee ms w e w')
  then show ?case by (auto simp: pg_repo_def intro: pg_status_tables repo_errs)
qed

interpretation pgr: payment_repository pg_repo pg_status
  by (rule pg_repo_contract)

section \<open>When a write succeeds\<close>

lemma with_tx_ok:
  assumes "no_faults s" and "evolving body"
    and "\<And>fs. no_faults (s\<lparr>pg_faults := fs\<rparr>) \<Longrightarrow> \<exists>a s2. body (s\<lparr>pg_faults := fs\<rparr>) = (Inr a, s2)"
  shows "\<exists>a s'. with_tx body s = (Inr a, s')"
proof -
  let ?s1 = "s\<lparr>pg_faults := tl (pg_faults s)\<rparr>"
  have n1: "no_faults ?s1" using assms(1) by simp
  with assms(3) obtain a s2 where b: "body ?s1 = (Inr a, s2)" by blast
  with evolvingD [OF assms(2) b] n1 have "no_faults s2" by (simp add: pg_evolves_def)
  then show ?thesis using assms(1) b by (auto simp: with_tx_def no_faults_stmt)
qed

lemma outbox_Write_ok:
  assumes "no_faults s" and "row_by tvPaymentID (evPaymentID ev) (txview_tbl s) \<noteq> None"
  shows "\<exists>s'. outbox_Write topic key ev s = (Inr (), s')"
proof -
  obtain v where "row_by tvPaymentID (evPaymentID ev) (txview_tbl s) = Some v" using assms(2) by auto
  then show ?thesis
    using assms(1)
    by (simp add: outbox_Write_def no_faults_stmt Let_def sync_outbox_to_transaction_event_view_def)
qed

lemma writeEventTx_ok:
  assumes "no_faults s" and "row_by rID pid (payment_tbl s) = Some r"
    and "row_by tvPaymentID pid (txview_tbl s) \<noteq> None"
  shows "\<exists>s'. writeEventTx pid a b s = (Inr (), s')"
proof -
  let ?s1 = "s\<lparr>pg_faults := tl (pg_faults s)\<rparr>"
  have "GetPaymentEventFields pid s = (Inr (event_fields r), ?s1)"
    using assms by (simp add: GetPaymentEventFields_def no_faults_stmt)
  moreover have "rID r = pid" using assms(2) by (auto dest: row_by_SomeD)
  then have "\<exists>s'. outbox_Write (''payment.'' @ ToLower b) (gfEndToEndID (event_fields r))
      (transition_event (event_fields r) a b) ?s1 = (Inr (), s')"
    using assms by (intro outbox_Write_ok) (simp_all add: transition_event_def event_fields_def)
  ultimately show ?thesis unfolding writeEventTx_def by (simp add: bindE_def)
qed

lemma pg_wf_row:
  assumes "pg_wf s" and "row_by rID pid (payment_tbl s) = Some r"
  obtains v where "row_by tvPaymentID pid (txview_tbl s) = Some v" and "tvStatus v = rStatus r"
  using assms row_by_SomeD [OF assms(2)]
  by (auto simp: pg_wf_def list_all_iff mirrored_def split: option.splits)

lemma update_then_event_ok:
  assumes "no_faults s" "pg_wf s" and "row_by rID pid (payment_tbl s) = Some r"
    and "\<And>r. rID (f r) = rID r"
  shows "\<exists>s'. writeEventTx pid a b (update_payment pid f s) = (Inr (), s')"
proof (rule writeEventTx_ok)
  show "no_faults (update_payment pid f s)" using assms(1) by (simp add: no_faults_def)
  show "row_by rID pid (payment_tbl (update_payment pid f s)) = Some (f r)"
    using assms(3) row_by_SomeD [OF assms(3)] by (simp add: row_by_upd [of rID, OF assms(4)])
  show "row_by tvPaymentID pid (txview_tbl (update_payment pid f s)) \<noteq> None"
    using assms(3) row_by_SomeD [OF assms(3)] assms(4)
    by (simp add: txview_update_payment row_by_sync)
qed

lemma pg_wf_faults [simp]: "pg_wf (s\<lparr>pg_faults := fs\<rparr>) = pg_wf s"
  by (simp add: pg_wf_def)

lemma repo_UpdateStatus_live:
  assumes "no_faults s" "pg_wf s" and "pg_status s pid \<noteq> None"
  shows "\<exists>s'. repo_UpdateStatus pid st s = (None, s')"
proof -
  from assms(3) obtain r where r: "row_by rID pid (payment_tbl s) = Some r" by (auto simp: pg_status_def)
  let ?m = "bindE (UpdatePaymentStatusReturning st pid) (\<lambda>frm. writeEventTx pid frm st)"
  have "\<exists>a s'. with_tx ?m s = (Inr a, s')"
  proof (rule with_tx_ok [OF assms(1)])
    show "evolving ?m" by (intro evolving_bindE evolving_queries evolving_writeEventTx)
    fix fs assume n: "no_faults (s\<lparr>pg_faults := fs\<rparr>)"
    let ?s = "s\<lparr>pg_faults := tl fs\<rparr>" and ?f = "\<lambda>r. r\<lparr>rStatus := st, rUpdatedAt := pg_now s\<rparr>"
    have "no_faults ?s" using no_faults_tl [OF n] by simp
    moreover have "UpdatePaymentStatusReturning st pid (s\<lparr>pg_faults := fs\<rparr>) = (Inr st, update_payment pid ?f ?s)"
      using n r by (simp add: UpdatePaymentStatusReturning_def no_faults_stmt Let_def)
    moreover have "\<exists>s'. writeEventTx pid st st (update_payment pid ?f ?s) = (Inr (), s')"
      using calculation assms(2) r by (intro update_then_event_ok) simp_all
    ultimately show "\<exists>a s2. ?m (s\<lparr>pg_faults := fs\<rparr>) = (Inr a, s2)" by (auto simp: bindE_def)
  qed
  then show ?thesis by (auto simp: repo_UpdateStatus_def)
qed

lemma repo_MarkReserved_live:
  assumes "no_faults s" "pg_wf s" and "pg_status s pid \<noteq> None"
  shows "\<exists>s'. repo_MarkReserved pid ttl s = (None, s')"
proof -
  from assms(3) obtain r where r: "row_by rID pid (payment_tbl s) = Some r" by (auto simp: pg_status_def)
  let ?m = "bindE (MarkPaymentReserved StatusReserved (pg_clock s) (pg_clock s + ttl) pid)
      (\<lambda>_. writeEventTx pid StatusValidated StatusReserved)"
  have "\<exists>a s'. with_tx ?m s = (Inr a, s')"
  proof (rule with_tx_ok [OF assms(1)])
    show "evolving ?m" by (intro evolving_bindE evolving_queries evolving_writeEventTx)
    fix fs assume n: "no_faults (s\<lparr>pg_faults := fs\<rparr>)"
    let ?s = "s\<lparr>pg_faults := tl fs\<rparr>"
    let ?f = "\<lambda>r. r\<lparr>rStatus := StatusReserved, rReservedAt := Some (pg_timestamp (pg_clock s)),
        rExpiresAt := Some (pg_timestamp (pg_clock s + ttl)), rUpdatedAt := pg_now s\<rparr>"
    have "no_faults ?s" using no_faults_tl [OF n] by simp
    moreover have "MarkPaymentReserved StatusReserved (pg_clock s) (pg_clock s + ttl) pid
        (s\<lparr>pg_faults := fs\<rparr>) = (Inr (), update_payment pid ?f ?s)"
      using n by (simp add: MarkPaymentReserved_def no_faults_stmt)
    moreover have "\<exists>s'. writeEventTx pid StatusValidated StatusReserved (update_payment pid ?f ?s) = (Inr (), s')"
      using calculation assms(2) r by (intro update_then_event_ok) simp_all
    ultimately show "\<exists>a s2. ?m (s\<lparr>pg_faults := fs\<rparr>) = (Inr a, s2)" by (auto simp: bindE_def)
  qed
  then show ?thesis by (auto simp: repo_MarkReserved_def Let_def)
qed

lemma repo_UpdateRoute_live: "no_faults s \<Longrightarrow> \<exists>s'. repo_UpdateRoute pid fee ms s = (None, s')"
  by (simp add: repo_UpdateRoute_def UpdatePaymentRoute_def no_faults_stmt)

end
