(* ===== verification/Wire.thy ===== *)
theory Wire
  imports Domain
begin

text \<open>
  What the services exchange over HTTP, and the parts of \<^verbatim>\<open>encoding/json\<close> and
  \<^verbatim>\<open>net/http\<close> the handlers use. A JSON body is the tree its text denotes, or the error
  the decoder reports for a text that is no JSON or could not be read; decoding a tree into a Go
  struct matches keys without regard to case, lets the last occurrence win, leaves a field alone
  on \<^verbatim>\<open>null\<close>, and reports a value of the wrong type after going through the whole object.
  An XML body is the Go value it encodes, or the decoder's error.
\<close>

section \<open>JSON trees\<close>

datatype json =
    JNull
  | JBool bool
  | JInt int
  | JFrac string
  | JStr string
  | JArr "json list"
  | JObj "(string \<times> json) list"

type_synonym json_body = "goerror + json"

fun json_kind :: "json \<Rightarrow> string" where
  "json_kind JNull = ''null''"
| "json_kind (JBool _) = ''bool''"
| "json_kind (JInt _) = ''number''"
| "json_kind (JFrac _) = ''number''"
| "json_kind (JStr _) = ''string''"
| "json_kind (JArr _) = ''array''"
| "json_kind (JObj _) = ''object''"

definition type_error :: "string \<Rightarrow> string \<Rightarrow> string \<Rightarrow> goerror" where
  "type_error kind place typ =
     ErrMsg (''json: cannot unmarshal '' @ kind @ '' into Go '' @ place @ '' of type '' @ typ)"

text \<open>Assigning one member to a field: the new field value, or an error that is remembered.\<close>

definition set_string :: "string \<Rightarrow> json \<Rightarrow> string \<Rightarrow> string \<times> goerror option" where
  "set_string place v old =
     (case v of JStr s \<Rightarrow> (s, None) | JNull \<Rightarrow> (old, None)
      | _ \<Rightarrow> (old, Some (type_error (json_kind v) (''struct field '' @ place) ''string'')))"

definition set_int64 :: "string \<Rightarrow> json \<Rightarrow> int64 \<Rightarrow> int64 \<times> goerror option" where
  "set_int64 place v old =
     (case v of
        JInt i \<Rightarrow>
          if fits64 i then (word_of_int i, None)
          else (old, Some (type_error (''number '' @ fmt_int i) (''struct field '' @ place) ''int64''))
      | JFrac t \<Rightarrow> (old, Some (type_error (''number '' @ t) (''struct field '' @ place) ''int64''))
      | JNull \<Rightarrow> (old, None)
      | _ \<Rightarrow> (old, Some (type_error (json_kind v) (''struct field '' @ place) ''int64'')))"

text \<open>Decoding an object: \<open>setter\<close> assigns the member of one (lower-case) key; the first error is kept.\<close>

fun decode_members :: "(string \<Rightarrow> json \<Rightarrow> 's \<Rightarrow> 's \<times> goerror option) \<Rightarrow>
    (string \<times> json) list \<Rightarrow> 's \<Rightarrow> goerror option \<Rightarrow> goerror + 's" where
  "decode_members setter [] acc err = (case err of None \<Rightarrow> Inr acc | Some e \<Rightarrow> Inl e)"
| "decode_members setter ((k, v) # ms) acc err =
     (case setter (ToLower k) v acc of
        (acc', e) \<Rightarrow> decode_members setter ms acc' (case err of None \<Rightarrow> e | Some _ \<Rightarrow> err))"

definition Decode :: "string \<Rightarrow> (string \<Rightarrow> json \<Rightarrow> 's \<Rightarrow> 's \<times> goerror option) \<Rightarrow> 's \<Rightarrow>
    json_body \<Rightarrow> goerror + 's" where
  "Decode typ setter zero body =
     (case body of
        Inl e \<Rightarrow> Inl e
      | Inr (JObj ms) \<Rightarrow> decode_members setter ms zero None
      | Inr JNull \<Rightarrow> Inr zero
      | Inr v \<Rightarrow> Inl (type_error (json_kind v) ''value'' typ))"

text \<open>The text of a tree: what \<^verbatim>\<open>json.Marshal\<close> writes, with its escapes for quotes,
  backslashes, control characters and the HTML characters.\<close>

definition hex_digit :: "nat \<Rightarrow> char" where
  "hex_digit n = (if n < 10 then char_of (n + 48) else char_of (n + 87))"

definition json_escape :: "char \<Rightarrow> string" where
  "json_escape c =
     (let n = (of_char c :: nat) in
      if n = 34 \<or> n = 92 then [char_of (92 :: nat), c]
      else if n = 10 then [char_of (92 :: nat), CHR ''n'']
      else if n = 13 then [char_of (92 :: nat), CHR ''r'']
      else if n = 9 then [char_of (92 :: nat), CHR ''t'']
      else if n = 8 then [char_of (92 :: nat), CHR ''b'']
      else if n = 12 then [char_of (92 :: nat), CHR ''f'']
      else if n < 32 \<or> n = 38 \<or> n = 60 \<or> n = 62
        then char_of (92 :: nat) # ''u00'' @ [hex_digit (n div 16), hex_digit (n mod 16)]
      else [c])"

definition json_string :: "string \<Rightarrow> string" where
  "json_string s = [char_of (34 :: nat)] @ concat (map json_escape s) @ [char_of (34 :: nat)]"

fun join :: "string \<Rightarrow> string list \<Rightarrow> string" where
  "join sep [] = ''''"
| "join sep [x] = x"
| "join sep (x # y # xs) = x @ sep @ join sep (y # xs)"

fun json_text :: "json \<Rightarrow> string" where
  "json_text JNull = ''null''"
| "json_text (JBool b) = (if b then ''true'' else ''false'')"
| "json_text (JInt i) = fmt_int i"
| "json_text (JFrac t) = t"
| "json_text (JStr s) = json_string s"
| "json_text (JArr xs) = ''['' @ join '','' (map json_text xs) @ '']''"
| "json_text (JObj ms) =
     ''{'' @ join '','' (map (\<lambda>(k, v). json_string k @ '':'' @ json_text v) ms) @ ''}''"

section \<open>HTTP\<close>

text \<open>A request the switch sends, the answer it reads, and the HTTP stack underneath: whether a
  URL makes a request, and delivery of the request to whoever listens there. An answer carries its
  text and what the JSON decoder makes of that text.\<close>

record wire_request =
  wqMethod :: string
  wqURL :: string
  wqHeader :: "(string \<times> string) list"
  wqJson :: json

record wire_response =
  wrCode :: int
  wrText :: string
  wrJson :: json_body

record 'w http_stack =
  newRequest :: "string \<Rightarrow> goerror option"
  httpDo :: "wire_request \<Rightarrow> ('w, wire_response) call"

text \<open>The body a handler writes.\<close>

datatype 'x http_body =
    JsonBody json
  | TextBody string
  | XmlBody 'x

record 'x http_response =
  StatusCode :: int
  respBody :: "'x http_body"

definition writeJSON :: "int \<Rightarrow> json \<Rightarrow> 'x http_response" where
  "writeJSON code v = \<lparr>StatusCode = code, respBody = JsonBody v\<rparr>"

definition http_Error :: "string \<Rightarrow> int \<Rightarrow> 'x http_response" where
  "http_Error msg code = \<lparr>StatusCode = code, respBody = TextBody msg\<rparr>"

definition writeXML :: "int \<Rightarrow> 'x \<Rightarrow> 'x http_response" where
  "writeXML code doc = \<lparr>StatusCode = code, respBody = XmlBody doc\<rparr>"

definition jerror :: "string \<Rightarrow> json" where
  "jerror msg = JObj [(''error'', JStr msg)]"

text \<open>A member tagged \<^verbatim>\<open>omitempty\<close> is left out when it has its zero value.\<close>

definition omitempty :: "string \<Rightarrow> string \<Rightarrow> (string \<times> json) list" where
  "omitempty key s = (if s = '''' then [] else [(key, JStr s)])"

definition omitzero :: "string \<Rightarrow> int64 \<Rightarrow> (string \<times> json) list" where
  "omitzero key i = (if i = 0 then [] else [(key, JInt (sint i))])"

section \<open>Lemmas\<close>

lemma set_int64_sint [simp]: "set_int64 place (JInt (sint a)) old = (a, None)"
  by (simp add: set_int64_def sint_fits64)

lemma set_string_JStr [simp]: "set_string place (JStr s) old = (s, None)"
  by (simp add: set_string_def)

lemma decode_members_error:
  "decode_members setter ms acc (Some e) = Inl e"
  by (induction ms arbitrary: acc) (auto split: prod.splits)

end
