(* ===== verification/BankService.thy ===== *)
theory BankService
  imports Wire
begin

text \<open>
  The bank service of \<^verbatim>\<open>internal/banksvc\<close>: accounts with balances and reservations
  (\<^verbatim>\<open>bank.go\<close>) and the four money endpoints with the account administration
  (\<^verbatim>\<open>handler.go\<close>). The key of an account is its number, so the account map is a list of
  accounts looked up by number. The lemmas give each operation's effect on the balances, that
  balances stay within bounds, and how release and reversal undo reserve and credit.
\<close>

section \<open>bank.go\<close>

record Account =
  acBIC :: string
  acNumber :: string
  acName :: string
  acCurrency :: string
  acBalance :: int64
  acCallbackURL :: string

record BankReservation =
  brAccount :: string
  brAmount :: int64
  brCreated :: time

record BankState =
  accounts :: "Account list"
  reservations :: "string \<rightharpoonup> BankReservation"

definition NewBankState :: BankState where
  "NewBankState = \<lparr>accounts = [], reservations = Map.empty\<rparr>"

definition account_of :: "BankState \<Rightarrow> string \<Rightarrow> Account option" where
  "account_of b number = row_by acNumber number (accounts b)"

definition set_account_balance :: "string \<Rightarrow> int64 \<Rightarrow> BankState \<Rightarrow> BankState" where
  "set_account_balance number v b =
     b\<lparr>accounts := upd_where (\<lambda>a. acNumber a = number) (\<lambda>a. a\<lparr>acBalance := v\<rparr>) (accounts b)\<rparr>"

definition account_not_found :: "string \<Rightarrow> goerror" where
  "account_not_found number = ErrMsg (''account '' @ number @ '' not found'')"

definition insufficient :: "string \<Rightarrow> int64 \<Rightarrow> int64 \<Rightarrow> string \<Rightarrow> goerror" where
  "insufficient number bal amount tail =
     ErrMsg (''insufficient balance in '' @ number @ '': have '' @ fmt_d bal @ '', need '' @
             fmt_d amount @ tail)"

definition AddAccount :: "Account \<Rightarrow> BankState \<Rightarrow> goerror option \<times> BankState" where
  "AddAccount a b =
     (case account_of b (acNumber a) of
        Some _ \<Rightarrow> (Some (ErrMsg (''account '' @ acNumber a @ '' already exists'')), b)
      | None \<Rightarrow> (None, b\<lparr>accounts := accounts b @ [a]\<rparr>))"

definition GetAccount :: "string \<Rightarrow> BankState \<Rightarrow> goerror + Account" where
  "GetAccount number b =
     (case account_of b number of None \<Rightarrow> Inl (account_not_found number) | Some a \<Rightarrow> Inr a)"

text \<open>Go iterates over a map in no fixed order: any arrangement of the accounts may be listed.\<close>

definition ListAccounts :: "BankState \<Rightarrow> Account list \<Rightarrow> bool" where
  "ListAccounts b out \<longleftrightarrow>
     distinct (map acNumber out) \<and> length out = length (accounts b) \<and>
     list_all (\<lambda>a. account_of b (acNumber a) = Some a) out"

definition SetBalance :: "string \<Rightarrow> int64 \<Rightarrow> BankState \<Rightarrow> goerror option \<times> BankState" where
  "SetBalance number amount b =
     (case account_of b number of
        None \<Rightarrow> (Some (account_not_found number), b)
      | Some a \<Rightarrow> (None, set_account_balance number amount b))"

definition Reserve :: "time \<Rightarrow> string \<Rightarrow> int64 \<Rightarrow> BankState \<Rightarrow> goerror option \<times> BankState" where
  "Reserve now account amount b =
     (case account_of b account of
        None \<Rightarrow> (Some (account_not_found account), b)
      | Some a \<Rightarrow>
          if slt (acBalance a) amount then (Some (insufficient account (acBalance a) amount ''''), b)
          else (None, (set_account_balance account (acBalance a - amount) b)
                 \<lparr>reservations := (reservations b)
                   (account \<mapsto> \<lparr>brAccount = account, brAmount = amount, brCreated = now\<rparr>)\<rparr>))"

definition ReleaseReservation :: "string \<Rightarrow> int64 \<Rightarrow> BankState \<Rightarrow> goerror option \<times> BankState" where
  "ReleaseReservation account amount b =
     (case account_of b account of
        None \<Rightarrow> (Some (account_not_found account), b)
      | Some a \<Rightarrow> (None, (set_account_balance account (acBalance a + amount) b)
                 \<lparr>reservations := (reservations b)(account := None)\<rparr>))"

definition Credit :: "string \<Rightarrow> int64 \<Rightarrow> BankState \<Rightarrow> goerror option \<times> BankState" where
  "Credit account amount b =
     (case account_of b account of
        None \<Rightarrow> (Some (account_not_found account), b)
      | Some a \<Rightarrow> (None, (set_account_balance account (acBalance a + amount) b)
                 \<lparr>reservations := (reservations b)(account := None)\<rparr>))"

definition ReverseCredit :: "string \<Rightarrow> int64 \<Rightarrow> BankState \<Rightarrow> goerror option \<times> BankState" where
  "ReverseCredit account amount b =
     (case account_of b account of
        None \<Rightarrow> (Some (account_not_found account), b)
      | Some a \<Rightarrow>
          if slt (acBalance a) amount
          then (Some (insufficient account (acBalance a) amount '' to reverse''), b)
          else (None, set_account_balance account (acBalance a - amount) b))"

definition seed_account :: "string \<Rightarrow> string \<Rightarrow> string \<Rightarrow> string \<Rightarrow> Account" where
  "seed_account bic number name ccy =
     \<lparr>acBIC = bic, acNumber = number, acName = name, acCurrency = ccy, acBalance = 1000000,
      acCallbackURL = ''http://bank-service:8081/payments/callback''\<rparr>"

definition default_accounts :: "Account list" where
  "default_accounts =
     [seed_account ''BANKUS33'' ''ACC-A'' ''First National Bank'' ''USD'',
      seed_account ''BANKUS33'' ''US123456789'' ''First National Bank'' ''USD'',
      seed_account ''BANKDEFF'' ''ACC-B'' ''Deutsche Exchange Bank'' ''EUR'',
      seed_account ''BANKDEFF'' ''DE89370400440532013000'' ''Deutsche Exchange Bank'' ''EUR'',
      seed_account ''BANKGB2L'' ''ACC-C'' ''London Clearing Bank'' ''GBP'',
      seed_account ''BANKGB2L'' ''GB29NWBK60161331926819'' ''London Clearing Bank'' ''GBP'']"

definition SeedDefaults :: "BankState \<Rightarrow> BankState" where
  "SeedDefaults b = fold (\<lambda>a b. snd (AddAccount a b)) default_accounts b"

section \<open>handler.go\<close>

record apiRequest =
  apAccount :: string
  apAmount :: int64

definition apiRequest_zero :: apiRequest where
  "apiRequest_zero = \<lparr>apAccount = '''', apAmount = 0\<rparr>"

definition apiRequest_set :: "string \<Rightarrow> json \<Rightarrow> apiRequest \<Rightarrow> apiRequest \<times> goerror option" where
  "apiRequest_set k v r =
     (if k = ''account'' then
        (case set_string ''apiRequest.account'' v (apAccount r) of (s, e) \<Rightarrow> (r\<lparr>apAccount := s\<rparr>, e))
      else if k = ''amount'' then
        (case set_int64 ''apiRequest.amount'' v (apAmount r) of (i, e) \<Rightarrow> (r\<lparr>apAmount := i\<rparr>, e))
      else (r, None))"

record apiResponse =
  apStatus :: string
  apMessage :: string
  apBalance :: int64

definition apiResponse_json :: "apiResponse \<Rightarrow> json" where
  "apiResponse_json r =
     JObj ([(''status'', JStr (apStatus r))] @ omitempty ''message'' (apMessage r) @
           omitzero ''balance'' (apBalance r))"

definition api_ok :: json where
  "api_ok = apiResponse_json \<lparr>apStatus = ''ok'', apMessage = '''', apBalance = 0\<rparr>"

definition api_error :: "goerror \<Rightarrow> json" where
  "api_error e = apiResponse_json \<lparr>apStatus = ''error'', apMessage = Error e, apBalance = 0\<rparr>"

text \<open>The four money handlers have the same shape: decode, call, answer.\<close>

definition handle_money ::
    "(string \<Rightarrow> int64 \<Rightarrow> BankState \<Rightarrow> goerror option \<times> BankState) \<Rightarrow>
     json_body \<Rightarrow> BankState \<Rightarrow> 'x http_response \<times> BankState" where
  "handle_money f body b =
     (case Decode ''banksvc.apiRequest'' apiRequest_set apiRequest_zero body of
        Inl e \<Rightarrow> (writeJSON 400 (api_error e), b)
      | Inr req \<Rightarrow>
          (case f (apAccount req) (apAmount req) b of
             (Some e, b') \<Rightarrow> (writeJSON 400 (api_error e), b')
           | (None, b') \<Rightarrow> (writeJSON 200 api_ok, b')))"

definition handleReserve :: "time \<Rightarrow> json_body \<Rightarrow> BankState \<Rightarrow> 'x http_response \<times> BankState" where
  "handleReserve now = handle_money (Reserve now)"

definition handleRelease :: "json_body \<Rightarrow> BankState \<Rightarrow> 'x http_response \<times> BankState" where
  "handleRelease = handle_money ReleaseReservation"

definition handleCredit :: "json_body \<Rightarrow> BankState \<Rightarrow> 'x http_response \<times> BankState" where
  "handleCredit = handle_money Credit"

definition handleReverseCredit :: "json_body \<Rightarrow> BankState \<Rightarrow> 'x http_response \<times> BankState" where
  "handleReverseCredit = handle_money ReverseCredit"

text \<open>The money routes of \<^verbatim>\<open>Handler\<close> in \<^verbatim>\<open>server.go\<close>.\<close>

definition money_route :: "time \<Rightarrow> string \<Rightarrow> (json_body \<Rightarrow> BankState \<Rightarrow> 'x http_response \<times> BankState) option" where
  "money_route now path =
     (if path = ''/reserve'' then Some (handleReserve now)
      else if path = ''/release'' then Some handleRelease
      else if path = ''/credit'' then Some handleCredit
      else if path = ''/reverse-credit'' then Some handleReverseCredit
      else None)"

definition account_json :: "Account \<Rightarrow> json" where
  "account_json a =
     JObj ([(''bic'', JStr (acBIC a)), (''number'', JStr (acNumber a)), (''name'', JStr (acName a)),
            (''currency'', JStr (acCurrency a)), (''balance'', JInt (sint (acBalance a)))] @
           omitempty ''callbackURL'' (acCallbackURL a))"

definition account_zero :: Account where
  "account_zero = \<lparr>acBIC = '''', acNumber = '''', acName = '''', acCurrency = '''', acBalance = 0,
     acCallbackURL = ''''\<rparr>"

definition account_set :: "string \<Rightarrow> json \<Rightarrow> Account \<Rightarrow> Account \<times> goerror option" where
  "account_set k v a =
     (if k = ''bic'' then
        (case set_string ''Account.bic'' v (acBIC a) of (s, e) \<Rightarrow> (a\<lparr>acBIC := s\<rparr>, e))
      else if k = ''number'' then
        (case set_string ''Account.number'' v (acNumber a) of (s, e) \<Rightarrow> (a\<lparr>acNumber := s\<rparr>, e))
      else if k = ''name'' then
        (case set_string ''Account.name'' v (acName a) of (s, e) \<Rightarrow> (a\<lparr>acName := s\<rparr>, e))
      else if k = ''currency'' then
        (case set_string ''Account.currency'' v (acCurrency a) of (s, e) \<Rightarrow> (a\<lparr>acCurrency := s\<rparr>, e))
      else if k = ''balance'' then
        (case set_int64 ''Account.balance'' v (acBalance a) of (i, e) \<Rightarrow> (a\<lparr>acBalance := i\<rparr>, e))
      else if k = ''callbackurl'' then
        (case set_string ''Account.callbackURL'' v (acCallbackURL a) of
           (s, e) \<Rightarrow> (a\<lparr>acCallbackURL := s\<rparr>, e))
      else (a, None))"

definition handleGetAccount :: "string \<Rightarrow> BankState \<Rightarrow> 'x http_response" where
  "handleGetAccount number b =
     (if number = '''' then writeJSON 400 (api_error (ErrMsg ''account number required''))
      else case GetAccount number b of
             Inl e \<Rightarrow> writeJSON 404 (api_error e)
           | Inr a \<Rightarrow> writeJSON 200 (account_json a))"

definition handleCreateAccount :: "json_body \<Rightarrow> BankState \<Rightarrow> 'x http_response \<times> BankState" where
  "handleCreateAccount body b =
     (case Decode ''banksvc.Account'' account_set account_zero body of
        Inl e \<Rightarrow> (writeJSON 400 (api_error e), b)
      | Inr a \<Rightarrow>
          (case AddAccount a b of
             (Some e, b') \<Rightarrow> (writeJSON 400 (api_error e), b')
           | (None, b') \<Rightarrow> (writeJSON 201 (account_json a), b')))"

definition balance_set :: "string \<Rightarrow> json \<Rightarrow> int64 \<Rightarrow> int64 \<times> goerror option" where
  "balance_set k v i = (if k = ''balance'' then set_int64 ''.balance'' v i else (i, None))"

definition handleSetBalance :: "string \<Rightarrow> json_body \<Rightarrow> BankState \<Rightarrow> 'x http_response \<times> BankState" where
  "handleSetBalance number body b =
     (if number = '''' then (writeJSON 400 (api_error (ErrMsg ''account number required'')), b)
      else case Decode ''struct { Balance int64 }'' balance_set 0 body of
             Inl e \<Rightarrow> (writeJSON 400 (api_error e), b)
           | Inr v \<Rightarrow>
               (case SetBalance number v b of
                  (Some e, b') \<Rightarrow> (writeJSON 400 (api_error e), b')
                | (None, b') \<Rightarrow>
                    (writeJSON 200 (case GetAccount number b' of Inr a \<Rightarrow> account_json a | Inl _ \<Rightarrow> JNull), b')))"

section \<open>Balances\<close>

definition balance_of :: "BankState \<Rightarrow> string \<Rightarrow> int option" where
  "balance_of b number = map_option (\<lambda>a. sint (acBalance a)) (account_of b number)"

definition total_balance :: "BankState \<Rightarrow> int" where
  "total_balance b = sum_list (map (\<lambda>a. sint (acBalance a)) (accounts b))"

definition bank_wf :: "BankState \<Rightarrow> bool" where
  "bank_wf b \<longleftrightarrow> distinct (map acNumber (accounts b)) \<and> list_all (\<lambda>a. 0 \<le> sint (acBalance a)) (accounts b)"

lemma account_of_set_balance:
  "account_of (set_account_balance n v b) m =
     (if m = n then map_option (\<lambda>a. a\<lparr>acBalance := v\<rparr>) (account_of b m) else account_of b m)"
proof -
  have "row_by acNumber m (upd_where (\<lambda>a. acNumber a = n) (\<lambda>a. a\<lparr>acBalance := v\<rparr>) (accounts b)) =
        map_option (\<lambda>a. if acNumber a = n then a\<lparr>acBalance := v\<rparr> else a) (row_by acNumber m (accounts b))"
    by (rule row_by_upd) simp
  then show ?thesis
    by (cases "row_by acNumber m (accounts b)")
      (auto simp: account_of_def set_account_balance_def dest: row_by_SomeD)
qed

lemma balance_of_set_balance:
  assumes "account_of b n = Some a"
  shows "balance_of (set_account_balance n v b) = (balance_of b)(n \<mapsto> sint v)"
  using assms by (auto simp: fun_eq_iff balance_of_def account_of_set_balance)

lemma account_of_reservations [simp]: "account_of (b\<lparr>reservations := rs\<rparr>) = account_of b"
  by (simp add: account_of_def fun_eq_iff)

lemma balance_of_reservations [simp]: "balance_of (b\<lparr>reservations := rs\<rparr>) = balance_of b"
  by (simp add: balance_of_def fun_eq_iff)

lemma total_balance_reservations [simp]: "total_balance (b\<lparr>reservations := rs\<rparr>) = total_balance b"
  by (simp add: total_balance_def)

lemma bank_wf_reservations [simp]: "bank_wf (b\<lparr>reservations := rs\<rparr>) = bank_wf b"
  by (simp add: bank_wf_def)

lemma bank_wf_nonneg: "bank_wf b \<Longrightarrow> account_of b n = Some a \<Longrightarrow> 0 \<le> sint (acBalance a)"
  by (auto simp: bank_wf_def account_of_def list_all_iff dest: row_by_SomeD)

lemma bank_wf_set_balance:
  assumes "bank_wf b" and "0 \<le> sint v"
  shows "bank_wf (set_account_balance n v b)"
proof -
  let ?up = "upd_where (\<lambda>a. acNumber a = n) (\<lambda>a. a\<lparr>acBalance := v\<rparr>) (accounts b)"
  have "map acNumber ?up = map acNumber (accounts b)" by (rule map_upd_where) simp
  moreover have "list_all (\<lambda>a. 0 \<le> sint (acBalance a)) ?up"
    using assms by (auto simp: bank_wf_def list_all_iff upd_where_def)
  ultimately show ?thesis
    using assms(1) by (simp add: bank_wf_def set_account_balance_def)
qed

lemma sum_list_upd:
  assumes "distinct (map key rs)" and "row_by key k rs = Some r"
  shows "sum_list (map g (upd_where (\<lambda>x. key x = k) f rs)) = sum_list (map g rs) - g r + (g (f r) :: int)"
  using assms
proof (induction rs)
  case (Cons x rs)
  show ?case
  proof (cases "key x = k")
    case True
    with Cons.prems(1) have "k \<notin> key ` set rs" by auto
    then have "upd_where (\<lambda>x. key x = k) f rs = rs" by (auto simp: upd_where_def intro!: map_idI)
    with True Cons.prems(2) show ?thesis by (simp add: upd_where_def row_by_def)
  next
    case False
    with Cons show ?thesis by (simp add: upd_where_def row_by_def)
  qed
qed simp

lemma total_balance_set:
  assumes "bank_wf b" and "account_of b n = Some a"
  shows "total_balance (set_account_balance n v b) = total_balance b - sint (acBalance a) + sint v"
  using sum_list_upd [of acNumber "accounts b" n a "\<lambda>a. sint (acBalance a)" "\<lambda>a. a\<lparr>acBalance := v\<rparr>"] assms
  by (simp add: bank_wf_def account_of_def total_balance_def set_account_balance_def)

lemma sint_sub_le:
  assumes "\<not> slt a m" and "0 \<le> sint m"
  shows "sint (a - m) = sint a - sint m"
  using assms sint_fits64 [of a] by (intro sint_sub64) (auto simp: slt_def fits64_def)

lemma sint_add_headroom:
  assumes "0 \<le> sint (a :: int64)" "0 \<le> sint m" "sint a + sint m < 2 ^ 63"
  shows "sint (a + m) = sint a + sint m"
  by (rule sint_add64) (use assms in \<open>simp add: fits64_def\<close>)

section \<open>What each operation does\<close>

lemma Reserve_ok:
  assumes "bank_wf b" "0 \<le> sint m" and "Reserve now n m b = (None, b')"
  obtains v where "balance_of b n = Some v" "sint m \<le> v" "balance_of b' = (balance_of b)(n \<mapsto> v - sint m)"
    "bank_wf b'" "total_balance b' = total_balance b - sint m"
proof -
  from assms(3) obtain a where a: "account_of b n = Some a" "\<not> slt (acBalance a) m"
    and b': "balance_of b' = balance_of (set_account_balance n (acBalance a - m) b)"
      "bank_wf b' = bank_wf (set_account_balance n (acBalance a - m) b)"
      "total_balance b' = total_balance (set_account_balance n (acBalance a - m) b)"
    by (auto simp: Reserve_def split: option.splits if_splits)
  have s: "sint (acBalance a - m) = sint (acBalance a) - sint m" by (rule sint_sub_le [OF a(2) assms(2)])
  have "bank_wf b'" unfolding b'(2) using a s by (intro bank_wf_set_balance assms(1)) (simp add: slt_def)
  then show thesis
    using a s by (intro that [of "sint (acBalance a)"])
      (simp_all add: balance_of_def b' balance_of_set_balance [OF a(1)] total_balance_set [OF assms(1) a(1)]
        slt_def fun_eq_iff)
qed

lemma ReverseCredit_ok:
  assumes "bank_wf b" "0 \<le> sint m" and "ReverseCredit n m b = (None, b')"
  obtains v where "balance_of b n = Some v" "sint m \<le> v" "balance_of b' = (balance_of b)(n \<mapsto> v - sint m)"
    "bank_wf b'" "total_balance b' = total_balance b - sint m"
proof -
  from assms(3) obtain a where a: "account_of b n = Some a" "\<not> slt (acBalance a) m"
    and b': "b' = set_account_balance n (acBalance a - m) b"
    by (auto simp: ReverseCredit_def split: option.splits if_splits)
  have s: "sint (acBalance a - m) = sint (acBalance a) - sint m" by (rule sint_sub_le [OF a(2) assms(2)])
  have "bank_wf b'" unfolding b' using a s by (intro bank_wf_set_balance assms(1)) (simp add: slt_def)
  then show thesis
    using a s by (intro that [of "sint (acBalance a)"])
      (simp_all add: balance_of_def b' balance_of_set_balance [OF a(1)] total_balance_set [OF assms(1) a(1)]
        slt_def fun_eq_iff)
qed

lemma add_ok:
  assumes "bank_wf b" "0 \<le> sint m" and "account_of b n = Some a" "sint (acBalance a) + sint m < 2 ^ 63"
    and "b' = (set_account_balance n (acBalance a + m) b)\<lparr>reservations := rs\<rparr>"
  shows "balance_of b' = (balance_of b)(n \<mapsto> sint (acBalance a) + sint m)" "bank_wf b'"
    "total_balance b' = total_balance b + sint m"
proof -
  have s: "sint (acBalance a + m) = sint (acBalance a) + sint m"
    using bank_wf_nonneg [OF assms(1,3)] assms(2,4) by (intro sint_add_headroom)
  show "balance_of b' = (balance_of b)(n \<mapsto> sint (acBalance a) + sint m)"
    "total_balance b' = total_balance b + sint m"
    by (simp_all add: assms(5) balance_of_set_balance [OF assms(3)] total_balance_set [OF assms(1,3)] s)
  show "bank_wf b'"
    using bank_wf_nonneg [OF assms(1,3)] assms(2)
    by (simp add: assms(5)) (intro bank_wf_set_balance assms(1), simp add: s)
qed

lemma Release_ok:
  assumes "bank_wf b" "0 \<le> sint m" and "balance_of b n = Some v" "v + sint m < 2 ^ 63"
  obtains b' where "ReleaseReservation n m b = (None, b')"
    "balance_of b' = (balance_of b)(n \<mapsto> v + sint m)" "bank_wf b'"
    "total_balance b' = total_balance b + sint m"
proof -
  from assms(3) obtain a where a: "account_of b n = Some a" "v = sint (acBalance a)"
    by (auto simp: balance_of_def)
  have h: "sint (acBalance a) + sint m < 2 ^ 63" using assms(4) a(2) by simp
  have "ReleaseReservation n m b = (None, (set_account_balance n (acBalance a + m) b)
      \<lparr>reservations := (reservations b)(n := None)\<rparr>)" using a(1) by (simp add: ReleaseReservation_def)
  from that [OF this] add_ok [OF assms(1,2) a(1) h refl] a(2) show thesis by simp
qed

lemma Credit_ok:
  assumes "bank_wf b" "0 \<le> sint m" and "balance_of b n = Some v" "v + sint m < 2 ^ 63"
  obtains b' where "Credit n m b = (None, b')"
    "balance_of b' = (balance_of b)(n \<mapsto> v + sint m)" "bank_wf b'"
    "total_balance b' = total_balance b + sint m"
proof -
  from assms(3) obtain a where a: "account_of b n = Some a" "v = sint (acBalance a)"
    by (auto simp: balance_of_def)
  have h: "sint (acBalance a) + sint m < 2 ^ 63" using assms(4) a(2) by simp
  have "Credit n m b = (None, (set_account_balance n (acBalance a + m) b)
      \<lparr>reservations := (reservations b)(n := None)\<rparr>)" using a(1) by (simp add: Credit_def)
  from that [OF this] add_ok [OF assms(1,2) a(1) h refl] a(2) show thesis by simp
qed

lemma ReverseCredit_enough:
  assumes "balance_of b n = Some v" "sint m \<le> v"
  shows "\<exists>b'. ReverseCredit n m b = (None, b')"
  using assms by (auto simp: balance_of_def ReverseCredit_def slt_def)

text \<open>A refused operation changes nothing.\<close>

lemma bank_refused:
  "Reserve now n m b = (Some e, b') \<Longrightarrow> b' = b"
  "ReleaseReservation n m b = (Some e, b') \<Longrightarrow> b' = b \<and> balance_of b n = None"
  "Credit n m b = (Some e, b') \<Longrightarrow> b' = b \<and> balance_of b n = None"
  "ReverseCredit n m b = (Some e, b') \<Longrightarrow> b' = b"
  by (auto simp: Reserve_def ReleaseReservation_def Credit_def ReverseCredit_def balance_of_def
      split: option.splits if_splits)

lemma Credit_exists: "Credit n m b = (None, b') \<Longrightarrow> balance_of b n \<noteq> None"
  by (auto simp: Credit_def balance_of_def split: option.splits)

lemma bank_wf_seed: "bank_wf (SeedDefaults NewBankState)"
  by (simp add: SeedDefaults_def NewBankState_def default_accounts_def AddAccount_def account_of_def
      seed_account_def bank_wf_def row_by_def)

lemma bank_wf_AddAccount:
  assumes "bank_wf b" "0 \<le> sint (acBalance a)" "AddAccount a b = (r, b')"
  shows "bank_wf b'"
  using assms
  by (auto simp: AddAccount_def account_of_def bank_wf_def row_by_None_iff split: option.splits)

section \<open>Totals\<close>

lemma total_balance_sum:
  assumes "bank_wf b"
  shows "finite (dom (balance_of b))" "total_balance b = (\<Sum>n\<in>dom (balance_of b). the (balance_of b n))"
proof -
  have d: "distinct (map acNumber (accounts b))" using assms by (simp add: bank_wf_def)
  have "balance_of b n = None \<longleftrightarrow> n \<notin> acNumber ` set (accounts b)" for n
    by (simp add: balance_of_def account_of_def row_by_None_iff)
  then have dom: "dom (balance_of b) = acNumber ` set (accounts b)" by (auto simp: dom_def)
  then show "finite (dom (balance_of b))" by simp
  have v: "the (balance_of b (acNumber a)) = sint (acBalance a)" if "a \<in> set (accounts b)" for a
  proof -
    have "row_by acNumber (acNumber a) (accounts b) \<noteq> None" using that by (auto simp: row_by_None_iff)
    then obtain x where x: "row_by acNumber (acNumber a) (accounts b) = Some x" by auto
    with that d row_by_SomeD [OF x] have "x = a" by (auto simp: distinct_map inj_on_def)
    with x show ?thesis by (simp add: balance_of_def account_of_def)
  qed
  have "(\<Sum>n\<in>acNumber ` set (accounts b). the (balance_of b n)) = (\<Sum>a\<in>set (accounts b). the (balance_of b (acNumber a)))"
    using d by (simp add: sum.reindex distinct_map)
  also have "\<dots> = (\<Sum>a\<in>set (accounts b). sint (acBalance a))" by (rule sum.cong) (simp_all add: v)
  also have "\<dots> = total_balance b"
    using d by (simp add: total_balance_def sum_list_distinct_conv_sum_set distinct_map)
  finally show "total_balance b = (\<Sum>n\<in>dom (balance_of b). the (balance_of b n))" by (simp add: dom)
qed

lemma sum_transfer:
  assumes "finite A" "s \<in> A" "d \<in> A" and "f s = Some u" and "(f(s \<mapsto> u - m)) d = Some v"
  shows "(\<Sum>n\<in>A. the ((f(s \<mapsto> u - m, d \<mapsto> v + m)) n)) = (\<Sum>n\<in>A. the (f n) :: int)"
proof -
  have "the ((f(s \<mapsto> u - m, d \<mapsto> v + m)) n) = the (f n) + ((if n = d then m else 0) - (if n = s then m else 0))" for n
    using assms(4,5) by auto
  then have "(\<Sum>n\<in>A. the ((f(s \<mapsto> u - m, d \<mapsto> v + m)) n)) =
      (\<Sum>n\<in>A. the (f n)) + ((\<Sum>n\<in>A. if n = d then m else 0) - (\<Sum>n\<in>A. if n = s then m else 0))"
    by (simp add: sum.distrib sum_subtractf)
  with assms(1-3) show ?thesis by simp
qed

end
