(* ===== verification/BankClient.thy ===== *)
theory BankClient
  imports BankService Postgres
begin

text \<open>
  The HTTP client of the banks, \<^verbatim>\<open>internal/bankclient\<close>: the configuration of a bank read
  from the database and the call of one of its four money endpoints. The HTTP stack is a
  parameter. The locale \<^verbatim>\<open>bank_ledger\<close> is what the saga relies on of a bank client:
  what each operation does to the balance of an account while calls get through (\<open>ready\<close>) to a
  bank that is configured (\<open>reach\<close>).
\<close>

section \<open>config.go, dbprovider.go\<close>

record BankAPIConfig =
  cfBaseURL :: string
  cfAPIKey :: string
  cfEnabled :: bool
  cfLookupURL :: string
  cfPaymentURL :: string
  cfStatusCheckURL :: string

definition disabled_config :: BankAPIConfig where
  "disabled_config = \<lparr>cfBaseURL = '''', cfAPIKey = '''', cfEnabled = False, cfLookupURL = '''',
     cfPaymentURL = '''', cfStatusCheckURL = ''''\<rparr>"

definition coalesce :: "string option \<Rightarrow> string" where
  "coalesce v = (case v of None \<Rightarrow> '''' | Some s \<Rightarrow> s)"

definition config_of :: "bank_row \<Rightarrow> BankAPIConfig" where
  "config_of r = \<lparr>cfBaseURL = coalesce (bApiBaseUrl r), cfAPIKey = coalesce (bApiKey r),
     cfEnabled = bApiEnabled r, cfLookupURL = coalesce (bLookupApiUrl r),
     cfPaymentURL = coalesce (bPaymentApiUrl r), cfStatusCheckURL = coalesce (bStatusCheckApiUrl r)\<rparr>"

definition DBProvider_GetBankAPIConfig :: "string \<Rightarrow> (pg, BankAPIConfig) call" where
  "DBProvider_GetBankAPIConfig bic s =
     (case stmt (\<lambda>s. case row_by bBic bic (bank_tbl s) of
                       None \<Rightarrow> (Inl ErrNoRows, s) | Some r \<Rightarrow> (Inr (config_of r), s)) s of
        (Inl e, s') \<Rightarrow> if IsNoRows e then (Inr disabled_config, s') else (Inl e, s')
      | (Inr c, s') \<Rightarrow> (Inr c, s'))"

section \<open>client.go\<close>

record 'w bank_api =
  provider :: "string \<Rightarrow> ('w, BankAPIConfig) call"
  stack :: "'w http_stack"

record bankResponse =
  brsStatus :: string
  brsMessage :: string

definition bankResponse_set :: "string \<Rightarrow> json \<Rightarrow> bankResponse \<Rightarrow> bankResponse \<times> goerror option" where
  "bankResponse_set k v r =
     (if k = ''status'' then
        (case set_string ''bankResponse.status'' v (brsStatus r) of (s, e) \<Rightarrow> (r\<lparr>brsStatus := s\<rparr>, e))
      else if k = ''message'' then
        (case set_string ''bankResponse.message'' v (brsMessage r) of (s, e) \<Rightarrow> (r\<lparr>brsMessage := s\<rparr>, e))
      else (r, None))"

definition decode_bankResponse :: "json_body \<Rightarrow> goerror + bankResponse" where
  "decode_bankResponse =
     Decode ''bankclient.bankResponse'' bankResponse_set \<lparr>brsStatus = '''', brsMessage = ''''\<rparr>"

definition target_url :: "BankAPIConfig \<Rightarrow> string \<Rightarrow> string" where
  "target_url cfg operation =
     (if cfPaymentURL cfg \<noteq> '''' then cfPaymentURL cfg @ ''/'' @ operation
      else cfBaseURL cfg @ ''/'' @ operation)"

definition bank_request :: "BankAPIConfig \<Rightarrow> string \<Rightarrow> json \<Rightarrow> wire_request" where
  "bank_request cfg operation body =
     \<lparr>wqMethod = ''POST'', wqURL = target_url cfg operation,
      wqHeader = (''Content-Type'', ''application/json'') #
        (if cfAPIKey cfg \<noteq> '''' then [(''X-API-Key'', cfAPIKey cfg)] else []),
      wqJson = body\<rparr>"

text \<open>What the client makes of an answer.\<close>

definition read_answer :: "string \<Rightarrow> string \<Rightarrow> wire_response \<Rightarrow> goerror option" where
  "read_answer bic operation resp =
     (if wrCode resp \<ge> 400 then
        Some (ErrMsg (''bank '' @ bic @ '': '' @ operation @ '' returned '' @ fmt_int (wrCode resp) @
                      '': '' @ wrText resp))
      else case decode_bankResponse (wrJson resp) of
             Inl e \<Rightarrow> Some (ErrWrap (''bank '' @ bic @ '': '' @ operation @ '' decode response: '') e)
           | Inr br \<Rightarrow>
               if brsStatus br = ''error''
               then Some (ErrMsg (''bank '' @ bic @ '': '' @ operation @ '' error: '' @ brsMessage br))
               else None)"

definition callBank :: "'w bank_api \<Rightarrow> string \<Rightarrow> string \<Rightarrow> json \<Rightarrow> 'w \<Rightarrow> goerror option \<times> 'w" where
  "callBank c bic operation body w =
     (case provider c bic w of
        (Inl e, w') \<Rightarrow> (Some (ErrWrap (''bank '' @ bic @ '': get config: '') e), w')
      | (Inr cfg, w') \<Rightarrow>
          if \<not> cfEnabled cfg then (Some (ErrMsg (''bank '' @ bic @ '': API not enabled'')), w')
          else if cfBaseURL cfg = '''' then
            (Some (ErrMsg (''bank '' @ bic @ '': base URL not configured'')), w')
          else case newRequest (stack c) (target_url cfg operation) of
             Some e \<Rightarrow> (Some (ErrWrap (''bank '' @ bic @ '': create request: '') e), w')
           | None \<Rightarrow>
               (case httpDo (stack c) (bank_request cfg operation body) w' of
                  (Inl e, w'') \<Rightarrow>
                    (Some (ErrWrap (''bank '' @ bic @ '': '' @ operation @ '' request failed: '') e), w'')
                | (Inr resp, w'') \<Rightarrow> (read_answer bic operation resp, w'')))"

definition money_body :: "string \<Rightarrow> int64 \<Rightarrow> json" where
  "money_body account amount = JObj [(''account'', JStr account), (''amount'', JInt (sint amount))]"

definition Client_Reserve :: "'w bank_api \<Rightarrow> 'w bank_op" where
  "Client_Reserve c bic account amount = callBank c bic ''reserve'' (money_body account amount)"

definition Client_ReleaseReservation :: "'w bank_api \<Rightarrow> 'w bank_op" where
  "Client_ReleaseReservation c bic account amount =
     callBank c bic ''release'' (money_body account amount)"

definition Client_Credit :: "'w bank_api \<Rightarrow> 'w bank_op" where
  "Client_Credit c bic account amount = callBank c bic ''credit'' (money_body account amount)"

definition Client_ReverseCredit :: "'w bank_api \<Rightarrow> 'w bank_op" where
  "Client_ReverseCredit c bic account amount =
     callBank c bic ''reverse-credit'' (money_body account amount)"

definition bank_client :: "'w bank_api \<Rightarrow> 'w BankClient" where
  "bank_client c =
     \<lparr>bankReserve = Client_Reserve c, bankReleaseReservation = Client_ReleaseReservation c,
      bankCredit = Client_Credit c, bankReverseCredit = Client_ReverseCredit c\<rparr>"

section \<open>Lemmas\<close>

text \<open>The request body the client builds decodes to the arguments at the bank.\<close>

lemma decode_money_body:
  "Decode ''banksvc.apiRequest'' apiRequest_set apiRequest_zero (Inr (money_body account amount)) =
     Inr \<lparr>apAccount = account, apAmount = amount\<rparr>"
  by (simp add: Decode_def money_body_def apiRequest_set_def apiRequest_zero_def ToLower_def lower_char_def)

lemma handle_money_body:
  "handle_money f (Inr (money_body account amount)) b =
     (case f account amount b of
        (Some e, b') \<Rightarrow> (writeJSON 400 (api_error e), b')
      | (None, b') \<Rightarrow> (writeJSON 200 api_ok, b'))"
  unfolding handle_money_def decode_money_body by simp

text \<open>The answers of the bank read back as what they mean.\<close>

lemma decode_api_ok: "decode_bankResponse (Inr api_ok) = Inr \<lparr>brsStatus = ''ok'', brsMessage = ''''\<rparr>"
  by (simp add: decode_bankResponse_def Decode_def api_ok_def apiResponse_json_def omitempty_def
      omitzero_def bankResponse_set_def ToLower_def lower_char_def)

lemma read_answer_ok:
  "wrCode r = 200 \<Longrightarrow> wrJson r = Inr api_ok \<Longrightarrow> read_answer bic operation r = None"
  by (simp add: read_answer_def decode_api_ok)

lemma read_answer_refused: "wrCode r = 400 \<Longrightarrow> \<exists>e. read_answer bic operation r = Some e"
  by (simp add: read_answer_def)

section \<open>The contract of a bank client\<close>

locale bank_ledger =
  fixes bank :: "'w BankClient"
    and ready :: "'w \<Rightarrow> bool"
    and ledger :: "'w \<Rightarrow> 'l"
    and linv :: "'l \<Rightarrow> bool"
    and reach :: "'l \<Rightarrow> string \<Rightarrow> bool"
    and bal :: "'l \<Rightarrow> string \<Rightarrow> int option"
  assumes bal_range: "linv l \<Longrightarrow> bal l acc = Some v \<Longrightarrow> 0 \<le> v \<and> v < 2 ^ 63"
    and reserve_law: "linv (ledger w) \<Longrightarrow> 0 < sint m \<Longrightarrow> bankReserve bank bic acc m w = (r, w') \<Longrightarrow>
      linv (ledger w') \<and> reach (ledger w') = reach (ledger w) \<and>
      (case r of None \<Rightarrow> (\<exists>v. bal (ledger w) acc = Some v \<and> sint m \<le> v \<and>
                            bal (ledger w') = (bal (ledger w))(acc \<mapsto> v - sint m))
       | Some e \<Rightarrow> bal (ledger w') = bal (ledger w))"
    and release_law: "ready w \<Longrightarrow> linv (ledger w) \<Longrightarrow> 0 < sint m \<Longrightarrow> reach (ledger w) bic \<Longrightarrow>
      bal (ledger w) acc = Some v \<Longrightarrow> v + sint m < 2 ^ 63 \<Longrightarrow>
      bankReleaseReservation bank bic acc m w = (r, w') \<Longrightarrow>
      r = None \<and> linv (ledger w') \<and> reach (ledger w') = reach (ledger w) \<and>
      bal (ledger w') = (bal (ledger w))(acc \<mapsto> v + sint m)"
    and credit_law: "linv (ledger w) \<Longrightarrow> 0 < sint m \<Longrightarrow>
      (\<And>v. bal (ledger w) acc = Some v \<Longrightarrow> v + sint m < 2 ^ 63) \<Longrightarrow>
      bankCredit bank bic acc m w = (r, w') \<Longrightarrow>
      linv (ledger w') \<and> reach (ledger w') = reach (ledger w) \<and>
      (case r of None \<Rightarrow> (\<exists>v. bal (ledger w) acc = Some v \<and>
                            bal (ledger w') = (bal (ledger w))(acc \<mapsto> v + sint m))
       | Some e \<Rightarrow> bal (ledger w') = bal (ledger w))"
    and reverse_law: "ready w \<Longrightarrow> linv (ledger w) \<Longrightarrow> 0 < sint m \<Longrightarrow> reach (ledger w) bic \<Longrightarrow>
      bal (ledger w) acc = Some v \<Longrightarrow> sint m \<le> v \<Longrightarrow>
      bankReverseCredit bank bic acc m w = (r, w') \<Longrightarrow>
      r = None \<and> linv (ledger w') \<and> reach (ledger w') = reach (ledger w) \<and>
      bal (ledger w') = (bal (ledger w))(acc \<mapsto> v - sint m)"
begin

text \<open>Releasing what was reserved restores the balances, in any world with the ledger balances
  the reservation left.\<close>

lemma reserve_release:
  assumes "linv (ledger w)" "0 < sint m" "bankReserve bank bic acc m w = (None, w1)"
    and "ready w2" "linv (ledger w2)" "reach (ledger w2) bic" "bal (ledger w2) = bal (ledger w1)"
    and "bankReleaseReservation bank bic acc m w2 = (r, w3)"
  shows "linv (ledger w3) \<and> reach (ledger w3) = reach (ledger w2) \<and> bal (ledger w3) = bal (ledger w)"
proof -
  from reserve_law [OF assms(1-3)] obtain v where v: "bal (ledger w) acc = Some v" "sint m \<le> v"
    "bal (ledger w1) = (bal (ledger w))(acc \<mapsto> v - sint m)" by auto
  have "v < 2 ^ 63" using bal_range [OF assms(1) v(1)] by simp
  then have "linv (ledger w3) \<and> reach (ledger w3) = reach (ledger w2) \<and>
      bal (ledger w3) = (bal (ledger w2))(acc \<mapsto> (v - sint m) + sint m)"
    using release_law [OF assms(4,5,2,6) _ _ assms(8)] v assms(7) by simp
  moreover have "(bal (ledger w2))(acc \<mapsto> (v - sint m) + sint m) = bal (ledger w)"
    using v by (auto simp: fun_eq_iff assms(7))
  ultimately show ?thesis by simp
qed

lemma credit_reverse:
  assumes "linv (ledger w)" "0 < sint m" "\<And>v. bal (ledger w) acc = Some v \<Longrightarrow> v + sint m < 2 ^ 63"
    and "bankCredit bank bic acc m w = (None, w1)"
    and "ready w2" "linv (ledger w2)" "reach (ledger w2) bic" "bal (ledger w2) = bal (ledger w1)"
    and "bankReverseCredit bank bic acc m w2 = (r, w3)"
  shows "linv (ledger w3) \<and> reach (ledger w3) = reach (ledger w2) \<and> bal (ledger w3) = bal (ledger w)"
proof -
  from credit_law [OF assms(1-4)] obtain v where v: "bal (ledger w) acc = Some v"
    "bal (ledger w1) = (bal (ledger w))(acc \<mapsto> v + sint m)" by auto
  have "0 \<le> v" using bal_range [OF assms(1) v(1)] by simp
  then have "linv (ledger w3) \<and> reach (ledger w3) = reach (ledger w2) \<and>
      bal (ledger w3) = (bal (ledger w2))(acc \<mapsto> (v + sint m) - sint m)"
    using reverse_law [OF assms(5,6,2,7) _ _ assms(9)] v assms(8) by simp
  moreover have "(bal (ledger w2))(acc \<mapsto> (v + sint m) - sint m) = bal (ledger w)"
    using v by (auto simp: fun_eq_iff assms(8))
  ultimately show ?thesis by simp
qed

end

end
