(* ===== verification/SafeSaga.thy ===== *)
theory SafeSaga
  imports SagaStatus BankClient
begin

text \<open>
  Money through a run of the saga. \<^verbatim>\<open>safe_ports\<close> puts the repository and the bank client
  contracts together and adds that no other port touches the bank's ledger. Under it the gateway's
  step list is an instance of \<^verbatim>\<open>saga_outline\<close>, so a failed run restores every balance,
  and a successful run moves the amount from the source to the destination account.
\<close>

definition saga_good :: "('w \<Rightarrow> string \<Rightarrow> PaymentStatus option) \<Rightarrow> ('w \<Rightarrow> bool) \<Rightarrow> ('w \<Rightarrow> 'l) \<Rightarrow>
    ('l \<Rightarrow> bool) \<Rightarrow> ('l \<Rightarrow> string \<Rightarrow> bool) \<Rightarrow> ('l \<Rightarrow> string \<Rightarrow> int option) \<Rightarrow>
    nat \<Rightarrow> Payment \<Rightarrow> 'w \<Rightarrow> bool" where
  "saga_good status_of live ledger linv reach bal i p w \<longleftrightarrow>
     live w \<and> linv (ledger w) \<and> reach (ledger w) (pSourceBIC p) \<and> reach (ledger w) (pDestinationBIC p) \<and>
     status_of w (pID p) \<noteq> None \<and> (0 < i \<longrightarrow> 0 < sint (pAmount p)) \<and>
     (i \<le> 6 \<longrightarrow> (\<forall>v. bal (ledger w) (pDestAccount p) = Some v \<longrightarrow> v + sint (pAmount p) < 2 ^ 63))"

definition money_view :: "('w \<Rightarrow> 'l) \<Rightarrow> ('l \<Rightarrow> string \<Rightarrow> int option) \<Rightarrow> Payment \<Rightarrow> 'w \<Rightarrow>
    (string \<times> string \<times> string \<times> string \<times> string \<times> int64 \<times> string) \<times> (string \<Rightarrow> int option)" where
  "money_view ledger bal p w = (pay_core p, bal (ledger w))"

text \<open>Which step stands where.\<close>

lemma gateway_steps_nth:
  assumes "i < length (gateway_steps P)"
  obtains "i = 0" "gateway_steps P ! i = ValidateStep (portRepo P)"
  | "i = 5" "gateway_steps P ! i = ReserveStep (portRepo P) (portBank P) DefaultReservationTTL"
  | "i = 6" "gateway_steps P ! i = CommitStep (portRepo P) (portBank P)"
  | "i \<notin> {0, 5, 6}" "stepName (gateway_steps P ! i) \<notin> {''validate'', ''reserve_source'', ''credit_destination''}"
proof -
  have "i < 10" using assms by (auto simp: gateway_steps_length split: if_splits)
  then have "i = 0 \<or> i = 5 \<or> i = 6 \<or> (i = 1 \<or> i = 2 \<or> i = 3 \<or> i = 4 \<or> i = 7 \<or> i = 8 \<or> i = 9)" by arith
  then consider "i = 0" | "i = 5" | "i = 6" | "i \<in> {1, 2, 3, 4, 7, 8, 9}" by blast
  then show thesis
  proof cases
    case 4
    then have "stepName (gateway_steps P ! i) \<notin> {''validate'', ''reserve_source'', ''credit_destination''}"
      using assms by (auto simp: gateway_steps_def step_ctors split: option.splits)
    with 4 that(4) show thesis by auto
  qed (use that in \<open>auto simp: gateway_steps_def\<close>)
qed

locale safe_ports = live_repository P status_of live + bank_ledger "portBank P" live ledger linv reach bal
  for P :: "'w ports" and status_of live and ledger :: "'w \<Rightarrow> 'l" and linv reach bal +
  assumes MarkReserved_live: "live w \<Longrightarrow> status_of w pid \<noteq> None \<Longrightarrow>
        \<exists>w'. repoMarkReserved (portRepo P) pid ttl w = (None, w')"
    and bank_live: "live w \<Longrightarrow> bankReserve (portBank P) b a m w = (r0, w') \<Longrightarrow> live w'"
        "live w \<Longrightarrow> bankCredit (portBank P) b a m w = (r0, w') \<Longrightarrow> live w'"
        "live w \<Longrightarrow> bankReleaseReservation (portBank P) b a m w = (r0, w') \<Longrightarrow> live w'"
        "live w \<Longrightarrow> bankReverseCredit (portBank P) b a m w = (r0, w') \<Longrightarrow> live w'"
    and UpdateStatus_ledger: "repoUpdateStatus (portRepo P) pid stat w = (r, w') \<Longrightarrow> ledger w' = ledger w"
    and MarkReserved_ledger: "repoMarkReserved (portRepo P) pid ttl w = (r, w') \<Longrightarrow> ledger w' = ledger w"
    and UpdateRoute_ledger: "repoUpdateRoute (portRepo P) pid fee ms w = (r, w') \<Longrightarrow> ledger w' = ledger w"
    and lookup_ledger: "portLookup P bic w = (r1, w') \<Longrightarrow> ledger w' = ledger w"
    and routing_ledger: "portRouting P sb db ccy w = (r2, w') \<Longrightarrow> ledger w' = ledger w"
    and quoting_ledger: "portQuoting P sb db m ccy w = (r3, w') \<Longrightarrow> ledger w' = ledger w"
    and compliance_ledger: "portCompliance P pay w = (r4, w') \<Longrightarrow> ledger w' = ledger w"
    and settlement_ledger: "portSettlement P = Some cl \<Longrightarrow> cl pay w = (r, w') \<Longrightarrow> ledger w' = ledger w"
    and reconciliation_ledger: "portReconciliation P i sb db m ccy stat w = (r, w') \<Longrightarrow> ledger w' = ledger w"
    and notification_ledger: "portNotification P b ch sj bd i stat w = (r, w') \<Longrightarrow> ledger w' = ledger w"
begin

lemmas ledger_frames = UpdateStatus_ledger MarkReserved_ledger UpdateRoute_ledger lookup_ledger
  routing_ledger quoting_ledger compliance_ledger reconciliation_ledger notification_ledger

lemma set_status_ledger: "set_status (portRepo P) pre stat p w = (r, p', w') \<Longrightarrow> ledger w' = ledger w"
  by (auto simp: set_status_cases dest: UpdateStatus_ledger)

lemma abort_status_ledger: "abort_status (portRepo P) p w = (r, p', w') \<Longrightarrow> ledger w' = ledger w"
  by (auto simp: abort_status_cases dest: UpdateStatus_ledger)

lemma settle_ledger:
  assumes "Some cl = portSettlement P" "SettleStep_Execute cl (portRepo P) p w = (r, p', w')"
  shows "ledger w' = ledger w"
proof -
  obtain x w1 where c: "cl p w = (x, w1)" by fastforce
  have "ledger w1 = ledger w" by (rule settlement_ledger [OF assms(1) [symmetric] c])
  with assms(2) c show ?thesis
    by (auto simp: SettleStep_Execute_def split: option.splits dest: set_status_ledger)
qed

lemma quiet_execute:
  assumes "stp \<in> set (gateway_steps P)" "stepName stp \<notin> {''reserve_source'', ''credit_destination''}"
    and "Execute stp p w = (r, p', w')"
  shows "ledger w' = ledger w"
  using assms
  by (auto simp: gateway_steps_def step_ctors other_step_defs Let_def
      split: option.splits if_splits prod.splits sum.splits
      dest!: set_status_ledger ledger_frames dest: settle_ledger)

lemma quiet_compensate:
  assumes "stp \<in> set (gateway_steps P)" "stepName stp \<notin> {''reserve_source'', ''credit_destination''}"
    and "Compensate stp p w = (r, p', w')"
  shows "ledger w' = ledger w"
  using assms
  by (auto simp: gateway_steps_def step_ctors no_compensation_def split: option.splits
      dest!: abort_status_ledger)

lemma step_row:
  assumes "stp \<in> set (gateway_steps P)" and "Execute stp p w = (r, p', w')" and "status_of w (pID p) \<noteq> None"
  shows "status_of w' (pID p) \<noteq> None"
proof (cases r)
  case (Some e)
  then show ?thesis using step_err_status assms by metis
next
  case None
  with assms show ?thesis
    by (auto simp: gateway_steps_def step_ctors other_step_defs Let_def
        split: option.splits if_splits prod.splits sum.splits
        dest!: set_status_okD frames MarkReserved_ok UpdateRoute_ok dest: settle_Execute)
qed

lemma compensate_row:
  assumes "stp \<in> set (gateway_steps P)" and "Compensate stp p w = (r, p', w')" and "status_of w (pID p) \<noteq> None"
  shows "status_of w' (pID p) \<noteq> None"
  using compensate_status [OF assms(1,2)] assms(3) by auto

text \<open>The two steps that move money.\<close>

lemma reserve_execute:
  assumes "ReserveStep_Execute (portRepo P) (portBank P) t p w = (r, p', w')"
    and "live w" "status_of w (pID p) \<noteq> None"
  obtains v1 where "bankReserve (portBank P) (pSourceBIC p) (pSourceAccount p) (pAmount p) w = (None, v1)"
      "r = None" "ledger w' = ledger v1"
  | e v1 where "bankReserve (portBank P) (pSourceBIC p) (pSourceAccount p) (pAmount p) w = (Some e, v1)"
      "r \<noteq> None" "ledger w' = ledger v1"
proof -
  obtain x v1 where b: "bankReserve (portBank P) (pSourceBIC p) (pSourceAccount p) (pAmount p) w = (x, v1)"
    by fastforce
  show thesis
  proof (cases x)
    case (Some e)
    with b assms(1) that(2) show thesis by (auto simp: ReserveStep_Execute_def)
  next
    case None
    have "status_of v1 (pID p) \<noteq> None" using bank_frame(1) [OF b] assms(3) by simp
    with bank_live(1) [OF assms(2) b] obtain w2 where "repoMarkReserved (portRepo P) (pID p)
        (if t \<le> 0 then DefaultReservationTTL else t) v1 = (None, w2)"
      using MarkReserved_live by blast
    with None b assms(1) that(1) show thesis
      by (auto simp: ReserveStep_Execute_def Let_def dest!: MarkReserved_ledger)
  qed
qed

lemma commit_execute:
  assumes "CommitStep_Execute (portRepo P) (portBank P) p w = (r, p', w')"
    and "live w" "status_of w (pID p) \<noteq> None"
  obtains v1 where "bankCredit (portBank P) (pDestinationBIC p) (pDestAccount p) (pAmount p) w = (None, v1)"
      "r = None" "ledger w' = ledger v1"
  | e v1 where "bankCredit (portBank P) (pDestinationBIC p) (pDestAccount p) (pAmount p) w = (Some e, v1)"
      "r \<noteq> None" "ledger w' = ledger v1"
proof -
  obtain x v1 where b: "bankCredit (portBank P) (pDestinationBIC p) (pDestAccount p) (pAmount p) w = (x, v1)"
    by fastforce
  show thesis
  proof (cases x)
    case (Some e)
    with b assms(1) that(2) show thesis by (auto simp: CommitStep_Execute_def)
  next
    case None
    have "status_of v1 (pID p) \<noteq> None" using bank_frame(3) [OF b] assms(3) by simp
    with bank_live(2) [OF assms(2) b] obtain w2 where
      "repoUpdateStatus (portRepo P) (pID p) StatusCommitted v1 = (None, w2)"
      using UpdateStatus_live by blast
    with None b assms(1) that(1) show thesis
      by (auto simp: CommitStep_Execute_def set_status_def dest!: UpdateStatus_ledger)
  qed
qed

lemma good_amount:
  assumes "saga_good status_of live ledger linv reach bal i p w" "pay_core p' = pay_core p"
    "live w'" "linv (ledger w')" "reach (ledger w') = reach (ledger w)"
    "status_of w' (pID p) \<noteq> None" "j \<le> 6 \<longrightarrow> i \<le> 6" "0 < j \<longrightarrow> 0 < sint (pAmount p)"
    "\<And>v. j \<le> 6 \<Longrightarrow> bal (ledger w') (pDestAccount p) = Some v \<Longrightarrow> v + sint (pAmount p) < 2 ^ 63"
  shows "saga_good status_of live ledger linv reach bal j p' w'"
  using assms by (auto simp: saga_good_def pay_core_def)

lemma good_quiet:
  assumes "saga_good status_of live ledger linv reach bal i p w" "pay_core p' = pay_core p"
    "live w'" "status_of w' (pID p) \<noteq> None" "ledger w' = ledger w"
    "j \<le> 6 \<longrightarrow> i \<le> 6" "0 < j \<longrightarrow> 0 < sint (pAmount p)"
  shows "saga_good status_of live ledger linv reach bal j p' w'"
  using assms by (intro good_amount [OF assms(1,2)]) (auto simp: saga_good_def)

lemma validate_amount:
  "ValidateStep_Execute repo p w = (None, p', w') \<Longrightarrow> 0 < sint (pAmount p)"
  by (auto simp: ValidateStep_Execute_def sle_def split: if_splits)

lemma outline_exec_ok:
  assumes "i < length (gateway_steps P)" and g: "saga_good status_of live ledger linv reach bal i p w"
    and e: "Execute (gateway_steps P ! i) p w = (None, p', w')"
  shows "saga_good status_of live ledger linv reach bal (Suc i) p' w'"
proof -
  note mem = nth_mem [OF assms(1)]
  have core: "pay_core p' = pay_core p" by (rule gateway_step_core [OF mem e])
  have row: "status_of w' (pID p) \<noteq> None" using step_row [OF mem e] g by (simp add: saga_good_def)
  have lv: "live w'" using step_live [OF _ mem e] g by (simp add: saga_good_def)
  from assms(1) show ?thesis
  proof (cases rule: gateway_steps_nth)
    case 1
    with e have "0 < sint (pAmount p)" by (auto simp: ValidateStep_def dest: validate_amount)
    moreover have "ledger w' = ledger w" using quiet_execute [OF mem _ e] 1 by (simp add: ValidateStep_def)
    ultimately show ?thesis using 1 by (intro good_quiet [OF g core lv row]) auto
  next
    case 2
    then have e5: "ReserveStep_Execute (portRepo P) (portBank P) DefaultReservationTTL p w = (None, p', w')"
      using e by (simp add: ReserveStep_def)
    have pos: "0 < sint (pAmount p)" and lw: "linv (ledger w)" "live w" "status_of w (pID p) \<noteq> None"
      using g 2 by (auto simp: saga_good_def)
    from e5 lw(2,3) obtain v1 where
      b: "bankReserve (portBank P) (pSourceBIC p) (pSourceAccount p) (pAmount p) w = (None, v1)"
      and l: "ledger w' = ledger v1" by (rule reserve_execute) auto
    from reserve_law [OF lw(1) pos b] obtain v where v: "linv (ledger w')" "reach (ledger w') = reach (ledger w)"
      "bal (ledger w) (pSourceAccount p) = Some v"
      "bal (ledger w') = (bal (ledger w))(pSourceAccount p \<mapsto> v - sint (pAmount p))" using l by auto
    show ?thesis
      using bal_range [OF lw(1) v(3)] pos 2 g v
      by (intro good_amount [OF g core lv v(1,2) row]) (auto simp: saga_good_def split: if_splits)
  next
    case 3
    then have e6: "CommitStep_Execute (portRepo P) (portBank P) p w = (None, p', w')"
      using e by (simp add: CommitStep_def)
    have pos: "0 < sint (pAmount p)" and lw: "linv (ledger w)" "live w" "status_of w (pID p) \<noteq> None"
      and room: "\<And>v. bal (ledger w) (pDestAccount p) = Some v \<Longrightarrow> v + sint (pAmount p) < 2 ^ 63"
      using g 3 by (auto simp: saga_good_def)
    from e6 lw(2,3) obtain v1 where
      b: "bankCredit (portBank P) (pDestinationBIC p) (pDestAccount p) (pAmount p) w = (None, v1)"
      and l: "ledger w' = ledger v1" by (rule commit_execute) auto
    from credit_law [OF lw(1) pos room b] have "linv (ledger w')" "reach (ledger w') = reach (ledger w)"
      using l by auto
    with pos 3 show ?thesis by (intro good_amount [OF g core lv _ _ row]) auto
  next
    case 4
    then have "ledger w' = ledger w" using quiet_execute [OF mem _ e] by auto
    with 4 g show ?thesis
      by (intro good_quiet [OF g core lv row]) (auto simp: saga_good_def)
  qed
qed

lemma outline_exec_err:
  assumes "i < length (gateway_steps P)" and g: "saga_good status_of live ledger linv reach bal i p w"
    and e: "Execute (gateway_steps P ! i) p w = (Some x, p', w')"
  shows "saga_good status_of live ledger linv reach bal i p' w' \<and>
         money_view ledger bal p' w' = money_view ledger bal p w"
proof -
  note mem = nth_mem [OF assms(1)]
  have core: "pay_core p' = pay_core p" by (rule gateway_step_core [OF mem e])
  have row: "status_of w' (pID p) \<noteq> None" using step_row [OF mem e] g by (simp add: saga_good_def)
  have lv: "live w'" using step_live [OF _ mem e] g by (simp add: saga_good_def)
  have keep: "0 < i \<longrightarrow> 0 < sint (pAmount p)" and lw: "linv (ledger w)" "live w" "status_of w (pID p) \<noteq> None"
    using g by (auto simp: saga_good_def)
  have "linv (ledger w') \<and> reach (ledger w') = reach (ledger w) \<and> bal (ledger w') = bal (ledger w)"
    using assms(1)
  proof (cases rule: gateway_steps_nth)
    case 2
    then have e5: "ReserveStep_Execute (portRepo P) (portBank P) DefaultReservationTTL p w = (Some x, p', w')"
      using e by (simp add: ReserveStep_def)
    from e5 lw(2,3) obtain y v1 where
      b: "bankReserve (portBank P) (pSourceBIC p) (pSourceAccount p) (pAmount p) w = (Some y, v1)"
      and l: "ledger w' = ledger v1" by (rule reserve_execute) auto
    have "0 < sint (pAmount p)" using keep 2 by simp
    from reserve_law [OF lw(1) this b] l show ?thesis by auto
  next
    case 3
    then have e6: "CommitStep_Execute (portRepo P) (portBank P) p w = (Some x, p', w')"
      using e by (simp add: CommitStep_def)
    from e6 lw(2,3) obtain y v1 where
      b: "bankCredit (portBank P) (pDestinationBIC p) (pDestAccount p) (pAmount p) w = (Some y, v1)"
      and l: "ledger w' = ledger v1" by (rule commit_execute) auto
    have "0 < sint (pAmount p)" "\<And>v. bal (ledger w) (pDestAccount p) = Some v \<Longrightarrow> v + sint (pAmount p) < 2 ^ 63"
      using g 3 by (auto simp: saga_good_def)
    from credit_law [OF lw(1) this b] l show ?thesis by auto
  next
    case 1
    then show ?thesis using quiet_execute [OF mem _ e] lw by (simp add: ValidateStep_def)
  next
    case 4
    then show ?thesis using quiet_execute [OF mem _ e] lw by auto
  qed
  then have "saga_good status_of live ledger linv reach bal i p' w'" "bal (ledger w') = bal (ledger w)"
    using g keep good_amount [OF g core lv _ _ row, of i] by (auto simp: saga_good_def)
  then show ?thesis by (simp add: money_view_def core)
qed

lemma outline_undo:
  assumes "i < length (gateway_steps P)" and g: "saga_good status_of live ledger linv reach bal i p w"
    and e: "Execute (gateway_steps P ! i) p w = (None, p1, w1)"
    and g2: "saga_good status_of live ledger linv reach bal (Suc i) p2 w2"
    and v: "money_view ledger bal p2 w2 = money_view ledger bal p1 w1"
    and c: "Compensate (gateway_steps P ! i) p2 w2 = (r, p3, w3)"
  shows "saga_good status_of live ledger linv reach bal i p3 w3 \<and>
         money_view ledger bal p3 w3 = money_view ledger bal p w"
proof -
  note mem = nth_mem [OF assms(1)]
  have p3: "p3 = p2" by (rule gateway_compensate_payment [OF mem c])
  have core: "pay_core p2 = pay_core p"
    using gateway_step_core [OF mem e] v by (simp add: money_view_def)
  have row: "status_of w3 (pID p2) \<noteq> None" using compensate_row [OF mem c] g2 by (simp add: saga_good_def)
  have lv: "live w3" using compensate_live [OF _ mem c] g2 by (simp add: saga_good_def)
  have b21: "bal (ledger w2) = bal (ledger w1)" using v by (simp add: money_view_def)
  have pos: "0 < sint (pAmount p)" and l2: "linv (ledger w2)" "reach (ledger w2) (pSourceBIC p)"
    "reach (ledger w2) (pDestinationBIC p)" using g2 core by (auto simp: saga_good_def pay_core_def)
  have lw: "linv (ledger w)" "live w" "status_of w (pID p) \<noteq> None" using g by (auto simp: saga_good_def)
  have lv2: "live w2" using g2 by (simp add: saga_good_def)
  have flds: "pSourceBIC p2 = pSourceBIC p" "pSourceAccount p2 = pSourceAccount p" "pAmount p2 = pAmount p"
    "pDestinationBIC p2 = pDestinationBIC p" "pDestAccount p2 = pDestAccount p" "pID p2 = pID p"
    using core by (auto simp: pay_core_def)
  have "linv (ledger w3) \<and> reach (ledger w3) = reach (ledger w2) \<and> bal (ledger w3) = bal (ledger w)"
    using assms(1)
  proof (cases rule: gateway_steps_nth)
    case 2
    have e5: "ReserveStep_Execute (portRepo P) (portBank P) DefaultReservationTTL p w = (None, p1, w1)"
      using e 2 by (simp add: ReserveStep_def)
    from e5 lw(2,3) obtain v1 where
      b: "bankReserve (portBank P) (pSourceBIC p) (pSourceAccount p) (pAmount p) w = (None, v1)"
      and l: "ledger w1 = ledger v1" by (rule reserve_execute) auto
    obtain x w4 where d: "bankReleaseReservation (portBank P) (pSourceBIC p) (pSourceAccount p) (pAmount p) w2 = (x, w4)"
      by fastforce
    with c 2 have "ledger w3 = ledger w4"
      by (auto simp: ReserveStep_def ReserveStep_Compensate_def flds dest!: abort_status_ledger)
    with reserve_release [OF lw(1) pos b lv2 l2(1,2) _ d] b21 l show ?thesis by simp
  next
    case 3
    have e6: "CommitStep_Execute (portRepo P) (portBank P) p w = (None, p1, w1)"
      using e 3 by (simp add: CommitStep_def)
    from e6 lw(2,3) obtain v1 where
      b: "bankCredit (portBank P) (pDestinationBIC p) (pDestAccount p) (pAmount p) w = (None, v1)"
      and l: "ledger w1 = ledger v1" by (rule commit_execute) auto
    have room: "\<And>v. bal (ledger w) (pDestAccount p) = Some v \<Longrightarrow> v + sint (pAmount p) < 2 ^ 63"
      using g 3 by (auto simp: saga_good_def)
    obtain x w4 where d: "bankReverseCredit (portBank P) (pDestinationBIC p) (pDestAccount p) (pAmount p) w2 = (x, w4)"
      by fastforce
    with c 3 have "ledger w3 = ledger w4"
      by (auto simp: CommitStep_def CommitStep_Compensate_def flds dest!: abort_status_ledger)
    with credit_reverse [OF lw(1) pos room b lv2 l2(1,3) _ d] b21 l show ?thesis by simp
  next
    case 1
    then have "ledger w3 = ledger w2" "ledger w1 = ledger w"
      using quiet_compensate [OF mem _ c] quiet_execute [OF mem _ e] by (simp_all add: ValidateStep_def)
    with l2 b21 show ?thesis by simp
  next
    case 4
    then have "ledger w3 = ledger w2" "ledger w1 = ledger w"
      using quiet_compensate [OF mem _ c] quiet_execute [OF mem _ e] by auto
    with l2 b21 show ?thesis by simp
  qed
  moreover from this have "saga_good status_of live ledger linv reach bal i p2 w3"
    using g g2 lv row flds by (auto simp: saga_good_def)
  ultimately show ?thesis by (simp add: p3 money_view_def core)
qed

sublocale outline: saga_outline "gateway_steps P" "saga_good status_of live ledger linv reach bal"
    "money_view ledger bal"
  by unfold_locales (rule outline_exec_ok outline_exec_err outline_undo; assumption)+

text \<open>A run that succeeds debits the source and credits the destination by the amount.\<close>

lemma forward_quiet:
  assumes "set sts \<subseteq> set (gateway_steps P)"
    "\<forall>s\<in>set sts. stepName s \<notin> {''reserve_source'', ''credit_destination''}"
    "forward sts p w = Some (p', w')"
  shows "ledger w' = ledger w \<and> pay_core p' = pay_core p"
  using assms
proof (induction sts arbitrary: p w)
  case (Cons stp sts)
  then obtain p1 w1 where e: "Execute stp p w = (None, p1, w1)" "forward sts p1 w1 = Some (p', w')"
    by (auto split: prod.splits option.splits)
  have "ledger w1 = ledger w" "pay_core p1 = pay_core p"
    using Cons.prems quiet_execute [OF _ _ e(1)] gateway_step_core [OF _ e(1)] by auto
  with Cons.IH [OF _ _ e(2)] Cons.prems show ?case by auto
qed simp

lemma Run_moves_money:
  assumes "sagaSteps s = gateway_steps P" "saga_good status_of live ledger linv reach bal 0 p w"
    and "Run s p w = (None, s', p', w')"
  obtains u v where "bal (ledger w) (pSourceAccount p) = Some u" "sint (pAmount p) \<le> u"
    "((bal (ledger w))(pSourceAccount p \<mapsto> u - sint (pAmount p))) (pDestAccount p) = Some v"
    "bal (ledger w') = (bal (ledger w))
       (pSourceAccount p \<mapsto> u - sint (pAmount p), pDestAccount p \<mapsto> v + sint (pAmount p))"
proof -
  have "forward (gateway_steps P) p w = Some (p', w')" using Run_okE(1) [OF assms(3)] assms(1) by simp
  then obtain p5 w5 where f5: "forward (take 5 (gateway_steps P)) p w = Some (p5, w5)"
    and r5: "forward (drop 5 (gateway_steps P)) p5 w5 = Some (p', w')" by (rule forward_split)
  have q5: "ledger w5 = ledger w" "pay_core p5 = pay_core p"
    using forward_quiet [OF _ _ f5] by (auto simp: gateway_steps_def step_ctors dest: in_set_takeD)
  have g5: "saga_good status_of live ledger linv reach bal 5 p5 w5"
    by (rule outline.forward_good [OF _ assms(2) f5]) (simp add: gateway_steps_length)
  have d5: "drop 5 (gateway_steps P) = gateway_steps P ! 5 # gateway_steps P ! 6 # drop 7 (gateway_steps P)"
    by (simp add: gateway_steps_def)
  from r5 obtain p6 w6 p7 w7 where e5: "Execute (gateway_steps P ! 5) p5 w5 = (None, p6, w6)"
    and e6: "Execute (gateway_steps P ! 6) p6 w6 = (None, p7, w7)"
    and r7: "forward (drop 7 (gateway_steps P)) p7 w7 = Some (p', w')"
    unfolding d5 by (auto split: prod.splits option.splits)
  have g6: "saga_good status_of live ledger linv reach bal 6 p6 w6"
    using outline_exec_ok [OF _ g5 e5] by (simp add: gateway_steps_length)
  have c6: "pay_core p6 = pay_core p"
    using gateway_step_core [OF nth_mem e5] q5 by (simp add: gateway_steps_length)
  have q7: "ledger w' = ledger w7"
  proof -
    have "\<forall>s\<in>set (drop 7 (gateway_steps P)). stepName s \<notin> {''reserve_source'', ''credit_destination''}"
      by (cases "portSettlement P") (simp_all add: gateway_steps_def step_ctors)
    with forward_quiet [OF set_drop_subset _ r7] show ?thesis by blast
  qed
  have "ReserveStep_Execute (portRepo P) (portBank P) DefaultReservationTTL p5 w5 = (None, p6, w6)"
    using e5 by (simp add: gateway_steps_def ReserveStep_def)
  then obtain v1 where "bankReserve (portBank P) (pSourceBIC p5) (pSourceAccount p5) (pAmount p5) w5 = (None, v1)"
    "ledger w6 = ledger v1" using g5 by (elim reserve_execute) (auto simp: saga_good_def)
  with reserve_law [OF _ _ this(1)] g5 obtain u where
    u: "bal (ledger w5) (pSourceAccount p5) = Some u" "sint (pAmount p5) \<le> u"
      "bal (ledger w6) = (bal (ledger w5))(pSourceAccount p5 \<mapsto> u - sint (pAmount p5))"
    by (auto simp: saga_good_def)
  have "CommitStep_Execute (portRepo P) (portBank P) p6 w6 = (None, p7, w7)"
    using e6 by (simp add: gateway_steps_def CommitStep_def)
  then obtain v2 where "bankCredit (portBank P) (pDestinationBIC p6) (pDestAccount p6) (pAmount p6) w6 = (None, v2)"
    "ledger w7 = ledger v2" using g6 by (elim commit_execute) (auto simp: saga_good_def)
  with credit_law [OF _ _ _ this(1)] g6 obtain v where v: "bal (ledger w6) (pDestAccount p6) = Some v"
      "bal (ledger w7) = (bal (ledger w6))(pDestAccount p6 \<mapsto> v + sint (pAmount p6))"
    by (auto simp: saga_good_def)
  show thesis
    using u v q5 c6 q7 by (intro that [of u v]) (auto simp: pay_core_def)
qed

end

section \<open>Compensating a payment from its status\<close>

lemma compensate_until_error_append:
  "compensate_until_error (xs @ ys) p w =
     (case compensate_until_error xs p w of
        (Some e, p', w') \<Rightarrow> (Some e, p', w') | (None, p', w') \<Rightarrow> compensate_until_error ys p' w')"
  by (induction xs arbitrary: p w) (auto split: prod.splits option.splits)

context safe_ports
begin

lemma abort_ok:
  assumes "live w" "status_of w (pID p) \<noteq> None"
  obtains w' where "abort_status (portRepo P) p w = (None, p, w')" "ledger w' = ledger w"
    "status_of w' = (status_of w)(pID p \<mapsto> StatusAborted)"
proof -
  obtain w' where u: "repoUpdateStatus (portRepo P) (pID p) StatusAborted w = (None, w')"
    using UpdateStatus_live [OF assms] by blast
  show thesis
    using that [of w'] UpdateStatus_ok [OF u] UpdateStatus_ledger [OF u] u by (simp add: abort_status_def)
qed

text \<open>Compensating the steps that move no money.\<close>

lemma quiet_compensate_ok:
  assumes "stp \<in> set (gateway_steps P)" "stepName stp \<notin> {''reserve_source'', ''credit_destination''}"
    and "live w" "status_of w (pID p) \<noteq> None"
  obtains w' where "Compensate stp p w = (None, p, w')" "ledger w' = ledger w" "live w'"
    "status_of w' (pID p) \<noteq> None"
proof -
  obtain w' where w': "Compensate stp p w = (None, p, w')"
  proof -
    obtain w1 where "abort_status (portRepo P) p w = (None, p, w1)" using abort_ok [OF assms(3,4)] .
    then show thesis
      using that assms(1,2)
      by (auto simp: gateway_steps_def step_ctors no_compensation_def split: option.splits)
  qed
  from that [OF w'] show thesis
    using quiet_compensate [OF assms(1,2) w'] compensate_live [OF assms(3,1) w'] compensate_row [OF assms(1) w' assms(4)]
    by simp
qed

lemma quiet_compensations:
  assumes "set sts \<subseteq> set (gateway_steps P)"
    "\<forall>x\<in>set sts. stepName x \<notin> {''reserve_source'', ''credit_destination''}"
    and "live w" "status_of w (pID p) \<noteq> None"
  obtains w' where "compensate_until_error sts p w = (None, p, w')" "ledger w' = ledger w" "live w'"
    "status_of w' (pID p) \<noteq> None"
proof -
  have "\<exists>w'. compensate_until_error sts p w = (None, p, w') \<and> ledger w' = ledger w \<and> live w' \<and>
      status_of w' (pID p) \<noteq> None"
    using assms
  proof (induction sts arbitrary: w)
    case (Cons stp sts)
    have "stp \<in> set (gateway_steps P)" "stepName stp \<notin> {''reserve_source'', ''credit_destination''}"
      using Cons.prems(1,2) by auto
    from this Cons.prems(3,4) obtain w1 where "Compensate stp p w = (None, p, w1)" "ledger w1 = ledger w"
      "live w1" "status_of w1 (pID p) \<noteq> None" by (rule quiet_compensate_ok)
    with Cons.IH [of w1] Cons.prems show ?case by simp
  qed auto
  with that show thesis by blast
qed

lemma first_five_quiet:
  "set (rev (take 5 (gateway_steps P))) \<subseteq> set (gateway_steps P)"
  "\<forall>x\<in>set (rev (take 5 (gateway_steps P))). stepName x \<notin> {''reserve_source'', ''credit_destination''}"
  by (simp_all add: gateway_steps_def step_ctors)

lemma tail_quiet:
  "set (rev (drop 7 (take n (gateway_steps P)))) \<subseteq> set (gateway_steps P)"
  "\<forall>x\<in>set (rev (drop 7 (take n (gateway_steps P)))). stepName x \<notin> {''reserve_source'', ''credit_destination''}"
proof -
  show "set (rev (drop 7 (take n (gateway_steps P)))) \<subseteq> set (gateway_steps P)"
    by (auto dest: in_set_dropD in_set_takeD)
  have "\<forall>s\<in>set (drop 7 (gateway_steps P)). stepName s \<notin> {''reserve_source'', ''credit_destination''}"
    by (cases "portSettlement P") (simp_all add: gateway_steps_def step_ctors)
  then show "\<forall>x\<in>set (rev (drop 7 (take n (gateway_steps P)))). stepName x \<notin> {''reserve_source'', ''credit_destination''}"
    by (auto simp: drop_take dest: in_set_takeD)
qed

text \<open>Undoing the first six steps releases the reservation and aborts the payment.\<close>

lemma compensate_six:
  assumes "live w" "status_of w (pID p) \<noteq> None" "linv (ledger w)" "reach (ledger w) (pSourceBIC p)"
    "0 < sint (pAmount p)" "bal (ledger w) (pSourceAccount p) = Some v" "v + sint (pAmount p) < 2 ^ 63"
  obtains w' where "compensate_until_error (rev (take 6 (gateway_steps P))) p w = (None, p, w')"
    "bal (ledger w') = (bal (ledger w))(pSourceAccount p \<mapsto> v + sint (pAmount p))"
    "status_of w' (pID p) = Some StatusAborted"
proof -
  have six: "rev (take 6 (gateway_steps P)) =
      ReserveStep (portRepo P) (portBank P) DefaultReservationTTL # rev (take 5 (gateway_steps P))"
    by (simp add: gateway_steps_def)
  obtain x w1 where r: "bankReleaseReservation (portBank P) (pSourceBIC p) (pSourceAccount p) (pAmount p) w = (x, w1)"
    by fastforce
  note rel = release_law [OF assms(1,3,5,4,6,7) r]
  have s1: "status_of w1 = status_of w" by (rule bank_frame(2) [OF r])
  have c: "Compensate (ReserveStep (portRepo P) (portBank P) DefaultReservationTTL) p w = abort_status (portRepo P) p w1"
    by (simp add: ReserveStep_def ReserveStep_Compensate_def r)
  have l1: "live w1" by (rule bank_live(3) [OF assms(1) r])
  with s1 assms(2) obtain w2 where a: "abort_status (portRepo P) p w1 = (None, p, w2)" "ledger w2 = ledger w1"
    "status_of w2 = (status_of w1)(pID p \<mapsto> StatusAborted)" by (metis abort_ok)
  have mem: "ReserveStep (portRepo P) (portBank P) DefaultReservationTTL \<in> set (gateway_steps P)"
    by (simp add: gateway_steps_def)
  have "live w2" using compensate_live [OF assms(1) mem] c a by metis
  moreover have "status_of w2 (pID p) \<noteq> None" using a by simp
  ultimately obtain w3 where w3: "compensate_until_error (rev (take 5 (gateway_steps P))) p w2 = (None, p, w3)"
    "ledger w3 = ledger w2" "live w3" "status_of w3 (pID p) \<noteq> None"
    by (rule quiet_compensations [OF first_five_quiet])
  have st: "status_of w3 (pID p) = Some StatusAborted"
    using compensate_until_error_status [OF first_five_quiet(1) w3(1)] a by auto
  have run: "compensate_until_error (rev (take 6 (gateway_steps P))) p w = (None, p, w3)"
    using six c a w3(1) by simp
  have "bal (ledger w3) = (bal (ledger w))(pSourceAccount p \<mapsto> v + sint (pAmount p))"
    using rel a w3 by simp
  from run this st show thesis by (rule that)
qed

text \<open>Undoing more than six steps also reverses a credit.\<close>

lemma compensate_seven:
  assumes "7 \<le> n" "live w" "status_of w (pID p) \<noteq> None" "linv (ledger w)"
    "reach (ledger w) (pSourceBIC p)" "reach (ledger w) (pDestinationBIC p)" "0 < sint (pAmount p)"
    "bal (ledger w) (pDestAccount p) = Some u" "sint (pAmount p) \<le> u"
    "((bal (ledger w))(pDestAccount p \<mapsto> u - sint (pAmount p))) (pSourceAccount p) = Some v"
    "v + sint (pAmount p) < 2 ^ 63"
  obtains w' where "compensate_until_error (rev (take n (gateway_steps P))) p w = (None, p, w')"
    "bal (ledger w') = (bal (ledger w))
       (pDestAccount p \<mapsto> u - sint (pAmount p), pSourceAccount p \<mapsto> v + sint (pAmount p))"
    "status_of w' (pID p) = Some StatusAborted"
proof -
  let ?com = "CommitStep (portRepo P) (portBank P)"
  have "take n (gateway_steps P) = take 6 (gateway_steps P) @ ?com # drop 7 (take n (gateway_steps P))"
    using assms(1) by (simp add: gateway_steps_def take_Cons' numeral_eq_Suc)
  then have sts: "rev (take n (gateway_steps P)) =
      rev (drop 7 (take n (gateway_steps P))) @ ?com # rev (take 6 (gateway_steps P))" by (metis append.assoc append_Cons append_Nil rev.simps(2) rev_append)
  obtain w1 where w1: "compensate_until_error (rev (drop 7 (take n (gateway_steps P)))) p w = (None, p, w1)"
    "ledger w1 = ledger w" "live w1" "status_of w1 (pID p) \<noteq> None"
    using assms(2,3) by (rule quiet_compensations [OF tail_quiet])
  obtain x w2 where r: "bankReverseCredit (portBank P) (pDestinationBIC p) (pDestAccount p) (pAmount p) w1 = (x, w2)"
    by fastforce
  have rel: "linv (ledger w2)" "reach (ledger w2) = reach (ledger w1)"
    "bal (ledger w2) = (bal (ledger w))(pDestAccount p \<mapsto> u - sint (pAmount p))"
    using reverse_law [OF w1(3) _ assms(7) _ _ assms(9) r] assms w1(2) by auto
  have s2: "status_of w2 = status_of w1" by (rule bank_frame(4) [OF r])
  have "live w2" by (rule bank_live(4) [OF w1(3) r])
  with s2 w1(4) obtain w3 where a: "abort_status (portRepo P) p w2 = (None, p, w3)" "ledger w3 = ledger w2"
    "status_of w3 = (status_of w2)(pID p \<mapsto> StatusAborted)" by (metis abort_ok)
  have c: "Compensate ?com p w1 = (None, p, w3)"
    by (simp add: CommitStep_def CommitStep_Compensate_def r a(1))
  have "live w3" using compensate_live [OF w1(3) _ c] by (simp add: gateway_steps_def)
  moreover have "status_of w3 (pID p) \<noteq> None" using a by simp
  ultimately obtain w4 where "compensate_until_error (rev (take 6 (gateway_steps P))) p w3 = (None, p, w4)"
    "bal (ledger w4) = (bal (ledger w3))(pSourceAccount p \<mapsto> v + sint (pAmount p))"
    "status_of w4 (pID p) = Some StatusAborted"
    using compensate_six [of w3 p v] rel a assms w1(2) by auto
  with that show thesis
    using w1 c rel a by (simp add: sts compensate_until_error_append)
qed

end

end
