(* ===== verification/Grpc.thy ===== *)
theory Grpc
  imports Domain
begin

text \<open>
  What the generated gRPC stubs stand for: a remote method is a parameter of the client that
  calls it. \<open>delivers\<close> says that such a parameter is the method of a server in the same world:
  the server's answer comes back, and an error comes back with gRPC's status text around it.
\<close>

definition grpc_error :: "goerror \<Rightarrow> goerror" where
  "grpc_error e = ErrMsg (''rpc error: code = Unknown desc = '' @ Error e)"

definition delivers :: "('q \<Rightarrow> ('w, 'a) call) \<Rightarrow> ('q \<Rightarrow> ('w, 'a) call) \<Rightarrow> bool" where
  "delivers rpc server \<longleftrightarrow> (\<forall>req w. rpc req w =
     (case server req w of (Inl e, w') \<Rightarrow> (Inl (grpc_error e), w') | (Inr a, w') \<Rightarrow> (Inr a, w')))"

text \<open>The message \<^verbatim>\<open>payment.Payment\<close> of \<^verbatim>\<open>api/proto/payment.proto\<close>, the fields the
  clients fill.\<close>

record pbPayment =
  pbId :: string
  pbEndToEndId :: string
  pbSourceBic :: string
  pbDestinationBic :: string
  pbSourceAccount :: string
  pbDestAccount :: string
  pbAmount :: int64
  pbCurrency :: string

definition pb_of_payment :: "Payment \<Rightarrow> pbPayment" where
  "pb_of_payment p =
     \<lparr>pbId = pID p, pbEndToEndId = pEndToEndID p, pbSourceBic = pSourceBIC p,
      pbDestinationBic = pDestinationBIC p, pbSourceAccount = pSourceAccount p,
      pbDestAccount = pDestAccount p, pbAmount = pAmount p, pbCurrency = pCurrency p\<rparr>"

text \<open>An in-process delivery, the transport a loopback connection is.\<close>

definition loopback :: "('q \<Rightarrow> ('w, 'a) call) \<Rightarrow> 'q \<Rightarrow> ('w, 'a) call" where
  "loopback server req w =
     (case server req w of (Inl e, w') \<Rightarrow> (Inl (grpc_error e), w') | (Inr a, w') \<Rightarrow> (Inr a, w'))"

lemma deliversD:
  assumes "delivers rpc server"
  shows "rpc req w = (case server req w of (Inl e, w') \<Rightarrow> (Inl (grpc_error e), w') | (Inr a, w') \<Rightarrow> (Inr a, w'))"
  using assms unfolding delivers_def by blast

lemma delivers_loopback: "delivers (loopback server) server"
  by (simp add: delivers_def loopback_def)

lemma delivers_ok: "delivers rpc server \<Longrightarrow> server req w = (Inr a, w') \<Longrightarrow> rpc req w = (Inr a, w')"
  by (simp add: delivers_def)

lemma delivers_err:
  "delivers rpc server \<Longrightarrow> server req w = (Inl e, w') \<Longrightarrow> rpc req w = (Inl (grpc_error e), w')"
  by (simp add: delivers_def)

end
