(* ===== verification/Settlement.thy ===== *)
theory Settlement
  imports Grpc "HOL-Library.Multiset"
begin

text \<open>
  The settlement service: the window and the netting of \<^verbatim>\<open>internal/settlement/engine.go\<close>
  and its gRPC adapters in \<^verbatim>\<open>grpc.go\<close>. Net positions are computed in wrapping 64-bit
  arithmetic, as the code does. Go visits a map in no fixed order, so the order in which positions
  are listed is a parameter \<open>ord\<close>; the theorems assume only that it is a rearrangement.
\<close>

section \<open>engine.go\<close>

record SettlementEntry =
  sePaymentID :: string
  seSourceBIC :: string
  seDestBIC :: string
  seAmount :: int64
  seCurrency :: string
  seCommittedAt :: time

record NetPosition =
  npBIC :: string
  npAmount :: int64
  npCurrency :: string

text \<open>A call of \<^verbatim>\<open>LedgerWriter.WriteSettlement\<close>: BIC, payment id, event type, payload, amount.\<close>

type_synonym 'l LedgerWriter = "string \<Rightarrow> string \<Rightarrow> string \<Rightarrow> string \<Rightarrow> int64 \<Rightarrow> 'l \<Rightarrow> goerror option \<times> 'l"

text \<open>\<open>wnSpawned\<close> counts the goroutines \<^verbatim>\<open>go w.Settle(ctx)\<close> started and not yet run.\<close>

record 'l Window =
  wnEntries :: "SettlementEntry list"
  wnInterval :: duration
  wnMaxSize :: int64
  wnClosed :: bool
  wnLedger :: "'l LedgerWriter option"
  wnSpawned :: nat

definition NewWindow :: "duration \<Rightarrow> int64 \<Rightarrow> 'l Window" where
  "NewWindow interval maxSize =
     \<lparr>wnEntries = [], wnInterval = interval, wnMaxSize = maxSize, wnClosed = False,
      wnLedger = None, wnSpawned = 0\<rparr>"

definition Add :: "SettlementEntry \<Rightarrow> 'l Window \<Rightarrow> goerror option \<times> 'l Window" where
  "Add entry w =
     (if wnClosed w then (Some (ErrMsg ''settlement window is closed''), w)
      else let es = wnEntries w @ [entry] in
        (None, w\<lparr>wnEntries := es,
                 wnSpawned := (if int (length es) \<ge> sint (wnMaxSize w)
                               then Suc (wnSpawned w) else wnSpawned w)\<rparr>))"

definition net_get :: "(string \<rightharpoonup> int64) \<Rightarrow> string \<Rightarrow> int64" where
  "net_get m bic = (case m bic of None \<Rightarrow> 0 | Some a \<Rightarrow> a)"

definition net_step :: "SettlementEntry \<Rightarrow> (string \<rightharpoonup> int64) \<Rightarrow> (string \<rightharpoonup> int64)" where
  "net_step e m =
     (let m1 = m(seSourceBIC e \<mapsto> net_get m (seSourceBIC e) - seAmount e)
      in m1(seDestBIC e \<mapsto> net_get m1 (seDestBIC e) + seAmount e))"

definition netMap :: "SettlementEntry list \<Rightarrow> (string \<rightharpoonup> int64)" where
  "netMap es = fold net_step es Map.empty"

definition net_bics :: "SettlementEntry list \<Rightarrow> string list" where
  "net_bics es = remdups (concat (map (\<lambda>e. [seSourceBIC e, seDestBIC e]) es))"

definition position_currency :: "SettlementEntry list \<Rightarrow> string \<Rightarrow> string" where
  "position_currency es bic =
     (case find (\<lambda>e. seSourceBIC e = bic \<or> seDestBIC e = bic) es of
        None \<Rightarrow> '''' | Some e \<Rightarrow> seCurrency e)"

definition calculateNetPositions ::
    "(string list \<Rightarrow> string list) \<Rightarrow> SettlementEntry list \<Rightarrow> NetPosition list" where
  "calculateNetPositions ord es =
     map (\<lambda>bic. \<lparr>npBIC = bic, npAmount = net_get (netMap es) bic,
                  npCurrency = position_currency es bic\<rparr>)
       (filter (\<lambda>bic. net_get (netMap es) bic \<noteq> 0) (ord (net_bics es)))"

definition amount_payload :: "int64 \<Rightarrow> string \<Rightarrow> string" where
  "amount_payload amount currency =
     ''{'' @ [char_of (34 :: nat)] @ ''amount'' @ [char_of (34 :: nat)] @ '':'' @ fmt_d amount @ '','' @
     [char_of (34 :: nat)] @ ''currency'' @ [char_of (34 :: nat)] @ '':'' @
     [char_of (34 :: nat)] @ currency @ [char_of (34 :: nat)] @ ''}''"

definition ledger_entries :: "SettlementEntry list \<Rightarrow> NetPosition list \<Rightarrow>
    (string \<times> string \<times> string \<times> string \<times> int64) list" where
  "ledger_entries es ps =
     concat (map (\<lambda>e.
       [(seSourceBIC e, sePaymentID e, ''settlement.debit'', amount_payload (seAmount e) (seCurrency e), - seAmount e),
        (seDestBIC e, sePaymentID e, ''settlement.credit'', amount_payload (seAmount e) (seCurrency e), seAmount e)]) es)
     @ map (\<lambda>q. (npBIC q, ''net'', ''settlement.net'', amount_payload (npAmount q) (npCurrency q), npAmount q)) ps"

text \<open>The errors of the ledger are dropped.\<close>

definition write_ledger :: "'l LedgerWriter option \<Rightarrow> SettlementEntry list \<Rightarrow> NetPosition list \<Rightarrow> 'l \<Rightarrow> 'l" where
  "write_ledger L es ps l =
     (case L of None \<Rightarrow> l
      | Some wr \<Rightarrow> fold (\<lambda>(b, i, t, pl, a) l. snd (wr b i t pl a l)) (ledger_entries es ps) l)"

definition Settle :: "(string list \<Rightarrow> string list) \<Rightarrow> 'l Window \<Rightarrow> 'l \<Rightarrow>
    (goerror + NetPosition list) \<times> 'l Window \<times> 'l" where
  "Settle ord w l =
     (if wnClosed w then (Inl (ErrMsg ''window already settled''), w, l)
      else let es = wnEntries w; ps = calculateNetPositions ord es in
        (Inr ps, w\<lparr>wnClosed := True, wnEntries := []\<rparr>, write_ledger (wnLedger w) es ps l))"

text \<open>A goroutine started by \<^verbatim>\<open>Add\<close> runs.\<close>

definition run_spawned :: "(string list \<Rightarrow> string list) \<Rightarrow> 'l Window \<Rightarrow> 'l \<Rightarrow> 'l Window \<times> 'l" where
  "run_spawned ord w l =
     (if wnSpawned w = 0 then (w, l)
      else case Settle ord (w\<lparr>wnSpawned := wnSpawned w - 1\<rparr>) l of (_, w', l') \<Rightarrow> (w', l'))"

section \<open>grpc.go\<close>

type_synonym SettlementAck = bool

text \<open>The server's handler drops the error of \<^verbatim>\<open>Add\<close> and accepts. Both work on the engine's first
  window.\<close>

definition SubmitForSettlement :: "pbPayment \<Rightarrow> ('l Window, SettlementAck) call" where
  "SubmitForSettlement req w =
     (case Add \<lparr>sePaymentID = pbId req, seSourceBIC = pbSourceBic req, seDestBIC = pbDestinationBic req,
                seAmount = pbAmount req, seCurrency = pbCurrency req, seCommittedAt = 0\<rparr> w of
        (_, w') \<Rightarrow> (Inr True, w'))"

definition SettleWindow :: "(string list \<Rightarrow> string list) \<Rightarrow> 'l Window \<times> 'l \<Rightarrow>
    (goerror + NetPosition list) \<times> ('l Window \<times> 'l)" where
  "SettleWindow ord s =
     (case Settle ord (fst s) (snd s) of (r, w', l') \<Rightarrow> (r, (w', l')))"

text \<open>The engine's windows; \<^verbatim>\<open>windows[0]\<close> of an engine without one panics, \<^const>\<open>None\<close>. The answer
  to \<^verbatim>\<open>GetNetPositions\<close> is a nil message.\<close>

type_synonym 'l Engine = "'l Window list"

definition NewEngine :: "'l Engine" where
  "NewEngine = []"

definition AddWindow :: "'l Window \<Rightarrow> 'l Engine \<Rightarrow> 'l Engine" where
  "AddWindow w e = e @ [w]"

definition engine_SubmitForSettlement :: "pbPayment \<Rightarrow> 'l Engine \<Rightarrow> ((goerror + SettlementAck) \<times> 'l Engine) option" where
  "engine_SubmitForSettlement req e =
     (case e of [] \<Rightarrow> None | w # ws \<Rightarrow> (case SubmitForSettlement req w of (r, w') \<Rightarrow> Some (r, w' # ws)))"

definition engine_SettleWindow :: "(string list \<Rightarrow> string list) \<Rightarrow> 'l Engine \<times> 'l \<Rightarrow>
    ((goerror + NetPosition list) \<times> 'l Engine \<times> 'l) option" where
  "engine_SettleWindow ord s =
     (case fst s of [] \<Rightarrow> None
      | w # ws \<Rightarrow> (case SettleWindow ord (w, snd s) of (r, (w', l')) \<Rightarrow> Some (r, w' # ws, l')))"

definition engine_GetNetPositions :: "'l Engine \<Rightarrow> (goerror + NetPosition list option) \<times> 'l Engine" where
  "engine_GetNetPositions e = (Inr None, e)"

definition settlement_Submit :: "(pbPayment \<Rightarrow> ('w, SettlementAck) call) \<Rightarrow> 'w SettlementClient" where
  "settlement_Submit rpc p w =
     (case rpc (pb_of_payment p) w of (r, w') \<Rightarrow> (err_of r, w'))"

section \<open>Net positions\<close>

text \<open>What a participant's position should be: credits minus debits, in 64-bit arithmetic.\<close>

definition net_of :: "SettlementEntry list \<Rightarrow> string \<Rightarrow> int64" where
  "net_of es bic =
     sum_list (map seAmount (filter (\<lambda>e. seDestBIC e = bic) es)) -
     sum_list (map seAmount (filter (\<lambda>e. seSourceBIC e = bic) es))"

lemma net_get_step:
  "net_get (net_step e m) bic =
     net_get m bic - (if seSourceBIC e = bic then seAmount e else 0) + (if seDestBIC e = bic then seAmount e else 0)"
  by (auto simp: net_step_def net_get_def Let_def)

lemma net_get_fold: "net_get (fold net_step es m) bic = net_get m bic + net_of es bic"
  by (induction es arbitrary: m) (auto simp: net_of_def net_get_step)

lemma net_get_netMap: "net_get (netMap es) bic = net_of es bic"
  by (simp add: netMap_def net_get_fold) (simp add: net_get_def)

lemma net_bics_set: "set (net_bics es) = seSourceBIC ` set es \<union> seDestBIC ` set es"
  by (auto simp: net_bics_def)

lemma distinct_net_bics: "distinct (net_bics es)"
  by (simp add: net_bics_def)

lemma net_of_outside: "bic \<notin> set (net_bics es) \<Longrightarrow> net_of es bic = 0"
proof -
  assume "bic \<notin> set (net_bics es)"
  then have "filter (\<lambda>e. seDestBIC e = bic) es = []" "filter (\<lambda>e. seSourceBIC e = bic) es = []"
    by (auto simp: net_bics_set filter_empty_conv)
  then show ?thesis by (simp add: net_of_def)
qed

lemma sum_net_of:
  assumes "finite A" and "seSourceBIC ` set es \<union> seDestBIC ` set es \<subseteq> A"
  shows "(\<Sum>bic\<in>A. net_of es bic) = 0"
  using assms(2)
proof (induction es)
  case (Cons e es)
  have "net_of (e # es) bic = net_of es bic + ((if seDestBIC e = bic then seAmount e else 0) -
          (if seSourceBIC e = bic then seAmount e else 0))" for bic
    by (auto simp: net_of_def)
  then have "(\<Sum>bic\<in>A. net_of (e # es) bic) = (\<Sum>bic\<in>A. net_of es bic) +
      ((\<Sum>bic\<in>A. if seDestBIC e = bic then seAmount e else 0) -
       (\<Sum>bic\<in>A. if seSourceBIC e = bic then seAmount e else 0))"
    by (simp add: sum.distrib sum_subtractf)
  with Cons assms(1) show ?case by (simp add: sum.delta')
qed (simp add: net_of_def)

lemma sum_list_filter_nonzero:
  "sum_list (map f (filter (\<lambda>x. f x \<noteq> 0) xs)) = (sum_list (map f xs) :: 'a :: comm_monoid_add)"
  by (induction xs) auto

lemma net_positions_sum_zero:
  assumes "mset (ord (net_bics es)) = mset (net_bics es)"
  shows "sum_list (map npAmount (calculateNetPositions ord es)) = 0"
proof -
  let ?ks = "ord (net_bics es)"
  have d: "distinct ?ks" "set ?ks = set (net_bics es)"
    using assms distinct_net_bics by (metis mset_eq_imp_distinct_iff, metis mset_eq_setD)
  have "sum_list (map npAmount (calculateNetPositions ord es)) =
      sum_list (map (net_of es) (filter (\<lambda>b. net_of es b \<noteq> 0) ?ks))"
    by (simp add: calculateNetPositions_def net_get_netMap o_def)
  also have "\<dots> = sum_list (map (net_of es) ?ks)" by (rule sum_list_filter_nonzero)
  also have "\<dots> = (\<Sum>bic\<in>set (net_bics es). net_of es bic)"
    using d by (simp add: sum_list_distinct_conv_sum_set)
  also have "\<dots> = 0" by (rule sum_net_of) (simp_all add: net_bics_set)
  finally show ?thesis .
qed

lemma net_positions_mem:
  assumes "mset (ord (net_bics es)) = mset (net_bics es)"
  shows "(\<exists>q\<in>set (calculateNetPositions ord es). npBIC q = bic \<and> npAmount q = a) \<longleftrightarrow>
         a \<noteq> 0 \<and> net_of es bic = a"
proof -
  have "set (ord (net_bics es)) = set (net_bics es)" using assms by (metis mset_eq_setD)
  then show ?thesis
    using net_of_outside [of bic es]
    by (auto simp: calculateNetPositions_def net_get_netMap)
qed

lemma submit_closed_lost:
  "wnClosed w \<Longrightarrow> SubmitForSettlement req w = (Inr True, w)"
  by (simp add: SubmitForSettlement_def Add_def)

end
