(* ===== verification/Quoting.thy ===== *)
theory Quoting
  imports Grpc
begin

text \<open>
  The quoting service, \<^verbatim>\<open>internal/quoting/service.go\<close>, and its gRPC adapters in
  \<^verbatim>\<open>grpc.go\<close>. The fresh identifier, the random latency and the clock are arguments. The
  lemmas bound fee and total, and show that a quote is accepted at most once and only before it
  expires.
\<close>

section \<open>service.go\<close>

record Quote =
  qID :: string
  qSourceBIC :: string
  qDestinationBIC :: string
  qAmount :: int64
  qCurrency :: string
  qFee :: int64
  qTotal :: int64
  qEstimatedLatencyMs :: int64
  qExpiresAt :: time
  qAccepted :: bool

record QuotingService =
  quotes :: "string \<rightharpoonup> Quote"
  baseFee :: int64

definition New_quoting :: QuotingService where
  "New_quoting = \<lparr>quotes = Map.empty, baseFee = 25\<rparr>"

text \<open>What the environment supplies to one call: \<^verbatim>\<open>uuid.New()\<close>, \<^verbatim>\<open>rand.Int63n(3000)\<close>
  and \<^verbatim>\<open>time.Now()\<close>.\<close>

record quote_env =
  qeUUID :: string
  qeRand :: int64
  qeNow :: time

definition quote_fee :: "int64 \<Rightarrow> int64 \<Rightarrow> int64" where
  "quote_fee base amount = base + go_div amount 10000"

definition getQuote :: "quote_env \<Rightarrow> string \<Rightarrow> string \<Rightarrow> int64 \<Rightarrow> string \<Rightarrow> (QuotingService, Quote) call" where
  "getQuote env sourceBIC destBIC amount currency s =
     (if sourceBIC = '''' \<or> destBIC = '''' then
        (Inl (ErrMsg ''source and destination BIC are required''), s)
      else if sle amount 0 then (Inl (ErrMsg ''amount must be positive''), s)
      else
        let fee = quote_fee (baseFee s) amount;
            total = amount + fee;
            q = \<lparr>qID = qeUUID env, qSourceBIC = sourceBIC, qDestinationBIC = destBIC,
                  qAmount = amount, qCurrency = currency, qFee = fee, qTotal = total,
                  qEstimatedLatencyMs = 500 + qeRand env, qExpiresAt = qeNow env + 30 * Second,
                  qAccepted = False\<rparr>
        in (Inr q, s\<lparr>quotes := (quotes s)(qID q \<mapsto> q)\<rparr>))"

definition GetQuote :: "quote_env \<Rightarrow> QuotingService QuotingClient" where
  "GetQuote env sourceBIC destBIC amount currency s =
     (case getQuote env sourceBIC destBIC amount currency s of
        (Inl e, s') \<Rightarrow> (Inl e, s')
      | (Inr q, s') \<Rightarrow> (Inr (qID q, qFee q, qTotal q), s'))"

definition AcceptQuote :: "time \<Rightarrow> string \<Rightarrow> QuotingService \<Rightarrow> goerror option \<times> QuotingService" where
  "AcceptQuote now quoteID s =
     (case quotes s quoteID of
        None \<Rightarrow> (Some (ErrMsg (''quote '' @ quoteID @ '' not found'')), s)
      | Some q \<Rightarrow>
          if now > qExpiresAt q then (Some (ErrMsg (''quote '' @ quoteID @ '' has expired'')), s)
          else if qAccepted q then (Some (ErrMsg (''quote '' @ quoteID @ '' already accepted'')), s)
          else (None, s\<lparr>quotes := (quotes s)(quoteID \<mapsto> q\<lparr>qAccepted := True\<rparr>)\<rparr>))"

section \<open>grpc.go\<close>

record QuoteRequest =
  qrSourceBic :: string
  qrDestinationBic :: string
  qrAmount :: int64
  qrCurrency :: string

text \<open>The answer message; the expiry is the instant its RFC 3339 text denotes, which the client
  parses and drops.\<close>

record pbQuote =
  pqId :: string
  pqSourceBic :: string
  pqDestinationBic :: string
  pqAmount :: int64
  pqCurrency :: string
  pqFee :: int64
  pqTotal :: int64
  pqEstimatedLatencyMs :: int64
  pqExpiresAt :: time

definition quoting_server_GetQuote :: "quote_env \<Rightarrow> QuoteRequest \<Rightarrow> (QuotingService, pbQuote) call" where
  "quoting_server_GetQuote env req s =
     (case getQuote env (qrSourceBic req) (qrDestinationBic req) (qrAmount req) (qrCurrency req) s of
        (Inl e, s') \<Rightarrow> (Inl e, s')
      | (Inr q, s') \<Rightarrow>
          (Inr \<lparr>pqId = qID q, pqSourceBic = qSourceBIC q, pqDestinationBic = qDestinationBIC q,
                 pqAmount = qAmount q, pqCurrency = qCurrency q, pqFee = qFee q, pqTotal = qTotal q,
                 pqEstimatedLatencyMs = qEstimatedLatencyMs q,
                 pqExpiresAt = Truncate (qExpiresAt q) Second\<rparr>, s'))"

definition quoting_client_GetQuote :: "(QuoteRequest \<Rightarrow> ('w, pbQuote) call) \<Rightarrow> 'w QuotingClient" where
  "quoting_client_GetQuote rpc sourceBIC destBIC amount currency w =
     (case rpc \<lparr>qrSourceBic = sourceBIC, qrDestinationBic = destBIC, qrAmount = amount,
                 qrCurrency = currency\<rparr> w of
        (Inl e, w') \<Rightarrow> (Inl e, w')
      | (Inr q, w') \<Rightarrow> (Inr (pqId q, pqFee q, pqTotal q), w'))"

definition quoting_server_AcceptQuote :: "time \<Rightarrow> string \<Rightarrow> (QuotingService, bool) call" where
  "quoting_server_AcceptQuote now quoteID s =
     (case AcceptQuote now quoteID s of
        (Some _, s') \<Rightarrow> (Inr False, s')
      | (None, s') \<Rightarrow> (Inr True, s'))"

section \<open>Lemmas\<close>

lemma sint_go_div_nonneg:
  assumes "0 \<le> sint a" "0 < sint b"
  shows "sint (go_div a b) = sint a div sint b"
proof -
  have "sgn (sint a) * sgn (sint b) * (\<bar>sint a\<bar> div \<bar>sint b\<bar>) = sint a div sint b"
    using assms by (cases "sint a = 0") (auto simp: sgn_if)
  moreover have "0 \<le> sint a div sint b" "sint a div sint b \<le> sint a"
    using assms zdiv_mono2 [of "sint a" 1 "sint b"] by (auto simp: pos_imp_zdiv_nonneg_iff)
  ultimately show ?thesis
    using sint_fits64 [of a] by (simp add: go_div_def) (intro sint_word_of_int64, simp add: fits64_def)
qed

text \<open>Fee and total as integers, when they fit.\<close>

lemma quote_fee_value:
  assumes "0 < sint amount" "0 \<le> sint base" "sint base + sint amount div 10000 < 2 ^ 63"
  shows "sint (quote_fee base amount) = sint base + sint amount div 10000"
proof -
  have d: "sint (go_div amount 10000) = sint amount div 10000"
    using sint_go_div_nonneg [of amount 10000] assms(1) by simp
  moreover have "0 \<le> sint amount div 10000" using assms(1) by (simp add: pos_imp_zdiv_nonneg_iff)
  ultimately show ?thesis
    unfolding quote_fee_def using assms(2,3) by (subst sint_add64) (auto simp: fits64_def)
qed

lemma getQuote_value:
  assumes "getQuote env sb db amount ccy s = (Inr q, s')"
    and "0 \<le> sint (baseFee s)" "sint amount + sint (baseFee s) + sint amount div 10000 < 2 ^ 63"
  shows "sint (qFee q) = sint (baseFee s) + sint amount div 10000"
    and "sint (qTotal q) = sint amount + sint (qFee q)"
    and "0 < sint amount" "quotes s' = (quotes s)(qID q \<mapsto> q)" "\<not> qAccepted q"
    "qExpiresAt q = qeNow env + 30 * Second"
proof -
  from assms(1) have pos: "0 < sint amount" and q: "qFee q = quote_fee (baseFee s) amount"
    "qTotal q = amount + quote_fee (baseFee s) amount" "quotes s' = (quotes s)(qID q \<mapsto> q)" "\<not> qAccepted q"
    "qExpiresAt q = qeNow env + 30 * Second"
    by (auto simp: getQuote_def Let_def sle_def split: if_splits)
  have f: "sint (quote_fee (baseFee s) amount) = sint (baseFee s) + sint amount div 10000"
    using pos assms(2,3) by (intro quote_fee_value) auto
  moreover have "0 \<le> sint amount div 10000" using pos by (simp add: pos_imp_zdiv_nonneg_iff)
  ultimately have "sint (amount + quote_fee (baseFee s) amount) = sint amount + sint (quote_fee (baseFee s) amount)"
    using pos assms(2,3) by (intro sint_add64) (auto simp: fits64_def)
  with f pos q show "sint (qFee q) = sint (baseFee s) + sint amount div 10000"
    "sint (qTotal q) = sint amount + sint (qFee q)"
    "0 < sint amount" "quotes s' = (quotes s)(qID q \<mapsto> q)" "\<not> qAccepted q"
    "qExpiresAt q = qeNow env + 30 * Second" by simp_all
qed

lemma AcceptQuote_ok_iff:
  "(\<exists>s'. AcceptQuote now i s = (None, s')) \<longleftrightarrow>
     (\<exists>q. quotes s i = Some q \<and> now \<le> qExpiresAt q \<and> \<not> qAccepted q)"
  by (auto simp: AcceptQuote_def not_less split: option.splits)

lemma AcceptQuote_once:
  assumes "AcceptQuote now i s = (None, s')"
  shows "\<exists>e. AcceptQuote now' i s' = (Some e, s')"
  using assms by (auto simp: AcceptQuote_def split: option.splits if_splits)

text \<open>Over a connection that delivers, the client sees what the service in the same process
  would answer.\<close>

lemma quoting_client_GetQuote_eq:
  assumes "delivers rpc (quoting_server_GetQuote env)"
  shows "quoting_client_GetQuote rpc sb db amount ccy s =
     (case GetQuote env sb db amount ccy s of
        (Inl e, s') \<Rightarrow> (Inl (grpc_error e), s') | (Inr x, s') \<Rightarrow> (Inr x, s'))"
proof -
  note r = deliversD [OF assms]
  show ?thesis
    unfolding quoting_client_GetQuote_def r quoting_server_GetQuote_def GetQuote_def
    by (cases "getQuote env sb db amount ccy s"; cases "fst (getQuote env sb db amount ccy s)") auto
qed

end
