(* ===== verification/Routing.thy ===== *)
theory Routing
  imports Grpc
begin

text \<open>
  The routing table of \<^verbatim>\<open>internal/routing/service.go\<close> and its gRPC adapters in
  \<^verbatim>\<open>grpc.go\<close>. \<^verbatim>\<open>int\<close> is 64 bits wide; the wire message carries the estimate in 32.
\<close>

section \<open>service.go\<close>

record Route =
  rtSourceBIC :: string
  rtDestinationBIC :: string
  rtCurrency :: string
  rtFee :: int64
  rtEstimatedMs :: int64

type_synonym RoutingService = "Route list"

definition same_route :: "string \<Rightarrow> string \<Rightarrow> string \<Rightarrow> Route \<Rightarrow> bool" where
  "same_route sb db ccy r \<longleftrightarrow> rtSourceBIC r = sb \<and> rtDestinationBIC r = db \<and> rtCurrency r = ccy"

definition mk_route :: "string \<Rightarrow> string \<Rightarrow> string \<Rightarrow> int64 \<Rightarrow> int64 \<Rightarrow> Route" where
  "mk_route sb db ccy fee ms =
     \<lparr>rtSourceBIC = sb, rtDestinationBIC = db, rtCurrency = ccy, rtFee = fee, rtEstimatedMs = ms\<rparr>"

definition routing_seedDefaults :: RoutingService where
  "routing_seedDefaults =
     [mk_route ''BANKUS33'' ''BANKDEFF'' ''USD'' 150 2000,
      mk_route ''BANKUS33'' ''BANKDEFF'' ''EUR'' 130 2100,
      mk_route ''BANKUS33'' ''BANKDEFF'' ''GBP'' 170 2200,
      mk_route ''BANKUS33'' ''BANKGB2L'' ''USD'' 200 1500,
      mk_route ''BANKUS33'' ''BANKGB2L'' ''EUR'' 180 1600,
      mk_route ''BANKUS33'' ''BANKGB2L'' ''GBP'' 160 1400,
      mk_route ''BANKDEFF'' ''BANKUS33'' ''USD'' 140 2200,
      mk_route ''BANKDEFF'' ''BANKUS33'' ''EUR'' 120 2500,
      mk_route ''BANKDEFF'' ''BANKUS33'' ''GBP'' 160 2300,
      mk_route ''BANKDEFF'' ''BANKGB2L'' ''USD'' 190 1800,
      mk_route ''BANKDEFF'' ''BANKGB2L'' ''EUR'' 110 1600,
      mk_route ''BANKDEFF'' ''BANKGB2L'' ''GBP'' 140 1700,
      mk_route ''BANKGB2L'' ''BANKUS33'' ''USD'' 210 1500,
      mk_route ''BANKGB2L'' ''BANKUS33'' ''EUR'' 190 1600,
      mk_route ''BANKGB2L'' ''BANKUS33'' ''GBP'' 180 1800,
      mk_route ''BANKGB2L'' ''BANKDEFF'' ''USD'' 175 1700,
      mk_route ''BANKGB2L'' ''BANKDEFF'' ''EUR'' 125 1500,
      mk_route ''BANKGB2L'' ''BANKDEFF'' ''GBP'' 155 1600]"

definition no_route :: "string \<Rightarrow> string \<Rightarrow> string \<Rightarrow> goerror" where
  "no_route sb db ccy = ErrMsg (''no route from '' @ sb @ '' to '' @ db @ '' for '' @ ccy)"

definition LookupRoute :: "string \<Rightarrow> string \<Rightarrow> string \<Rightarrow> RoutingService \<Rightarrow> goerror + Route" where
  "LookupRoute sb db ccy s =
     (case find (same_route sb db ccy) s of None \<Rightarrow> Inl (no_route sb db ccy) | Some r \<Rightarrow> Inr r)"

definition FindRoute :: "RoutingService RoutingClient" where
  "FindRoute sb db ccy s =
     (case LookupRoute sb db ccy s of
        Inl e \<Rightarrow> (Inl e, s) | Inr r \<Rightarrow> (Inr (rtFee r, rtEstimatedMs r), s))"

text \<open>\<^verbatim>\<open>AddRoute\<close> replaces the first route of the same key, or appends.\<close>

fun replace_first :: "('a \<Rightarrow> bool) \<Rightarrow> 'a \<Rightarrow> 'a list \<Rightarrow> 'a list option" where
  "replace_first P x [] = None"
| "replace_first P x (y # ys) = (if P y then Some (x # ys) else map_option ((#) y) (replace_first P x ys))"

definition AddRoute :: "Route \<Rightarrow> RoutingService \<Rightarrow> RoutingService" where
  "AddRoute r s =
     (case replace_first (same_route (rtSourceBIC r) (rtDestinationBIC r) (rtCurrency r)) r s of
        Some s' \<Rightarrow> s' | None \<Rightarrow> s @ [r])"

section \<open>grpc.go\<close>

record pbRoute =
  prSourceBic :: string
  prDestinationBic :: string
  prCurrency :: string
  prFee :: int64
  prEstimatedMs :: int32

definition routing_server_FindRoute :: "string \<times> string \<times> string \<Rightarrow> (RoutingService, pbRoute) call" where
  "routing_server_FindRoute req s =
     (case req of (sb, db, ccy) \<Rightarrow>
       (case LookupRoute sb db ccy s of
          Inl e \<Rightarrow> (Inl e, s)
        | Inr r \<Rightarrow> (Inr \<lparr>prSourceBic = rtSourceBIC r, prDestinationBic = rtDestinationBIC r,
                          prCurrency = rtCurrency r, prFee = rtFee r,
                          prEstimatedMs = ucast (rtEstimatedMs r)\<rparr>, s)))"

definition routing_client_FindRoute ::
    "(string \<times> string \<times> string \<Rightarrow> ('w, pbRoute) call) \<Rightarrow> 'w RoutingClient" where
  "routing_client_FindRoute rpc sb db ccy w =
     (case rpc (sb, db, ccy) w of
        (Inl e, w') \<Rightarrow> (Inl e, w')
      | (Inr r, w') \<Rightarrow> (Inr (prFee r, scast (prEstimatedMs r)), w'))"

definition routing_server_AddRoute :: "pbRoute \<Rightarrow> (RoutingService, unit) call" where
  "routing_server_AddRoute req s =
     (Inr (), AddRoute \<lparr>rtSourceBIC = prSourceBic req, rtDestinationBIC = prDestinationBic req,
        rtCurrency = prCurrency req, rtFee = prFee req,
        rtEstimatedMs = scast (prEstimatedMs req)\<rparr> s)"

section \<open>Lemmas\<close>

text \<open>At most one route per key.\<close>

definition route_key :: "Route \<Rightarrow> string \<times> string \<times> string" where
  "route_key r = (rtSourceBIC r, rtDestinationBIC r, rtCurrency r)"

definition routes_wf :: "RoutingService \<Rightarrow> bool" where
  "routes_wf s \<longleftrightarrow> distinct (map route_key s)"

lemma same_route_key: "same_route sb db ccy r \<longleftrightarrow> route_key r = (sb, db, ccy)"
  by (auto simp: same_route_def route_key_def)

lemma replace_first_None: "replace_first P x xs = None \<longleftrightarrow> (\<forall>y\<in>set xs. \<not> P y)"
  by (induction xs) auto

lemma replace_first_keys:
  assumes "replace_first (\<lambda>y. key y = key x) x xs = Some ys"
  shows "map key ys = map key xs"
  using assms by (induction xs arbitrary: ys) (auto split: if_splits)

lemma replace_first_find:
  assumes "replace_first (\<lambda>y. key y = key x) x xs = Some ys"
  shows "find (\<lambda>y. key y = k) ys = (if k = key x then Some x else find (\<lambda>y. key y = k) xs)"
  using assms by (induction xs arbitrary: ys) (auto split: if_splits)

lemma AddRoute_cases:
  "AddRoute r s = (case replace_first (\<lambda>y. route_key y = route_key r) r s of Some s' \<Rightarrow> s' | None \<Rightarrow> s @ [r])"
proof -
  have "same_route (rtSourceBIC r) (rtDestinationBIC r) (rtCurrency r) = (\<lambda>y. route_key y = route_key r)"
    by (auto simp: fun_eq_iff same_route_def route_key_def)
  then show ?thesis by (simp add: AddRoute_def)
qed

lemma find_append: "find P (xs @ ys) = (case find P xs of None \<Rightarrow> find P ys | Some x \<Rightarrow> Some x)"
  by (induction xs) auto

lemma AddRoute_find:
  "find (\<lambda>y. route_key y = k) (AddRoute r s) =
     (if k = route_key r then Some r else find (\<lambda>y. route_key y = k) s)"
proof (cases "replace_first (\<lambda>y. route_key y = route_key r) r s")
  case None
  then have "find (\<lambda>y. route_key y = route_key r) s = None"
    by (auto simp: replace_first_None find_None_iff)
  with None show ?thesis
    by (cases "find (\<lambda>y. route_key y = k) s") (auto simp: AddRoute_cases find_append)
next
  case (Some s')
  then show ?thesis by (simp add: AddRoute_cases replace_first_find)
qed

lemma AddRoute_wf: "routes_wf s \<Longrightarrow> routes_wf (AddRoute r s)"
proof (cases "replace_first (\<lambda>y. route_key y = route_key r) r s")
  case None
  moreover from this have "\<forall>y\<in>set s. route_key y \<noteq> route_key r" by (simp add: replace_first_None)
  moreover assume "routes_wf s"
  ultimately show ?thesis by (auto simp: AddRoute_cases routes_wf_def)
next
  case (Some s')
  moreover assume "routes_wf s"
  ultimately show ?thesis by (simp add: AddRoute_cases routes_wf_def replace_first_keys)
qed

lemma LookupRoute_AddRoute:
  "LookupRoute sb db ccy (AddRoute r s) =
     (if route_key r = (sb, db, ccy) then Inr r else LookupRoute sb db ccy s)"
proof -
  have "same_route sb db ccy = (\<lambda>y. route_key y = (sb, db, ccy))" by (auto simp: fun_eq_iff same_route_key)
  then show ?thesis by (simp add: LookupRoute_def AddRoute_find)
qed

text \<open>Truncating to 32 bits and extending back keeps an estimate that fits.\<close>

lemma estimate_round_trip:
  assumes "- (2 ^ 31) \<le> sint (m :: int64)" "sint m < 2 ^ 31"
  shows "scast (ucast m :: int32) = m"
proof -
  have "sint (ucast m :: int32) = signed_take_bit 31 (uint m)"
    by (simp add: signed_ucast_eq)
  also have "\<dots> = signed_take_bit 31 (sint m)"
    by (simp add: sint_uint)
  also have "\<dots> = sint m" using assms by (simp add: signed_take_bit_int_eq_self)
  finally show ?thesis by (simp add: scast_eq)
qed

lemma routing_client_FindRoute_eq:
  assumes "delivers rpc routing_server_FindRoute"
    and "\<And>r. r \<in> set s \<Longrightarrow> - (2 ^ 31) \<le> sint (rtEstimatedMs r) \<and> sint (rtEstimatedMs r) < 2 ^ 31"
  shows "routing_client_FindRoute rpc sb db ccy s =
     (case FindRoute sb db ccy s of
        (Inl e, s') \<Rightarrow> (Inl (grpc_error e), s') | (Inr x, s') \<Rightarrow> (Inr x, s'))"
proof -
  note r = deliversD [OF assms(1)]
  show ?thesis
  proof (cases "find (same_route sb db ccy) s")
    case None
    then show ?thesis
      by (simp add: routing_client_FindRoute_def r routing_server_FindRoute_def FindRoute_def LookupRoute_def)
  next
    case (Some x)
    then have "x \<in> set s" by (auto simp: find_Some_iff)
    with assms(2) estimate_round_trip have "scast (ucast (rtEstimatedMs x) :: int32) = rtEstimatedMs x" by blast
    with Some show ?thesis
      by (simp add: routing_client_FindRoute_def r routing_server_FindRoute_def FindRoute_def LookupRoute_def)
  qed
qed

lemma routing_defaults_wf: "routes_wf routing_seedDefaults"
  by (simp add: routes_wf_def routing_seedDefaults_def mk_route_def route_key_def)

end
