(* ===== verification/Reconciliation.thy ===== *)
theory Reconciliation
  imports Grpc "HOL-Library.Multiset"
begin

text \<open>
  The reconciliation service of \<^verbatim>\<open>internal/reconciliation/service.go\<close> and its gRPC adapters
  in \<^verbatim>\<open>grpc.go\<close>: one record per payment, matched against an expected status. A record map
  is kept as a list of records, one per payment id; Go lists a map in no fixed order, so a report
  is any rearrangement.
\<close>

section \<open>service.go\<close>

record Record =
  rcPaymentID :: string
  rcSourceBIC :: string
  rcDestBIC :: string
  rcAmount :: int64
  rcCurrency :: string
  rcStatus :: string
  rcMatched :: bool
  rcDiscrepancy :: string

type_synonym ReconService = "Record list"

definition New_recon :: ReconService where
  "New_recon = []"

definition Insert :: "Record \<Rightarrow> ReconService \<Rightarrow> ReconService" where
  "Insert r s = filter (\<lambda>x. rcPaymentID x \<noteq> rcPaymentID r) s @ [r]"

definition record_of :: "ReconService \<Rightarrow> string \<Rightarrow> Record option" where
  "record_of s i = row_by rcPaymentID i s"

definition AddRecord :: "ReconService ReconciliationClient" where
  "AddRecord paymentID sourceBIC destBIC amount currency status s =
     (None, Insert \<lparr>rcPaymentID = paymentID, rcSourceBIC = sourceBIC, rcDestBIC = destBIC,
        rcAmount = amount, rcCurrency = currency, rcStatus = status, rcMatched = False,
        rcDiscrepancy = ''''\<rparr> s)"

definition Match :: "string \<Rightarrow> string \<Rightarrow> ReconService \<Rightarrow> goerror option \<times> ReconService" where
  "Match paymentID expectedStatus s =
     (case record_of s paymentID of
        None \<Rightarrow> (Some (ErrMsg (''payment '' @ paymentID @ '' not found in reconciliation records'')), s)
      | Some r \<Rightarrow>
          if rcStatus r = expectedStatus then (None, Insert (r\<lparr>rcMatched := True\<rparr>) s)
          else
            let msg = ''expected '' @ expectedStatus @ '', got '' @ rcStatus r
            in (Some (ErrMsg msg), Insert (r\<lparr>rcDiscrepancy := msg\<rparr>) s))"

definition Report :: "ReconService \<Rightarrow> Record list \<Rightarrow> bool" where
  "Report s out \<longleftrightarrow> mset out = mset s"

definition unmatched :: "ReconService \<Rightarrow> nat" where
  "unmatched s = length (filter (\<lambda>r. \<not> rcMatched r) s)"

definition ImportExternal :: "string \<Rightarrow> ReconService \<Rightarrow> goerror option \<times> ReconService" where
  "ImportExternal source s = (None, s)"

section \<open>grpc.go\<close>

text \<open>The wire message has the fields of a record, so \<^typ>\<open>Record\<close> stands for it.\<close>

definition recon_server_AddRecord :: "Record \<Rightarrow> (ReconService, unit) call" where
  "recon_server_AddRecord req s = (Inr (), Insert req s)"

definition recon_client_AddRecord :: "(Record \<Rightarrow> ('w, unit) call) \<Rightarrow> 'w ReconciliationClient" where
  "recon_client_AddRecord rpc paymentID sourceBIC destBIC amount currency status w =
     (case rpc \<lparr>rcPaymentID = paymentID, rcSourceBIC = sourceBIC, rcDestBIC = destBIC,
        rcAmount = amount, rcCurrency = currency, rcStatus = status, rcMatched = False,
        rcDiscrepancy = ''''\<rparr> w of (r, w') \<Rightarrow> (err_of r, w'))"

definition recon_server_Match :: "string \<times> string \<Rightarrow> (ReconService, bool \<times> string) call" where
  "recon_server_Match req s =
     (case Match (fst req) (snd req) s of
        (Some e, s') \<Rightarrow> (Inr (False, Error e), s')
      | (None, s') \<Rightarrow> (Inr (True, ''''), s'))"

text \<open>\<open>ord\<close> is the order in which Go happens to list the records.\<close>

definition recon_server_Report :: "(Record list \<Rightarrow> Record list) \<Rightarrow> (ReconService, Record list) call" where
  "recon_server_Report ord s = (Inr (ord s), s)"

definition recon_server_ImportExternal :: "string \<Rightarrow> (ReconService, unit) call" where
  "recon_server_ImportExternal source s = (case ImportExternal source s of (_, s') \<Rightarrow> (Inr (), s'))"

section \<open>Lemmas\<close>

text \<open>A report over gRPC is a report of the service,
  with the records unchanged.\<close>

lemma recon_server_Report_ok: "mset (ord s) = mset s \<Longrightarrow> recon_server_Report ord s = (Inr out, s') \<Longrightarrow> Report s out \<and> s' = s"
  by (auto simp: recon_server_Report_def Report_def)


definition recon_wf :: "ReconService \<Rightarrow> bool" where
  "recon_wf s \<longleftrightarrow> distinct (map rcPaymentID s)"

lemma record_of_Insert:
  "record_of (Insert r s) i = (if i = rcPaymentID r then Some r else record_of s i)"
proof -
  have "row_by rcPaymentID i (filter (\<lambda>x. rcPaymentID x \<noteq> k) s) =
      (if i = k then None else row_by rcPaymentID i s)" for k
    by (induction s) (auto simp: row_by_def)
  then show ?thesis by (auto simp: record_of_def Insert_def split: option.splits)
qed

lemma Insert_wf: "recon_wf s \<Longrightarrow> recon_wf (Insert r s)"
  by (auto simp: recon_wf_def Insert_def distinct_map_filter)

lemma record_of_key: "record_of s i = Some r \<Longrightarrow> rcPaymentID r = i"
  by (auto simp: record_of_def dest: row_by_SomeD)

lemma Match_spec:
  "Match i st s =
     (case record_of s i of
        None \<Rightarrow> (Some (ErrMsg (''payment '' @ i @ '' not found in reconciliation records'')), s)
      | Some r \<Rightarrow> (if rcStatus r = st then None else Some (ErrMsg (''expected '' @ st @ '', got '' @ rcStatus r)),
                    snd (Match i st s)))"
  by (auto simp: Match_def Let_def split: option.splits)

lemma Match_frame:
  assumes "Match i st s = (e, s')" and "j \<noteq> i"
  shows "record_of s' j = record_of s j"
  using assms by (auto simp: Match_def Let_def record_of_Insert dest: record_of_key split: option.splits if_splits)

lemma Match_wf: "recon_wf s \<Longrightarrow> Match i st s = (e, s') \<Longrightarrow> recon_wf s'"
  by (auto simp: Match_def Let_def Insert_wf split: option.splits if_splits)

text \<open>A record is marked as matched exactly when the statuses agree, and keeps its data.\<close>

lemma Match_record:
  assumes "Match i st s = (e, s')" and "record_of s i = Some r"
  shows "record_of s' i = Some (if rcStatus r = st then r\<lparr>rcMatched := True\<rparr>
           else r\<lparr>rcDiscrepancy := ''expected '' @ st @ '', got '' @ rcStatus r\<rparr>)"
  using assms record_of_key [OF assms(2)]
  by (auto simp: Match_def Let_def record_of_Insert split: if_splits)

lemma recon_client_AddRecord_eq:
  assumes "delivers rpc recon_server_AddRecord"
  shows "recon_client_AddRecord rpc i sb db amount ccy st s = AddRecord i sb db amount ccy st s"
  by (simp add: recon_client_AddRecord_def deliversD [OF assms] recon_server_AddRecord_def AddRecord_def)

end
