(* ===== verification/Lookup.thy ===== *)
theory Lookup
  imports Grpc Wire
begin

text \<open>
  The BIC directory of \<^verbatim>\<open>internal/lookup/service.go\<close> with its read-through cache, and its
  gRPC adapters in \<^verbatim>\<open>grpc.go\<close>. The cache is a parameter: an answer is an error, an empty
  text, or a text with what the JSON decoder makes of it.
\<close>

section \<open>service.go\<close>

record BankInfo =
  biBIC :: string
  biName :: string
  biCountry :: string
  biSupported :: "string list"
  biRoutingInfo :: string

text \<open>\<^verbatim>\<open>lookup.Cache\<close> over a cache state; an empty text is \<^const>\<open>None\<close>.\<close>

record 'c Cache =
  cacheGet :: "string \<Rightarrow> ('c, json_body option) call"
  cacheSet :: "string \<Rightarrow> json \<Rightarrow> duration \<Rightarrow> 'c \<Rightarrow> goerror option \<times> 'c"

type_synonym banks_map = "string \<rightharpoonup> BankInfo"

definition currencies :: "string list" where
  "currencies = [''USD'', ''EUR'', ''GBP'']"

definition mk_bank :: "string \<Rightarrow> string \<Rightarrow> string \<Rightarrow> string \<Rightarrow> BankInfo" where
  "mk_bank bic name country info =
     \<lparr>biBIC = bic, biName = name, biCountry = country, biSupported = currencies, biRoutingInfo = info\<rparr>"

definition Register_bank :: "BankInfo \<Rightarrow> banks_map \<Rightarrow> banks_map" where
  "Register_bank b s = s(biBIC b \<mapsto> b)"

definition lookup_seedDefaults :: banks_map where
  "lookup_seedDefaults = fold Register_bank
     [mk_bank ''BANKUS33'' ''First National Bank'' ''US'' ''CHIPS:1234'',
      mk_bank ''BANKDEFF'' ''Deutsche Exchange Bank'' ''DE'' ''SEPA:DE123'',
      mk_bank ''BANKGB2L'' ''London Clearing Bank'' ''GB'' ''FPS:4567''] Map.empty"

definition bank_json :: "BankInfo \<Rightarrow> json" where
  "bank_json b =
     JObj [(''bic'', JStr (biBIC b)), (''name'', JStr (biName b)), (''country'', JStr (biCountry b)),
           (''supported_currencies'', JArr (map JStr (biSupported b))),
           (''routing_info'', JStr (biRoutingInfo b))]"

text \<open>Decoding a JSON array of strings; a wrong element is reported and leaves the empty string.\<close>

fun set_strings :: "string \<Rightarrow> json list \<Rightarrow> string list \<times> goerror option" where
  "set_strings place [] = ([], None)"
| "set_strings place (v # vs) =
     (case set_string place v '''' of
        (s, e) \<Rightarrow> (case set_strings place vs of (ss, e') \<Rightarrow> (s # ss, case e of None \<Rightarrow> e' | Some _ \<Rightarrow> e)))"

definition set_string_slice :: "string \<Rightarrow> json \<Rightarrow> string list \<Rightarrow> string list \<times> goerror option" where
  "set_string_slice place v old =
     (case v of JArr vs \<Rightarrow> set_strings place vs | JNull \<Rightarrow> ([], None)
      | _ \<Rightarrow> (old, Some (type_error (json_kind v) (''struct field '' @ place) ''[]string'')))"

definition bankInfo_set :: "string \<Rightarrow> json \<Rightarrow> BankInfo \<Rightarrow> BankInfo \<times> goerror option" where
  "bankInfo_set k v b =
     (if k = ''bic'' then
        (case set_string ''BankInfo.bic'' v (biBIC b) of (s, e) \<Rightarrow> (b\<lparr>biBIC := s\<rparr>, e))
      else if k = ''name'' then
        (case set_string ''BankInfo.name'' v (biName b) of (s, e) \<Rightarrow> (b\<lparr>biName := s\<rparr>, e))
      else if k = ''country'' then
        (case set_string ''BankInfo.country'' v (biCountry b) of (s, e) \<Rightarrow> (b\<lparr>biCountry := s\<rparr>, e))
      else if k = ''supported_currencies'' then
        (case set_string_slice ''BankInfo.supported_currencies'' v (biSupported b) of
           (ss, e) \<Rightarrow> (b\<lparr>biSupported := ss\<rparr>, e))
      else if k = ''routing_info'' then
        (case set_string ''BankInfo.routing_info'' v (biRoutingInfo b) of
           (s, e) \<Rightarrow> (b\<lparr>biRoutingInfo := s\<rparr>, e))
      else (b, None))"

definition bankInfo_zero :: BankInfo where
  "bankInfo_zero = \<lparr>biBIC = '''', biName = '''', biCountry = '''', biSupported = [], biRoutingInfo = ''''\<rparr>"

definition decode_bankInfo :: "json_body \<Rightarrow> goerror + BankInfo" where
  "decode_bankInfo = Decode ''lookup.BankInfo'' bankInfo_set bankInfo_zero"

definition bank_not_found :: "string \<Rightarrow> goerror" where
  "bank_not_found bic = ErrMsg (''bank '' @ bic @ '' not found'')"

text \<open>The first half of \<^verbatim>\<open>Lookup\<close>: the cached bank, if the cache has a usable one.\<close>

definition cached_bank :: "'c Cache option \<Rightarrow> string \<Rightarrow> 'c \<Rightarrow> BankInfo option \<times> 'c" where
  "cached_bank C bic c =
     (case C of
        None \<Rightarrow> (None, c)
      | Some k \<Rightarrow>
          (case cacheGet k (''bank:'' @ bic) c of
             (Inr (Some val), c') \<Rightarrow>
               (case decode_bankInfo val of Inr info \<Rightarrow> (Some info, c') | Inl _ \<Rightarrow> (None, c'))
           | (_, c') \<Rightarrow> (None, c')))"

definition Lookup_bank :: "'c Cache option \<Rightarrow> banks_map \<Rightarrow> string \<Rightarrow> ('c, BankInfo) call" where
  "Lookup_bank C banks bic c =
     (case cached_bank C bic c of
        (Some info, c') \<Rightarrow> (Inr info, c')
      | (None, c') \<Rightarrow>
          (case banks bic of
             None \<Rightarrow> (Inl (bank_not_found bic), c')
           | Some info \<Rightarrow>
               (case C of
                  None \<Rightarrow> (Inr info, c')
                | Some k \<Rightarrow> (Inr info, snd (cacheSet k (''bank:'' @ bic) (bank_json info) (5 * Minute) c')))))"

definition ResolveBIC :: "'c Cache option \<Rightarrow> banks_map \<Rightarrow> 'c LookupClient" where
  "ResolveBIC C banks bic c =
     (case Lookup_bank C banks bic c of
        (Inl e, c') \<Rightarrow> (Inl e, c')
      | (Inr info, c') \<Rightarrow> (Inr (biName info, biCountry info), c'))"

section \<open>grpc.go\<close>

text \<open>The message \<^verbatim>\<open>BICResponse\<close> has the fields of \<^verbatim>\<open>BankInfo\<close>.\<close>

definition lookup_server_ResolveBIC :: "'c Cache option \<Rightarrow> banks_map \<Rightarrow> string \<Rightarrow> ('c, BankInfo) call" where
  "lookup_server_ResolveBIC C banks bic c = Lookup_bank C banks bic c"

definition lookup_client_ResolveBIC :: "(string \<Rightarrow> ('w, BankInfo) call) \<Rightarrow> 'w LookupClient" where
  "lookup_client_ResolveBIC rpc bic w =
     (case rpc bic w of
        (Inl e, w') \<Rightarrow> (Inl e, w')
      | (Inr resp, w') \<Rightarrow> (Inr (biName resp, biCountry resp), w'))"

definition lookup_client_ResolveBICFull :: "(string \<Rightarrow> ('w, BankInfo) call) \<Rightarrow> string \<Rightarrow> ('w, BankInfo) call" where
  "lookup_client_ResolveBICFull rpc bic w = rpc bic w"

section \<open>Lemmas\<close>

lemma set_strings_JStr: "set_strings place (map JStr ss) = (ss, None)"
  by (induction ss) auto

text \<open>What the cache stores decodes to the bank.\<close>

lemma bank_json_round_trip: "decode_bankInfo (Inr (bank_json b)) = Inr b"
  by (simp add: decode_bankInfo_def Decode_def bank_json_def bankInfo_set_def bankInfo_zero_def
      ToLower_def lower_char_def set_string_slice_def set_strings_JStr)

text \<open>A cache is coherent for a BIC if what it answers is the JSON of the registered bank, or
  nothing usable.\<close>

definition coherent :: "'c Cache \<Rightarrow> banks_map \<Rightarrow> string \<Rightarrow> 'c \<Rightarrow> bool" where
  "coherent k banks bic c \<longleftrightarrow>
     (case fst (cacheGet k (''bank:'' @ bic) c) of
        Inr (Some val) \<Rightarrow>
          (case decode_bankInfo val of Inl _ \<Rightarrow> True | Inr info \<Rightarrow> banks bic = Some info)
      | _ \<Rightarrow> True)"

lemma Lookup_coherent:
  assumes "case C of None \<Rightarrow> True | Some k \<Rightarrow> coherent k banks bic c"
  shows "fst (Lookup_bank C banks bic c) =
     (case banks bic of None \<Rightarrow> Inl (bank_not_found bic) | Some info \<Rightarrow> Inr info)"
  using assms
  by (auto simp: Lookup_bank_def cached_bank_def coherent_def split: option.splits prod.splits sum.splits)

lemma lookup_client_ResolveBIC_eq:
  assumes "delivers rpc (lookup_server_ResolveBIC C banks)"
  shows "lookup_client_ResolveBIC rpc bic c =
     (case ResolveBIC C banks bic c of
        (Inl e, c') \<Rightarrow> (Inl (grpc_error e), c') | (Inr x, c') \<Rightarrow> (Inr x, c'))"
  by (simp add: lookup_client_ResolveBIC_def deliversD [OF assms] lookup_server_ResolveBIC_def
      ResolveBIC_def split: prod.splits sum.splits)

end
