(* ===== verification/Compliance.thy ===== *)
theory Compliance
  imports Grpc
begin

text \<open>
  The screening service of \<^verbatim>\<open>internal/compliance\<close> and the notification service of
  \<^verbatim>\<open>internal/notification\<close>, each with its gRPC adapters. Neither keeps state; a notification
  is a line of the log, which the model keeps as a list.
\<close>

section \<open>compliance/service.go, grpc.go\<close>

definition Screen :: "'w ComplianceClient" where
  "Screen p w =
     (if pSourceBIC p = '''' \<or> pDestinationBIC p = '''' then
        (Inl (ErrMsg ''missing BIC for screening''), w)
      else (Inr \<lparr>Cleared = True, Reason = ''auto-cleared''\<rparr>, w))"

text \<open>The server builds a payment from six fields of the request; the other fields are zero.\<close>

definition zero_payment :: Payment where
  "zero_payment =
     \<lparr>pID = '''', pEndToEndID = '''', pSourceBIC = '''', pDestinationBIC = '''', pSourceAccount = '''',
      pDestAccount = '''', pAmount = 0, pCurrency = '''', pStatus = '''', pUETR = '''', pInstrID = '''',
      pChargeBearer = '''', pSettlementDate = 0, pDebtorName = '''', pCreditorName = '''',
      pPurposeCode = '''', pRemittanceInfo = '''', pQuoteID = None, pRouteFee = 0,
      pRouteEstimatedMs = 0, pReservedAt = None, pExpiresAt = None, pCreatedAt = 0, pUpdatedAt = 0\<rparr>"

definition compliance_server_Screen :: "pbPayment \<Rightarrow> ('w, bool \<times> string) call" where
  "compliance_server_Screen req w =
     (case Screen (zero_payment\<lparr>pID := pbId req, pEndToEndID := pbEndToEndId req,
             pSourceBIC := pbSourceBic req, pDestinationBIC := pbDestinationBic req,
             pAmount := pbAmount req, pCurrency := pbCurrency req\<rparr>) w of
        (Inl e, w') \<Rightarrow> (Inl e, w')
      | (Inr result, w') \<Rightarrow> (Inr (Cleared result, Reason result), w'))"

definition compliance_client_Screen :: "(pbPayment \<Rightarrow> ('w, bool \<times> string) call) \<Rightarrow> 'w ComplianceClient" where
  "compliance_client_Screen rpc p w =
     (case rpc (pb_of_payment p) w of
        (Inl e, w') \<Rightarrow> (Inl e, w')
      | (Inr (cleared, reason), w') \<Rightarrow> (Inr \<lparr>Cleared = cleared, Reason = reason\<rparr>, w'))"

section \<open>notification/service.go, grpc.go\<close>

record NotificationRequest =
  nrParticipantID :: string
  nrChannel :: string
  nrTitle :: string
  nrBody :: string
  nrPaymentID :: string
  nrStatus :: string

type_synonym notify_log = "NotificationRequest list"

definition notify :: "NotificationRequest \<Rightarrow> notify_log \<Rightarrow> goerror option \<times> notify_log" where
  "notify req l = (None, l @ [req])"

definition Notify :: "notify_log NotificationClient" where
  "Notify participantID channel title body paymentID status l =
     notify \<lparr>nrParticipantID = participantID, nrChannel = channel, nrTitle = title, nrBody = body,
             nrPaymentID = paymentID, nrStatus = status\<rparr> l"

definition notification_server_Notify :: "NotificationRequest \<Rightarrow> (notify_log, bool) call" where
  "notification_server_Notify req l =
     (case notify req l of (Some _, l') \<Rightarrow> (Inr False, l') | (None, l') \<Rightarrow> (Inr True, l'))"

definition notification_client_Notify :: "(NotificationRequest \<Rightarrow> ('w, bool) call) \<Rightarrow> 'w NotificationClient" where
  "notification_client_Notify rpc participantID channel title body paymentID status w =
     (case rpc \<lparr>nrParticipantID = participantID, nrChannel = channel, nrTitle = title, nrBody = body,
                nrPaymentID = paymentID, nrStatus = status\<rparr> w of (r, w') \<Rightarrow> (err_of r, w'))"

section \<open>Lemmas\<close>

lemma compliance_client_Screen_eq:
  assumes "delivers rpc compliance_server_Screen"
  shows "compliance_client_Screen rpc p w =
     (case Screen p w of
        (Inl e, w') \<Rightarrow> (Inl (grpc_error e), w') | (Inr x, w') \<Rightarrow> (Inr x, w'))"
  by (simp add: compliance_client_Screen_def deliversD [OF assms] compliance_server_Screen_def
      Screen_def pb_of_payment_def)

lemma notification_client_Notify_eq:
  assumes "delivers rpc notification_server_Notify"
  shows "notification_client_Notify rpc a b c d e f l = Notify a b c d e f l"
  by (simp add: notification_client_Notify_def deliversD [OF assms] notification_server_Notify_def
      Notify_def notify_def)

end
