(* ===== verification/Sweeper.thy ===== *)
theory Sweeper
  imports SagaStatus
begin

text \<open>
  The reservation sweeper of \<^verbatim>\<open>internal/orchestrator/sweep/sweep.go\<close>: every expired
  reservation's payment is loaded and compensated by the saga; errors are logged and the sweep
  goes on. The lemmas follow statuses through a sweep and show which step count the saga uses.
\<close>

section \<open>sweep.go\<close>

definition sweep_one :: "'w PaymentRepository \<Rightarrow> 'w Saga \<Rightarrow> Reservation \<Rightarrow> 'w \<Rightarrow> 'w" where
  "sweep_one repo s r w =
     (case repoGetByID repo (rsPaymentID r) w of
        (Inl e, w') \<Rightarrow> w'
      | (Inr None, w') \<Rightarrow> w'
      | (Inr (Some p), w') \<Rightarrow> (case CompensatePayment s p w' of (_, _, w'') \<Rightarrow> w''))"

definition SweepOnce :: "'w PaymentRepository \<Rightarrow> 'w Saga \<Rightarrow> time \<Rightarrow> 'w \<Rightarrow> 'w" where
  "SweepOnce repo s now w =
     (case repoFindExpiredReservations repo now w of
        (Inl e, w') \<Rightarrow> w'
      | (Inr expired, w') \<Rightarrow> fold (sweep_one repo s) expired w')"

text \<open>\<^verbatim>\<open>Run\<close>: one sweep per tick until the context is done.\<close>

definition Sweeper_Run :: "'w PaymentRepository \<Rightarrow> 'w Saga \<Rightarrow> time list \<Rightarrow> 'w \<Rightarrow> 'w" where
  "Sweeper_Run repo s ticks w = fold (SweepOnce repo s) ticks w"

section \<open>Lemmas\<close>

context switch_ports
begin

text \<open>A sweep only ever writes \<^verbatim>\<open>ABORTED\<close>.\<close>

lemma sweep_one_status:
  assumes get: "\<And>i r w'. repoGetByID (portRepo P) i w = (r, w') \<Longrightarrow> status_of w' = status_of w"
    and "sagaSteps s = gateway_steps P"
  shows "status_of (sweep_one (portRepo P) s r w) i \<in> {status_of w i, Some StatusAborted}"
proof -
  obtain x w1 where g: "repoGetByID (portRepo P) (rsPaymentID r) w = (x, w1)" by fastforce
  have s1: "status_of w1 = status_of w" by (rule get [OF g])
  show ?thesis
  proof (cases x)
    case (Inl e)
    with g s1 show ?thesis by (simp add: sweep_one_def)
  next
    case (Inr o')
    show ?thesis
    proof (cases o')
      case None
      with Inr g s1 show ?thesis by (simp add: sweep_one_def)
    next
      case (Some p)
      obtain y p2 w2 where c: "CompensatePayment s p w1 = (y, p2, w2)"
        by (cases "CompensatePayment s p w1") auto
      have "status_of w2 = status_of w1 \<or> status_of w2 = (status_of w1)(pID p \<mapsto> StatusAborted)"
        using compensate_until_error_status [OF _ c [unfolded CompensatePayment_def]] assms(2)
        by (auto dest: in_set_takeD)
      with Inr Some g s1 c show ?thesis by (auto simp: sweep_one_def)
    qed
  qed
qed

lemma SweepOnce_status:
  assumes get: "\<And>i w r w'. repoGetByID (portRepo P) i w = (r, w') \<Longrightarrow> status_of w' = status_of w"
    and exp: "\<And>w r w'. repoFindExpiredReservations (portRepo P) now w = (r, w') \<Longrightarrow> status_of w' = status_of w"
    and "sagaSteps s = gateway_steps P"
  shows "status_of (SweepOnce (portRepo P) s now w) i \<in> {status_of w i, Some StatusAborted}"
proof -
  have fold: "status_of (fold (sweep_one (portRepo P) s) rs w) i \<in> {status_of w i, Some StatusAborted}" for rs w
  proof (induction rs arbitrary: w)
    case (Cons r rs)
    have "status_of (sweep_one (portRepo P) s r w) i \<in> {status_of w i, Some StatusAborted}"
      by (rule sweep_one_status [OF get assms(3)])
    with Cons.IH [of "sweep_one (portRepo P) s r w"] show ?case by auto
  qed simp
  obtain x w1 where e: "repoFindExpiredReservations (portRepo P) now w = (x, w1)" by fastforce
  show ?thesis
    using fold [of _ w1] exp [OF e] e by (cases x) (simp_all add: SweepOnce_def)
qed

end

text \<open>How many steps \<^verbatim>\<open>CompensatePayment\<close> undoes: the count of the last run of the saga,
  whichever payment that was, unless it is zero.\<close>

lemma compensation_count_last_run:
  assumes "0 < completedSteps s" "completedSteps s \<le> int (length (sagaSteps s))"
  shows "compensation_count s p = nat (completedSteps s)"
  using assms by (simp add: compensation_count_def Let_def)

lemma compensation_count_fresh:
  assumes "completedSteps s = 0" "pStatus p = StatusReserved" "6 \<le> length (sagaSteps s)"
  shows "compensation_count s p = 6"
  using assms by (simp add: compensation_count_def Let_def statusToStepCount_def go_string)

end
