(* ===== verification/Switch.thy ===== *)
theory Switch
  imports "HOL-Library.Sublist" RepoInvariant SafeSaga Settlement Quoting Routing Reconciliation Lookup Compliance Sweeper
begin

text \<open>
  The gateway process put together as \<^verbatim>\<open>cmd/gateway/main.go\<close> does it: the Postgres
  repository, the HTTP bank client, the in-process lookup, routing, quoting, compliance,
  reconciliation and notification services, and the settlement service behind gRPC. One record
  holds the state of them all; each port works on its part. The bank service is the process that
  answers at \<open>bank_host\<close>; the network may lose a request before it arrives. The interpretations
  at the end discharge the contracts of \<^verbatim>\<open>SagaStatus\<close> and \<^verbatim>\<open>SafeSaga\<close> for
  this assembly.
\<close>

section \<open>State\<close>

record switch =
  swPg :: pg
  swBank :: BankState
  swNetFaults :: "goerror option list"
  swBanks :: banks_map
  swRoutes :: RoutingService
  swQuotes :: QuotingService
  swWindow :: "unit Window"
  swRecon :: ReconService
  swNotify :: notify_log

text \<open>Running a call on a part of the state.\<close>

definition lift :: "('w \<Rightarrow> 's) \<Rightarrow> (('s \<Rightarrow> 's) \<Rightarrow> 'w \<Rightarrow> 'w) \<Rightarrow> ('s \<Rightarrow> 'r \<times> 's) \<Rightarrow> 'w \<Rightarrow> 'r \<times> 'w" where
  "lift get upd m w = (case m (get w) of (r, s) \<Rightarrow> (r, upd (\<lambda>_. s) w))"

definition lift_pay :: "('w \<Rightarrow> 's) \<Rightarrow> (('s \<Rightarrow> 's) \<Rightarrow> 'w \<Rightarrow> 'w) \<Rightarrow> 's pay_call \<Rightarrow> 'w pay_call" where
  "lift_pay get upd m p w = (case m p (get w) of (r, p', s) \<Rightarrow> (r, p', upd (\<lambda>_. s) w))"

definition lift_repo :: "('w \<Rightarrow> 's) \<Rightarrow> (('s \<Rightarrow> 's) \<Rightarrow> 'w \<Rightarrow> 'w) \<Rightarrow> 's PaymentRepository \<Rightarrow> 'w PaymentRepository" where
  "lift_repo get upd R =
     \<lparr>repoCreate = lift_pay get upd (repoCreate R),
      repoCreateWithEvent = lift_pay get upd (repoCreateWithEvent R),
      repoUpdateStatus = (\<lambda>i st. lift get upd (repoUpdateStatus R i st)),
      repoGetByID = (\<lambda>i. lift get upd (repoGetByID R i)),
      repoGetByEndToEndID = (\<lambda>i. lift get upd (repoGetByEndToEndID R i)),
      repoFindExpiredReservations = (\<lambda>t. lift get upd (repoFindExpiredReservations R t)),
      repoMarkReserved = (\<lambda>i ttl. lift get upd (repoMarkReserved R i ttl)),
      repoUpdateRoute = (\<lambda>i fee ms. lift get upd (repoUpdateRoute R i fee ms))\<rparr>"

section \<open>The bank service on the network\<close>

definition bank_host :: string where
  "bank_host = ''http://bank-service:8081''"

definition to_wire :: "unit http_response \<Rightarrow> wire_response" where
  "to_wire r =
     (case respBody r of
        JsonBody j \<Rightarrow> \<lparr>wrCode = StatusCode r, wrText = json_text j @ [CHR 0x0A], wrJson = Inr j\<rparr>
      | TextBody t \<Rightarrow> \<lparr>wrCode = StatusCode r, wrText = t @ [CHR 0x0A],
                        wrJson = Inl (ErrMsg ''invalid character'')\<rparr>
      | XmlBody _ \<Rightarrow> \<lparr>wrCode = StatusCode r, wrText = '''', wrJson = Inl (ErrMsg ''invalid character'')\<rparr>)"

definition bank_serve :: "time \<Rightarrow> wire_request \<Rightarrow> BankState \<Rightarrow> wire_response \<times> BankState" where
  "bank_serve now req b =
     (case money_route now (drop (length bank_host) (wqURL req)) of
        None \<Rightarrow> (to_wire (http_Error ''404 page not found'' 404), b)
      | Some h \<Rightarrow> (case h (Inr (wqJson req)) b of (resp, b') \<Rightarrow> (to_wire resp, b')))"

definition switch_httpDo :: "wire_request \<Rightarrow> (switch, wire_response) call" where
  "switch_httpDo req w =
     (let w1 = w\<lparr>swNetFaults := tl (swNetFaults w)\<rparr> in
      case swNetFaults w of
        Some e # fs \<Rightarrow> (Inl e, w1)
      | _ \<Rightarrow>
          if take (length bank_host) (wqURL req) = bank_host then
            (case bank_serve (pg_clock (swPg w)) req (swBank w1) of
               (resp, b') \<Rightarrow> (Inr resp, w1\<lparr>swBank := b'\<rparr>))
          else (Inl (ErrMsg ''dial tcp: no such host''), w1))"

definition switch_bank_api :: "switch bank_api" where
  "switch_bank_api =
     \<lparr>provider = (\<lambda>bic. lift swPg swPg_update (DBProvider_GetBankAPIConfig bic)),
      stack = \<lparr>newRequest = (\<lambda>_. None), httpDo = switch_httpDo\<rparr>\<rparr>"

section \<open>The ports\<close>

definition gateway_ports :: "quote_env \<Rightarrow> switch ports" where
  "gateway_ports env =
     \<lparr>portRepo = lift_repo swPg swPg_update pg_repo,
      portBank = bank_client switch_bank_api,
      portLookup = (\<lambda>bic w. case ResolveBIC None (swBanks w) bic () of (r, _) \<Rightarrow> (r, w)),
      portRouting = (\<lambda>sb db ccy. lift swRoutes swRoutes_update (FindRoute sb db ccy)),
      portQuoting = (\<lambda>sb db m ccy. lift swQuotes swQuotes_update (GetQuote env sb db m ccy)),
      portCompliance = Screen,
      portSettlement = Some (settlement_Submit (\<lambda>req. lift swWindow swWindow_update
        (loopback SubmitForSettlement req))),
      portReconciliation = (\<lambda>i sb db m ccy st. lift swRecon swRecon_update (AddRecord i sb db m ccy st)),
      portNotification = (\<lambda>b ch t bd i st. lift swNotify swNotify_update (Notify b ch t bd i st))\<rparr>"

definition gateway_saga :: "quote_env \<Rightarrow> switch Saga" where
  "gateway_saga env = New_saga (gateway_steps (gateway_ports env))"

section \<open>What the contracts are about\<close>

definition sw_status :: "switch \<Rightarrow> string \<Rightarrow> PaymentStatus option" where
  "sw_status w = pg_status (swPg w)"

definition sw_live :: "switch \<Rightarrow> bool" where
  "sw_live w \<longleftrightarrow> no_faults (swPg w) \<and> pg_wf (swPg w) \<and> list_all (\<lambda>f. f = None) (swNetFaults w)"

definition sw_ledger :: "switch \<Rightarrow> BankState \<times> bank_row list" where
  "sw_ledger w = (swBank w, bank_tbl (swPg w))"

definition ledger_wf :: "BankState \<times> bank_row list \<Rightarrow> bool" where
  "ledger_wf l = bank_wf (fst l)"

definition ledger_balance :: "BankState \<times> bank_row list \<Rightarrow> string \<Rightarrow> int option" where
  "ledger_balance l = balance_of (fst l)"

text \<open>The bank of a BIC is enabled and its API is the bank service.\<close>

definition bank_reachable :: "BankState \<times> bank_row list \<Rightarrow> string \<Rightarrow> bool" where
  "bank_reachable l bic \<longleftrightarrow>
     (case row_by bBic bic (snd l) of
        None \<Rightarrow> False
      | Some r \<Rightarrow> bApiEnabled r \<and> coalesce (bApiBaseUrl r) = bank_host \<and>
                   coalesce (bPaymentApiUrl r) \<in> {'''', bank_host})"

section \<open>Lemmas\<close>

lemma lift_eq: "lift get upd m w = (r, w') \<longleftrightarrow> (\<exists>s. m (get w) = (r, s) \<and> w' = upd (\<lambda>_. s) w)"
  by (auto simp: lift_def split: prod.splits)

lemma lift_repo_sel [simp]:
  "repoUpdateStatus (lift_repo get upd R) i st = lift get upd (repoUpdateStatus R i st)"
  "repoMarkReserved (lift_repo get upd R) i ttl = lift get upd (repoMarkReserved R i ttl)"
  "repoUpdateRoute (lift_repo get upd R) i fee ms = lift get upd (repoUpdateRoute R i fee ms)"
  "repoGetByID (lift_repo get upd R) i = lift get upd (repoGetByID R i)"
  "repoFindExpiredReservations (lift_repo get upd R) t = lift get upd (repoFindExpiredReservations R t)"
  "repoCreateWithEvent (lift_repo get upd R) = lift_pay get upd (repoCreateWithEvent R)"
  by (simp_all add: lift_repo_def)

lemma pg_repo_sel [simp]:
  "repoUpdateStatus pg_repo = repo_UpdateStatus" "repoMarkReserved pg_repo = repo_MarkReserved"
  "repoUpdateRoute pg_repo = repo_UpdateRoute" "repoGetByID pg_repo = repo_GetByID"
  "repoFindExpiredReservations pg_repo = repo_FindExpiredReservations"
  "repoCreateWithEvent pg_repo = repo_CreateWithEvent"
  by (simp_all add: pg_repo_def)

lemma gateway_ports_sel [simp]:
  "portRepo (gateway_ports env) = lift_repo swPg swPg_update pg_repo"
  "portBank (gateway_ports env) = bank_client switch_bank_api"
  by (simp_all add: gateway_ports_def)

text \<open>The configuration query changes nothing but the fault schedule.\<close>

lemma GetBankAPIConfig_frame:
  assumes "DBProvider_GetBankAPIConfig bic s = (r, s')"
  shows "\<exists>fs. s' = s\<lparr>pg_faults := fs\<rparr> \<and> (no_faults s \<longrightarrow> no_faults s')"
proof -
  let ?q = "\<lambda>s. case row_by bBic bic (bank_tbl s) of None \<Rightarrow> (Inl ErrNoRows, s) | Some r \<Rightarrow> (Inr (config_of r), s)"
  obtain x s1 where q: "stmt ?q s = (x, s1)" by fastforce
  with assms have "s' = s1" by (cases x) (auto simp: DBProvider_GetBankAPIConfig_def split: if_splits)
  moreover from q have "\<exists>fs. s1 = s\<lparr>pg_faults := fs\<rparr> \<and> (no_faults s \<longrightarrow> no_faults s1)"
  proof (rule stmt_cases)
    fix e fs assume "pg_faults s = Some e # fs" "s1 = s\<lparr>pg_faults := fs\<rparr>"
    then show ?thesis by (auto simp: no_faults_def)
  next
    fix fs assume "?q (s\<lparr>pg_faults := fs\<rparr>) = (x, s1)" "no_faults s \<Longrightarrow> no_faults (s\<lparr>pg_faults := fs\<rparr>)"
    then show ?thesis by (auto split: option.splits)
  qed
  ultimately show ?thesis by simp
qed

lemma GetBankAPIConfig_ok:
  assumes "no_faults s" and "row_by bBic bic (bank_tbl s) = Some r"
  shows "fst (DBProvider_GetBankAPIConfig bic s) = Inr (config_of r)"
  using assms by (simp add: DBProvider_GetBankAPIConfig_def no_faults_stmt)

text \<open>A request for an operation reaches the handler of that operation or none: whatever base URL
  is configured, no path ends in two different operations.\<close>

definition bank_ops :: "string list" where
  "bank_ops = [''reserve'', ''release'', ''credit'', ''reverse-credit'']"

definition bank_fun :: "time \<Rightarrow> string \<Rightarrow> string \<Rightarrow> int64 \<Rightarrow> BankState \<Rightarrow> goerror option \<times> BankState" where
  "bank_fun now operation =
     (if operation = ''reserve'' then Reserve now
      else if operation = ''release'' then ReleaseReservation
      else if operation = ''credit'' then Credit
      else ReverseCredit)"

lemma ops_suffix:
  "list_all (\<lambda>x. list_all (\<lambda>y. x \<noteq> y \<longrightarrow> \<not> suffix (''/'' @ x) (''/'' @ y)) bank_ops) bank_ops"
  by (simp add: bank_ops_def suffix_def Cons_eq_append_conv)

lemma bank_ops_cases:
  assumes "x \<in> set bank_ops"
  obtains "x = ''reserve''" | "x = ''release''" | "x = ''credit''" | "x = ''reverse-credit''"
  using assms unfolding bank_ops_def by (simp only: list.set insert_iff empty_iff) blast

lemma money_route_of_op:
  assumes "x \<in> set bank_ops"
  shows "money_route now (''/'' @ x) = Some (handle_money (bank_fun now x))"
  using assms
proof (cases rule: bank_ops_cases)
  case 1
  then show ?thesis by (simp add: money_route_def bank_fun_def handleReserve_def)
next
  case 2
  then show ?thesis by (simp add: money_route_def bank_fun_def handleRelease_def)
next
  case 3
  then show ?thesis by (simp add: money_route_def bank_fun_def handleCredit_def)
next
  case 4
  then show ?thesis by (simp add: money_route_def bank_fun_def handleReverseCredit_def)
qed

lemma money_route_SomeE:
  assumes "money_route now path = Some h"
  obtains y where "y \<in> set bank_ops" "path = ''/'' @ y"
proof -
  from assms have "path = ''/'' @ ''reserve'' \<or> path = ''/'' @ ''release'' \<or> path = ''/'' @ ''credit'' \<or>
      path = ''/'' @ ''reverse-credit''"
    unfolding money_route_def by (simp split: if_split_asm)
  then show thesis using that unfolding bank_ops_def by (elim disjE) simp_all
qed

lemma money_route_op:
  assumes "x \<in> set bank_ops" and "suffix (''/'' @ x) url" and "suffix path url" and "money_route now path = Some h"
  shows "h = handle_money (bank_fun now x)"
proof -
  from assms(4) obtain y where y: "y \<in> set bank_ops" "path = ''/'' @ y" by (rule money_route_SomeE)
  have ne: "\<not> suffix (''/'' @ u) (''/'' @ v)" if "u \<in> set bank_ops" "v \<in> set bank_ops" "u \<noteq> v" for u v
    using ops_suffix that unfolding list_all_iff by blast
  from suffix_same_cases [OF assms(2,3)] y(2) ne [OF assms(1) y(1)] ne [OF y(1) assms(1)] have "x = y" by blast
  moreover have "Some h = Some (handle_money (bank_fun now y))"
    using assms(4) unfolding y(2) money_route_of_op [OF y(1)] by simp
  ultimately show ?thesis by simp
qed

lemma to_wire_ok: "read_answer bic x (to_wire (writeJSON 200 api_ok)) = None"
  by (rule read_answer_ok) (simp_all add: to_wire_def writeJSON_def)

lemma to_wire_error: "\<exists>e'. read_answer bic x (to_wire (writeJSON 400 (api_error e))) = Some e'"
  by (rule read_answer_refused) (simp add: to_wire_def writeJSON_def)

lemma to_wire_404: "\<exists>e'. read_answer bic x (to_wire (http_Error t 404)) = Some e'"
  by (simp add: read_answer_def to_wire_def http_Error_def)

text \<open>The effect of one delivered request.\<close>

lemma bank_serve_effect:
  assumes "x \<in> set bank_ops" and "suffix (''/'' @ x) (wqURL req)" and "wqJson req = money_body acc m"
    and "bank_serve now req b = (resp, b')"
  shows "(b' = b \<and> read_answer bic x resp \<noteq> None) \<or>
         (\<exists>e. bank_fun now x acc m b = (e, b') \<and> (read_answer bic x resp = None) = (e = None))"
proof (cases "money_route now (drop (length bank_host) (wqURL req)) :: (json_body \<Rightarrow> BankState \<Rightarrow> unit http_response \<times> BankState) option")
  case None
  then show ?thesis using assms(4) to_wire_404 by (auto simp: bank_serve_def)
next
  case (Some h)
  have h: "h = handle_money (bank_fun now x)" by (rule money_route_op [OF assms(1,2) suffix_drop Some])
  obtain e b1 where f: "bank_fun now x acc m b = (e, b1)" by fastforce
  show ?thesis
    using assms(4) f to_wire_ok to_wire_error [of bic x]
    by (cases e) (auto simp: bank_serve_def Some h assms(3) handle_money_body)
qed

lemma switch_httpDo_effect:
  assumes "x \<in> set bank_ops" and "suffix (''/'' @ x) (wqURL req)" and "wqJson req = money_body acc m"
    and "switch_httpDo req w = (r, w')"
  shows "\<exists>b'. w' = w\<lparr>swNetFaults := tl (swNetFaults w), swBank := b'\<rparr> \<and>
    ((b' = swBank w \<and> (\<forall>resp. r = Inr resp \<longrightarrow> read_answer bic x resp \<noteq> None)) \<or>
     (\<exists>e resp. r = Inr resp \<and> bank_fun (pg_clock (swPg w)) x acc m (swBank w) = (e, b') \<and>
        (read_answer bic x resp = None) = (e = None)))"
proof -
  let ?w1 = "w\<lparr>swNetFaults := tl (swNetFaults w)\<rparr>"
  have same: "?w1 = w\<lparr>swNetFaults := tl (swNetFaults w), swBank := swBank w\<rparr>" by simp
  obtain resp b' where s: "bank_serve (pg_clock (swPg w)) req (swBank w) = (resp, b')" by fastforce
  have "(w' = ?w1 \<and> (\<exists>e. r = Inl e)) \<or> (w' = ?w1\<lparr>swBank := b'\<rparr> \<and> r = Inr resp)"
    using assms(4) s by (auto simp: switch_httpDo_def Let_def split: list.splits option.splits if_splits)
  then show ?thesis
    using bank_serve_effect [OF assms(1-3) s, of bic] same by auto
qed

text \<open>The effect of a call of the bank client on the whole state.\<close>

lemma callBank_effect:
  assumes x: "x \<in> set bank_ops" and c: "callBank switch_bank_api bic x (money_body acc m) w = (r, w')"
  obtains fs nf b' where "w' = w\<lparr>swPg := (swPg w)\<lparr>pg_faults := fs\<rparr>, swNetFaults := nf, swBank := b'\<rparr>"
    and "no_faults (swPg w) \<Longrightarrow> no_faults ((swPg w)\<lparr>pg_faults := fs\<rparr>)"
    and "list_all (\<lambda>f. f = None) (swNetFaults w) \<Longrightarrow> list_all (\<lambda>f. f = None) nf"
    and "(b' = swBank w \<and> r \<noteq> None) \<or>
         (\<exists>e. bank_fun (pg_clock (swPg w)) x acc m (swBank w) = (e, b') \<and> (r = None) = (e = None))"
proof -
  obtain y s1 where p: "DBProvider_GetBankAPIConfig bic (swPg w) = (y, s1)" by fastforce
  from GetBankAPIConfig_frame [OF p] obtain fs where s1: "s1 = (swPg w)\<lparr>pg_faults := fs\<rparr>"
    "no_faults (swPg w) \<longrightarrow> no_faults s1" by blast
  let ?w1 = "w\<lparr>swPg := s1\<rparr>"
  have same: "w\<lparr>swPg := s1\<rparr> = w\<lparr>swPg := s1, swNetFaults := swNetFaults w, swBank := swBank w\<rparr>" by simp
  have prov: "provider switch_bank_api bic w = (y, ?w1)"
    using p by (simp add: switch_bank_api_def lift_def)
  consider e where "r = Some e" "w' = ?w1"
    | cfg resp0 w2 where "switch_httpDo (bank_request cfg x (money_body acc m)) ?w1 = (resp0, w2)" "w' = w2"
      "r = (case resp0 of Inl e \<Rightarrow> Some (ErrWrap (''bank '' @ bic @ '': '' @ x @ '' request failed: '') e)
            | Inr a \<Rightarrow> read_answer bic x a)"
    using c prov
    by (auto simp: callBank_def switch_bank_api_def split: sum.splits if_splits prod.splits)
  then show thesis
  proof cases
    case 1
    then show thesis using s1 same by (intro that [where fs = fs and nf = "swNetFaults w" and b' = "swBank w"]) auto
  next
    case 2
    have "suffix (''/'' @ x) (wqURL (bank_request cfg x (money_body acc m)))"
      by (auto simp: bank_request_def target_url_def suffix_def)
    from switch_httpDo_effect [OF x this _ 2(1), of acc m bic] obtain b' where
      b': "w2 = ?w1\<lparr>swNetFaults := tl (swNetFaults w), swBank := b'\<rparr>"
      "(b' = swBank w \<and> (\<forall>resp. resp0 = Inr resp \<longrightarrow> read_answer bic x resp \<noteq> None)) \<or>
       (\<exists>e resp. resp0 = Inr resp \<and> bank_fun (pg_clock (swPg w)) x acc m (swBank w) = (e, b') \<and>
          (read_answer bic x resp = None) = (e = None))"
      by (auto simp: bank_request_def s1)
    have nf: "list_all (\<lambda>f. f = None) (tl (swNetFaults w))" if "list_all (\<lambda>f. f = None) (swNetFaults w)"
      using that by (cases "swNetFaults w") auto
    show thesis
      using b' 2 s1 nf
      by (intro that [where fs = fs and nf = "tl (swNetFaults w)" and b' = b']) (auto split: sum.splits)
  qed
qed

text \<open>When the bank is reachable and nothing fails on the way, the operation is carried out.\<close>

lemma callBank_reaches:
  assumes "x \<in> set bank_ops" "sw_live w" "bank_reachable (sw_ledger w) bic"
    and "callBank switch_bank_api bic x (money_body acc m) w = (r, w')"
  obtains e where "bank_fun (pg_clock (swPg w)) x acc m (swBank w) = (e, swBank w')" "(r = None) = (e = None)"
proof -
  from assms(3) obtain row where row: "row_by bBic bic (bank_tbl (swPg w)) = Some row" "bApiEnabled row"
    "coalesce (bApiBaseUrl row) = bank_host" "coalesce (bPaymentApiUrl row) \<in> {'''', bank_host}"
    by (auto simp: bank_reachable_def sw_ledger_def split: option.splits)
  have nf: "no_faults (swPg w)" using assms(2) by (simp add: sw_live_def)
  obtain s1 where p: "DBProvider_GetBankAPIConfig bic (swPg w) = (Inr (config_of row), s1)"
    using GetBankAPIConfig_ok [OF nf row(1)] by (metis prod.collapse)
  from GetBankAPIConfig_frame [OF p] obtain fs where s1: "s1 = (swPg w)\<lparr>pg_faults := fs\<rparr>" by blast
  let ?w1 = "w\<lparr>swPg := s1\<rparr>" and ?req = "bank_request (config_of row) x (money_body acc m)"
  have url: "wqURL ?req = bank_host @ ''/'' @ x"
    using row(3,4) by (auto simp: bank_request_def target_url_def config_of_def)
  have hd_ok: "\<not> (\<exists>e fs. swNetFaults w = Some e # fs)"
    using assms(2) by (auto simp: sw_live_def)
  obtain resp b' where sv: "bank_serve (pg_clock (swPg w)) ?req (swBank w) = (resp, b')" by fastforce
  have do: "switch_httpDo ?req ?w1 = (Inr resp, ?w1\<lparr>swNetFaults := tl (swNetFaults w), swBank := b'\<rparr>)"
  proof -
    have t: "take (length bank_host) (wqURL ?req) = bank_host" by (simp add: url)
    consider "swNetFaults w = []" | fs' where "swNetFaults w = None # fs'"
      using hd_ok by (cases "swNetFaults w"; cases "hd (swNetFaults w)") simp_all
    then show ?thesis
      using sv s1 by cases (simp_all add: switch_httpDo_def t)
  qed
  have "bank_host \<noteq> ''''" by (simp add: bank_host_def)
  then have "callBank switch_bank_api bic x (money_body acc m) w =
      (read_answer bic x resp, ?w1\<lparr>swNetFaults := tl (swNetFaults w), swBank := b'\<rparr>)"
    using p row(2,3) do by (simp add: callBank_def switch_bank_api_def lift_def config_of_def)
  with assms(4) have rw: "r = read_answer bic x resp" "swBank w' = b'" by auto
  have path: "drop (length bank_host) (wqURL ?req) = ''/'' @ x" by (simp add: url)
  note mr = money_route_of_op [OF assms(1), of "pg_clock (swPg w)"]
  have body: "wqJson ?req = money_body acc m" by (simp add: bank_request_def)
  obtain e b1 where f: "bank_fun (pg_clock (swPg w)) x acc m (swBank w) = (e, b1)" by fastforce
  have "b' = b1 \<and> (read_answer bic x resp = None) = (e = None)"
  proof -
    have "bank_serve (pg_clock (swPg w)) ?req (swBank w) =
        (case e of Some e \<Rightarrow> (to_wire (writeJSON 400 (api_error e)), b1) | None \<Rightarrow> (to_wire (writeJSON 200 api_ok), b1))"
      unfolding bank_serve_def path mr body
      using f by (cases e) (simp_all add: handle_money_body)
    with sv to_wire_ok [of bic x] to_wire_error [of bic x] show ?thesis by (cases e) auto
  qed
  with f rw show thesis by (intro that [of e]) simp_all
qed

section \<open>The contracts hold of the assembly\<close>

lemma bank_client_sel [simp]:
  "bankReserve (bank_client c) bic acc m = callBank c bic ''reserve'' (money_body acc m)"
  "bankReleaseReservation (bank_client c) bic acc m = callBank c bic ''release'' (money_body acc m)"
  "bankCredit (bank_client c) bic acc m = callBank c bic ''credit'' (money_body acc m)"
  "bankReverseCredit (bank_client c) bic acc m = callBank c bic ''reverse-credit'' (money_body acc m)"
  by (simp_all add: bank_client_def Client_Reserve_def Client_ReleaseReservation_def
      Client_Credit_def Client_ReverseCredit_def)

lemma bank_ops_mem [simp]: "''reserve'' \<in> set bank_ops" "''release'' \<in> set bank_ops"
  "''credit'' \<in> set bank_ops" "''reverse-credit'' \<in> set bank_ops"
  by (simp_all add: bank_ops_def)

lemma bank_fun_sel [simp]:
  "bank_fun now ''reserve'' = Reserve now" "bank_fun now ''release'' = ReleaseReservation"
  "bank_fun now ''credit'' = Credit" "bank_fun now ''reverse-credit'' = ReverseCredit"
  by (simp_all add: bank_fun_def)

lemma callBank_frame:
  assumes "x \<in> set bank_ops" "callBank switch_bank_api bic x (money_body acc m) w = (r, w')"
  shows "sw_status w' = sw_status w" and "sw_live w \<Longrightarrow> sw_live w'"
    and "snd (sw_ledger w') = snd (sw_ledger w)"
  using assms
  by (auto elim!: callBank_effect simp: sw_status_def sw_live_def sw_ledger_def pg_status_def fun_eq_iff)

text \<open>The same, for the bank alone.\<close>

lemma callBank_bank:
  assumes "x \<in> set bank_ops" "callBank switch_bank_api bic x (money_body acc m) w = (r, w')"
  obtains "swBank w' = swBank w" "r \<noteq> None"
  | e where "bank_fun (pg_clock (swPg w)) x acc m (swBank w) = (e, swBank w')" "(r = None) = (e = None)"
proof (rule callBank_effect [OF assms])
  fix fs nf b'
  assume "w' = w\<lparr>swPg := (swPg w)\<lparr>pg_faults := fs\<rparr>, swNetFaults := nf, swBank := b'\<rparr>"
  then have "swBank w' = b'" by simp
  moreover assume "(b' = swBank w \<and> r \<noteq> None) \<or>
    (\<exists>e. bank_fun (pg_clock (swPg w)) x acc m (swBank w) = (e, b') \<and> (r = None) = (e = None))"
  ultimately show thesis using that by blast
qed

lemma reachable_cong: "snd l' = snd l \<Longrightarrow> bank_reachable l' = bank_reachable l"
  by (simp add: bank_reachable_def fun_eq_iff)

lemma sw_bank_ledger: "bank_ledger (bank_client switch_bank_api) sw_live sw_ledger ledger_wf bank_reachable ledger_balance"
proof (unfold_locales, goal_cases)
  case (1 l acc v)
  then obtain a where "account_of (fst l) acc = Some a" "v = sint (acBalance a)"
    by (auto simp: ledger_balance_def balance_of_def)
  with 1 show ?case
    using bank_wf_nonneg [of "fst l" acc a] sint_fits64 [of "acBalance a"] by (simp add: ledger_wf_def fits64_def)
next
  case (2 w m bic acc r w')
  then have c: "callBank switch_bank_api bic ''reserve'' (money_body acc m) w = (r, w')" by simp
  have wf: "bank_wf (swBank w)" using 2 by (simp add: ledger_wf_def sw_ledger_def)
  note re = reachable_cong [OF callBank_frame(3) [OF bank_ops_mem(1) c]]
  from c consider "swBank w' = swBank w" "r \<noteq> None"
    | e where "Reserve (pg_clock (swPg w)) acc m (swBank w) = (e, swBank w')" "(r = None) = (e = None)"
    by (rule callBank_bank [OF bank_ops_mem(1)]) (simp_all add: that)
  then show ?case
  proof cases
    case 1
    with wf re show ?thesis by (auto simp: ledger_wf_def sw_ledger_def ledger_balance_def)
  next
    case (2 e)
    show ?thesis
    proof (cases e)
      case None
      with 2 have ok: "Reserve (pg_clock (swPg w)) acc m (swBank w) = (None, swBank w')" and r: "r = None" by auto
      have nn: "0 \<le> sint m" using \<open>0 < sint m\<close> by simp
      obtain v where "balance_of (swBank w) acc = Some v" "sint m \<le> v"
        "balance_of (swBank w') = (balance_of (swBank w))(acc \<mapsto> v - sint m)" "bank_wf (swBank w')"
        "total_balance (swBank w') = total_balance (swBank w) - sint m"
        by (rule Reserve_ok [OF wf nn ok])
      with re r show ?thesis by (simp add: ledger_wf_def sw_ledger_def ledger_balance_def)
    next
      case (Some x)
      with 2 bank_refused(1) have "swBank w' = swBank w" "r \<noteq> None" by blast+
      with wf re show ?thesis by (auto simp: ledger_wf_def sw_ledger_def ledger_balance_def)
    qed
  qed
next
  case (3 w m bic acc v r w')
  then have c: "callBank switch_bank_api bic ''release'' (money_body acc m) w = (r, w')" by simp
  have wf: "bank_wf (swBank w)" and b: "balance_of (swBank w) acc = Some v"
    using 3 by (simp_all add: ledger_wf_def sw_ledger_def ledger_balance_def)
  note re = reachable_cong [OF callBank_frame(3) [OF bank_ops_mem(2) c]]
  obtain e where e: "ReleaseReservation acc m (swBank w) = (e, swBank w')" "(r = None) = (e = None)"
    using callBank_reaches [OF bank_ops_mem(2) _ _ c] 3 by auto
  have nn: "0 \<le> sint m" and room: "v + sint m < 2 ^ 63" using 3 by simp_all
  obtain b' where "ReleaseReservation acc m (swBank w) = (None, b')"
    "balance_of b' = (balance_of (swBank w))(acc \<mapsto> v + sint m)" "bank_wf b'"
    "total_balance b' = total_balance (swBank w) + sint m"
    by (rule Release_ok [OF wf nn b room])
  with e re show ?case by (simp add: ledger_wf_def sw_ledger_def ledger_balance_def)
next
  case (4 w m acc bic r w')
  then have c: "callBank switch_bank_api bic ''credit'' (money_body acc m) w = (r, w')" by simp
  have wf: "bank_wf (swBank w)" using 4 by (simp add: ledger_wf_def sw_ledger_def)
  note re = reachable_cong [OF callBank_frame(3) [OF bank_ops_mem(3) c]]
  from c consider "swBank w' = swBank w" "r \<noteq> None"
    | e where "Credit acc m (swBank w) = (e, swBank w')" "(r = None) = (e = None)"
    by (rule callBank_bank [OF bank_ops_mem(3)]) (simp_all add: that)
  then show ?case
  proof cases
    case 1
    with wf re show ?thesis by (auto simp: ledger_wf_def sw_ledger_def ledger_balance_def)
  next
    case (2 e)
    show ?thesis
    proof (cases e)
      case None
      with 2 have ok: "Credit acc m (swBank w) = (None, swBank w')" and r: "r = None" by auto
      from Credit_exists [OF ok] obtain v where v: "balance_of (swBank w) acc = Some v" by auto
      with 4(3) have "v + sint m < 2 ^ 63" by (simp add: ledger_balance_def sw_ledger_def)
      moreover have nn: "0 \<le> sint m" using \<open>0 < sint m\<close> by simp
      ultimately obtain b' where "Credit acc m (swBank w) = (None, b')"
        "balance_of b' = (balance_of (swBank w))(acc \<mapsto> v + sint m)" "bank_wf b'"
        "total_balance b' = total_balance (swBank w) + sint m"
        using Credit_ok [OF wf nn v] by blast
      with ok v re r show ?thesis by (simp add: ledger_wf_def sw_ledger_def ledger_balance_def)
    next
      case (Some x)
      with 2 bank_refused(3) have "swBank w' = swBank w" "r \<noteq> None" by blast+
      with wf re show ?thesis by (auto simp: ledger_wf_def sw_ledger_def ledger_balance_def)
    qed
  qed
next
  case (5 w m bic acc v r w')
  then have c: "callBank switch_bank_api bic ''reverse-credit'' (money_body acc m) w = (r, w')" by simp
  have wf: "bank_wf (swBank w)" and b: "balance_of (swBank w) acc = Some v"
    using 5 by (simp_all add: ledger_wf_def sw_ledger_def ledger_balance_def)
  note re = reachable_cong [OF callBank_frame(3) [OF bank_ops_mem(4) c]]
  obtain e where e: "ReverseCredit acc m (swBank w) = (e, swBank w')" "(r = None) = (e = None)"
    using callBank_reaches [OF bank_ops_mem(4) _ _ c] 5 by auto
  obtain b' where ok: "ReverseCredit acc m (swBank w) = (None, b')"
    using ReverseCredit_enough [OF b] 5 by auto
  have nn: "0 \<le> sint m" using 5 by simp
  have "balance_of b' = (balance_of (swBank w))(acc \<mapsto> v - sint m) \<and> bank_wf b'"
    by (rule ReverseCredit_ok [OF wf nn ok]) (simp add: b)
  with e ok re show ?case by (simp add: ledger_wf_def sw_ledger_def ledger_balance_def)
qed

lemma lift_status:
  assumes "lift swPg swPg_update m w = (r, w')"
  obtains s where "m (swPg w) = (r, s)" "sw_status w' = pg_status s" "w' = w\<lparr>swPg := s\<rparr>"
  using assms by (auto simp: lift_eq sw_status_def)

lemma gateway_repository: "payment_repository (lift_repo swPg swPg_update pg_repo) sw_status"
proof (unfold_locales, goal_cases)
  case (1 pid st w w')
  then show ?case
    using pgr.UpdateStatus_ok [of pid st "swPg w"] by (auto simp: lift_eq sw_status_def)
next
  case (2 pid st w e w')
  then show ?case
    using pgr.UpdateStatus_err [of pid st "swPg w"] by (auto simp: lift_eq sw_status_def)
next
  case (3 pid ttl w w')
  then show ?case
    using pgr.MarkReserved_ok [of pid ttl "swPg w"] by (auto simp: lift_eq sw_status_def)
next
  case (4 pid ttl w e w')
  then show ?case
    using pgr.MarkReserved_err [of pid ttl "swPg w"] by (auto simp: lift_eq sw_status_def)
next
  case (5 pid fee ms w w')
  then show ?case
    using pgr.UpdateRoute_ok [of pid fee ms "swPg w"] by (auto simp: lift_eq sw_status_def)
next
  case (6 pid fee ms w e w')
  then show ?case
    using pgr.UpdateRoute_err [of pid fee ms "swPg w"] by (auto simp: lift_eq sw_status_def)
qed

text \<open>What the services in the gateway process leave alone: the database and the bank.\<close>

lemma service_frame:
  "portLookup (gateway_ports env) bic w = (r1, w') \<Longrightarrow> swPg w' = swPg w \<and> swBank w' = swBank w \<and> swNetFaults w' = swNetFaults w"
  "portRouting (gateway_ports env) sb db ccy w = (r2, w') \<Longrightarrow> swPg w' = swPg w \<and> swBank w' = swBank w \<and> swNetFaults w' = swNetFaults w"
  "portQuoting (gateway_ports env) sb db m ccy w = (r3, w') \<Longrightarrow> swPg w' = swPg w \<and> swBank w' = swBank w \<and> swNetFaults w' = swNetFaults w"
  "portCompliance (gateway_ports env) pay w = (r4, w') \<Longrightarrow> swPg w' = swPg w \<and> swBank w' = swBank w \<and> swNetFaults w' = swNetFaults w"
  "portSettlement (gateway_ports env) = Some cl \<Longrightarrow> cl pay w = (r, w') \<Longrightarrow> swPg w' = swPg w \<and> swBank w' = swBank w \<and> swNetFaults w' = swNetFaults w"
  "portReconciliation (gateway_ports env) i sb db m ccy stat w = (r, w') \<Longrightarrow> swPg w' = swPg w \<and> swBank w' = swBank w \<and> swNetFaults w' = swNetFaults w"
  "portNotification (gateway_ports env) b ch sj bd i stat w = (r, w') \<Longrightarrow> swPg w' = swPg w \<and> swBank w' = swBank w \<and> swNetFaults w' = swNetFaults w"
  by (auto simp: gateway_ports_def lift_def settlement_Submit_def Screen_def split: prod.splits if_splits)

lemmas callBank_status = callBank_frame(1) [OF bank_ops_mem(1)] callBank_frame(1) [OF bank_ops_mem(2)]
  callBank_frame(1) [OF bank_ops_mem(3)] callBank_frame(1) [OF bank_ops_mem(4)]

lemmas callBank_live = callBank_frame(2) [OF bank_ops_mem(1)] callBank_frame(2) [OF bank_ops_mem(2)]
  callBank_frame(2) [OF bank_ops_mem(3)] callBank_frame(2) [OF bank_ops_mem(4)]

lemma gateway_switch_ports: "switch_ports (gateway_ports env) sw_status"
proof (intro switch_ports.intro switch_ports_axioms.intro, goal_cases)
  case 1
  then show ?case using gateway_repository by simp
qed (use service_frame [where env = env] callBank_status in \<open>simp_all add: sw_status_def\<close>)

interpretation gsp: switch_ports "gateway_ports env" sw_status for env
  by (rule gateway_switch_ports)

lemma sw_live_frame:
  assumes "swPg w' = swPg w \<and> swBank w' = swBank w \<and> swNetFaults w' = swNetFaults w" "sw_live w"
  shows "sw_live w'"
  using assms by (simp add: sw_live_def)

lemma repo_live:
  "sw_live w \<Longrightarrow> repoUpdateStatus (portRepo (gateway_ports env)) pid st w = (r, w') \<Longrightarrow> sw_live w'"
  "sw_live w \<Longrightarrow> repoMarkReserved (portRepo (gateway_ports env)) pid ttl w = (r, w') \<Longrightarrow> sw_live w'"
  "sw_live w \<Longrightarrow> repoUpdateRoute (portRepo (gateway_ports env)) pid fee ms w = (r, w') \<Longrightarrow> sw_live w'"
  by (auto simp: lift_eq sw_live_def pg_evolves_def dest: repo_evolves pg_wf_UpdateStatus
      pg_wf_MarkReserved pg_wf_UpdateRoute)

lemma repo_ledger:
  "repoUpdateStatus (portRepo (gateway_ports env)) pid st w = (r, w') \<Longrightarrow> sw_ledger w' = sw_ledger w"
  "repoMarkReserved (portRepo (gateway_ports env)) pid ttl w = (r, w') \<Longrightarrow> sw_ledger w' = sw_ledger w"
  "repoUpdateRoute (portRepo (gateway_ports env)) pid fee ms w = (r, w') \<Longrightarrow> sw_ledger w' = sw_ledger w"
  by (auto simp: lift_eq sw_ledger_def pg_evolves_def dest!: repo_evolves)

lemma bank_port_live:
  "sw_live w \<Longrightarrow> bankReserve (portBank (gateway_ports env)) b a m w = (r, w') \<Longrightarrow> sw_live w'"
  "sw_live w \<Longrightarrow> bankReleaseReservation (portBank (gateway_ports env)) b a m w = (r, w') \<Longrightarrow> sw_live w'"
  "sw_live w \<Longrightarrow> bankCredit (portBank (gateway_ports env)) b a m w = (r, w') \<Longrightarrow> sw_live w'"
  "sw_live w \<Longrightarrow> bankReverseCredit (portBank (gateway_ports env)) b a m w = (r, w') \<Longrightarrow> sw_live w'"
  by (simp_all add: callBank_live)

lemmas port_live = repo_live [rotated] bank_port_live [rotated] sw_live_frame [OF service_frame(1)]
  sw_live_frame [OF service_frame(2)] sw_live_frame [OF service_frame(3)]
  sw_live_frame [OF service_frame(4)] sw_live_frame [OF service_frame(6)]
  sw_live_frame [OF service_frame(7)]

lemma set_status_live:
  assumes "sw_live w" "set_status (portRepo (gateway_ports env)) pre st p w = (r, p', w')"
  shows "sw_live w'"
  using assms repo_live(1) [OF assms(1)] by (auto simp: set_status_cases)

lemma abort_status_live:
  assumes "sw_live w" "abort_status (portRepo (gateway_ports env)) p w = (r, p', w')"
  shows "sw_live w'"
  using assms repo_live(1) [OF assms(1)] by (auto simp: abort_status_cases)

text \<open>The settlement step's client is the one port that is an option.\<close>

lemma settle_step_live:
  assumes "sw_live w" "Some cl = portSettlement (gateway_ports env)"
    and "SettleStep_Execute cl (portRepo (gateway_ports env)) p w = (r, p', w')"
  shows "sw_live w'"
proof -
  obtain x w1 where c: "cl p w = (x, w1)" by fastforce
  have "sw_live w1" using sw_live_frame [OF service_frame(5) [OF assms(2) [symmetric] c] assms(1)] .
  with assms(3) c show ?thesis
    by (auto simp: SettleStep_Execute_def split: option.splits dest: set_status_live)
qed

lemmas call_live = port_live set_status_live [rotated] abort_status_live [rotated]

lemma steps_live:
  assumes "sw_live w" "stp \<in> set (gateway_steps (gateway_ports env))" "Execute stp p w = (r, p', w')"
  shows "sw_live w'"
  using assms
  by (auto simp: gateway_steps_def step_ctors gsp.other_step_defs Let_def
      simp del: gateway_ports_sel
      split: option.splits if_splits prod.splits sum.splits)
    ((erule call_live settle_step_live [rotated] | assumption)+)

lemma compensations_live:
  assumes "sw_live w" "stp \<in> set (gateway_steps (gateway_ports env))" "Compensate stp p w = (r, p', w')"
  shows "sw_live w'"
  using assms
  by (auto simp: gateway_steps_def step_ctors ReserveStep_Compensate_def CommitStep_Compensate_def no_compensation_def
      simp del: gateway_ports_sel split: option.splits prod.splits)
    ((erule call_live | assumption)+)

lemma gateway_live: "live_repository (gateway_ports env) sw_status sw_live"
proof (intro live_repository.intro live_repository_axioms.intro gateway_switch_ports, goal_cases)
  case (1 w pid st)
  then show ?case
    using repo_UpdateStatus_live [of "swPg w" pid st] by (auto simp: sw_live_def sw_status_def lift_def)
qed (rule steps_live compensations_live; assumption)+

lemma sw_ledger_frame:
  "swPg w' = swPg w \<and> swBank w' = swBank w \<and> swNetFaults w' = swNetFaults w \<Longrightarrow> sw_ledger w' = sw_ledger w"
  by (simp add: sw_ledger_def)

lemmas service_ledger = service_frame [THEN sw_ledger_frame]

lemma gateway_safe:
  "safe_ports (gateway_ports env) sw_status sw_live sw_ledger ledger_wf bank_reachable ledger_balance"
proof (intro safe_ports.intro safe_ports_axioms.intro gateway_live, goal_cases)
  case 1
  then show ?case using sw_bank_ledger by simp
next
  case (2 w pid ttl)
  then show ?case
    using repo_MarkReserved_live [of "swPg w" pid ttl] by (auto simp: sw_live_def sw_status_def lift_def)
qed ((rule repo_ledger service_ledger bank_port_live; assumption)+)

interpretation gsafe: safe_ports "gateway_ports env" sw_status sw_live sw_ledger ledger_wf bank_reachable ledger_balance
  for env
  by (rule gateway_safe)

end
