(* ===== verification/SwitchRuns.thy ===== *)
theory SwitchRuns
  imports Switch
begin

text \<open>
  What one run of the gateway's saga over the whole switch (src/cmd/gateway/main.go wiring the saga
  of src/internal/orchestrator/saga with the Postgres repository, the bank client and the bank
  service) does to the money. \<^emph>\<open>run ready\<close> collects what the run relies on: statements and
  network calls that do not fail, a well-formed bank, a stored payment, two banks reachable through
  the bank service, and room for the credit in 64 bits.
\<close>

definition run_ready :: "Payment \<Rightarrow> switch \<Rightarrow> bool" where
  "run_ready p w \<longleftrightarrow>
     sw_live w \<and> bank_wf (swBank w) \<and> sw_status w (pID p) \<noteq> None \<and>
     bank_reachable (sw_ledger w) (pSourceBIC p) \<and> bank_reachable (sw_ledger w) (pDestinationBIC p) \<and>
     (case balance_of (swBank w) (pDestAccount p) of None \<Rightarrow> True | Some v \<Rightarrow> v + sint (pAmount p) < 2 ^ 63)"

lemma run_ready_good:
  "run_ready p w \<longleftrightarrow> saga_good sw_status sw_live sw_ledger ledger_wf bank_reachable ledger_balance 0 p w"
  by (auto simp: run_ready_def saga_good_def ledger_wf_def ledger_balance_def sw_ledger_def split: option.splits)


lemma gateway_saga_steps [simp]: "sagaSteps (gateway_saga env) = gateway_steps (gateway_ports env)"
  by (simp add: gateway_saga_def New_saga_def)

lemma run_keeps_bank_wf:
  assumes "run_ready p w" and "Run (gateway_saga env) p w = (r, s', p', w')"
  shows "bank_wf (swBank w')"
proof (cases r)
  case None
  have "forward (take (length (gateway_steps (gateway_ports env))) (gateway_steps (gateway_ports env))) p w = Some (p', w')"
    using Run_okE(1) assms(2) None by fastforce
  from gsafe.outline.forward_good [OF _ _ this] assms(1) show ?thesis
    by (simp add: run_ready_good) (simp add: saga_good_def ledger_wf_def sw_ledger_def)
next
  case (Some e)
  from gsafe.outline.run_atomic [OF gateway_saga_steps _ assms(2) [unfolded Some]] assms(1) show ?thesis
    by (simp add: run_ready_good) (simp add: saga_good_def ledger_wf_def sw_ledger_def)
qed

lemma run_moves:
  assumes "run_ready p w" and "Run (gateway_saga env) p w = (None, s', p', w')"
  obtains u v where "balance_of (swBank w) (pSourceAccount p) = Some u" "sint (pAmount p) \<le> u"
     "((balance_of (swBank w))(pSourceAccount p \<mapsto> u - sint (pAmount p))) (pDestAccount p) = Some v"
     "balance_of (swBank w') = (balance_of (swBank w))
       (pSourceAccount p \<mapsto> u - sint (pAmount p), pDestAccount p \<mapsto> v + sint (pAmount p))"
  using gsafe.Run_moves_money [OF gateway_saga_steps _ assms(2)] assms(1)
  unfolding run_ready_good by (metis ledger_balance_def sw_ledger_def fst_conv)

lemma run_restores:
  assumes "run_ready p w" and "Run (gateway_saga env) p w = (Some e, s', p', w')"
  shows "balance_of (swBank w') = balance_of (swBank w)"
  using gsafe.outline.run_atomic [OF gateway_saga_steps _ assms(2)] assms(1)
  by (simp add: run_ready_good money_view_def ledger_balance_def sw_ledger_def)


section \<open>The abstract transfer\<close>

text \<open>What a payment means for the accounts: the amount leaves the source account, which must hold
  it, and arrives at the destination account, which must exist.\<close>

definition transfer :: "string \<Rightarrow> string \<Rightarrow> int \<Rightarrow> (string \<rightharpoonup> int) \<Rightarrow> (string \<rightharpoonup> int) option" where
  "transfer src dst m bal =
     (case bal src of
        None \<Rightarrow> None
      | Some u \<Rightarrow>
          if u < m then None
          else (case (bal(src \<mapsto> u - m)) dst of
                  None \<Rightarrow> None
                | Some v \<Rightarrow> Some (bal(src \<mapsto> u - m, dst \<mapsto> v + m))))"

lemma run_transfer:
  assumes "run_ready p w" and "Run (gateway_saga env) p w = (None, s', p', w')"
  shows "transfer (pSourceAccount p) (pDestAccount p) (sint (pAmount p)) (balance_of (swBank w)) =
    Some (balance_of (swBank w'))"
proof -
  from assms obtain u v where "balance_of (swBank w) (pSourceAccount p) = Some u" "sint (pAmount p) \<le> u"
     "((balance_of (swBank w))(pSourceAccount p \<mapsto> u - sint (pAmount p))) (pDestAccount p) = Some v"
     "balance_of (swBank w') = (balance_of (swBank w))
       (pSourceAccount p \<mapsto> u - sint (pAmount p), pDestAccount p \<mapsto> v + sint (pAmount p))" by (rule run_moves)
  then show ?thesis unfolding transfer_def by (auto split: option.split simp del: fun_upd_apply)
qed

end
