(* ===== verification/Concurrent.thy ===== *)
theory Concurrent
  imports SwitchRuns
begin

text \<open>
  Many payments at once. The gateway starts a goroutine per payment (src/internal/gateway/handler.go), all over
  one saga, one database and one bank (src/internal/orchestrator/saga/saga.go). A run is its phase and
  its payment; \<open>run_step\<close> executes or compensates its next step, and \<open>sched\<close> lets any run make its next step. A step
  is atomic here: it makes one call to the bank, and its statements concern its own payment. The lemmas show that
  a run alone is \<open>Run\<close>, that every schedule ends, and that money is conserved under every schedule.
\<close>

section \<open>Runs and schedules\<close>

text \<open>\<open>Forward i\<close>: the first \<open>i\<close> steps have been executed. \<open>Undo k\<close>: a step has failed and the first \<open>k\<close> are still to be
  compensated.\<close>

datatype phase = Forward nat | Undo nat

fun run_step :: "'w Step list \<Rightarrow> phase \<Rightarrow> Payment \<Rightarrow> 'w \<Rightarrow> ((phase \<times> Payment) \<times> 'w) option" where
  "run_step sts (Forward i) p w =
     (if i < length sts then
        (case execStep (sts ! i) p w of
           (None, p', w') \<Rightarrow> Some ((Forward (Suc i), p'), w')
         | (Some e, p', w') \<Rightarrow> Some ((Undo i, p'), w'))
      else None)"
| "run_step sts (Undo 0) p w = None"
| "run_step sts (Undo (Suc k)) p w = (case Compensate (sts ! k) p w of (_, p', w') \<Rightarrow> Some ((Undo k, p'), w'))"

inductive sched :: "'w Step list \<Rightarrow> (phase \<times> Payment) list \<times> 'w \<Rightarrow> (phase \<times> Payment) list \<times> 'w \<Rightarrow> bool" for sts where
  sched_run: "j < length cs \<Longrightarrow> cs ! j = (ph, p) \<Longrightarrow> run_step sts ph p w = Some (c, w') \<Longrightarrow> sched sts (cs, w) (cs[j := c], w')"

inductive_cases schedE: "sched sts (cs, w) d"

fun ended :: "nat \<Rightarrow> phase \<Rightarrow> bool" where
  "ended n (Forward i) \<longleftrightarrow> n \<le> i"
| "ended n (Undo k) \<longleftrightarrow> k = 0"

section \<open>A run alone\<close>

lemma run_step_None: "run_step sts ph p w = None \<longleftrightarrow> ended (length sts) ph"
  by (cases "(sts, ph, p, w)" rule: run_step.cases) (auto split: prod.splits option.splits)

lemma sched_alone: "run_step sts ph p w = Some (c, w') \<Longrightarrow> sched sts ([(ph, p)], w) ([c], w')"
  using sched_run [of 0 "[(ph, p)]" ph p sts w c w'] by simp

lemma undo_alone:
  "k \<le> length sts \<Longrightarrow> compensate_all (rev (take k sts)) p w = (p', w') \<Longrightarrow>
     (sched sts)\<^sup>*\<^sup>* ([(Undo k, p)], w) ([(Undo 0, p')], w')"
proof (induction k arbitrary: p w)
  case (Suc k)
  obtain r p1 w1 where c: "Compensate (sts ! k) p w = (r, p1, w1)" by (cases "Compensate (sts ! k) p w") auto
  have "rev (take (Suc k) sts) = sts ! k # rev (take k sts)" using Suc.prems(1) by (simp add: take_Suc_conv_app_nth)
  with Suc.prems c have "compensate_all (rev (take k sts)) p1 w1 = (p', w')" by simp
  with Suc have "(sched sts)\<^sup>*\<^sup>* ([(Undo k, p1)], w1) ([(Undo 0, p')], w')" by simp
  moreover have "sched sts ([(Undo (Suc k), p)], w) ([(Undo k, p1)], w1)" using c by (intro sched_alone) simp
  ultimately show ?case by (rule converse_rtranclp_into_rtranclp [rotated])
qed simp

lemma run_loop_alone:
  assumes "run_loop (drop i sts) (take i sts) n p w = (r, m, p', w')" "i \<le> length sts"
  shows "(sched sts)\<^sup>*\<^sup>* ([(Forward i, p)], w) ([(if r = None then Forward (length sts) else Undo 0, p')], w')"
  using assms
proof (induction "length sts - i" arbitrary: i n p w)
  case 0
  then show ?case by auto
next
  case (Suc d)
  then have i: "i < length sts" and drop: "drop i sts = sts ! i # drop (Suc i) sts"
    and take: "take i sts @ [sts ! i] = take (Suc i) sts" by (simp_all add: Cons_nth_drop_Suc take_Suc_conv_app_nth)
  obtain x p1 w1 where e: "Execute (sts ! i) p w = (x, p1, w1)" by (cases "Execute (sts ! i) p w") auto
  show ?case
  proof (cases x)
    case None
    with Suc.prems(1) drop take e have "run_loop (drop (Suc i) sts) (take (Suc i) sts) (n + 1) p1 w1 = (r, m, p', w')"
      by (simp add: execStep_def)
    with Suc i have "(sched sts)\<^sup>*\<^sup>* ([(Forward (Suc i), p1)], w1) ([(if r = None then Forward (length sts) else Undo 0, p')], w')" by simp
    moreover have "sched sts ([(Forward i, p)], w) ([(Forward (Suc i), p1)], w1)"
      using e None i by (intro sched_alone) (simp add: execStep_def)
    ultimately show ?thesis by (rule converse_rtranclp_into_rtranclp [rotated])
  next
    case (Some err)
    with Suc.prems(1) drop e have "compensate_all (rev (take i sts)) p1 w1 = (p', w')" "r = Some err"
      by (auto simp: execStep_def rollback_def split: prod.splits)
    with undo_alone [of i sts] i have "(sched sts)\<^sup>*\<^sup>* ([(Undo i, p1)], w1) ([(Undo 0, p')], w')" by simp
    moreover have "sched sts ([(Forward i, p)], w) ([(Undo i, p1)], w1)"
      using e Some i by (intro sched_alone) (simp add: execStep_def)
    ultimately show ?thesis using \<open>r = Some err\<close> by (auto intro: converse_rtranclp_into_rtranclp)
  qed
qed

text \<open>\<open>Run\<close> is the schedule of a single run until it has ended.\<close>

lemma Run_is_schedule:
  assumes "Run (New_saga sts) p w = (r, s', p', w')"
  shows "(sched sts)\<^sup>*\<^sup>* ([(Forward 0, p)], w) ([(if r = None then Forward (length sts) else Undo 0, p')], w')"
proof -
  obtain x m q v where l: "run_loop sts [] 0 p w = (x, m, q, v)" by (cases "run_loop sts [] 0 p w") auto
  with assms have "x = r" "q = p'" "v = w'" by (auto simp: Run_def New_saga_def)
  with run_loop_alone [of 0 sts 0 p w] l show ?thesis by simp
qed

section \<open>Every schedule ends\<close>

fun work :: "nat \<Rightarrow> phase \<Rightarrow> nat" where
  "work n (Forward i) = 2 * n + 1 - i"
| "work n (Undo k) = k"

lemma run_step_work: "run_step sts ph p w = Some ((ph', p'), w') \<Longrightarrow> work (length sts) ph' < work (length sts) ph"
  by (cases "(sts, ph, p, w)" rule: run_step.cases) (auto split: if_splits prod.splits option.splits)

lemma sum_list_swap:
  "j < length xs \<Longrightarrow> sum_list (map f (xs[j := x])) + f (xs ! j) = sum_list (map f xs) + (f x :: 'b :: comm_monoid_add)"
  by (induction xs arbitrary: j) (auto simp: ac_simps split: nat.splits)

definition total_work :: "nat \<Rightarrow> (phase \<times> Payment) list \<Rightarrow> nat" where
  "total_work n cs = sum_list (map (\<lambda>c. work n (fst c)) cs)"

lemma sched_work:
  assumes "sched sts c d"
  shows "total_work (length sts) (fst d) < total_work (length sts) (fst c)"
  using assms
proof cases
  case (sched_run j cs ph p w c' w')
  obtain ph' p' where "c' = (ph', p')" by fastforce
  with sched_run have "work (length sts) ph' < work (length sts) ph" by (simp add: run_step_work)
  with sched_run sum_list_swap [of j cs "\<lambda>c. work (length sts) (fst c)" c'] \<open>c' = (ph', p')\<close> show ?thesis
    by (simp add: total_work_def)
qed

lemma sched_bounded: "(sched sts ^^ n) c d \<Longrightarrow> n + total_work (length sts) (fst d) \<le> total_work (length sts) (fst c)"
proof (induction n arbitrary: d)
  case (Suc n)
  then obtain e where "(sched sts ^^ n) c e" "sched sts e d" by auto
  with Suc.IH [of e] sched_work [of sts e d] show ?case by linarith
qed simp

lemma total_work_start: "total_work n (map (Pair (Forward 0)) ps) = (2 * n + 1) * length ps"
  by (induction ps) (simp_all add: total_work_def)

lemma stuck_ended:
  assumes "\<And>d. \<not> sched sts (cs, w) d" "(ph, p) \<in> set cs"
  shows "ended (length sts) ph"
proof (rule ccontr)
  assume "\<not> ended (length sts) ph"
  then have "run_step sts ph p w \<noteq> None" by (simp only: run_step_None not_False_eq_True)
  then obtain c w' where r: "run_step sts ph p w = Some (c, w')" by (cases "run_step sts ph p w") auto
  from assms(2) obtain j where j: "j < length cs" "cs ! j = (ph, p)" by (auto simp: in_set_conv_nth)
  from sched_run [OF j r] assms(1) show False by simp
qed

section \<open>Money under a schedule\<close>

text \<open>What a run holds: the amount has left the source account and has not arrived yet.\<close>

fun held :: "phase \<times> Payment \<Rightarrow> int" where
  "held (Forward i, p) = (if i = 6 then sint (pAmount p) else 0)"
| "held (Undo k, p) = (if k = 6 then sint (pAmount p) else 0)"

definition all_money :: "(string \<Rightarrow> int option) \<Rightarrow> int" where
  "all_money f = (\<Sum>a\<in>dom f. the (f a))"

lemma all_money_upd:
  assumes "finite (dom f)" "f a = Some v"
  shows "all_money (f(a \<mapsto> x)) = all_money f - v + x" "dom (f(a \<mapsto> x)) = dom f"
proof -
  show d: "dom (f(a \<mapsto> x)) = dom f" using assms(2) by (auto simp: dom_def)
  have a: "a \<in> dom f" using assms(2) by auto
  have "(\<Sum>n\<in>dom f. the ((f(a \<mapsto> x)) n)) = (\<Sum>n\<in>dom f. the (f n) + (if n = a then x - v else 0))"
    by (rule sum.cong) (use assms(2) in auto)
  also have "\<dots> = all_money f + (x - v)" using assms(1) a by (simp add: all_money_def sum.distrib)
  finally show "all_money (f(a \<mapsto> x)) = all_money f - v + x" unfolding all_money_def d by simp
qed

lemma all_money_ge:
  assumes "finite (dom f)" "f a = Some v" "\<And>b u. f b = Some u \<Longrightarrow> 0 \<le> u"
  shows "v \<le> all_money f"
proof -
  have "the (f a) \<le> (\<Sum>n\<in>dom f. the (f n))"
    by (rule member_le_sum) (use assms in auto)
  with assms(2) show ?thesis by (simp add: all_money_def)
qed

text \<open>What holds of a run between its steps, and of all runs together: the books balance at \<open>T\<close>.\<close>

definition run_ok :: "('w \<Rightarrow> string \<Rightarrow> PaymentStatus option) \<Rightarrow> ('w \<Rightarrow> 'l) \<Rightarrow> ('l \<Rightarrow> string \<Rightarrow> bool) \<Rightarrow>
    ('l \<Rightarrow> string \<Rightarrow> int option) \<Rightarrow> 'w \<Rightarrow> phase \<times> Payment \<Rightarrow> bool" where
  "run_ok status_of ledger reach bal w c \<longleftrightarrow>
     (case c of (ph, p) \<Rightarrow>
        status_of w (pID p) \<noteq> None \<and> reach (ledger w) (pSourceBIC p) \<and>
        (case ph of Forward i \<Rightarrow> 0 < i \<longrightarrow> 0 < sint (pAmount p) | Undo k \<Rightarrow> k \<le> 6 \<and> (0 < k \<longrightarrow> 0 < sint (pAmount p))) \<and>
        (held c \<noteq> 0 \<longrightarrow> bal (ledger w) (pSourceAccount p) \<noteq> None))"

definition books :: "('w \<Rightarrow> string \<Rightarrow> PaymentStatus option) \<Rightarrow> ('w \<Rightarrow> bool) \<Rightarrow> ('w \<Rightarrow> 'l) \<Rightarrow> ('l \<Rightarrow> bool) \<Rightarrow>
    ('l \<Rightarrow> string \<Rightarrow> bool) \<Rightarrow> ('l \<Rightarrow> string \<Rightarrow> int option) \<Rightarrow> int \<Rightarrow> (phase \<times> Payment) list \<times> 'w \<Rightarrow> bool" where
  "books status_of live ledger linv reach bal T c \<longleftrightarrow>
     (case c of (cs, w) \<Rightarrow> live w \<and> linv (ledger w) \<and> all_money (bal (ledger w)) + sum_list (map held cs) = T \<and>
        list_all (run_ok status_of ledger reach bal w) cs)"

lemma run_ok_held: "run_ok status_of ledger reach bal w c \<Longrightarrow> 0 \<le> held c"
  by (cases c rule: held.cases) (auto simp: run_ok_def)

text \<open>A run is not disturbed by a step of another.\<close>

lemma run_ok_frame:
  assumes "run_ok status_of ledger reach bal w c" "reach (ledger w') = reach (ledger w)"
    and "dom (bal (ledger w')) = dom (bal (ledger w))" "\<And>i. status_of w i \<noteq> None \<Longrightarrow> status_of w' i \<noteq> None"
  shows "run_ok status_of ledger reach bal w' c"
proof (cases c)
  case (Pair ph p)
  have "bal (ledger w) a \<noteq> None \<longleftrightarrow> bal (ledger w') a \<noteq> None" for a using assms(3) by (metis domIff)
  with assms Pair show ?thesis by (simp add: run_ok_def)
qed

text \<open>\<open>interleaved_ports\<close> adds to the contracts of a run that a ledger has finitely many accounts and that the
  settlement service accepts what it is given.\<close>

locale interleaved_ports = safe_ports +
  assumes finite_accounts: "linv l \<Longrightarrow> finite (dom (bal l))"
    and settlement_accepts: "portSettlement P = Some cl \<Longrightarrow> cl pay w = (r, w') \<Longrightarrow> r = None"
    and settlement_live: "portSettlement P = Some cl \<Longrightarrow> live w \<Longrightarrow> cl pay w = (r, w') \<Longrightarrow> live w'"
begin

lemma late_step_ok:
  assumes "7 \<le> i" "i < length (gateway_steps P)" "live w" "status_of w (pID p) \<noteq> None"
    and "Execute (gateway_steps P ! i) p w = (r, p', w')"
  shows "r = None"
proof (cases "portSettlement P")
  case None
  with assms have "i = 7 \<or> i = 8" by (auto simp: gateway_steps_length)
  with None assms(5) show ?thesis
    by (auto simp: gateway_steps_def step_ctors RecordReconciliationStep_Execute_def NotifyStep_Execute_def split: prod.splits)
next
  case (Some cl)
  with assms have "i = 7 \<or> i = 8 \<or> i = 9" by (auto simp: gateway_steps_length)
  then consider "i = 7" | "i = 8 \<or> i = 9" by blast
  then show ?thesis
  proof cases
    case 1
    obtain x w1 where c: "cl p w = (x, w1)" by fastforce
    have x: "x = None" by (rule settlement_accepts [OF Some c])
    have "status_of w1 = status_of w" by (rule settlement_frame [OF Some c])
    moreover have "live w1" by (rule settlement_live [OF Some assms(3) c])
    ultimately obtain w2 where "repoUpdateStatus (portRepo P) (pID p) StatusSettled w1 = (None, w2)"
      using UpdateStatus_live assms(4) by metis
    with 1 Some assms(5) c x show ?thesis by (auto simp: gateway_steps_def step_ctors SettleStep_Execute_def set_status_def)
  next
    case 2
    with Some assms(5) show ?thesis
      by (auto simp: gateway_steps_def step_ctors RecordReconciliationStep_Execute_def NotifyStep_Execute_def split: prod.splits)
  qed
qed

text \<open>What one step does to the money, on either outcome.\<close>

lemma execute_money:
  assumes "i < length (gateway_steps P)" "Execute (gateway_steps P ! i) p w = (r, p', w')"
    and "live w" "linv (ledger w)" "status_of w (pID p) \<noteq> None" "0 < i \<longrightarrow> 0 < sint (pAmount p)"
    and room: "i = 6 \<longrightarrow> (\<forall>v. bal (ledger w) (pDestAccount p) = Some v \<longrightarrow> v + sint (pAmount p) < 2 ^ 63)"
  shows "linv (ledger w') \<and> reach (ledger w') = reach (ledger w) \<and> dom (bal (ledger w')) = dom (bal (ledger w)) \<and>
    (r = None \<longrightarrow> 0 < sint (pAmount p) \<and> (i = 5 \<longrightarrow> bal (ledger w) (pSourceAccount p) \<noteq> None) \<and>
      all_money (bal (ledger w')) + held (Forward (Suc i), p) = all_money (bal (ledger w)) + held (Forward i, p)) \<and>
    (r \<noteq> None \<longrightarrow> bal (ledger w') = bal (ledger w) \<and> i \<le> 6)"
  using assms(1)
proof (cases rule: gateway_steps_nth)
  case 1
  then have "ledger w' = ledger w" using quiet_execute [OF nth_mem [OF assms(1)] _ assms(2)] by (simp add: ValidateStep_def)
  moreover have "r = None \<Longrightarrow> 0 < sint (pAmount p)"
    using 1 assms(2) by (auto simp: ValidateStep_def dest: validate_amount)
  ultimately show ?thesis using 1 assms(4) by simp
next
  case 2
  then have e: "ReserveStep_Execute (portRepo P) (portBank P) DefaultReservationTTL p w = (r, p', w')" and pos: "0 < sint (pAmount p)"
    using assms(2,6) by (simp_all add: ReserveStep_def)
  from e assms(3,5) show ?thesis
  proof (rule reserve_execute)
    fix v1 assume b: "bankReserve (portBank P) (pSourceBIC p) (pSourceAccount p) (pAmount p) w = (None, v1)"
      and r: "r = None" "ledger w' = ledger v1"
    from reserve_law [OF assms(4) pos b] obtain v where v: "bal (ledger w) (pSourceAccount p) = Some v"
      "bal (ledger v1) = (bal (ledger w))(pSourceAccount p \<mapsto> v - sint (pAmount p))"
      and l: "linv (ledger v1)" "reach (ledger v1) = reach (ledger w)" by auto
    note up = all_money_upd [OF finite_accounts [OF assms(4)] v(1), of "v - sint (pAmount p)"]
    show ?thesis unfolding r(2) v(2) up(2) using up(1) l r(1) v(1) 2(1) pos by simp
  next
    fix x v1 assume b: "bankReserve (portBank P) (pSourceBIC p) (pSourceAccount p) (pAmount p) w = (Some x, v1)"
      and r: "r \<noteq> None" "ledger w' = ledger v1"
    from reserve_law [OF assms(4) pos b] r 2(1) show ?thesis by auto
  qed
next
  case 3
  then have e: "CommitStep_Execute (portRepo P) (portBank P) p w = (r, p', w')" and pos: "0 < sint (pAmount p)"
    using assms(2,6) by (simp_all add: CommitStep_def)
  from e assms(3,5) show ?thesis
  proof (rule commit_execute)
    fix v1 assume b: "bankCredit (portBank P) (pDestinationBIC p) (pDestAccount p) (pAmount p) w = (None, v1)"
      and r: "r = None" "ledger w' = ledger v1"
    from credit_law [OF assms(4) pos room [rule_format, OF 3(1)] b] obtain v where v: "bal (ledger w) (pDestAccount p) = Some v"
      "bal (ledger v1) = (bal (ledger w))(pDestAccount p \<mapsto> v + sint (pAmount p))"
      and l: "linv (ledger v1)" "reach (ledger v1) = reach (ledger w)" by auto
    note up = all_money_upd [OF finite_accounts [OF assms(4)] v(1), of "v + sint (pAmount p)"]
    show ?thesis unfolding r(2) v(2) up(2) using up(1) l r(1) v(1) 3(1) pos by simp
  next
    fix x v1 assume b: "bankCredit (portBank P) (pDestinationBIC p) (pDestAccount p) (pAmount p) w = (Some x, v1)"
      and r: "r \<noteq> None" "ledger w' = ledger v1"
    from credit_law [OF assms(4) pos room [rule_format, OF 3(1)] b] r 3(1) show ?thesis by auto
  qed
next
  case 4
  then have "ledger w' = ledger w" using quiet_execute [OF nth_mem [OF assms(1)] _ assms(2)] by auto
  moreover have "r \<noteq> None \<Longrightarrow> i \<le> 6" using late_step_ok [OF _ assms(1,3,5,2)] by fastforce
  ultimately show ?thesis using 4(1) assms(4,6) by auto
qed

lemma compensate_money:
  assumes "k \<le> 5" "Compensate (gateway_steps P ! k) p w = (r, p', w')"
    and "live w" "linv (ledger w)" "reach (ledger w) (pSourceBIC p)" "0 < sint (pAmount p)"
    and acc: "k = 5 \<longrightarrow> bal (ledger w) (pSourceAccount p) = Some v" "k = 5 \<longrightarrow> v + sint (pAmount p) < 2 ^ 63"
  shows "linv (ledger w') \<and> reach (ledger w') = reach (ledger w) \<and> dom (bal (ledger w')) = dom (bal (ledger w)) \<and>
    all_money (bal (ledger w')) + held (Undo k, p) = all_money (bal (ledger w)) + held (Undo (Suc k), p)"
proof -
  have len: "k < length (gateway_steps P)" using assms(1) by (simp add: gateway_steps_length)
  show ?thesis
  proof (cases "k = 5")
    case True
    obtain x w1 where b: "bankReleaseReservation (portBank P) (pSourceBIC p) (pSourceAccount p) (pAmount p) w = (x, w1)"
      by fastforce
    have "gateway_steps P ! 5 = ReserveStep (portRepo P) (portBank P) DefaultReservationTTL" by (simp add: gateway_steps_def)
    with assms(2) b True have l: "ledger w' = ledger w1"
      by (auto simp: ReserveStep_def ReserveStep_Compensate_def dest!: abort_status_ledger)
    from release_law [OF assms(3,4,6,5) acc(1) [rule_format, OF True] acc(2) [rule_format, OF True] b] have w1: "linv (ledger w1)"
      "reach (ledger w1) = reach (ledger w)" "bal (ledger w1) = (bal (ledger w))(pSourceAccount p \<mapsto> v + sint (pAmount p))" by auto
    note up = all_money_upd [OF finite_accounts [OF assms(4)] acc(1) [rule_format, OF True], of "v + sint (pAmount p)"]
    show ?thesis unfolding l w1(3) up(2) using up(1) w1(1,2) True by simp
  next
    case False
    from len have "stepName (gateway_steps P ! k) \<notin> {''reserve_source'', ''credit_destination''}"
      by (cases rule: gateway_steps_nth) (use False assms(1) in \<open>auto simp: ValidateStep_def\<close>)
    with quiet_compensate [OF nth_mem [OF len] _ assms(2)] have "ledger w' = ledger w" by blast
    with False assms(1,4) show ?thesis by auto
  qed
qed

lemma step_rows:
  assumes "stp \<in> set (gateway_steps P)" "Execute stp p w = (r, p', w')" "status_of w i \<noteq> None"
  shows "status_of w' i \<noteq> None"
proof (cases r)
  case (Some e)
  then show ?thesis using step_err_status assms by metis
next
  case None
  with assms show ?thesis
    by (auto simp: gateway_steps_def step_ctors other_step_defs Let_def
        split: option.splits if_splits prod.splits sum.splits
        dest!: set_status_okD frames MarkReserved_ok UpdateRoute_ok dest: settle_Execute)
qed

lemma run_step_books:
  assumes "run_step (gateway_steps P) ph p w = Some (c, w')"
    and "live w" "linv (ledger w)" "run_ok status_of ledger reach bal w (ph, p)"
    and "all_money (bal (ledger w)) + held (ph, p) < 2 ^ 63"
  shows "live w'" "linv (ledger w')" "reach (ledger w') = reach (ledger w)" "dom (bal (ledger w')) = dom (bal (ledger w))"
    "\<And>i. status_of w i \<noteq> None \<Longrightarrow> status_of w' i \<noteq> None" "run_ok status_of ledger reach bal w' c"
    "all_money (bal (ledger w')) + held c = all_money (bal (ledger w)) + held (ph, p)"
proof -
  have row: "status_of w (pID p) \<noteq> None" and src: "reach (ledger w) (pSourceBIC p)"
    using assms(4) by (simp_all add: run_ok_def)
  have below: "v + held (ph, p) < 2 ^ 63" if "bal (ledger w) a = Some v" for a v
    using all_money_ge [OF finite_accounts [OF assms(3)] that] bal_range [OF assms(3)] assms(5) by force
  have "live w' \<and> linv (ledger w') \<and> reach (ledger w') = reach (ledger w) \<and> dom (bal (ledger w')) = dom (bal (ledger w)) \<and>
      (\<forall>i. status_of w i \<noteq> None \<longrightarrow> status_of w' i \<noteq> None) \<and> run_ok status_of ledger reach bal w' c \<and>
      all_money (bal (ledger w')) + held c = all_money (bal (ledger w)) + held (ph, p)"
  proof (cases ph)
    case (Forward i)
    obtain r p' w1 where e: "Execute (gateway_steps P ! i) p w = (r, p', w1)" by (cases "Execute (gateway_steps P ! i) p w") auto
    from assms(1) Forward e have i: "i < length (gateway_steps P)" and w1: "w1 = w'"
      and c: "c = (if r = None then Forward (Suc i) else Undo i, p')"
      by (auto simp: execStep_def split: if_splits option.splits)
    have pos: "0 < i \<longrightarrow> 0 < sint (pAmount p)" using assms(4) Forward by (simp add: run_ok_def)
    have room: "i = 6 \<longrightarrow> (\<forall>v. bal (ledger w) (pDestAccount p) = Some v \<longrightarrow> v + sint (pAmount p) < 2 ^ 63)"
      using below Forward by auto
    note m = execute_money [OF i e [unfolded w1] assms(2,3) row pos room]
    have lv: "live w'" by (rule step_live [OF assms(2) nth_mem [OF i] e [unfolded w1]])
    have rows: "\<And>j. status_of w j \<noteq> None \<Longrightarrow> status_of w' j \<noteq> None" by (rule step_rows [OF nth_mem [OF i] e [unfolded w1]])
    have core: "pID p' = pID p" "pSourceBIC p' = pSourceBIC p" "pSourceAccount p' = pSourceAccount p" "pAmount p' = pAmount p"
      using gateway_step_core [OF nth_mem [OF i] e] by (simp_all add: pay_core_def)
    have hc: "held c = held (if r = None then Forward (Suc i) else Undo i, p)" by (simp add: c core)
    note l = m [THEN conjunct1] m [THEN conjunct2, THEN conjunct1] m [THEN conjunct2, THEN conjunct2, THEN conjunct1]
    note out = m [THEN conjunct2, THEN conjunct2, THEN conjunct2, THEN conjunct1]
      m [THEN conjunct2, THEN conjunct2, THEN conjunct2, THEN conjunct2]
    have src': "reach (ledger w') (pSourceBIC p)" unfolding l(2) by (rule src)
    note d = l(3)
    have acc: "bal (ledger w') (pSourceAccount p) \<noteq> None \<longleftrightarrow> bal (ledger w) (pSourceAccount p) \<noteq> None"
      unfolding domIff [symmetric] d ..
    have old: "i = 6 \<Longrightarrow> bal (ledger w) (pSourceAccount p) \<noteq> None" using assms(4) Forward pos by (simp add: run_ok_def)
    have ok: "run_ok status_of ledger reach bal w' c"
    proof (cases r)
      case None
      with out(1) have "0 < sint (pAmount p)" "i = 5 \<Longrightarrow> bal (ledger w) (pSourceAccount p) \<noteq> None" by auto
      then show ?thesis using None src' rows [OF row] acc by (simp add: run_ok_def c core)
    next
      case (Some x)
      with out(2) have "i \<le> 6" by simp
      then show ?thesis using Some src' rows [OF row] acc old pos by (simp add: run_ok_def c core)
    qed
    show ?thesis
    proof (cases r)
      case None
      with out(1) hc Forward have "all_money (bal (ledger w')) + held c = all_money (bal (ledger w)) + held (ph, p)" by simp
      with l lv rows ok show ?thesis by blast
    next
      case (Some x)
      with out(2) have "bal (ledger w') = bal (ledger w)" by simp
      with Some hc Forward have "all_money (bal (ledger w')) + held c = all_money (bal (ledger w)) + held (ph, p)" by simp
      with l lv rows ok show ?thesis by blast
    qed
  next
    case (Undo n)
    with assms(1) obtain k where n: "n = Suc k" by (cases n) auto
    have k: "k \<le> 5" "k < length (gateway_steps P)" and pos: "0 < sint (pAmount p)"
      using assms(4) Undo n by (simp_all add: run_ok_def gateway_steps_length)
    obtain r p' w1 where e: "Compensate (gateway_steps P ! k) p w = (r, p', w1)" by (cases "Compensate (gateway_steps P ! k) p w") auto
    from assms(1) Undo n e have w1: "w1 = w'" and c: "c = (Undo k, p')" by auto
    have p': "p' = p" by (rule gateway_compensate_payment [OF nth_mem [OF k(2)] e])
    have "k = 5 \<Longrightarrow> bal (ledger w) (pSourceAccount p) \<noteq> None" using assms(4) Undo n pos by (simp add: run_ok_def)
    then obtain v where v: "k = 5 \<longrightarrow> bal (ledger w) (pSourceAccount p) = Some v" by blast
    then have room: "k = 5 \<longrightarrow> v + sint (pAmount p) < 2 ^ 63" using below [of "pSourceAccount p" v] Undo n by auto
    note m = compensate_money [OF k(1) e [unfolded w1] assms(2,3) src pos v room]
    have lv: "live w'" by (rule compensate_live [OF assms(2) nth_mem [OF k(2)] e [unfolded w1]])
    have rows: "\<And>j. status_of w j \<noteq> None \<Longrightarrow> status_of w' j \<noteq> None"
      using compensate_status [OF nth_mem [OF k(2)] e [unfolded w1]] by auto
    note l = m [THEN conjunct1] m [THEN conjunct2, THEN conjunct1] m [THEN conjunct2, THEN conjunct2, THEN conjunct1]
    have "run_ok status_of ledger reach bal w' c"
      using rows [OF row] k(1) pos src by (simp add: run_ok_def c p' l(2))
    moreover have "all_money (bal (ledger w')) + held c = all_money (bal (ledger w)) + held (ph, p)"
      unfolding c p' Undo n by (rule m [THEN conjunct2, THEN conjunct2, THEN conjunct2])
    ultimately show ?thesis using l lv rows by blast
  qed
  then show "live w'" "linv (ledger w')" "reach (ledger w') = reach (ledger w)" "dom (bal (ledger w')) = dom (bal (ledger w))"
    "\<And>i. status_of w i \<noteq> None \<Longrightarrow> status_of w' i \<noteq> None" "run_ok status_of ledger reach bal w' c"
    "all_money (bal (ledger w')) + held c = all_money (bal (ledger w)) + held (ph, p)" by blast+
qed

lemma sched_books:
  assumes "sched (gateway_steps P) x y" "books status_of live ledger linv reach bal T x" "T < 2 ^ 63"
  shows "books status_of live ledger linv reach bal T y"
  using assms(1)
proof cases
  case (sched_run j cs ph p w c w')
  from assms(2) sched_run(1) have b: "live w" "linv (ledger w)" "all_money (bal (ledger w)) + sum_list (map held cs) = T"
    and ok: "\<And>c. c \<in> set cs \<Longrightarrow> run_ok status_of ledger reach bal w c" by (simp_all add: books_def list_all_iff)
  have mem: "(ph, p) \<in> set cs" using sched_run(3,4) by (metis nth_mem)
  have "held (ph, p) \<le> sum_list (map held cs)"
    by (rule member_le_sum_list) (use mem ok run_ok_held in force)+
  with b(3) assms(3) have room: "all_money (bal (ledger w)) + held (ph, p) < 2 ^ 63" by simp
  note m = run_step_books [OF sched_run(5) b(1,2) ok [OF mem] room]
  have "sum_list (map held (cs[j := c])) + held (ph, p) = sum_list (map held cs) + held c"
    using sum_list_swap [of j cs held c] sched_run(3,4) by simp
  with m(7) b(3) have "all_money (bal (ledger w')) + sum_list (map held (cs[j := c])) = T" by simp
  moreover have "run_ok status_of ledger reach bal w' d" if "d \<in> set (cs[j := c])" for d
    using set_update_subset_insert [of cs j c] that run_ok_frame [OF ok m(3,4,5)] m(6) by blast
  ultimately show ?thesis using m(1,2) sched_run(2) by (simp add: books_def list_all_iff)
qed

lemma schedule_books:
  assumes "(sched (gateway_steps P) ^^ n) x y" "books status_of live ledger linv reach bal T x" "T < 2 ^ 63"
  shows "books status_of live ledger linv reach bal T y"
  using assms
proof (induction n arbitrary: y)
  case (Suc n)
  then obtain z where "(sched (gateway_steps P) ^^ n) x z" "sched (gateway_steps P) z y" by auto
  with Suc sched_books show ?case by blast
qed simp

end

section \<open>The gateway's runs\<close>

interpretation gint: interleaved_ports "gateway_ports env" sw_status sw_live sw_ledger ledger_wf bank_reachable ledger_balance
  for env
proof (intro interleaved_ports.intro interleaved_ports_axioms.intro gateway_safe, goal_cases)
  case (1 l)
  then show ?case using total_balance_sum(1) by (simp add: ledger_wf_def ledger_balance_def)
next
  case (2 cl pay w r w')
  then show ?case
    by (auto simp: gateway_ports_def settlement_Submit_def lift_def loopback_def SubmitForSettlement_def err_of_def
        split: prod.splits)
next
  case (3 cl w pay r w')
  then show ?case using sw_live_frame [OF service_frame(5)] by blast
qed

text \<open>Payments that have been stored, from accounts whose banks answer, over a bank whose money fits in 63 bits.\<close>

definition in_flight_ready :: "Payment list \<Rightarrow> switch \<Rightarrow> bool" where
  "in_flight_ready ps w \<longleftrightarrow>
     sw_live w \<and> bank_wf (swBank w) \<and> total_balance (swBank w) < 2 ^ 63 \<and>
     list_all (\<lambda>p. sw_status w (pID p) \<noteq> None \<and> bank_reachable (sw_ledger w) (pSourceBIC p)) ps"

definition gateway_sched :: "quote_env \<Rightarrow> (phase \<times> Payment) list \<times> switch \<Rightarrow> (phase \<times> Payment) list \<times> switch \<Rightarrow> bool" where
  "gateway_sched env = sched (gateway_steps (gateway_ports env))"

lemma money_is_total: "bank_wf (swBank w) \<Longrightarrow> all_money (ledger_balance (sw_ledger w)) = total_balance (swBank w)"
  by (simp add: all_money_def ledger_balance_def sw_ledger_def total_balance_sum(2))

lemma ready_books:
  assumes "in_flight_ready ps w"
  shows "books sw_status sw_live sw_ledger ledger_wf bank_reachable ledger_balance (total_balance (swBank w))
    (map (Pair (Forward 0)) ps, w)"
proof -
  have "sum_list (map held (map (Pair (Forward 0)) ps)) = 0" by (induction ps) simp_all
  moreover from assms have "all_money (ledger_balance (sw_ledger w)) = total_balance (swBank w)"
    by (simp add: in_flight_ready_def money_is_total)
  moreover from assms have "ledger_wf (sw_ledger w)" by (simp add: in_flight_ready_def ledger_wf_def sw_ledger_def)
  moreover from assms have "list_all (run_ok sw_status sw_ledger bank_reachable ledger_balance w) (map (Pair (Forward 0)) ps)"
    by (auto simp: in_flight_ready_def list_all_iff run_ok_def)
  ultimately show ?thesis using assms by (simp add: books_def in_flight_ready_def)
qed

lemma gateway_schedule_books:
  assumes "in_flight_ready ps w" "(gateway_sched env ^^ n) (map (Pair (Forward 0)) ps, w) (cs, w')"
  shows "books sw_status sw_live sw_ledger ledger_wf bank_reachable ledger_balance (total_balance (swBank w)) (cs, w')"
  using gint.schedule_books [OF assms(2) [unfolded gateway_sched_def] ready_books [OF assms(1)]] assms(1)
  by (simp add: in_flight_ready_def)

lemma books_switch:
  assumes "books sw_status sw_live sw_ledger ledger_wf bank_reachable ledger_balance T (cs, w)"
  shows "total_balance (swBank w) + sum_list (map held cs) = T" "bank_wf (swBank w)" "list_all (\<lambda>c. 0 \<le> held c) cs"
proof -
  show wf: "bank_wf (swBank w)" using assms by (simp add: books_def ledger_wf_def sw_ledger_def)
  then show "total_balance (swBank w) + sum_list (map held cs) = T" using assms by (simp add: books_def money_is_total)
  show "list_all (\<lambda>c. 0 \<le> held c) cs" using assms by (auto simp: books_def list_all_iff intro: run_ok_held)
qed

lemma gateway_steps_ten: "length (gateway_steps (gateway_ports env)) = 10"
  by (simp add: gateway_steps_length) (simp add: gateway_ports_def)

text \<open>When all runs have ended nothing is held.\<close>

lemma ended_held: "7 \<le> n \<Longrightarrow> ended n ph \<Longrightarrow> held (ph, p) = 0"
  by (cases ph) auto

lemma stuck_held:
  assumes "\<nexists>d. gateway_sched env (cs, w) d"
  shows "list_all (\<lambda>c. ended 10 (fst c)) cs" "sum_list (map held cs) = 0"
proof -
  have stuck: "\<And>d. \<not> sched (gateway_steps (gateway_ports env)) (cs, w) d"
    using assms unfolding gateway_sched_def by blast
  have e: "ended 10 (fst c)" if "c \<in> set cs" for c
    using stuck_ended [OF stuck, of "fst c" "snd c"] that by (simp add: gateway_steps_ten)
  then show "list_all (\<lambda>c. ended 10 (fst c)) cs" by (simp add: list_all_iff)
  have "held c = 0" if "c \<in> set cs" for c
    using ended_held [OF _ e [OF that], of "snd c"] by simp
  then show "sum_list (map held cs) = 0" by (intro sum_list_nonneg_eq_0_iff [THEN iffD2]) auto
qed

lemma gateway_schedule_bounded:
  "(gateway_sched env ^^ n) (map (Pair (Forward 0)) ps, w) d \<Longrightarrow> n \<le> 21 * length ps"
  using sched_bounded [of n "gateway_steps (gateway_ports env)" "(map (Pair (Forward 0)) ps, w)" d]
  by (simp add: gateway_sched_def gateway_steps_ten total_work_start)

text \<open>Why the settlement service must accept: when it fails after the credit, another payment may have spent the
  money meanwhile; the reversal is then refused, \<open>rollback\<close> drops the error, and the release that follows gives the
  source an amount that nobody lost.\<close>

lemma refused_reversal_creates_money:
  assumes "bank_wf b" "0 < sint m" "balance_of b dst = Some u" "u < sint m" "balance_of b src = Some v" "v + sint m < 2 ^ 63"
  shows "\<exists>e b'. ReverseCredit dst m b = (Some e, b) \<and> ReleaseReservation src m b = (None, b') \<and>
    total_balance b' = total_balance b + sint m"
proof -
  from assms(3) obtain a where a: "account_of b dst = Some a" "u = sint (acBalance a)" by (auto simp: balance_of_def)
  have "\<exists>e. ReverseCredit dst m b = (Some e, b)" using a assms(4) by (simp add: ReverseCredit_def slt_def)
  with assms(1,2,5,6) show ?thesis by (metis Release_ok order_less_imp_le)
qed

end
