(* ===== verification/OutboxRelay.thy ===== *)
theory OutboxRelay
  imports RepoInvariant
begin

text \<open>
  The outbox relay of \<^verbatim>\<open>pkg/outbox/relay.go\<close>, the consumer loop of
  \<^verbatim>\<open>pkg/eventbus/consumer.go\<close> and the audit handler of \<^verbatim>\<open>internal/audit/handler.go\<close>.
  The broker is a parameter: publishing may fail and changes the broker's state \<open>'k\<close>, which no
  rollback undoes. The lemmas show that a batch goes out in the order of the outbox ids, that
  exactly the published rows are marked when the batch commits, and that nothing is marked when it
  does not, so that an event is published at least once.
\<close>

section \<open>relay.go\<close>

type_synonym 'k publisher = "string \<Rightarrow> string \<Rightarrow> PaymentEvent \<Rightarrow> 'k \<Rightarrow> goerror option \<times> 'k"

text \<open>\<^verbatim>\<open>SELECT ... WHERE status = 'PENDING' ORDER BY id LIMIT 500 FOR UPDATE SKIP LOCKED\<close>;
  \<open>locked\<close> are the rows another transaction holds.\<close>

definition pending_batch :: "(nat \<Rightarrow> bool) \<Rightarrow> outbox_row list \<Rightarrow> outbox_row list" where
  "pending_batch locked obs =
     take 500 (sort_key oID (filter (\<lambda>ob. oStatus ob = ''PENDING'' \<and> \<not> locked (oID ob)) obs))"

text \<open>The loop over the rows. A row that cannot be fetched ends the loop without an error, as
  \<^verbatim>\<open>rows.Err()\<close> is not consulted; a publishing error ends the transaction.\<close>

fun publish_rows :: "'k publisher \<Rightarrow> outbox_row list \<Rightarrow> nat list \<Rightarrow> pg \<Rightarrow> 'k \<Rightarrow>
    (goerror + nat list) \<times> pg \<times> 'k" where
  "publish_rows publish [] ids s k = (Inr ids, s, k)"
| "publish_rows publish (ob # obs) ids s k =
     (case stmt (okE ()) s of
        (Inl e, s1) \<Rightarrow> (Inr ids, s1, k)
      | (Inr _, s1) \<Rightarrow>
          (case publish (oTopic ob) (oKey ob) (oPayload ob) k of
             (Some e, k') \<Rightarrow> (Inl e, s1, k')
           | (None, k') \<Rightarrow> publish_rows publish obs (ids @ [oID ob]) s1 k'))"

definition mark_published :: "nat list \<Rightarrow> pg \<Rightarrow> pg" where
  "mark_published ids s =
     s\<lparr>outbox_tbl := upd_where (\<lambda>ob. oID ob \<in> set ids)
         (\<lambda>ob. ob\<lparr>oStatus := ''PUBLISHED'', oPublishedAt := Some (pg_now s)\<rparr>) (outbox_tbl s)\<rparr>"

definition flush_body :: "'k publisher \<Rightarrow> (nat \<Rightarrow> bool) \<Rightarrow> pg \<Rightarrow> 'k \<Rightarrow> (goerror + unit) \<times> pg \<times> 'k" where
  "flush_body publish locked s k =
     (case stmt (\<lambda>s. (Inr (pending_batch locked (outbox_tbl s)), s)) s of
        (Inl e, s1) \<Rightarrow> (Inl e, s1, k)
      | (Inr rows, s1) \<Rightarrow>
          (case publish_rows publish rows [] s1 k of
             (Inl e, s2, k2) \<Rightarrow> (Inl e, s2, k2)
           | (Inr ids, s2, k2) \<Rightarrow>
               if ids = [] then (Inr (), s2, k2)
               else case stmt (\<lambda>s. (Inr (), mark_published ids s)) s2 of
                      (r, s3) \<Rightarrow> (r, s3, k2)))"

definition flushBatch :: "'k publisher \<Rightarrow> (nat \<Rightarrow> bool) \<Rightarrow> pg \<Rightarrow> 'k \<Rightarrow> goerror option \<times> pg \<times> 'k" where
  "flushBatch publish locked s k =
     (case stmt (okE ()) s of
        (Inl e, s1) \<Rightarrow> (Some e, s1, k)
      | (Inr _, s1) \<Rightarrow>
          (case flush_body publish locked s1 k of
             (Inl e, s2, k2) \<Rightarrow> (Some e, tx_rollback s1 s2, k2)
           | (Inr _, s2, k2) \<Rightarrow>
               (case stmt (okE ()) s2 of
                  (Inl e, s3) \<Rightarrow> (Some e, tx_rollback s1 s3, k2)
                | (Inr _, s3) \<Rightarrow> (None, s3, k2))))"

text \<open>\<^verbatim>\<open>Run\<close>: a batch per tick, errors logged.\<close>

fun Relay_Run :: "'k publisher \<Rightarrow> (nat \<Rightarrow> bool) list \<Rightarrow> pg \<Rightarrow> 'k \<Rightarrow> pg \<times> 'k" where
  "Relay_Run publish [] s k = (s, k)"
| "Relay_Run publish (locked # ticks) s k =
     (case flushBatch publish locked s k of (_, s', k') \<Rightarrow> Relay_Run publish ticks s' k')"

section \<open>consumer.go and audit/handler.go\<close>

text \<open>One turn of the consumer: the broker hands out a message, or reports an error. \<open>committed\<close>
  is the group's offset: committing a message commits all before it.\<close>

datatype 'm fetch = Fetched nat 'm | FetchErr goerror

record consumer_state =
  cnHandled :: "nat list"
  cnCommitted :: nat

fun Consume :: "('m \<Rightarrow> goerror option) \<Rightarrow> (nat \<Rightarrow> goerror option) \<Rightarrow> 'm fetch list \<Rightarrow> consumer_state \<Rightarrow>
    goerror option \<times> consumer_state" where
  "Consume h commit [] st = (None, st)"
| "Consume h commit (FetchErr e # fs) st = (Some e, st)"
| "Consume h commit (Fetched off m # fs) st =
     (case h m of
        Some e \<Rightarrow> Consume h commit fs st
      | None \<Rightarrow>
          let st1 = st\<lparr>cnHandled := cnHandled st @ [off]\<rparr> in
          (case commit off of
             Some e \<Rightarrow> (Some e, st1)
           | None \<Rightarrow> Consume h commit fs (st1\<lparr>cnCommitted := max (cnCommitted st1) (Suc off)\<rparr>)))"

text \<open>The audit handler logs one line per event; a payload that is no event is an error.\<close>

definition audit_line :: "string \<Rightarrow> PaymentEvent \<Rightarrow> string" where
  "audit_line topic ev =
     ''[AUDIT] topic='' @ topic @ '' payment_id='' @ evPaymentID ev @ '' e2e='' @ evEndToEndID ev @
     '' transition='' @ evFromStatus ev @ ''->'' @ evToStatus ev @ '' amount='' @ fmt_d (evAmount ev) @
     evCurrency ev"

definition HandlePaymentEvent :: "string \<Rightarrow> goerror + PaymentEvent \<Rightarrow> string list \<Rightarrow> goerror option \<times> string list" where
  "HandlePaymentEvent topic payload lg =
     (case payload of Inl e \<Rightarrow> (Some e, lg) | Inr ev \<Rightarrow> (None, lg @ [audit_line topic ev]))"

section \<open>Lemmas\<close>

lemma pending_batch_sorted: "sorted (map oID (pending_batch locked obs))"
  by (simp add: pending_batch_def take_map [symmetric] sorted_wrt_take)

lemma publish_rows_tables:
  "publish_rows publish obs ids s k = (r, s', k') \<Longrightarrow> \<exists>fs. s' = s\<lparr>pg_faults := fs\<rparr>"
proof (induction obs arbitrary: ids s k)
  case Nil
  then have "s' = s\<lparr>pg_faults := pg_faults s\<rparr>" by simp
  then show ?case ..
next
  case (Cons ob obs)
  obtain x s1 where t: "stmt (okE ()) s = (x, s1)" by fastforce
  then obtain fs where s1: "s1 = s\<lparr>pg_faults := fs\<rparr>" using stmt_ok_unit by blast
  show ?case
  proof (cases x)
    case (Inl e)
    with Cons.prems t s1 show ?thesis by auto
  next
    case (Inr u)
    obtain y k1 where p: "publish (oTopic ob) (oKey ob) (oPayload ob) k = (y, k1)" by fastforce
    show ?thesis
    proof (cases y)
      case None
      with Inr Cons.prems t p have "publish_rows publish obs (ids @ [oID ob]) s1 k1 = (r, s', k')" by simp
      from Cons.IH [OF this] s1 show ?thesis by auto
    next
      case (Some e)
      with Inr Cons.prems t p s1 show ?thesis by auto
    qed
  qed
qed

text \<open>A broker that keeps what it accepts, in order, and nothing of what it refuses.\<close>

type_synonym message = "string \<times> string \<times> PaymentEvent"

definition row_message :: "outbox_row \<Rightarrow> message" where
  "row_message ob = (oTopic ob, oKey ob, oPayload ob)"

definition appends :: "message list publisher \<Rightarrow> bool" where
  "appends publish \<longleftrightarrow> (\<forall>t key ev k. publish t key ev k = (None, k @ [(t, key, ev)]) \<or>
     (\<exists>e. publish t key ev k = (Some e, k)))"

lemma publish_rows_prefix:
  assumes "appends publish" and "publish_rows publish obs ids s k = (r, s', k')"
  shows "\<exists>n \<le> length obs. k' = k @ map row_message (take n obs) \<and>
           (\<forall>out. r = Inr out \<longrightarrow> out = ids @ map oID (take n obs))"
  using assms(2)
proof (induction obs arbitrary: ids s k)
  case Nil
  then show ?case by auto
next
  case (Cons ob obs)
  obtain x s1 where t: "stmt (okE ()) s = (x, s1)" by fastforce
  show ?case
  proof (cases x)
    case (Inl e)
    with Cons.prems t have "k' = k" "r = Inr ids" by auto
    then show ?thesis by (intro exI [of _ 0]) simp
  next
    case (Inr u)
    consider "publish (oTopic ob) (oKey ob) (oPayload ob) k = (None, k @ [row_message ob])"
      | e where "publish (oTopic ob) (oKey ob) (oPayload ob) k = (Some e, k)"
      using assms(1) unfolding appends_def row_message_def by metis
    then show ?thesis
    proof cases
      case 1
      with Inr Cons.prems t have
        "publish_rows publish obs (ids @ [oID ob]) s1 (k @ [row_message ob]) = (r, s', k')" by simp
      from Cons.IH [OF this] obtain n where "n \<le> length obs"
        "k' = (k @ [row_message ob]) @ map row_message (take n obs)"
        "\<forall>out. r = Inr out \<longrightarrow> out = (ids @ [oID ob]) @ map oID (take n obs)" by blast
      then show ?thesis by (intro exI [of _ "Suc n"]) simp
    next
      case 2
      with Inr Cons.prems t have "k' = k" "r = Inl e" by auto
      then show ?thesis by (intro exI [of _ 0]) simp
    qed
  qed
qed

lemma flushBatch_err_tables:
  assumes "flushBatch publish locked s k = (Some e, s', k')"
  shows "tables s' = tables s"
proof -
  obtain x s1 where b: "stmt (okE ()) s = (x, s1)" by fastforce
  then have t1: "tables s1 = tables s" using stmt_ok_unit by fastforce
  obtain y s2 k2 where c: "flush_body publish locked s1 k = (y, s2, k2)" by (cases "flush_body publish locked s1 k") auto
  obtain z s3 where d: "stmt (okE ()) s2 = (z, s3)" by fastforce
  from assms b c d t1 show ?thesis
    by (auto simp: flushBatch_def split: sum.splits)
qed

text \<open>What a committed batch is.\<close>

lemma flush_body_ok:
  assumes "appends publish" and "flush_body publish locked s k = (Inr u, s', k')"
  shows "\<exists>n \<le> length (pending_batch locked (outbox_tbl s)).
     k' = k @ map row_message (take n (pending_batch locked (outbox_tbl s))) \<and>
     outbox_tbl s' = outbox_tbl (mark_published (map oID (take n (pending_batch locked (outbox_tbl s)))) s) \<and>
     payment_tbl s' = payment_tbl s \<and> txview_tbl s' = txview_tbl s \<and> txevent_tbl s' = txevent_tbl s"
proof -
  let ?rows = "pending_batch locked (outbox_tbl s)"
  obtain x s1 where q: "stmt (\<lambda>s. (Inr (pending_batch locked (outbox_tbl s)), s)) s = (x, s1)" by fastforce
  with assms(2) obtain rows where x: "x = Inr rows" by (cases x) (auto simp: flush_body_def)
  with q obtain fs where s1: "s1 = s\<lparr>pg_faults := fs\<rparr>" "rows = ?rows" by (auto elim: stmt_InrE)
  obtain y s2 k2 where p: "publish_rows publish ?rows [] s1 k = (y, s2, k2)" by (cases "publish_rows publish ?rows [] s1 k") auto
  with assms(2) q x s1 obtain ids where y: "y = Inr ids" by (cases y) (auto simp: flush_body_def)
  from publish_rows_tables [OF p] s1 obtain fs2 where s2: "s2 = s\<lparr>pg_faults := fs2\<rparr>" by auto
  from publish_rows_prefix [OF assms(1) p] y obtain n where
    n: "n \<le> length ?rows" "k2 = k @ map row_message (take n ?rows)" "ids = map oID (take n ?rows)" by auto
  have mark: "outbox_tbl (mark_published ids (t\<lparr>pg_faults := f\<rparr>)) = outbox_tbl (mark_published ids t)" for t f
    by (simp add: mark_published_def pg_now_def)
  have fin: "k' = k2 \<and> outbox_tbl s' = outbox_tbl (mark_published ids s) \<and> payment_tbl s' = payment_tbl s \<and>
      txview_tbl s' = txview_tbl s \<and> txevent_tbl s' = txevent_tbl s"
  proof (cases "ids = []")
    case True
    have "upd_where (\<lambda>ob. False) f (outbox_tbl s) = outbox_tbl s" for f by (simp add: upd_where_def)
    with True assms(2) q x s1 p y s2 show ?thesis
      by (auto simp: flush_body_def mark_published_def)
  next
    case False
    obtain z s3 where m: "stmt (\<lambda>s. (Inr (), mark_published ids s)) s2 = (z, s3)" by fastforce
    with False assms(2) q x s1 p y have "z = Inr u" "s' = s3" "k' = k2" by (auto simp: flush_body_def)
    with m s2 obtain fs3 where "s' = mark_published ids (s\<lparr>pg_faults := fs3\<rparr>)" by (auto elim: stmt_InrE)
    then show ?thesis using \<open>k' = k2\<close> mark by (auto simp: mark_published_def)
  qed
  with n show ?thesis by auto
qed

lemma flushBatch_ok:
  assumes "appends publish" and "flushBatch publish locked s k = (None, s', k')"
  shows "\<exists>n \<le> length (pending_batch locked (outbox_tbl s)).
     k' = k @ map row_message (take n (pending_batch locked (outbox_tbl s))) \<and>
     outbox_tbl s' = outbox_tbl (mark_published (map oID (take n (pending_batch locked (outbox_tbl s)))) s) \<and>
     payment_tbl s' = payment_tbl s \<and> txview_tbl s' = txview_tbl s \<and> txevent_tbl s' = txevent_tbl s"
proof -
  obtain x s1 where b: "stmt (okE ()) s = (x, s1)" by fastforce
  then obtain fs where s1: "s1 = s\<lparr>pg_faults := fs\<rparr>" using stmt_ok_unit by blast
  obtain y s2 k2 where c: "flush_body publish locked s1 k = (y, s2, k2)" by (cases "flush_body publish locked s1 k") auto
  obtain z s3 where d: "stmt (okE ()) s2 = (z, s3)" by fastforce
  then obtain fs3 where s3: "s3 = s2\<lparr>pg_faults := fs3\<rparr>" using stmt_ok_unit by blast
  from assms(2) b c d obtain u where "y = Inr u" "s' = s3" "k' = k2"
    by (cases x; cases y; cases z) (auto simp: flushBatch_def)
  with flush_body_ok [OF assms(1), of locked s1 k u s2 k2] c s1 s3 show ?thesis
    by (simp add: mark_published_def pg_now_def)
qed

lemma flushBatch_err_prefix:
  assumes "appends publish" and "flushBatch publish locked s k = (Some e, s', k')"
  shows "\<exists>n. k' = k @ map row_message (take n (pending_batch locked (outbox_tbl s)))"
proof -
  obtain x s1 where b: "stmt (okE ()) s = (x, s1)" by fastforce
  then obtain fs where s1: "s1 = s\<lparr>pg_faults := fs\<rparr>" using stmt_ok_unit by blast
  let ?rows = "pending_batch locked (outbox_tbl s)"
  obtain x2 s2 where q: "stmt (\<lambda>s. (Inr (pending_batch locked (outbox_tbl s)), s)) s1 = (x2, s2)" by fastforce
  have rows: "x2 = Inr ?rows" if "x2 = Inr rows" for rows
    using q s1 that by (auto elim!: stmt_InrE)
  obtain y s3 k3 where p: "publish_rows publish ?rows [] s2 k = (y, s3, k3)" by (cases "publish_rows publish ?rows [] s2 k") auto
  from assms(2) b have "k' = k \<or> k' = snd (snd (flush_body publish locked s1 k))"
    by (auto simp: flushBatch_def split: sum.splits prod.splits)
  moreover have "snd (snd (flush_body publish locked s1 k)) \<in> {k, k3}"
    using q rows p by (cases x2) (auto simp: flush_body_def split: sum.splits prod.splits)
  moreover obtain n where "k3 = k @ map row_message (take n ?rows)"
    using publish_rows_prefix [OF assms(1) p] by blast
  moreover have "k = k @ map row_message (take 0 ?rows)" by simp
  ultimately show ?thesis by (metis empty_iff insert_iff)
qed

text \<open>Without failures and with no row locked, a batch of all pending rows leaves none pending.\<close>

lemma publish_rows_all:
  assumes "no_faults s" and "\<And>t key ev k. fst (publish t key ev k) = None"
  shows "\<exists>s' k'. publish_rows publish obs ids s k = (Inr (ids @ map oID obs), s', k') \<and> no_faults s'"
  using assms(1)
proof (induction obs arbitrary: ids s k)
  case (Cons ob obs)
  obtain k1 where "publish (oTopic ob) (oKey ob) (oPayload ob) k = (None, k1)"
    using assms(2) [of "oTopic ob" "oKey ob" "oPayload ob" k] by (metis prod.collapse)
  with Cons.IH [of "s\<lparr>pg_faults := tl (pg_faults s)\<rparr>" "ids @ [oID ob]" k1] Cons.prems show ?case
    by (simp add: no_faults_stmt)
qed simp

definition pending_rows :: "pg \<Rightarrow> outbox_row list" where
  "pending_rows s = filter (\<lambda>ob. oStatus ob = ''PENDING'') (outbox_tbl s)"

lemma pending_after_mark:
  "pending_rows (mark_published ids s) = filter (\<lambda>ob. oID ob \<notin> set ids) (pending_rows s)"
proof -
  have m: "filter (\<lambda>ob. oStatus ob = ''PENDING'') (upd_where (\<lambda>ob. oID ob \<in> set ids) f xs) =
      filter (\<lambda>x. oStatus x = ''PENDING'' \<and> oID x \<notin> set ids) xs"
    if "\<And>ob. oStatus (f ob) = ''PUBLISHED''" for f xs
    using that by (induction xs) (auto simp: upd_where_def)
  show ?thesis by (simp add: pending_rows_def mark_published_def m)
qed

lemma pending_batch_size:
  assumes "rows = pending_batch (\<lambda>_. False) (outbox_tbl s)"
  shows "length (pending_rows (mark_published (map oID rows) s)) \<le> length (pending_rows s) - 500"
proof -
  let ?P = "pending_rows s" and ?Q = "\<lambda>ob. oID ob \<in> set (map oID rows)"
  have rows: "rows = take 500 (sort_key oID ?P)"
    unfolding assms by (simp add: pending_batch_def pending_rows_def)
  have "length rows = length (filter ?Q rows)" by (simp add: filter_id_conv)
  also have "\<dots> \<le> length (filter ?Q (sort_key oID ?P))"
    unfolding rows by (metis append_take_drop_id filter_append length_append le_add1)
  also have "\<dots> = length (filter ?Q ?P)" by (simp only: filter_sort length_sort)
  finally have "length rows \<le> length (filter ?Q ?P)" .
  moreover have "length (filter ?Q ?P) + length (filter (\<lambda>ob. \<not> ?Q ob) ?P) = length ?P"
    by (rule sum_length_filter_compl)
  moreover have "length rows = min 500 (length ?P)" by (simp add: rows)
  ultimately show ?thesis unfolding pending_after_mark by linarith
qed

lemma flushBatch_progress:
  assumes "no_faults s" and "\<And>t key ev k. fst (publish t key ev k) = None"
  shows "\<exists>s' k'. flushBatch publish (\<lambda>_. False) s k = (None, s', k') \<and> no_faults s' \<and>
     length (pending_rows s') \<le> length (pending_rows s) - 500"
proof -
  let ?rows = "pending_batch (\<lambda>_. False) (outbox_tbl s)"
  let ?s1 = "s\<lparr>pg_faults := tl (tl (pg_faults s))\<rparr>"
  have n1: "no_faults (s\<lparr>pg_faults := tl (pg_faults s)\<rparr>)" using assms(1) by simp
  have n2: "no_faults ?s1" using no_faults_tl [OF n1] by simp
  obtain s2 k2 where p: "publish_rows publish ?rows [] ?s1 k = (Inr (map oID ?rows), s2, k2)" "no_faults s2"
    using publish_rows_all [where publish = publish and obs = ?rows and ids = "[]" and k = k, OF n2 assms(2)]
    by auto
  from publish_rows_tables [OF p(1)] obtain fs where s2: "s2 = s\<lparr>pg_faults := fs\<rparr>" by auto
  have size: "length (pending_rows (mark_published (map oID ?rows) (s\<lparr>pg_faults := f\<rparr>))) \<le> length (pending_rows s) - 500" for f
    using pending_batch_size [of ?rows "s\<lparr>pg_faults := f\<rparr>"] by (simp add: pending_rows_def [of "s\<lparr>pg_faults := f\<rparr>"]) (simp add: pending_rows_def)
  have frame: "pending_rows (t\<lparr>pg_faults := f\<rparr>) = pending_rows t" for t f by (simp add: pending_rows_def)
  show ?thesis
  proof (cases "?rows = []")
    case True
    then have "length (sort_key oID (pending_rows s)) = 0" by (simp add: pending_batch_def pending_rows_def)
    then have "pending_rows s = []" unfolding length_sort by simp
    with True n1 n2 assms(1) p s2 show ?thesis
      using no_faults_tl [OF p(2)] by (simp add: flushBatch_def flush_body_def no_faults_stmt frame)
  next
    case False
    let ?m = "mark_published (map oID ?rows) (s2\<lparr>pg_faults := tl (pg_faults s2)\<rparr>)"
    have n3: "no_faults ?m"
      using no_faults_tl [OF p(2)] by (simp add: mark_published_def no_faults_def)
    have "flushBatch publish (\<lambda>_. False) s k = (None, ?m\<lparr>pg_faults := tl (pg_faults ?m)\<rparr>, k2)"
      using False n1 n2 n3 assms(1) p by (simp add: flushBatch_def flush_body_def no_faults_stmt)
    moreover have "length (pending_rows ?m) \<le> length (pending_rows s) - 500" using size s2 by simp
    ultimately show ?thesis using no_faults_tl [OF n3] frame by simp
  qed
qed

text \<open>Ticks enough for the backlog leave nothing pending.\<close>

lemma Relay_Run_drains:
  assumes "no_faults s" and "\<And>t key ev k. fst (publish t key ev k) = None"
    and "length (pending_rows s) \<le> 500 * n"
  shows "pending_rows (fst (Relay_Run publish (replicate n (\<lambda>_. False)) s k)) = []"
  using assms(1,3)
proof (induction n arbitrary: s k)
  case (Suc n)
  obtain s' k' where "flushBatch publish (\<lambda>_. False) s k = (None, s', k')" "no_faults s'"
    "length (pending_rows s') \<le> length (pending_rows s) - 500"
    using flushBatch_progress [where publish = publish and k = k, OF Suc.prems(1) assms(2)] by blast
  with Suc.IH [of s' k'] Suc.prems(2) show ?case by simp
qed simp

section \<open>Lemmas: the consumer\<close>

text \<open>Offsets of a partition read in order, each commit succeeding: the messages the handler accepts
  are handled, and the committed offset passes the last of them, whatever failed before it.\<close>

lemma Consume_in_order:
  assumes "Consume h (\<lambda>_. None) (map2 Fetched [n..<n + length ms] ms) st = (r, st')"
  shows "r = None \<and> cnCommitted st \<le> cnCommitted st' \<and>
    (\<forall>j. j \<in> set (cnHandled st') \<longleftrightarrow>
       j \<in> set (cnHandled st) \<or> n \<le> j \<and> j < n + length ms \<and> h (ms ! (j - n)) = None) \<and>
    (\<forall>i < length ms. h (ms ! i) = None \<longrightarrow> n + i < cnCommitted st')"
  using assms
proof (induction ms arbitrary: n st)
  case (Cons m ms)
  have u: "[n..<n + length (m # ms)] = n # [Suc n..<Suc n + length ms]" by (simp add: upt_conv_Cons del: upt_Suc)
  have shift: "(n \<le> j \<and> j < n + length (m # ms) \<and> h ((m # ms) ! (j - n)) = None) \<longleftrightarrow>
      j = n \<and> h m = None \<or> Suc n \<le> j \<and> j < Suc n + length ms \<and> h (ms ! (j - Suc n)) = None" for j
    by (cases "j = n") (auto simp: nth_Cons' less_Suc_eq_le)
  have all: "(\<forall>i < length (m # ms). h ((m # ms) ! i) = None \<longrightarrow> n + i < c) \<longleftrightarrow>
      (h m = None \<longrightarrow> n < c) \<and> (\<forall>i < length ms. h (ms ! i) = None \<longrightarrow> Suc n + i < c)" for c
    by (auto simp: All_less_Suc2)
  show ?case
  proof (cases "h m")
    case None
    let ?st = "st\<lparr>cnHandled := cnHandled st @ [n], cnCommitted := max (cnCommitted st) (Suc n)\<rparr>"
    from Cons.prems None have "Consume h (\<lambda>_. None) (map2 Fetched [Suc n..<Suc n + length ms] ms) ?st = (r, st')"
      unfolding u by (simp add: Let_def)
    from Cons.IH [OF this] show ?thesis unfolding shift all using None by auto
  next
    case (Some e)
    from Cons.prems Some have "Consume h (\<lambda>_. None) (map2 Fetched [Suc n..<Suc n + length ms] ms) st = (r, st')"
      unfolding u by simp
    from Cons.IH [OF this] show ?thesis unfolding shift all using Some by auto
  qed
qed auto

end
