(* ===== verification/Reachable.thy ===== *)
theory Reachable
  imports RepoInvariant OutboxRelay
begin

text \<open>
  The database as a state machine: every operation of the payment repository
  (src/internal/orchestrator/db/payment_repo.go) and the outbox relay (src/pkg/outbox/relay.go) as a
  step on the tables, in any order, with statements that may fail at any moment and transactions
  that roll back. The invariant is \<^const>\<open>pg_wf\<close>: unique payment ids and unique (source BIC,
  end-to-end id) pairs, outbox ids below the sequence and attached to an existing payment, every
  payment mirrored in the transaction view.
\<close>

section \<open>Steps of the database\<close>

definition empty_database :: "bank_row list \<Rightarrow> pg" where
  "empty_database banks =
     \<lparr>payment_tbl = [], outbox_tbl = [], outbox_seq = 1, bank_tbl = banks, txview_tbl = [],
      txevent_tbl = [], pg_clock = 0, pg_faults = []\<rparr>"

text \<open>What can happen to the database, in any order: a repository operation succeeds or fails, a
  relay flushes a batch, the banks are edited, time passes, statements start to fail.\<close>

inductive pg_step :: "pg \<Rightarrow> pg \<Rightarrow> bool" where
  create: "repo_CreateWithEvent p s = (e, p', s') \<Longrightarrow> pg_step s s'"
| update: "repo_UpdateStatus pid st s = (e, s') \<Longrightarrow> pg_step s s'"
| reserve: "repo_MarkReserved pid ttl s = (e, s') \<Longrightarrow> pg_step s s'"
| route: "repo_UpdateRoute pid fee ms s = (e, s') \<Longrightarrow> pg_step s s'"
| find_expired: "repo_FindExpiredReservations t s = (r, s') \<Longrightarrow> pg_step s s'"
| get: "repo_GetByID pid s = (r, s') \<Longrightarrow> pg_step s s'"
| relay: "flushBatch (publish :: message list publisher) locked s k = (e, s', k') \<Longrightarrow> pg_step s s'"
| banks: "pg_step s (s\<lparr>bank_tbl := bs\<rparr>)"
| tick: "pg_step s (s\<lparr>pg_clock := t\<rparr>)"
| faults: "pg_step s (s\<lparr>pg_faults := fs\<rparr>)"

inductive pg_reachable :: "pg \<Rightarrow> bool" where
  start: "pg_reachable (empty_database banks)"
| more: "pg_reachable s \<Longrightarrow> pg_step s s' \<Longrightarrow> pg_reachable s'"

lemma outbox_wf_mark:
  assumes "outbox_wf ps n obs" and "\<And>ob. oID (f ob) = oID ob" "\<And>ob. oPayload (f ob) = oPayload ob"
  shows "outbox_wf ps n (upd_where Q f obs)"
proof -
  have "map oID (upd_where Q f obs) = map oID obs" by (rule map_upd_where) (rule assms(2))
  moreover have "list_all (\<lambda>ob. oID ob < n \<and> evPaymentID (oPayload ob) \<in> rID ` set ps) (upd_where Q f obs)"
    using assms by (auto simp: outbox_wf_def list_all_iff upd_where_def)
  ultimately show ?thesis using assms(1) by (simp add: outbox_wf_def)
qed

lemma pg_wf_mark_published: "pg_wf s \<Longrightarrow> pg_wf (mark_published ids s)"
  by (auto simp: pg_wf_def mark_published_def intro!: outbox_wf_mark)

lemma publish_rows_faults:
  "publish_rows publish obs ids s k = (r, s', k') \<Longrightarrow> pg_wf s \<Longrightarrow> pg_wf s' \<and> outbox_seq s' = outbox_seq s"
  by (auto dest!: publish_rows_tables)

lemma stmt_pg_wf:
  assumes "stmt m s = (r, s')" "pg_wf s" "\<And>t r t'. m t = (r, t') \<Longrightarrow> pg_wf t \<Longrightarrow> pg_wf t' \<and> outbox_seq t' = outbox_seq t"
  shows "pg_wf s' \<and> outbox_seq s' = outbox_seq s"
  using assms(1)
proof (rule stmt_cases)
  fix e fs assume "s' = s\<lparr>pg_faults := fs\<rparr>"
  then show ?thesis using assms(2) by simp
next
  fix fs assume "m (s\<lparr>pg_faults := fs\<rparr>) = (r, s')"
  with assms(3) [OF this] assms(2) show ?thesis by simp
qed

lemma flush_body_wf:
  assumes "flush_body publish locked s k = (r, s', k')" "pg_wf s"
  shows "pg_wf s' \<and> outbox_seq s' = outbox_seq s"
proof -
  obtain x s1 where q: "stmt (\<lambda>s. (Inr (pending_batch locked (outbox_tbl s)), s)) s = (x, s1)" by fastforce
  have w1: "pg_wf s1 \<and> outbox_seq s1 = outbox_seq s" by (rule stmt_pg_wf [OF q assms(2)]) simp
  show ?thesis
  proof (cases x)
    case (Inl e)
    with assms(1) q w1 show ?thesis by (simp add: flush_body_def)
  next
    case (Inr rows)
    obtain y s2 k2 where p: "publish_rows publish rows [] s1 k = (y, s2, k2)"
      by (cases "publish_rows publish rows [] s1 k") auto
    have w2: "pg_wf s2 \<and> outbox_seq s2 = outbox_seq s" using publish_rows_faults [OF p] w1 by simp
    have w3: "pg_wf s3 \<and> outbox_seq s3 = outbox_seq s"
      if "stmt (\<lambda>s. (Inr (), mark_published ids s)) s2 = (z, s3)" for ids z s3
      using stmt_pg_wf [OF that] w2 pg_wf_mark_published by (fastforce simp: mark_published_def)
    have "s' = s2 \<or> (\<exists>ids z. stmt (\<lambda>s. (Inr (), mark_published ids s)) s2 = (z, s'))"
      using assms(1) q Inr p by (auto simp: flush_body_def split: sum.splits if_splits prod.splits)
    with w2 w3 show ?thesis by blast
  qed
qed

lemma flushBatch_wf:
  assumes "flushBatch publish locked s k = (e, s', k')" "pg_wf s"
  shows "pg_wf s'"
proof -
  obtain x s1 where b: "stmt (okE ()) s = (x, s1)" by fastforce
  then obtain fs where s1: "s1 = s\<lparr>pg_faults := fs\<rparr>" using stmt_ok_unit by blast
  obtain y s2 k2 where c: "flush_body publish locked s1 k = (y, s2, k2)" by (cases "flush_body publish locked s1 k") auto
  have w2: "pg_wf s2 \<and> outbox_seq s2 = outbox_seq s" using flush_body_wf [OF c] assms(2) s1 by simp
  obtain z s3 where d: "stmt (okE ()) s2 = (z, s3)" by fastforce
  then obtain fs3 where s3: "s3 = s2\<lparr>pg_faults := fs3\<rparr>" using stmt_ok_unit by blast
  have r: "pg_wf (tx_rollback s1 t)" if "outbox_seq t = outbox_seq s" for t
    using assms(2) s1 that by (simp add: pg_wf_def tx_rollback_def)
  from assms(1) b c d have "s' = s1 \<or> s' = tx_rollback s1 s2 \<or> s' = tx_rollback s1 s3 \<or> s' = s3"
    by (auto simp: flushBatch_def split: sum.splits)
  with w2 s3 s1 r assms(2) show ?thesis by auto
qed

lemma query_wf:
  assumes "evolving (m :: (pg, 'a) call)" "m s = (r, s')" "tables s' = tables s" "pg_wf s"
  shows "pg_wf s'"
  using pg_wf_tables [OF assms(4,3)] evolvingD [OF assms(1,2)] by (simp add: pg_evolves_def)

lemma stmt_query_tables:
  assumes "stmt (\<lambda>s. (f s, s)) s = (r, s')"
  shows "tables s' = tables s"
proof (rule stmt_cases [OF assms])
  fix fs assume "(\<lambda>s. (f s, s)) (s\<lparr>pg_faults := fs\<rparr>) = (r, s')"
  then have "s' = s\<lparr>pg_faults := fs\<rparr>" by simp
  then show ?thesis by simp
qed simp

lemma GetPaymentByID_tables:
  assumes "GetPaymentByID pid s = (r, s')"
  shows "tables s' = tables s"
proof (rule stmt_query_tables)
  have "GetPaymentByID pid = stmt (\<lambda>s. (case row_by rID pid (payment_tbl s) of None \<Rightarrow> Inl ErrNoRows | Some r \<Rightarrow> Inr r, s))"
    unfolding GetPaymentByID_def by (rule arg_cong [where f = stmt]) (simp add: fun_eq_iff split: option.split)
  then show "stmt (\<lambda>s. (case row_by rID pid (payment_tbl s) of None \<Rightarrow> Inl ErrNoRows | Some r \<Rightarrow> Inr r, s)) s = (r, s')"
    using assms by simp
qed

lemma FindExpired_tables: "FindExpiredReservations_q t s = (r, s') \<Longrightarrow> tables s' = tables s"
  unfolding FindExpiredReservations_q_def by (rule stmt_query_tables)

lemma query_step_wf:
  assumes "pg_wf s"
  shows "GetPaymentByID pid s = (x, s') \<Longrightarrow> pg_wf s'" "FindExpiredReservations_q t s = (y, s') \<Longrightarrow> pg_wf s'"
  using query_wf [OF evolving_queries(2) _ _ assms] query_wf [OF evolving_queries(8) _ _ assms]
    GetPaymentByID_tables FindExpired_tables by blast+

lemma pg_wf_GetByID: "repo_GetByID pid s = (r, s') \<Longrightarrow> pg_wf s \<Longrightarrow> pg_wf s'"
  by (cases "GetPaymentByID pid s")
    (auto simp: repo_GetByID_def no_rows_as_nil_def split: sum.splits if_splits dest: query_step_wf(1))

lemma pg_wf_FindExpired: "repo_FindExpiredReservations t s = (r, s') \<Longrightarrow> pg_wf s \<Longrightarrow> pg_wf s'"
  by (cases "FindExpiredReservations_q t s")
    (auto simp: repo_FindExpiredReservations_def split: sum.splits dest: query_step_wf(2))

lemma pg_wf_frame: "pg_wf s \<Longrightarrow> pg_wf (s\<lparr>bank_tbl := bs\<rparr>) \<and> pg_wf (s\<lparr>pg_clock := t\<rparr>) \<and> pg_wf (s\<lparr>pg_faults := fs\<rparr>)"
  by (simp add: pg_wf_def)

lemma pg_step_wf:
  assumes "pg_step s s'" "pg_wf s"
  shows "pg_wf s'"
  using assms
proof (induction rule: pg_step.induct)
  case create then show ?case by (rule pg_wf_CreateWithEvent [rotated])
next
  case update then show ?case by (rule pg_wf_UpdateStatus [rotated])
next
  case reserve then show ?case by (rule pg_wf_MarkReserved [rotated])
next
  case route then show ?case by (rule pg_wf_UpdateRoute [rotated])
next
  case find_expired then show ?case by (rule pg_wf_FindExpired)
next
  case get then show ?case by (rule pg_wf_GetByID)
next
  case relay then show ?case by (rule flushBatch_wf)
qed (simp_all add: pg_wf_frame)

lemma pg_reachable_wf: "pg_reachable s \<Longrightarrow> pg_wf s"
proof (induction rule: pg_reachable.induct)
  case (start banks)
  then show ?case by (simp add: empty_database_def pg_wf_def keys_wf_def outbox_wf_def)
qed (rule pg_step_wf)

end
