(* ===== verification/MockBank.thy ===== *)
theory MockBank
  imports Domain
begin

text \<open>
  The in-memory bank of \<^verbatim>\<open>internal/orchestrator/saga/bank.go\<close>, which the gateway uses when no
  bank API is configured. A missing key of a Go map reads as zero.
\<close>

record MockBankClient =
  mkReservations :: "string \<rightharpoonup> int64"
  mkBalances :: "string \<rightharpoonup> int64"
  mkFailOn :: "string \<Rightarrow> bool"

definition NewMockBankClient :: MockBankClient where
  "NewMockBankClient = \<lparr>mkReservations = Map.empty, mkBalances = Map.empty, mkFailOn = (\<lambda>_. False)\<rparr>"

definition mget :: "(string \<rightharpoonup> int64) \<Rightarrow> string \<Rightarrow> int64" where
  "mget m k = (case m k of None \<Rightarrow> 0 | Some v \<Rightarrow> v)"

definition Mock_SetBalance :: "string \<Rightarrow> int64 \<Rightarrow> MockBankClient \<Rightarrow> MockBankClient" where
  "Mock_SetBalance account amount m = m\<lparr>mkBalances := (mkBalances m)(account \<mapsto> amount)\<rparr>"

definition Mock_SetFailOn :: "string \<Rightarrow> MockBankClient \<Rightarrow> MockBankClient" where
  "Mock_SetFailOn meth m = m\<lparr>mkFailOn := (mkFailOn m)(meth := True)\<rparr>"

definition Mock_Reserve :: "MockBankClient bank_op" where
  "Mock_Reserve bic account amount m =
     (if mkFailOn m ''reserve'' then
        (Some (ErrMsg (''mock: reserve failed for '' @ bic @ ''/'' @ account)), m)
      else let bal = mget (mkBalances m) account in
        if slt bal amount then
          (Some (ErrMsg (''mock: insufficient balance in '' @ bic @ ''/'' @ account @ '': have '' @
             fmt_d bal @ '', need '' @ fmt_d amount)), m)
        else (None, m\<lparr>mkReservations :=
               (mkReservations m)(account \<mapsto> mget (mkReservations m) account + amount)\<rparr>))"

definition Mock_ReleaseReservation :: "MockBankClient bank_op" where
  "Mock_ReleaseReservation bic account amount m =
     (None, m\<lparr>mkReservations :=
        (mkReservations m)(account \<mapsto> mget (mkReservations m) account - amount)\<rparr>)"

definition Mock_Credit :: "MockBankClient bank_op" where
  "Mock_Credit bic account amount m =
     (if mkFailOn m ''credit'' then
        (Some (ErrMsg (''mock: credit failed for '' @ bic @ ''/'' @ account)), m)
      else (None, m\<lparr>mkBalances := (mkBalances m)(account \<mapsto> mget (mkBalances m) account + amount),
                    mkReservations :=
                      (mkReservations m)(account \<mapsto> mget (mkReservations m) account - amount)\<rparr>))"

definition Mock_ReverseCredit :: "MockBankClient bank_op" where
  "Mock_ReverseCredit bic account amount m =
     (None, m\<lparr>mkBalances := (mkBalances m)(account \<mapsto> mget (mkBalances m) account - amount)\<rparr>)"

definition mock_bank :: "MockBankClient BankClient" where
  "mock_bank =
     \<lparr>bankReserve = Mock_Reserve, bankReleaseReservation = Mock_ReleaseReservation,
      bankCredit = Mock_Credit, bankReverseCredit = Mock_ReverseCredit\<rparr>"

section \<open>Lemmas\<close>

lemma mget_upd [simp]: "mget (m(k \<mapsto> v)) j = (if j = k then v else mget m j)"
  by (simp add: mget_def)

text \<open>Release undoes a reservation exactly, also when the sums wrap around.\<close>

lemma Mock_reserve_release:
  assumes "Mock_Reserve bic account amount m = (None, m1)"
  shows "mget (mkReservations (snd (Mock_ReleaseReservation bic account amount m1))) = mget (mkReservations m)"
    and "mkBalances (snd (Mock_ReleaseReservation bic account amount m1)) = mkBalances m"
  using assms by (auto simp: Mock_Reserve_def Mock_ReleaseReservation_def Let_def fun_eq_iff split: if_splits)

text \<open>Reserve checks the balance only, never what is reserved already, and no operation of a
  payment ever debits the source account.\<close>

lemma Mock_reserve_ignores_reserved:
  assumes "\<not> mkFailOn m ''reserve''" "sle amount (mget (mkBalances m) account)"
  obtains m' where "Mock_Reserve bic account amount m = (None, m')"
    and "mkBalances m' = mkBalances m" and "mkFailOn m' = mkFailOn m"
  using assms by (auto simp: Mock_Reserve_def Let_def slt_def sle_def)

end
