(* ===== verification/Examples.thy ===== *)
theory Examples
  imports Concurrent Reachable MockBank
begin

text \<open>
  Concrete data on which the properties are exercised: two banks served by the seeded bank service
  (SeedDefaults of src/internal/banksvc/bank.go), the seeded routing table and bank directory, and
  payments stored through the repository. \<open>run_of p\<close> runs the gateway's saga on a freshly
  stored payment \<open>p\<close>.
\<close>

definition demo_bank_row :: "string \<Rightarrow> bank_row" where
  "demo_bank_row bic =
     \<lparr>bID = bic, bBic = bic, bName = bic, bCountry = ''US'', bStatus = ''ACTIVE'', bSettlementAccount = '''',
      bNotes = None, bOnboardedAt = None, bCreatedAt = 0, bApiBaseUrl = Some bank_host, bApiKey = None,
      bApiEnabled = True, bCallbackUrl = None, bLookupApiUrl = None, bPaymentApiUrl = None, bStatusCheckApiUrl = None\<rparr>"

definition demo_payment :: Payment where
  "demo_payment = zero_payment\<lparr>pID := ''pay-1'', pEndToEndID := ''e2e-1'', pSourceBIC := ''BANKUS33'',
     pDestinationBIC := ''BANKDEFF'', pSourceAccount := ''ACC-A'', pDestAccount := ''ACC-B'', pAmount := 5000,
     pCurrency := ''USD'', pStatus := StatusReceived\<rparr>"

definition unknown_payment :: Payment where
  "unknown_payment = demo_payment\<lparr>pDestAccount := ''ACC-Z''\<rparr>"

definition zero_amount_payment :: Payment where
  "zero_amount_payment = demo_payment\<lparr>pAmount := 0\<rparr>"

definition reserved_payment :: Payment where
  "reserved_payment = demo_payment\<lparr>pStatus := StatusReserved\<rparr>"

definition demo_database :: pg where
  "demo_database = (empty_database [demo_bank_row ''BANKUS33'', demo_bank_row ''BANKDEFF''])
     \<lparr>pg_clock := 63000000000000000000\<rparr>"

definition demo_env :: quote_env where
  "demo_env = \<lparr>qeUUID = ''q-1'', qeRand = 7, qeNow = 63000000000000000000\<rparr>"

definition stored :: "Payment \<Rightarrow> pg" where
  "stored p = snd (snd (repo_CreateWithEvent p demo_database))"

definition demo_world :: "Payment \<Rightarrow> switch" where
  "demo_world p = \<lparr>swPg = stored p, swBank = SeedDefaults NewBankState,
     swNetFaults = [], swBanks = lookup_seedDefaults, swRoutes = routing_seedDefaults, swQuotes = New_quoting,
     swWindow = NewWindow (5 * Minute) 100, swRecon = New_recon, swNotify = []\<rparr>"

definition run_of :: "Payment \<Rightarrow> goerror option \<times> switch Saga \<times> Payment \<times> switch" where
  "run_of p = Run (gateway_saga demo_env) p (demo_world p)"

definition run_error :: "Payment \<Rightarrow> goerror option" where
  "run_error p = fst (run_of p)"

definition run_saga :: "Payment \<Rightarrow> switch Saga" where
  "run_saga p = fst (snd (run_of p))"

definition run_world :: "Payment \<Rightarrow> switch" where
  "run_world p = snd (snd (snd (run_of p)))"

text \<open>A connection that breaks at the statement recording the reservation.\<close>

definition faulty_world :: switch where
  "faulty_world = (demo_world demo_payment)\<lparr>swPg := (stored demo_payment)\<lparr>pg_faults := replicate 22 None @ [Some (ErrMsg ''conn closed'')]\<rparr>\<rparr>"

lemma faulty_run:
  "case Run (gateway_saga demo_env) demo_payment faulty_world of
     (Some e, _, _, w') \<Rightarrow> sw_status w' ''pay-1'' = Some StatusAborted \<and> balance_of (swBank w') ''ACC-A'' = Some 995000
   | _ \<Rightarrow> False"
  by code_simp

lemma demo_forward:
  "forward (take 6 (gateway_steps (gateway_ports demo_env))) demo_payment (demo_world demo_payment) \<noteq> None"
proof -
  have "case forward (take 6 (gateway_steps (gateway_ports demo_env))) demo_payment (demo_world demo_payment) of
      None \<Rightarrow> False | Some _ \<Rightarrow> True" by code_simp
  then show ?thesis by (auto split: option.splits)
qed

lemma run_of_split:
  "Run (gateway_saga demo_env) p (demo_world p) =
     (run_error p, run_saga p, fst (snd (snd (run_of p))), run_world p)"
  by (simp add: run_of_def run_error_def run_saga_def run_world_def)

lemma demo_ready: "run_ready demo_payment (demo_world demo_payment)"
  by code_simp

lemma unknown_ready: "run_ready unknown_payment (demo_world unknown_payment)"
  by code_simp

lemma demo_in_flight: "in_flight_ready [demo_payment, unknown_payment] (demo_world demo_payment)"
  by code_simp

lemma demo_alone: "in_flight_ready [demo_payment] (demo_world demo_payment)"
  using demo_in_flight by (simp add: in_flight_ready_def)

lemma demo_run_succeeds: "run_error demo_payment = None"
  by code_simp

lemma run_fails_after:
  "run_error p \<noteq> None \<and> completedSteps (run_saga p) = k \<longleftrightarrow>
     (case run_of p of (None, _) \<Rightarrow> False | (Some e, s, _) \<Rightarrow> completedSteps s = k)"
  by (auto simp: run_error_def run_saga_def split: prod.split option.split)

lemma unknown_run_fails: "run_error unknown_payment \<noteq> None \<and> completedSteps (run_saga unknown_payment) = 6"
  unfolding run_fails_after by code_simp

lemma zero_run_fails: "run_error zero_amount_payment \<noteq> None \<and> completedSteps (run_saga zero_amount_payment) = 0"
  unfolding run_fails_after by code_simp

lemma demo_stored:
  "sw_status (demo_world demo_payment) ''pay-1'' = Some StatusReceived"
  "sw_status (demo_world unknown_payment) ''pay-1'' = Some StatusReceived"
  by code_simp+

lemma zero_stored: "sw_status (demo_world zero_amount_payment) ''pay-1'' = Some StatusReceived"
  by code_simp

lemma reserved_facts:
  "sw_live (demo_world reserved_payment)" "bank_wf (swBank (demo_world reserved_payment))"
  "sw_status (demo_world reserved_payment) (pID reserved_payment) \<noteq> None"
  "bank_reachable (sw_ledger (demo_world reserved_payment)) (pSourceBIC reserved_payment)"
  "bank_reachable (sw_ledger (demo_world reserved_payment)) (pDestinationBIC reserved_payment)"
  "0 < sint (pAmount reserved_payment)" "pStatus reserved_payment = StatusReserved"
  "balance_of (swBank (demo_world reserved_payment)) (pSourceAccount reserved_payment) = Some 1000000"
  "balance_of (swBank (demo_world reserved_payment)) (pDestAccount reserved_payment) = Some 1000000"
  "(1000000 :: int) + sint (pAmount reserved_payment) < 2 ^ 63" "sint (pAmount reserved_payment) \<le> 1000000"
  "pSourceAccount reserved_payment \<noteq> pDestAccount reserved_payment"
  by code_simp+

end
