(* ===== verification/Calendar.thy ===== *)
theory Calendar
  imports Prelude
begin

text \<open>
  The part of Go's \<^verbatim>\<open>time\<close> package that the switch uses to read and write dates: the proleptic
  Gregorian calendar, \<^verbatim>\<open>Format\<close> and \<^verbatim>\<open>Parse\<close> for the layouts
  \<^verbatim>\<open>2006-01-02\<close> and \<^verbatim>\<open>time.RFC3339\<close>. The lemmas show that a date survives formatting
  followed by parsing.
\<close>

section \<open>Days and civil dates\<close>

definition leap :: "int \<Rightarrow> bool" where
  "leap y \<longleftrightarrow> y mod 4 = 0 \<and> (y mod 100 \<noteq> 0 \<or> y mod 400 = 0)"

text \<open>Days from January 1 of year 1 to January 1 of year \<open>y\<close>.\<close>

definition days_before_year :: "int \<Rightarrow> int" where
  "days_before_year y = 365 * (y - 1) + (y - 1) div 4 - (y - 1) div 100 + (y - 1) div 400"

definition days_in_month :: "int \<Rightarrow> int \<Rightarrow> int" where
  "days_in_month y m =
     (if m = 2 then (if leap y then 29 else 28) else if m = 4 \<or> m = 6 \<or> m = 9 \<or> m = 11 then 30 else 31)"

definition days_before_month :: "int \<Rightarrow> int \<Rightarrow> int" where
  "days_before_month y m = (\<Sum>k\<leftarrow>[1..<nat m]. days_in_month y (int k))"

definition days_of_civil :: "int \<Rightarrow> int \<Rightarrow> int \<Rightarrow> int" where
  "days_of_civil y m d = days_before_year y + days_before_month y m + (d - 1)"

definition year_of_days :: "int \<Rightarrow> int" where
  "year_of_days n =
     (let y = n * 400 div 146097 + 1
      in if n < days_before_year y then y - 1 else if days_before_year (y + 1) \<le> n then y + 1 else y)"

fun month_of_yday :: "int \<Rightarrow> int list \<Rightarrow> int \<Rightarrow> int \<times> int" where
  "month_of_yday y [] k = (12, k)"
| "month_of_yday y (m # ms) k =
     (if k < days_in_month y m then (m, k + 1) else month_of_yday y ms (k - days_in_month y m))"

definition civil_of_days :: "int \<Rightarrow> int \<times> int \<times> int" where
  "civil_of_days n =
     (let y = year_of_days n; (m, d) = month_of_yday y [1,2,3,4,5,6,7,8,9,10,11,12] (n - days_before_year y)
      in (y, m, d))"

section \<open>Time values\<close>

text \<open>A \<^verbatim>\<open>time.Time\<close> with its location: the instant, and the seconds east of UTC at which it
  is displayed.\<close>

record gotime =
  instant :: time
  zone :: int

definition utc :: "time \<Rightarrow> gotime" where
  "utc t = \<lparr>instant = t, zone = 0\<rparr>"

definition wall :: "gotime \<Rightarrow> int" where
  "wall t = instant t + zone t * Second"

definition Day :: duration where
  "Day = 24 * Hour"

section \<open>Formatting\<close>

definition digit :: "int \<Rightarrow> char" where
  "digit d = char_of (48 + nat d)"

definition pad2 :: "int \<Rightarrow> string" where
  "pad2 n = [digit (n div 10 mod 10), digit (n mod 10)]"

definition pad4 :: "int \<Rightarrow> string" where
  "pad4 n = pad2 (n div 100) @ pad2 (n mod 100)"

text \<open>\<^verbatim>\<open>appendInt(b, year, 4)\<close>: at least four digits, a sign for a year before year 0.\<close>

definition fmt_year :: "int \<Rightarrow> string" where
  "fmt_year y = (if y < 0 then ''-'' else []) @ (if \<bar>y\<bar> < 10000 then pad4 \<bar>y\<bar> else nat_digits (nat \<bar>y\<bar>))"

definition Format_date :: "gotime \<Rightarrow> string" where
  "Format_date t =
     (case civil_of_days (wall t div Day) of (y, m, d) \<Rightarrow> fmt_year y @ ''-'' @ pad2 m @ ''-'' @ pad2 d)"

definition Format_zone :: "int \<Rightarrow> string" where
  "Format_zone z =
     (if z = 0 then ''Z''
      else (if z < 0 then ''-'' else ''+'') @ pad2 (\<bar>z\<bar> div 60 div 60) @ '':'' @ pad2 (\<bar>z\<bar> div 60 mod 60))"

definition Format_RFC3339 :: "gotime \<Rightarrow> string" where
  "Format_RFC3339 t =
     (let s = wall t mod Day div Second
      in Format_date t @ ''T'' @ pad2 (s div 3600) @ '':'' @ pad2 (s div 60 mod 60) @ '':'' @ pad2 (s mod 60) @
         Format_zone (zone t))"

text \<open>\<^verbatim>\<open>time.RFC3339Nano\<close>, which \<^verbatim>\<open>encoding/json\<close> writes: the fraction of the second
  without its trailing zeros.\<close>

definition pad9 :: "int \<Rightarrow> string" where
  "pad9 n = digit (n div 100000000 mod 10) # pad4 (n div 10000 mod 10000) @ pad4 (n mod 10000)"

definition Format_RFC3339Nano :: "gotime \<Rightarrow> string" where
  "Format_RFC3339Nano t =
     (let s = wall t mod Day div Second; frac = rev (dropWhile (\<lambda>c. c = CHR ''0'') (rev (pad9 (wall t mod Second))))
      in Format_date t @ ''T'' @ pad2 (s div 3600) @ '':'' @ pad2 (s div 60 mod 60) @ '':'' @ pad2 (s mod 60) @
         (if frac = [] then [] else CHR ''.'' # frac) @ Format_zone (zone t))"

section \<open>Parsing\<close>

definition is_digit :: "char \<Rightarrow> bool" where
  "is_digit c \<longleftrightarrow> (48 :: nat) \<le> of_char c \<and> (of_char c :: nat) \<le> 57"

definition digit_val :: "char \<Rightarrow> int" where
  "digit_val c = of_char c - 48"

definition num :: "string \<Rightarrow> int" where
  "num ds = foldl (\<lambda>n c. 10 * n + digit_val c) 0 ds"

text \<open>Exactly \<open>n\<close> digits, or the given character.\<close>

definition take_digits :: "nat \<Rightarrow> string \<Rightarrow> (int \<times> string) option" where
  "take_digits n s =
     (if length (take n s) = n \<and> list_all is_digit (take n s) then Some (num (take n s), drop n s) else None)"

definition take_char :: "char \<Rightarrow> string \<Rightarrow> string option" where
  "take_char c s = (case s of [] \<Rightarrow> None | x # xs \<Rightarrow> if x = c then Some xs else None)"

text \<open>\<^verbatim>\<open>getnum(value, false)\<close>, for the hour: two digits, or one.\<close>

definition take_hour :: "string \<Rightarrow> (int \<times> string) option" where
  "take_hour s = (case take_digits 2 s of Some r \<Rightarrow> Some r | None \<Rightarrow> take_digits 1 s)"

text \<open>Parsing \<^verbatim>\<open>2006-01-02\<close>: the year and month are checked while reading, the day of the month
  at the end of the whole text.\<close>

definition parse_ymd :: "string \<Rightarrow> ((int \<times> int \<times> int) \<times> string) option" where
  "parse_ymd s0 =
     (case take_digits 4 s0 of None \<Rightarrow> None | Some (y, s1) \<Rightarrow>
      (case take_char (CHR ''-'') s1 of None \<Rightarrow> None | Some s2 \<Rightarrow>
      (case take_digits 2 s2 of None \<Rightarrow> None | Some (m, s3) \<Rightarrow>
        if m < 1 \<or> 12 < m then None else
      (case take_char (CHR ''-'') s3 of None \<Rightarrow> None | Some s4 \<Rightarrow>
      (case take_digits 2 s4 of None \<Rightarrow> None | Some (d, s5) \<Rightarrow> Some ((y, m, d), s5))))))"

definition valid_day :: "int \<times> int \<times> int \<Rightarrow> bool" where
  "valid_day ymd = (case ymd of (y, m, d) \<Rightarrow> 1 \<le> d \<and> d \<le> days_in_month y m)"

definition midnight :: "int \<times> int \<times> int \<Rightarrow> time" where
  "midnight ymd = (case ymd of (y, m, d) \<Rightarrow> days_of_civil y m d * Day)"

definition Parse_date :: "string \<Rightarrow> gotime option" where
  "Parse_date s =
     (case parse_ymd s of
        Some (ymd, []) \<Rightarrow> if valid_day ymd then Some (utc (midnight ymd)) else None
      | _ \<Rightarrow> None)"

text \<open>A fraction of a second is accepted after the seconds although the layout has none: a point or
  comma and at least one digit, of which the first nine count.\<close>

definition parse_fraction :: "string \<Rightarrow> int \<times> string" where
  "parse_fraction s =
     (case s of
        c # d # rest \<Rightarrow>
          if (c = CHR ''.'' \<or> c = CHR '','') \<and> is_digit d
          then let ds = takeWhile is_digit (d # rest); ns = take 9 ds
               in (num ns * 10 ^ (9 - length ns), dropWhile is_digit (d # rest))
          else (0, s)
      | _ \<Rightarrow> (0, s))"

definition parse_zone :: "string \<Rightarrow> (int \<times> string) option" where
  "parse_zone s0 =
     (case s0 of [] \<Rightarrow> None | c # s1 \<Rightarrow>
        if c = CHR ''Z'' then Some (0, s1)
        else if c \<noteq> CHR ''+'' \<and> c \<noteq> CHR ''-'' then None
        else (case take_digits 2 s1 of None \<Rightarrow> None | Some (h, s2) \<Rightarrow>
             (case take_char (CHR '':'') s2 of None \<Rightarrow> None | Some s3 \<Rightarrow>
             (case take_digits 2 s3 of None \<Rightarrow> None | Some (m, s4) \<Rightarrow>
                if 24 < h \<or> 60 < m then None
                else Some ((if c = CHR ''-'' then -1 else 1) * ((h * 60 + m) * 60), s4)))))"

definition parse_hms :: "string \<Rightarrow> (int \<times> string) option" where
  "parse_hms s0 =
     (case take_hour s0 of None \<Rightarrow> None | Some (h, s1) \<Rightarrow> if 24 \<le> h then None else
      (case take_char (CHR '':'') s1 of None \<Rightarrow> None | Some s2 \<Rightarrow>
      (case take_digits 2 s2 of None \<Rightarrow> None | Some (m, s3) \<Rightarrow> if 60 \<le> m then None else
      (case take_char (CHR '':'') s3 of None \<Rightarrow> None | Some s4 \<Rightarrow>
      (case take_digits 2 s4 of None \<Rightarrow> None | Some (s, s5) \<Rightarrow> if 60 \<le> s then None else
        Some ((h * 60 + m) * 60 + s, s5))))))"

definition Parse_RFC3339 :: "string \<Rightarrow> gotime option" where
  "Parse_RFC3339 s0 =
     (case parse_ymd s0 of None \<Rightarrow> None | Some (ymd, s1) \<Rightarrow>
      (case take_char (CHR ''T'') s1 of None \<Rightarrow> None | Some s2 \<Rightarrow>
      (case parse_hms s2 of None \<Rightarrow> None | Some (secs, s3) \<Rightarrow>
       let (ns, s4) = parse_fraction s3 in
      (case parse_zone s4 of None \<Rightarrow> None | Some (z, s5) \<Rightarrow>
        if s5 \<noteq> [] \<or> \<not> valid_day ymd then None
        else Some \<lparr>instant = midnight ymd + secs * Second + ns - z * Second, zone = z\<rparr>))))"

section \<open>Lemmas\<close>

lemma div_pred:
  assumes "0 < (k :: int)"
  shows "y div k = (y - 1) div k + (if y mod k = 0 then 1 else 0)"
proof (cases "y mod k = 0")
  case True
  then have "y - 1 = k * (y div k - 1) + (k - 1)" using mult_div_mod_eq [of k y] by (simp add: algebra_simps)
  from int_div_pos_eq [OF this] assms True show ?thesis by simp
next
  case False
  have "y - 1 = k * (y div k) + (y mod k - 1)" using mult_div_mod_eq [of k y] by (simp add: algebra_simps)
  from int_div_pos_eq [OF this] assms False pos_mod_sign [OF assms, of y] pos_mod_bound [OF assms, of y]
  show ?thesis by simp
qed

lemma mod_400_100_4:
  "(y :: int) mod 400 = 0 \<longrightarrow> y mod 100 = 0" "y mod 100 = 0 \<longrightarrow> y mod 4 = 0"
proof -
  show "y mod 400 = 0 \<longrightarrow> y mod 100 = 0"
    unfolding mod_eq_0_iff_dvd by (intro impI, rule dvd_trans [of 100 400 y]) simp_all
  show "y mod 100 = 0 \<longrightarrow> y mod 4 = 0"
    unfolding mod_eq_0_iff_dvd by (intro impI, rule dvd_trans [of 4 100 y]) simp_all
qed

lemma leap_count:
  assumes "d4 = e4 + (if a = 0 then 1 else 0)" "d100 = e100 + (if b = 0 then 1 else 0)"
    "d400 = e400 + (if (c :: int) = 0 then 1 else (0 :: int))" "c = 0 \<longrightarrow> b = 0" "b = 0 \<longrightarrow> (a :: int) = 0"
  shows "365 * y + d4 - d100 + d400 =
    365 * (y - 1) + e4 - e100 + e400 + (if a = 0 \<and> (b \<noteq> (0 :: int) \<or> c = 0) then 366 else 365)"
  using assms by (cases "a = 0"; cases "b = 0"; cases "c = 0") simp_all

lemma days_before_year_Suc: "days_before_year (y + 1) = days_before_year y + (if leap y then 366 else 365)"
  unfolding days_before_year_def leap_def add_diff_cancel_right'
  by (rule leap_count [OF div_pred div_pred div_pred mod_400_100_4]) (rule zero_less_numeral)+

lemma div_bounds:
  assumes "0 < (k :: int)"
  shows "k * (n div k) \<le> n" "n < k * (n div k) + k"
  using mult_div_mod_eq [of k n] pos_mod_sign [OF assms, of n] pos_mod_bound [OF assms, of n] by linarith+

lemma days_before_year_bounds:
  "146097 * (y - 1) \<le> 400 * days_before_year y + 1000" "400 * days_before_year y \<le> 146097 * (y - 1) + 400"
proof -
  define n where "n = y - 1"
  define a b c where "a = n div 4" and "b = n div 100" and "c = n div 400"
  have e: "days_before_year y = 365 * n + a - b + c" by (simp add: days_before_year_def n_def a_def b_def c_def)
  have l: "4 * a \<le> n" "n < 4 * a + 4" "100 * b \<le> n" "n < 100 * b + 100" "400 * c \<le> n" "n < 400 * c + 400"
    using div_bounds [of 4 n] div_bounds [of 100 n] div_bounds [of 400 n] by (simp_all add: a_def b_def c_def)
  show "146097 * (y - 1) \<le> 400 * days_before_year y + 1000" unfolding e n_def [symmetric] using l by simp
  show "400 * days_before_year y \<le> 146097 * (y - 1) + 400" unfolding e n_def [symmetric] using l by simp
qed

lemma year_of_days:
  assumes "days_before_year y \<le> n" "n < days_before_year (y + 1)"
  shows "year_of_days n = y"
proof -
  define g where "g = n * 400 div 146097 + 1"
  have g: "146097 * (g - 1) \<le> n * 400" "n * 400 < 146097 * g" unfolding g_def using div_bounds [of 146097 "n * 400"] by simp_all
  note b = days_before_year_bounds
  have "y - 1 \<le> g" using g assms b [of y] b [of "y + 1"] by simp
  moreover have "g \<le> y + 1" using g assms b [of y] b [of "y + 1"] by simp
  ultimately consider "g = y - 1" | "g = y" | "g = y + 1" by linarith
  then show ?thesis
    using assms days_before_year_Suc [of "y - 1"] days_before_year_Suc [of y]
    by cases (simp_all add: year_of_days_def Let_def flip: g_def split: if_splits)
qed

lemma year_of_days_bounds:
  "days_before_year (year_of_days n) \<le> n \<and> n < days_before_year (year_of_days n + 1)"
proof -
  define g where "g = n * 400 div 146097 + 1"
  have g: "146097 * (g - 1) \<le> n * 400" "n * 400 < 146097 * g"
    unfolding g_def using div_bounds [of 146097 "n * 400"] by simp_all
  note b = days_before_year_bounds
  have "days_before_year (g - 1) \<le> n" using g b [of "g - 1"] by simp
  moreover have "n < days_before_year (g + 2)" using g b [of "g + 2"] by simp
  moreover have "year_of_days n = (if n < days_before_year g then g - 1 else if days_before_year (g + 1) \<le> n then g + 1 else g)"
    by (simp only: year_of_days_def Let_def g_def)
  ultimately show ?thesis by (auto simp: add.commute)
qed

lemma month_of_yday_split:
  assumes "0 \<le> k" "k < (\<Sum>m\<leftarrow>ms. days_in_month y m)" "month_of_yday y ms k = (m, d)"
  shows "\<exists>pre post. ms = pre @ m # post \<and> k = (\<Sum>m\<leftarrow>pre. days_in_month y m) + d - 1 \<and>
    1 \<le> d \<and> d \<le> days_in_month y m"
  using assms
proof (induction ms arbitrary: k)
  case (Cons x ms)
  show ?case
  proof (cases "k < days_in_month y x")
    case True
    with Cons.prems show ?thesis by (intro exI [of _ "[]"] exI [of _ ms]) auto
  next
    case False
    then have "0 \<le> k - days_in_month y x" "k - days_in_month y x < (\<Sum>m\<leftarrow>ms. days_in_month y m)"
      "month_of_yday y ms (k - days_in_month y x) = (m, d)" using Cons.prems by simp_all
    from Cons.IH [OF this] obtain pre post where "ms = pre @ m # post"
      "k - days_in_month y x = (\<Sum>m\<leftarrow>pre. days_in_month y m) + d - 1" "1 \<le> d" "d \<le> days_in_month y m" by blast
    then show ?thesis by (intro exI [of _ "x # pre"] exI [of _ post]) simp
  qed
qed simp

definition all_months :: "int list" where
  "all_months = [1,2,3,4,5,6,7,8,9,10,11,12]"

lemma all_months_upt: "all_months = map int [1..<13]"
  by (simp add: all_months_def upt_rec)

lemma all_months_split:
  assumes "all_months = pre @ m # post"
  shows "1 \<le> m \<and> m \<le> 12 \<and> pre = map int [1..<nat m]"
proof -
  have l: "length pre < 12" using arg_cong [OF assms, of length] by (simp add: all_months_def)
  have "m = all_months ! length pre" unfolding assms by (rule nth_append_length [symmetric])
  then have m: "m = int (length pre) + 1" using l by (simp add: all_months_upt del: upt_Suc)
  have "pre = take (length pre) all_months" unfolding assms by simp
  also have "\<dots> = map int [1..<nat m]" using l m by (simp add: all_months_upt take_map min_def nat_add_distrib del: upt_Suc)
  finally show ?thesis using l m by simp
qed

lemma days_in_year: "(\<Sum>m\<leftarrow>all_months. days_in_month y m) = (if leap y then 366 else 365)"
  by (simp add: all_months_def days_in_month_def)

lemma civil_of_days:
  assumes "civil_of_days n = (y, m, d)"
  shows "days_of_civil y m d = n" "1 \<le> m" "m \<le> 12" "valid_day (y, m, d)" "y = year_of_days n"
proof -
  let ?k = "n - days_before_year (year_of_days n)"
  have y: "y = year_of_days n" and md: "month_of_yday y all_months ?k = (m, d)"
    using assms unfolding civil_of_days_def Let_def all_months_def [symmetric]
    by (simp_all only: prod.case_eq_if prod.inject split: prod.splits) auto
  have "0 \<le> ?k" "?k < (\<Sum>m\<leftarrow>all_months. days_in_month y m)"
    using year_of_days_bounds [of n] days_before_year_Suc [of "year_of_days n"] y by (auto simp: days_in_year)
  from month_of_yday_split [OF this md] obtain pre post where s: "all_months = pre @ m # post"
    "?k = (\<Sum>m\<leftarrow>pre. days_in_month y m) + d - 1" "1 \<le> d" "d \<le> days_in_month y m" by blast
  note sp = all_months_split [OF s(1)]
  have "(\<Sum>m\<leftarrow>pre. days_in_month y m) = days_before_month y m"
    using sp by (simp add: days_before_month_def comp_def)
  then show "days_of_civil y m d = n" using s(2) y by (simp add: days_of_civil_def)
  show "1 \<le> m" "m \<le> 12" "valid_day (y, m, d)" "y = year_of_days n" using sp s y by (simp_all add: valid_day_def)
qed

lemma digit_props [simp]:
  assumes "0 \<le> d" "d < 10"
  shows "is_digit (digit d)" "digit_val (digit d) = d"
proof -
  have "(of_char (digit d) :: nat) = 48 + nat d" using assms by (simp add: digit_def of_char_of)
  moreover from this have "(of_char (digit d) :: int) = 48 + d" using assms by (metis int_nat_eq of_nat_add of_nat_numeral of_nat_of_char)
  ultimately show "is_digit (digit d)" "digit_val (digit d) = d" using assms by (simp_all add: is_digit_def digit_val_def)
qed

lemma take_digits_pad2 [simp]:
  assumes "0 \<le> n" "n < 100"
  shows "take_digits 2 (pad2 n @ rest) = Some (n, rest)"
proof -
  have "n div 10 mod 10 = n div 10" using assms by (simp add: div_pos_pos_trivial mod_pos_pos_trivial)
  moreover have "10 * (n div 10) + n mod 10 = n" by (rule mult_div_mod_eq)
  ultimately show ?thesis by (simp add: take_digits_def pad2_def num_def numeral_2_eq_2)
qed

lemma num_append: "num (xs @ ys) = num xs * 10 ^ length ys + num ys"
  by (induction ys rule: rev_induct) (simp_all add: num_def algebra_simps)

lemma pad2_props: "length (pad2 n) = 2" "list_all is_digit (pad2 n)" "0 \<le> n \<Longrightarrow> n < 100 \<Longrightarrow> num (pad2 n) = n"
proof -
  assume n: "0 \<le> n" "n < 100"
  have "n div 10 mod 10 = n div 10" using n by (simp add: div_pos_pos_trivial mod_pos_pos_trivial)
  moreover have "10 * (n div 10) + n mod 10 = n" by (rule mult_div_mod_eq)
  ultimately show "num (pad2 n) = n" by (simp add: pad2_def num_def)
qed (simp_all add: pad2_def)

lemma take_digits_pad4 [simp]:
  assumes "0 \<le> n" "n < 10000"
  shows "take_digits 4 (pad4 n @ rest) = Some (n, rest)"
proof -
  have l: "length (pad4 n) = 4" by (simp add: pad4_def pad2_props)
  have "num (pad4 n) = n div 100 * 100 + n mod 100"
    using assms by (simp add: pad4_def num_append pad2_props)
  also have "\<dots> = n" by simp
  finally show ?thesis using l by (simp add: take_digits_def pad4_def pad2_props)
qed

lemma parse_ymd_format:
  assumes "0 \<le> y" "y < 10000" "1 \<le> m" "m \<le> 12" "0 \<le> d" "d < 100"
  shows "parse_ymd (fmt_year y @ ''-'' @ pad2 m @ ''-'' @ pad2 d @ rest) = Some ((y, m, d), rest)"
proof -
  have "fmt_year y = pad4 y" using assms by (simp add: fmt_year_def)
  then show ?thesis using assms by (simp add: parse_ymd_def take_char_def)
qed

lemma valid_day_bounds: "valid_day (y, m, d) \<Longrightarrow> 1 \<le> d \<and> d \<le> 31"
  by (auto simp: valid_day_def days_in_month_def split: if_splits)

lemma year_of_days_range:
  assumes "0 \<le> n" "n < days_before_year 10000"
  shows "1 \<le> year_of_days n \<and> year_of_days n < 10000"
proof -
  define y where "y = year_of_days n"
  have b: "days_before_year y \<le> n" "n < days_before_year (y + 1)" using year_of_days_bounds [of n] by (simp_all add: y_def)
  have "146097 * (y - 1) \<le> 400 * n + 1000" using b(1) days_before_year_bounds(1) [of y] by simp
  have mono: "days_before_year a \<le> days_before_year b" if "a \<le> b" for a b
    using that
  proof (induction rule: int_ge_induct)
    case (step i)
    then show ?case using days_before_year_Suc [of i] by simp
  qed simp
  have "\<not> 10000 \<le> y" using mono [of 10000 y] b(1) assms(2) by linarith
  moreover have "\<not> y + 1 \<le> 1" using mono [of "y + 1" 1] b(2) assms(1) by (simp add: days_before_year_def)
  ultimately show ?thesis by (simp add: y_def)
qed

text \<open>A date that is formatted and read again is the midnight of the same day.\<close>

lemma Parse_Format_date:
  assumes "0 \<le> wall t" "wall t < days_before_year 10000 * Day"
  shows "Parse_date (Format_date t) = Some (utc (Truncate (wall t) Day))"
proof -
  have D: "0 < Day" by (simp add: Day_def Hour_def Minute_def Second_def)
  define n where "n = wall t div Day"
  obtain y m d where c: "civil_of_days n = (y, m, d)" by (cases "civil_of_days n")
  note f = civil_of_days [OF c]
  have "Day * n < Day * days_before_year 10000"
    using div_bounds(1) [OF D, of "wall t"] assms(2) by (simp add: n_def mult.commute)
  then have "n < days_before_year 10000" using D by simp
  moreover have "0 \<le> n" using assms(1) D by (simp add: n_def pos_imp_zdiv_nonneg_iff)
  ultimately have y: "0 \<le> y" "y < 10000" using year_of_days_range [of n] f(5) by simp_all
  have d: "0 \<le> d" "d < 100" using valid_day_bounds [OF f(4)] by simp_all
  have "parse_ymd (Format_date t) = Some ((y, m, d), [])"
    using parse_ymd_format [OF y f(2,3) d, of "[]"] c by (simp add: Format_date_def n_def)
  moreover have "midnight (y, m, d) = Truncate (wall t) Day"
    using f(1) D by (simp add: midnight_def n_def Truncate_def minus_mod_eq_div_mult)
  ultimately show ?thesis using f(4) by (simp add: Parse_date_def)
qed

end
