(* ===== verification/Float64.thy ===== *)
theory Float64
  imports Complex_Main "HOL-Library.Log_Nat" Prelude
begin

text \<open>
  Go's \<^verbatim>\<open>float64\<close> as far as the switch uses it, for the amounts of ISO 20022 messages: IEEE 754
  double precision with rounding to nearest, ties to even. A finite value is the rational number it
  denotes (the sign of a zero is not kept: no operation of the switch distinguishes the zeros).
\<close>

datatype float64 = Finite rat | Infinity bool | NaN

section \<open>Rounding\<close>

definition half_even :: "rat \<Rightarrow> int" where
  "half_even x =
     (let f = \<lfloor>x\<rfloor>; r = x - of_int f
      in if r < 1 / 2 then f else if 1 / 2 < r then f + 1 else if even f then f else f + 1)"

text \<open>The exponent of the last of the 53 bits of a positive number, at least the one of the
  subnormal numbers.\<close>

definition ulp_exponent :: "rat \<Rightarrow> int" where
  "ulp_exponent x =
     (case quotient_of x of (n, d) \<Rightarrow>
        let p = int (floorlog 2 (nat n)) - int (floorlog 2 (nat d))
        in max (-1074) (if x < 2 powi p then p - 53 else p - 52))"

definition round64 :: "rat \<Rightarrow> float64" where
  "round64 x =
     (if x = 0 then Finite 0
      else let e = ulp_exponent \<bar>x\<bar>; y = of_int (half_even (x / 2 powi e)) * 2 powi e
           in if 2 ^ 1024 \<le> \<bar>y\<bar> then Infinity (x < 0) else Finite y)"

section \<open>Operations\<close>

definition float_of_int64 :: "int64 \<Rightarrow> float64" where
  "float_of_int64 v = round64 (of_int (sint v))"

fun fmul :: "float64 \<Rightarrow> float64 \<Rightarrow> float64" where
  "fmul (Finite a) (Finite b) = round64 (a * b)"
| "fmul (Infinity s) (Finite b) = (if b = 0 then NaN else Infinity (s \<noteq> (b < 0)))"
| "fmul (Finite a) (Infinity s) = (if a = 0 then NaN else Infinity (s \<noteq> (a < 0)))"
| "fmul (Infinity s) (Infinity t) = Infinity (s \<noteq> t)"
| "fmul _ _ = NaN"

fun fdiv :: "float64 \<Rightarrow> float64 \<Rightarrow> float64" where
  "fdiv (Finite a) (Finite b) =
     (if b = 0 then (if a = 0 then NaN else Infinity (a < 0)) else round64 (a / b))"
| "fdiv (Infinity s) (Finite b) = Infinity (s \<noteq> (b < 0))"
| "fdiv (Finite a) (Infinity s) = Finite 0"
| "fdiv _ _ = NaN"

text \<open>\<^verbatim>\<open>math.Round\<close>: the nearest integer, halves away from zero.\<close>

definition round_away :: "rat \<Rightarrow> int" where
  "round_away x = (if x < 0 then - \<lfloor>- x + 1 / 2\<rfloor> else \<lfloor>x + 1 / 2\<rfloor>)"

fun Round :: "float64 \<Rightarrow> float64" where
  "Round (Finite x) = Finite (of_int (round_away x))"
| "Round y = y"

text \<open>\<^verbatim>\<open>int64(f)\<close> truncates. Go leaves the result for values outside the range to the
  implementation: the least \<^verbatim>\<open>int64\<close>, as on amd64.\<close>

definition truncate_rat :: "rat \<Rightarrow> int" where
  "truncate_rat x = (if x < 0 then - \<lfloor>- x\<rfloor> else \<lfloor>x\<rfloor>)"

fun int64_of_float :: "float64 \<Rightarrow> int64" where
  "int64_of_float (Finite x) = (if fits64 (truncate_rat x) then word_of_int (truncate_rat x) else word_of_int (- (2 ^ 63)))"
| "int64_of_float _ = word_of_int (- (2 ^ 63))"

section \<open>Lemmas\<close>

lemma half_even_err: "\<bar>of_int (half_even x) - x\<bar> \<le> 1 / 2"
proof -
  have "of_int \<lfloor>x\<rfloor> \<le> x" "x < of_int \<lfloor>x\<rfloor> + 1" by linarith+
  then show ?thesis by (auto simp: half_even_def Let_def)
qed

lemma ulp_exponent_bound:
  assumes "0 < x"
  shows "- 1074 < ulp_exponent x \<Longrightarrow> 2 powi (ulp_exponent x + 52) \<le> x"
    and "x < 2 powi (ulp_exponent x + 53)"
proof -
  obtain n d where q: "quotient_of x = (n, d)" by (cases "quotient_of x")
  have d: "0 < d" and x: "x = of_int n / of_int d"
    using quotient_of_denom_pos [OF q] quotient_of_div [OF q] by simp_all
  then have n: "0 < n" using assms by (simp add: zero_less_divide_iff)
  define ln ld where "ln = floorlog 2 (nat n)" and "ld = floorlog 2 (nat d)"
  have b: "2 ^ (ln - 1) \<le> nat n" "nat n < 2 ^ ln" "2 ^ (ld - 1) \<le> nat d" "nat d < 2 ^ ld" "0 < ln" "0 < ld"
    using floorlog_bounds [of "nat n" 2] floorlog_bounds [of "nat d" 2] n d
    by (auto simp: ln_def ld_def floorlog_def)
  have i: "2 ^ (ln - 1) \<le> n" "n < 2 ^ ln" "2 ^ (ld - 1) \<le> d" "d < 2 ^ ld"
    using b n d by (simp_all add: nat_less_iff le_nat_iff)
  have r: "2 ^ (ln - 1) \<le> (of_int n :: rat)" "(of_int n :: rat) < 2 ^ ln"
    "2 ^ (ld - 1) \<le> (of_int d :: rat)" "(of_int d :: rat) < 2 ^ ld"
    using i by (metis of_int_le_iff of_int_less_iff of_int_numeral of_int_power)+
  let ?p = "int ln - int ld"
  have lo: "2 powi (?p - 1) < x"
  proof -
    have "2 powi (?p - 1) = (2 :: rat) ^ (ln - 1) / 2 ^ ld"
      using b by (simp add: power_int_diff of_nat_diff flip: power_int_of_nat)
    also have "\<dots> < of_int n / of_int d" using r d by (intro frac_less2) simp_all
    finally show ?thesis by (simp add: x)
  qed
  have hi: "x < 2 powi (?p + 1)"
  proof -
    have "of_int n / of_int d < (2 :: rat) ^ ln / 2 ^ (ld - 1)" using r n by (intro frac_less) simp_all
    also have "\<dots> = 2 powi (?p + 1)" using b by (simp add: power_int_diff power_int_add of_nat_diff flip: power_int_of_nat)
    finally show ?thesis by (simp add: x)
  qed
  have e: "ulp_exponent x = max (-1074) (if x < 2 powi ?p then ?p - 53 else ?p - 52)"
    by (simp add: ulp_exponent_def q ln_def ld_def)
  show "2 powi (ulp_exponent x + 52) \<le> x" if "- 1074 < ulp_exponent x"
    using that lo unfolding e by (auto simp: max_def split: if_splits)
  have mono: "(2 :: rat) powi a \<le> 2 powi b" if "a \<le> b" for a b using that by (simp add: power_int_increasing)
  show "x < 2 powi (ulp_exponent x + 53)"
  proof (cases "x < 2 powi ?p")
    case True
    then have "?p \<le> ulp_exponent x + 53" unfolding e by simp
    from mono [OF this] True show ?thesis by (rule order.strict_trans2 [rotated])
  next
    case False
    then have "?p + 1 \<le> ulp_exponent x + 53" unfolding e by simp
    from hi mono [OF this] show ?thesis by (rule order.strict_trans2)
  qed
qed

lemma scaled_abs:
  assumes "0 < (u :: rat)"
  shows "\<bar>a * u - x\<bar> = \<bar>a - x / u\<bar> * u"
proof -
  have "a * u - x = (a - x / u) * u" using assms by (simp add: left_diff_distrib)
  then show ?thesis using assms by (simp only: abs_mult abs_of_pos)
qed

lemma round64_err:
  assumes "2 powi (-1021) \<le> \<bar>x\<bar>" "\<bar>x\<bar> < 2 ^ 1000"
  obtains y where "round64 x = Finite y" "\<bar>y - x\<bar> \<le> \<bar>x\<bar> / 2 ^ 53"
proof -
  let ?e = "ulp_exponent \<bar>x\<bar>"
  define y :: rat where "y = of_int (half_even (x / 2 powi ?e)) * 2 powi ?e"
  have p: "(0 :: rat) < 2 powi k" for k by simp
  have "0 < \<bar>x\<bar>" using p [of "-1021"] assms(1) by (rule order.strict_trans2)
  note b = ulp_exponent_bound [OF this]
  have "(2 :: rat) powi (-1021) < 2 powi (?e + 53)" using assms(1) b(2) by (rule order.strict_trans1)
  then have "\<not> ?e + 53 \<le> -1021" using power_int_increasing [of "?e + 53" "-1021" "2 :: rat"] by fastforce
  then have e: "- 1074 < ?e" by simp
  have "\<bar>y - x\<bar> = \<bar>of_int (half_even (x / 2 powi ?e)) - x / 2 powi ?e\<bar> * 2 powi ?e"
    unfolding y_def by (rule scaled_abs) (rule p)
  also have "\<dots> \<le> 1 / 2 * 2 powi ?e" using half_even_err p [of ?e] by (intro mult_right_mono) simp_all
  also have "\<dots> = 2 powi (?e + 52) / 2 ^ 53" by (simp add: power_int_add)
  also have "\<dots> \<le> \<bar>x\<bar> / 2 ^ 53" using b(1) [OF e] by (rule divide_right_mono) simp
  finally have err: "\<bar>y - x\<bar> \<le> \<bar>x\<bar> / 2 ^ 53" .
  have "\<bar>y\<bar> \<le> \<bar>x\<bar> + \<bar>x\<bar> / 2 ^ 53" using err by linarith
  also have "\<dots> \<le> 2 * \<bar>x\<bar>" by simp
  also have "\<dots> < 2 * 2 ^ 1000" using assms(2) by (rule mult_strict_left_mono) simp
  also have "\<dots> \<le> (2 :: rat) ^ 1024" unfolding power_Suc [symmetric] by (rule power_increasing) simp_all
  finally have "\<not> 2 ^ 1024 \<le> \<bar>y\<bar>" by (simp only: not_le)
  then have "round64 x = Finite y" using \<open>0 < \<bar>x\<bar>\<close> unfolding round64_def y_def Let_def by (simp only: if_False) simp
  then show thesis using err that by blast
qed

lemma round64_zero [simp]: "round64 0 = Finite 0"
  by (simp add: round64_def)

lemma round_away_near:
  assumes "\<bar>x - of_int i\<bar> < 1 / 2"
  shows "round_away x = i"
proof -
  have b: "of_int i - 1 / 2 < x" "x < of_int i + 1 / 2" using assms by linarith+
  have "\<lfloor>- x + 1 / 2\<rfloor> = - i" by (rule floor_unique) (use b in simp_all)
  moreover have "\<lfloor>x + 1 / 2\<rfloor> = i" by (rule floor_unique) (use b in simp_all)
  ultimately show ?thesis by (simp add: round_away_def)
qed

lemma int64_of_float_int: "fits64 i \<Longrightarrow> int64_of_float (Finite (of_int i)) = word_of_int i"
proof -
  have "truncate_rat (of_int i) = i" by (simp add: truncate_rat_def flip: of_int_minus)
  then show "fits64 i \<Longrightarrow> int64_of_float (Finite (of_int i)) = word_of_int i" by simp
qed

lemma round64_mid:
  assumes "1 / 200 \<le> \<bar>x\<bar>" "\<bar>x\<bar> \<le> 1125899906842625"
  obtains y where "round64 x = Finite y" "\<bar>y - x\<bar> \<le> \<bar>x\<bar> / 9007199254740992"
proof (rule round64_err [of x])
  have "(2 :: rat) powi (-1021) \<le> 2 powi (-8)" by (rule power_int_increasing) simp_all
  also have "\<dots> = 1 / 256" by (simp add: power_int_minus)
  finally show "2 powi (-1021) \<le> \<bar>x\<bar>" using assms(1) by linarith
  have "\<bar>x\<bar> < 2 ^ 60" using assms(2) by (rule order.strict_trans1) simp
  also have "\<dots> \<le> (2 :: rat) ^ 1000" by (rule power_increasing) simp_all
  finally show "\<bar>x\<bar> < 2 ^ 1000" .
  fix y assume "round64 x = Finite y" "\<bar>y - x\<bar> \<le> \<bar>x\<bar> / 2 ^ 53"
  then show thesis using that by simp
qed

text \<open>An integer of at most fifty bits survives a division by a hundred followed by a
  multiplication by a hundred, up to rounding.\<close>

lemma hundredth_round_trip:
  assumes "\<bar>i\<bar> < 2 ^ 50" "i \<noteq> 0"
  obtains a b c where "round64 (of_int i) = Finite a" "round64 (a / 100) = Finite b"
    "round64 (b * 100) = Finite c" "\<bar>c - of_int i\<bar> < 1 / 2"
proof -
  define x :: rat where "x = of_int i"
  have "1 \<le> \<bar>i\<bar>" "\<bar>i\<bar> \<le> 1125899906842624" using assms by simp_all
  then have "of_int 1 \<le> (of_int \<bar>i\<bar> :: rat)" "(of_int \<bar>i\<bar> :: rat) \<le> of_int 1125899906842624"
    by (simp_all only: of_int_le_iff)
  then have x: "1 \<le> \<bar>x\<bar>" "\<bar>x\<bar> \<le> 1125899906842624" by (simp_all add: x_def)
  obtain a where a: "round64 x = Finite a" "\<bar>a - x\<bar> \<le> \<bar>x\<bar> / 9007199254740992"
    using x by (elim round64_mid [rotated 2]) linarith+
  have "\<bar>a - x\<bar> \<le> 1 / 8" using a(2) x(2) by linarith
  then have a': "7 / 8 \<le> \<bar>a\<bar>" "\<bar>a\<bar> \<le> 1125899906842624 + 1 / 8" using x by linarith+
  obtain b where b: "round64 (a / 100) = Finite b" "\<bar>b - a / 100\<bar> \<le> \<bar>a / 100\<bar> / 9007199254740992"
    by (rule round64_mid [of "a / 100"]) (use a' in \<open>simp_all add: abs_divide\<close>)
  have "\<bar>b * 100 - a\<bar> \<le> \<bar>a\<bar> / 9007199254740992" using b(2) scaled_abs [of 100 b a] by (simp add: abs_divide)
  then have ba: "\<bar>b * 100 - a\<bar> \<le> 9 / 64" using a'(2) by linarith
  then have b': "1 / 2 \<le> \<bar>b * 100\<bar>" "\<bar>b * 100\<bar> \<le> 1125899906842625" using a' by linarith+
  obtain c where c: "round64 (b * 100) = Finite c" "\<bar>c - b * 100\<bar> \<le> \<bar>b * 100\<bar> / 9007199254740992"
    by (rule round64_mid [of "b * 100"]) (use b' in linarith)+
  have "\<bar>c - b * 100\<bar> \<le> 9 / 64" using c(2) b'(2) by linarith
  then have "\<bar>c - x\<bar> < 1 / 2" using ba \<open>\<bar>a - x\<bar> \<le> 1 / 8\<close> by linarith
  then show thesis using that a(1) b(1) c(1) by (simp add: x_def)
qed

end
