(* ===== verification/Iso20022.thy ===== *)
theory Iso20022
  imports Calendar Float64
begin

text \<open>
  The ISO 20022 messages of src/pkg/iso20022: pacs.008 credit transfers, pacs.002 status reports,
  camt.003 account queries and their answers, and the conversions of convert.go between them and the
  switch's own payment data. A message is the Go value that \<^verbatim>\<open>encoding/xml\<close> fills in or
  prints; a pointer field is an option. \<^verbatim>\<open>XMLName\<close> fields carry no data and are left out. The
  lemmas show what survives a trip through a pacs.008 message.
\<close>

section \<open>pacs008.go\<close>

definition NamespacePacs008 :: string where [go_string]:
  "NamespacePacs008 = ''urn:iso:std:iso:20022:tech:xsd:pacs.008.001.08''"

record Amount =
  amtValue :: float64
  amtCcy :: string

record GenericAccount =
  gaID :: string

record AccountID =
  aiOthr :: "GenericAccount option"

record AccountIdentification =
  aidIBAN :: string
  aidID :: "AccountID option"

record SettlementInformation =
  siSttlmMtd :: string
  siSttlmAcct :: "AccountIdentification option"

record ClearingSystemMember =
  csmClrSysID :: string
  csmMmbID :: string

record FinancialInstitutionID =
  fiBICFI :: string
  fiClrSysMmbID :: "ClearingSystemMember option"
  fiOthr :: "GenericAccount option"
  fiNm :: string

record FinancialInstitution =
  fiFinInstnID :: FinancialInstitutionID

record GroupHeader =
  ghMsgID :: string
  ghCreDtTm :: string
  ghNbOfTxs :: string
  ghTtlIntrBkSttlmAmt :: "Amount option"
  ghIntrBkSttlmDt :: string
  ghSttlmInf :: "SettlementInformation option"
  ghInstgAgt :: "FinancialInstitution option"
  ghInstdAgt :: "FinancialInstitution option"

record PaymentIdentification =
  piInstrID :: string
  piEndToEndID :: string
  piTxID :: string
  piUETR :: string

record CategoryPurpose =
  cpCd :: string

record PaymentTypeInfo =
  ptiCtgyPurp :: "CategoryPurpose option"

record PostalAddress =
  paCtry :: string
  paAdrLine :: string

record SchemeName =
  snCd :: string

record GenericID =
  giID :: string
  giSchmeNm :: "SchemeName option"

record OrganisationID =
  oiBICOrBEI :: string
  oiOthr :: "GenericID option"

record PrivateID =
  pvOthr :: string

record PartyID =
  pyOrgID :: "OrganisationID option"
  pyPrvtID :: "PrivateID option"

record PartyIdentification =
  ptNm :: string
  ptPstlAdr :: "PostalAddress option"
  ptID :: "PartyID option"

record Purpose =
  puCd :: string

record CodeOrProprietary =
  coCd :: string

record DocumentType =
  dtCdOrPrtry :: "CodeOrProprietary option"

record ReferredDocumentInfo =
  rdTp :: "DocumentType option"
  rdNb :: string
  rdRltdDt :: string

record StructuredRemittance =
  srRfrdDocInf :: "ReferredDocumentInfo option"

record RemittanceInformation =
  riUstrd :: string
  riStrd :: "StructuredRemittance option"

record CreditTransferTransaction =
  txPmtID :: PaymentIdentification
  txPmtTpInf :: "PaymentTypeInfo option"
  txIntrBkSttlmAmt :: Amount
  txIntrBkSttlmDt :: string
  txChrgBr :: string
  txInitgPty :: "PartyIdentification option"
  txDbtr :: PartyIdentification
  txDbtrAcct :: AccountIdentification
  txDbtrAgt :: FinancialInstitution
  txCdtrAgt :: FinancialInstitution
  txCdtr :: PartyIdentification
  txCdtrAcct :: AccountIdentification
  txPurp :: "Purpose option"
  txRmtInf :: "RemittanceInformation option"

record FIToFICustomerCreditTransfer =
  ctGrpHdr :: GroupHeader
  ctCdtTrfTxInf :: "CreditTransferTransaction list"

record Document =
  docXMLNS :: string
  docFIToFICstmrCdtTrf :: FIToFICustomerCreditTransfer

section \<open>pacs002.go\<close>

definition NamespacePacs002 :: string where [go_string]:
  "NamespacePacs002 = ''urn:iso:std:iso:20022:tech:xsd:pacs.002.001.10''"

record Pacs002GroupHeader =
  g2MsgID :: string
  g2CreDtTm :: string

record StatusReasonCode =
  srcCd :: string

record StatusReason =
  srsRsn :: StatusReasonCode
  srsAddtlInf :: string

record TransactionStatus =
  tsOrgnlInstrID :: string
  tsOrgnlEndToEndID :: string
  tsOrgnlTxID :: string
  tsTxSts :: string
  tsStsRsnInf :: "StatusReason option"

record FIToFIPaymentStatusReport =
  rpGrpHdr :: Pacs002GroupHeader
  rpTxInfAndSts :: "TransactionStatus list"

record DocumentPacs002 =
  d2XMLNS :: string
  d2FIToFIPmtStsRpt :: FIToFIPaymentStatusReport

definition IsoAccepted :: string where [go_string]: "IsoAccepted = ''ACCP''"
definition IsoAcceptedSettlement :: string where [go_string]: "IsoAcceptedSettlement = ''ACSC''"
definition IsoRejected :: string where [go_string]: "IsoRejected = ''RJCT''"
definition IsoPending :: string where [go_string]: "IsoPending = ''PDNG''"
definition IsoReceived :: string where [go_string]: "IsoReceived = ''RCVD''"
definition ReasonNoInstruction :: string where [go_string]: "ReasonNoInstruction = ''NARR''"
definition ReasonCutOffTime :: string where [go_string]: "ReasonCutOffTime = ''CUTA''"
definition ReasonInvalidAmount :: string where [go_string]: "ReasonInvalidAmount = ''AM09''"
definition ReasonNotFound :: string where [go_string]: "ReasonNotFound = ''N404''"

section \<open>camt003.go\<close>

definition NamespaceCamt003 :: string where [go_string]:
  "NamespaceCamt003 = ''urn:iso:std:iso:20022:tech:xsd:camt.003.001.07''"

record MessageHeader =
  mhMsgID :: string
  mhCreDtTm :: string

record SearchCriteria =
  scAcctId :: AccountIdentification

record NewCriteria =
  ncSchCrit :: SearchCriteria

record AccountCriteria =
  acNewCrit :: "NewCriteria list"

record AccountQueryDefinition =
  aqAcctCrit :: AccountCriteria

record GetAccountQuery =
  gaqMsgHdr :: MessageHeader
  gaqAcctQryDef :: AccountQueryDefinition

record DocumentCamt003 =
  d3XMLNS :: string
  d3GetAcct :: GetAccountQuery

record ProprietaryError =
  peCd :: string
  peIssr :: string

record OperationalError =
  oePrtry :: ProprietaryError
  oeDesc :: string

record ReportedAccount =
  raAcctId :: AccountIdentification
  raNm :: string
  raTp :: string
  raCcy :: string
  raLglNm :: string

record ReportOrError =
  roAcctRpt :: "ReportedAccount list"
  roOprlErr :: "OperationalError option"

record AccountReport =
  arMsgHdr :: MessageHeader
  arRptOrErr :: ReportOrError

record DocumentCamt003Response =
  drXMLNS :: string
  drAcctRpt :: AccountReport

section \<open>convert.go\<close>

record PaymentData =
  dID :: string
  dEndToEndID :: string
  dUETR :: string
  dInstrID :: string
  dSourceBIC :: string
  dDestBIC :: string
  dSourceAccount :: string
  dDestAccount :: string
  dDebtorName :: string
  dCreditorName :: string
  dAmount :: int64
  dCurrency :: string
  dChargeBearer :: string
  dSettlementDate :: gotime
  dPurposeCode :: string
  dRemittanceInfo :: string
  dStatus :: string
  dCreatedAt :: gotime

definition amountToMinorUnits :: "float64 \<Rightarrow> int64" where
  "amountToMinorUnits v = int64_of_float (Round (fmul v (Finite 100)))"

definition minorUnitsToAmount :: "int64 \<Rightarrow> float64" where
  "minorUnitsToAmount v = fdiv (float_of_int64 v) (Finite 100)"

definition accountBICFromAgent :: "FinancialInstitution \<Rightarrow> string" where
  "accountBICFromAgent agt =
     (let f = fiFinInstnID agt in
      if fiBICFI f \<noteq> '''' then fiBICFI f
      else case fiOthr f of Some g \<Rightarrow> gaID g | None \<Rightarrow> '''')"

definition accountIDValue :: "AccountIdentification \<Rightarrow> string" where
  "accountIDValue a =
     (if aidIBAN a \<noteq> '''' then aidIBAN a
      else case aidID a of
             Some i \<Rightarrow> (case aiOthr i of Some g \<Rightarrow> gaID g | None \<Rightarrow> '''')
           | None \<Rightarrow> '''')"

definition remittance_of :: "CreditTransferTransaction \<Rightarrow> string" where
  "remittance_of tx = (case txRmtInf tx of Some r \<Rightarrow> riUstrd r | None \<Rightarrow> '''')"

definition purpose_of :: "CreditTransferTransaction \<Rightarrow> string" where
  "purpose_of tx =
     (case txPurp tx of
        Some p \<Rightarrow> puCd p
      | None \<Rightarrow>
          (case txPmtTpInf tx of
             Some i \<Rightarrow> (case ptiCtgyPurp i of Some c \<Rightarrow> cpCd c | None \<Rightarrow> '''')
           | None \<Rightarrow> ''''))"

definition settlement_date_of :: "string \<Rightarrow> gotime" where
  "settlement_date_of s =
     (if s = '''' then utc 0
      else case Parse_date s of
             Some t \<Rightarrow> t
           | None \<Rightarrow> (case Parse_RFC3339 s of Some t \<Rightarrow> t | None \<Rightarrow> utc 0))"

definition FromPacs008 :: "Document \<Rightarrow> goerror + PaymentData" where
  "FromPacs008 doc =
     (case ctCdtTrfTxInf (docFIToFICstmrCdtTrf doc) of
        [] \<Rightarrow> Inl (ErrMsg ''pacs.008: no CdtTrfTxInf transactions'')
      | tx # _ \<Rightarrow>
          (let grp = ctGrpHdr (docFIToFICstmrCdtTrf doc) in
           Inr \<lparr>dID = '''', dEndToEndID = piEndToEndID (txPmtID tx), dUETR = piUETR (txPmtID tx),
                dInstrID = piInstrID (txPmtID tx),
                dSourceBIC = accountBICFromAgent (txDbtrAgt tx), dDestBIC = accountBICFromAgent (txCdtrAgt tx),
                dSourceAccount = accountIDValue (txDbtrAcct tx), dDestAccount = accountIDValue (txCdtrAcct tx),
                dDebtorName = ptNm (txDbtr tx), dCreditorName = ptNm (txCdtr tx),
                dAmount = amountToMinorUnits (amtValue (txIntrBkSttlmAmt tx)),
                dCurrency = amtCcy (txIntrBkSttlmAmt tx), dChargeBearer = txChrgBr tx,
                dSettlementDate = settlement_date_of (ghIntrBkSttlmDt grp),
                dPurposeCode = purpose_of tx, dRemittanceInfo = remittance_of tx,
                dStatus = '''', dCreatedAt = utc 0\<rparr>))"

definition generic_account :: "string \<Rightarrow> AccountIdentification" where
  "generic_account n = \<lparr>aidIBAN = '''', aidID = Some \<lparr>aiOthr = Some \<lparr>gaID = n\<rparr>\<rparr>\<rparr>"

definition generic_agent :: "string \<Rightarrow> FinancialInstitution" where
  "generic_agent bic =
     \<lparr>fiFinInstnID = \<lparr>fiBICFI = '''', fiClrSysMmbID = None, fiOthr = Some \<lparr>gaID = bic\<rparr>, fiNm = ''''\<rparr>\<rparr>"

definition named_party :: "string \<Rightarrow> PartyIdentification" where
  "named_party n = \<lparr>ptNm = n, ptPstlAdr = None, ptID = None\<rparr>"

text \<open>\<open>clock\<close> is what \<^verbatim>\<open>time.Now()\<close> answers.\<close>

definition created_or_now :: "time \<Rightarrow> PaymentData \<Rightarrow> gotime" where
  "created_or_now clock d = (if IsZero (instant (dCreatedAt d)) then utc clock else dCreatedAt d)"

definition ToPacs008 :: "time \<Rightarrow> string \<Rightarrow> PaymentData \<Rightarrow> Document" where
  "ToPacs008 clock msgID d =
     (let now = created_or_now clock d;
          sttlmDate = (if IsZero (instant (dSettlementDate d)) then now else dSettlementDate d);
          chargeBearer = (if dChargeBearer d = '''' then ''SLEV'' else dChargeBearer d);
          amt = \<lparr>amtValue = minorUnitsToAmount (dAmount d), amtCcy = dCurrency d\<rparr>;
          tx = \<lparr>txPmtID = \<lparr>piInstrID = dInstrID d, piEndToEndID = dEndToEndID d, piTxID = dID d, piUETR = dUETR d\<rparr>,
                txPmtTpInf = None, txIntrBkSttlmAmt = amt, txIntrBkSttlmDt = Format_date sttlmDate,
                txChrgBr = chargeBearer, txInitgPty = None, txDbtr = named_party (dDebtorName d),
                txDbtrAcct = generic_account (dSourceAccount d), txDbtrAgt = generic_agent (dSourceBIC d),
                txCdtrAgt = generic_agent (dDestBIC d), txCdtr = named_party (dCreditorName d),
                txCdtrAcct = generic_account (dDestAccount d),
                txPurp = (if dPurposeCode d \<noteq> '''' then Some \<lparr>puCd = dPurposeCode d\<rparr> else None),
                txRmtInf = (if dRemittanceInfo d \<noteq> '''' then Some \<lparr>riUstrd = dRemittanceInfo d, riStrd = None\<rparr> else None)\<rparr>
      in \<lparr>docXMLNS = NamespacePacs008,
          docFIToFICstmrCdtTrf =
            \<lparr>ctGrpHdr = \<lparr>ghMsgID = msgID, ghCreDtTm = Format_RFC3339 now, ghNbOfTxs = ''1'',
                         ghTtlIntrBkSttlmAmt = Some amt, ghIntrBkSttlmDt = Format_date sttlmDate,
                         ghSttlmInf = Some \<lparr>siSttlmMtd = ''CLRG'', siSttlmAcct = None\<rparr>,
                         ghInstgAgt = None, ghInstdAgt = None\<rparr>,
             ctCdtTrfTxInf = [tx]\<rparr>\<rparr>)"

definition DomainStatusToISO :: "string \<Rightarrow> string" where
  "DomainStatusToISO status =
     (if status = ''RECEIVED'' then IsoReceived
      else if status \<in> {''VALIDATED'', ''LOOKED_UP'', ''ROUTED'', ''QUOTED'', ''SCREENED''} then IsoPending
      else if status = ''RESERVED'' then IsoAccepted
      else if status = ''COMMITTED'' then IsoAccepted
      else if status = ''SETTLED'' then IsoAcceptedSettlement
      else if status = ''ABORTED'' then IsoRejected
      else IsoPending)"

definition ToPacs002 :: "time \<Rightarrow> string \<Rightarrow> PaymentData \<Rightarrow> DocumentPacs002" where
  "ToPacs002 clock msgID d =
     (let now = created_or_now clock d;
          stsRsn = (if dStatus d = ''ABORTED''
                    then Some \<lparr>srsRsn = \<lparr>srcCd = ReasonNoInstruction\<rparr>, srsAddtlInf = ''Payment was aborted''\<rparr>
                    else None)
      in \<lparr>d2XMLNS = NamespacePacs002,
          d2FIToFIPmtStsRpt =
            \<lparr>rpGrpHdr = \<lparr>g2MsgID = msgID, g2CreDtTm = Format_RFC3339 now\<rparr>,
             rpTxInfAndSts = [\<lparr>tsOrgnlInstrID = dInstrID d, tsOrgnlEndToEndID = dEndToEndID d, tsOrgnlTxID = dID d,
                               tsTxSts = DomainStatusToISO (dStatus d), tsStsRsnInf = stsRsn\<rparr>]\<rparr>\<rparr>)"

section \<open>Lemmas\<close>

lemma minor_units_round_trip:
  assumes "\<bar>sint a\<bar> < 2 ^ 50"
  shows "amountToMinorUnits (minorUnitsToAmount a) = a"
proof (cases "sint a = 0")
  case True
  then have "a = 0" by (metis of_int_sint scast_id of_int_0)
  moreover have "round_away 0 = 0" by (rule round_away_near) simp
  ultimately show ?thesis
    using int64_of_float_int [of 0]
    by (simp add: amountToMinorUnits_def minorUnitsToAmount_def float_of_int64_def fits64_def)
next
  case False
  from hundredth_round_trip [OF assms False] obtain x y z where
    r: "round64 (of_int (sint a)) = Finite x" "round64 (x / 100) = Finite y" "round64 (y * 100) = Finite z"
    "\<bar>z - of_int (sint a)\<bar> < 1 / 2" .
  have "amountToMinorUnits (minorUnitsToAmount a) = int64_of_float (Finite (of_int (round_away z)))"
    by (simp add: amountToMinorUnits_def minorUnitsToAmount_def float_of_int64_def r del: of_int_sint int64_of_float.simps)
  also have "\<dots> = int64_of_float (Finite (of_int (sint a)))" by (simp only: round_away_near [OF r(4)])
  also have "\<dots> = a" unfolding int64_of_float_int [OF sint_fits64] by simp
  finally show ?thesis .
qed

lemma generic_values [simp]:
  "accountIDValue (generic_account n) = n" "accountBICFromAgent (generic_agent bic) = bic" "ptNm (named_party n) = n"
  by (simp_all add: accountIDValue_def generic_account_def accountBICFromAgent_def generic_agent_def named_party_def)

lemma settlement_date_round_trip:
  assumes "0 \<le> wall t" "wall t < days_before_year 10000 * Day"
  shows "settlement_date_of (Format_date t) = utc (Truncate (wall t) Day)"
proof -
  have "Format_date t \<noteq> ''''" using Parse_Format_date [OF assms] by (auto simp: Parse_date_def parse_ymd_def take_digits_def)
  then show ?thesis using Parse_Format_date [OF assms] by (simp add: settlement_date_of_def)
qed

lemma DomainStatusToISO_range:
  "DomainStatusToISO s \<in> {IsoReceived, IsoPending, IsoAccepted, IsoAcceptedSettlement, IsoRejected}"
  by (simp add: DomainStatusToISO_def)

lemma pacs008_round_trip:
  assumes "\<bar>sint (dAmount d)\<bar> < 2 ^ 50" "instant (dSettlementDate d) \<noteq> 0"
    and "0 \<le> wall (dSettlementDate d)" "wall (dSettlementDate d) < days_before_year 10000 * Day"
  shows "FromPacs008 (ToPacs008 clock msgID d) = Inr (d\<lparr>dID := '''', dStatus := '''', dCreatedAt := utc 0,
    dChargeBearer := (if dChargeBearer d = '''' then ''SLEV'' else dChargeBearer d),
    dSettlementDate := utc (Truncate (wall (dSettlementDate d)) Day)\<rparr>)"
  using assms by (simp add: FromPacs008_def ToPacs008_def Let_def IsZero_def minor_units_round_trip
      settlement_date_round_trip purpose_of_def remittance_of_def)

end
