(* ===== verification/BankServer.thy ===== *)
theory BankServer
  imports BankService Iso20022
begin

text \<open>
  The HTTP surface of the bank service: the XML handlers of src/internal/banksvc/iso20022.go, the
  callback and listing handlers of handler.go and the routes of server.go. A request body is given by
  what each decoder makes of its bytes. The lemmas show which requests can change the bank's state
  and what a pacs.008 message does to it.
\<close>

section \<open>Bodies and documents\<close>

record request_body =
  bodyJson :: json_body
  bodyPacs008 :: "goerror + Document"
  bodyCamt003 :: "goerror + DocumentCamt003"
  bodyReadErr :: "goerror option"

datatype xml_doc =
    Pacs002Doc DocumentPacs002
  | Camt004Doc DocumentCamt003Response

section \<open>iso20022.go\<close>

text \<open>The account a camt.003 query asks about: its first criterion, when it names an account by a
  generic identification.\<close>

definition queried_account :: "DocumentCamt003 \<Rightarrow> string option" where
  "queried_account doc =
     (case acNewCrit (aqAcctCrit (gaqAcctQryDef (d3GetAcct doc))) of
        [] \<Rightarrow> None
      | c # _ \<Rightarrow>
          (case aidID (scAcctId (ncSchCrit c)) of
             None \<Rightarrow> None
           | Some i \<Rightarrow> (case aiOthr i of None \<Rightarrow> None | Some g \<Rightarrow> Some (gaID g))))"

definition bank_writeCamt004Error :: "time \<Rightarrow> string \<Rightarrow> string \<Rightarrow> xml_doc http_response" where
  "bank_writeCamt004Error clock accountNumber reason =
     writeXML 404 (Camt004Doc
       \<lparr>drXMLNS = NamespaceCamt003,
        drAcctRpt = \<lparr>arMsgHdr = \<lparr>mhMsgID = ''ERR-'' @ accountNumber, mhCreDtTm = Format_RFC3339 (utc clock)\<rparr>,
                     arRptOrErr = \<lparr>roAcctRpt = [], roOprlErr = None\<rparr>\<rparr>\<rparr>)"

definition handleCamt003 :: "time \<Rightarrow> request_body \<Rightarrow> BankState \<Rightarrow> xml_doc http_response \<times> BankState" where
  "handleCamt003 clock body b =
     (case bodyCamt003 body of
        Inl e \<Rightarrow> (http_Error (Error e) 400, b)
      | Inr doc \<Rightarrow>
          (case queried_account doc of
             None \<Rightarrow> (http_Error ''account identifier not found'' 400, b)
           | Some accountNumber \<Rightarrow>
               (case GetAccount accountNumber b of
                  Inl e \<Rightarrow> (bank_writeCamt004Error clock accountNumber (Error e), b)
                | Inr acct \<Rightarrow>
                    (writeXML 200 (Camt004Doc
                       \<lparr>drXMLNS = NamespaceCamt003,
                        drAcctRpt =
                          \<lparr>arMsgHdr = \<lparr>mhMsgID = ''BANK-ACCT-'' @ accountNumber, mhCreDtTm = Format_RFC3339 (utc clock)\<rparr>,
                           arRptOrErr =
                             \<lparr>roAcctRpt = [\<lparr>raAcctId = generic_account accountNumber, raNm = acName acct, raTp = '''',
                                            raCcy = acCurrency acct, raLglNm = acBIC acct\<rparr>],
                              roOprlErr = None\<rparr>\<rparr>\<rparr>), b))))"

text \<open>The payment data both pacs.002 answers are made from.\<close>

definition report_data :: "PaymentData \<Rightarrow> string \<Rightarrow> PaymentData" where
  "report_data d status = d\<lparr>dSourceAccount := '''', dDestAccount := '''', dChargeBearer := '''',
     dSettlementDate := utc 0, dStatus := status, dCreatedAt := utc 0\<rparr>"

definition set_first_status :: "(TransactionStatus \<Rightarrow> TransactionStatus) \<Rightarrow> DocumentPacs002 \<Rightarrow> DocumentPacs002" where
  "set_first_status f doc =
     (let rpt = d2FIToFIPmtStsRpt doc in
      doc\<lparr>d2FIToFIPmtStsRpt := rpt\<lparr>rpTxInfAndSts := (case rpTxInfAndSts rpt of [] \<Rightarrow> [] | t # ts \<Rightarrow> f t # ts)\<rparr>\<rparr>)"

definition writePacs002Error :: "time \<Rightarrow> PaymentData \<Rightarrow> string \<Rightarrow> string \<Rightarrow> string \<Rightarrow> xml_doc http_response" where
  "writePacs002Error clock d status reasonCode reasonText =
     writeXML 500 (Pacs002Doc (set_first_status
       (\<lambda>t. t\<lparr>tsTxSts := status,
              tsStsRsnInf := Some \<lparr>srsRsn = \<lparr>srcCd = reasonCode\<rparr>, srsAddtlInf = reasonText\<rparr>\<rparr>)
       (ToPacs002 clock (''STS-'' @ dID d) (report_data d ''ABORTED''))))"

definition handlePacs008 :: "time \<Rightarrow> request_body \<Rightarrow> BankState \<Rightarrow> xml_doc http_response \<times> BankState" where
  "handlePacs008 clock body b =
     (case bodyPacs008 body of
        Inl e \<Rightarrow> (http_Error (Error e) 400, b)
      | Inr doc \<Rightarrow>
          (case FromPacs008 doc of
             Inl e \<Rightarrow> (http_Error (Error e) 400, b)
           | Inr d \<Rightarrow>
               (case Credit (dDestAccount d) (dAmount d) b of
                  (Some e, b') \<Rightarrow>
                    (writePacs002Error clock d ''RJCT'' ''AM09'' (''Credit failed: '' @ Error e), b')
                | (None, b') \<Rightarrow>
                    (writeXML 200 (Pacs002Doc (set_first_status
                       (\<lambda>t. t\<lparr>tsOrgnlTxID := piTxID (txPmtID (hd (ctCdtTrfTxInf (docFIToFICstmrCdtTrf doc))))\<rparr>)
                       (ToPacs002 clock (''STS-'' @ dID d) (report_data d ''SETTLED'')))), b'))))"

section \<open>handler.go\<close>

text \<open>\<open>order\<close> is the order in which Go ranges over the map of accounts.\<close>

definition handleListAccounts :: "(Account list \<Rightarrow> Account list) \<Rightarrow> BankState \<Rightarrow> 'x http_response" where
  "handleListAccounts order b = writeJSON 200 (JArr (map account_json (order (accounts b))))"

definition handlePacs002Callback :: "request_body \<Rightarrow> BankState \<Rightarrow> 'x http_response \<times> BankState" where
  "handlePacs002Callback body b =
     (case bodyReadErr body of
        Some e \<Rightarrow> (writeJSON 400 (api_error e), b)
      | None \<Rightarrow> (writeJSON 200 (JObj [(''status'', JStr ''ok''), (''message'', JStr ''callback received'')]), b))"

section \<open>server.go\<close>

definition New_bank_server :: BankState where
  "New_bank_server = SeedDefaults NewBankState"

text \<open>The path parameter of a route \<open>prefix/{number}suffix\<close>: one non-empty segment.\<close>

definition path_param :: "string \<Rightarrow> string \<Rightarrow> string \<Rightarrow> string option" where
  "path_param pre suf path =
     (let mid = take (length path - length pre - length suf) (drop (length pre) path) in
      if path = pre @ mid @ suf \<and> mid \<noteq> [] \<and> CHR ''/'' \<notin> set mid then Some mid else None)"

text \<open>The router's answer when no handler is registered for the method and path: 405 for a method it
  does not know, or when the path has a route under another method.\<close>

definition unrouted :: "string \<Rightarrow> bool \<Rightarrow> 'x http_response" where
  "unrouted method known =
     (if known \<or> method \<notin> {''CONNECT'', ''DELETE'', ''GET'', ''HEAD'', ''OPTIONS'', ''PATCH'', ''POST'', ''PUT'', ''TRACE''}
      then http_Error '''' 405 else http_Error ''404 page not found'' 404)"

definition bank_path :: "string \<Rightarrow> bool" where
  "bank_path path \<longleftrightarrow>
     path \<in> {''/healthz'', ''/admin/accounts'', ''/reserve'', ''/release'', ''/credit'', ''/reverse-credit'', ''/lookup'',
             ''/payments'', ''/payments/callback''} \<or>
     path_param ''/admin/accounts/'' '''' path \<noteq> None \<or> path_param ''/admin/accounts/'' ''/balance'' path \<noteq> None"

definition get_routes :: "(Account list \<Rightarrow> Account list) \<Rightarrow> string \<Rightarrow> BankState \<Rightarrow> xml_doc http_response" where
  "get_routes order path b =
     (if path = ''/healthz'' then writeJSON 200 (JObj [(''status'', JStr ''ok'')])
      else if path = ''/admin/accounts'' then handleListAccounts order b
      else case path_param ''/admin/accounts/'' '''' path of
             Some number \<Rightarrow> handleGetAccount number b
           | None \<Rightarrow> unrouted ''GET'' (bank_path path))"

definition post_routes :: "time \<Rightarrow> string \<Rightarrow> request_body \<Rightarrow> BankState \<Rightarrow> xml_doc http_response \<times> BankState" where
  "post_routes clock path body b =
     (case money_route clock path of
        Some h \<Rightarrow> h (bodyJson body) b
      | None \<Rightarrow>
          if path = ''/admin/accounts'' then handleCreateAccount (bodyJson body) b
          else if path = ''/lookup'' then handleCamt003 clock body b
          else if path = ''/payments'' then handlePacs008 clock body b
          else if path = ''/payments/callback'' then handlePacs002Callback body b
          else (unrouted ''POST'' (bank_path path), b))"

definition put_routes :: "string \<Rightarrow> request_body \<Rightarrow> BankState \<Rightarrow> xml_doc http_response \<times> BankState" where
  "put_routes path body b =
     (case path_param ''/admin/accounts/'' ''/balance'' path of
        Some number \<Rightarrow> handleSetBalance number (bodyJson body) b
      | None \<Rightarrow> (unrouted ''PUT'' (bank_path path), b))"

definition Server_Handler ::
  "(Account list \<Rightarrow> Account list) \<Rightarrow> time \<Rightarrow> string \<Rightarrow> string \<Rightarrow> request_body \<Rightarrow> BankState \<Rightarrow> xml_doc http_response \<times> BankState" where
  "Server_Handler order clock method path body b =
     (if method = ''GET'' then (get_routes order path b, b)
      else if method = ''POST'' then post_routes clock path body b
      else if method = ''PUT'' then put_routes path body b
      else (unrouted method (bank_path path), b))"

section \<open>Lemmas\<close>

lemma handleCamt003_keeps: "snd (handleCamt003 clock body b) = b"
  by (auto simp: handleCamt003_def split: sum.splits option.splits)

lemma handle_money_state:
  assumes "\<And>n m b e b'. f n m b = (Some e, b') \<Longrightarrow> b' = b"
  shows "StatusCode (fst (handle_money f body b)) = 200 \<or> snd (handle_money f body b) = b"
  using assms by (auto simp: handle_money_def writeJSON_def split: sum.splits prod.splits option.splits)

lemma bank_op_errors:
  "Reserve now n m b = (Some e, b') \<Longrightarrow> b' = b" "ReleaseReservation n m b = (Some e, b') \<Longrightarrow> b' = b"
  "Credit n m b = (Some e, b') \<Longrightarrow> b' = b" "ReverseCredit n m b = (Some e, b') \<Longrightarrow> b' = b"
  "AddAccount a b = (Some e, b') \<Longrightarrow> b' = b" "SetBalance n m b = (Some e, b') \<Longrightarrow> b' = b"
  by (auto simp: Reserve_def ReleaseReservation_def Credit_def ReverseCredit_def AddAccount_def SetBalance_def
      split: option.splits if_splits)

lemma money_route_state:
  assumes "money_route clock path = Some h"
  shows "StatusCode (fst (h j b)) = 200 \<or> snd (h j b) = b"
  using assms bank_op_errors
  by (auto simp: money_route_def handleReserve_def handleRelease_def handleCredit_def handleReverseCredit_def
      split: if_splits intro!: handle_money_state)

lemma handlePacs008_credit:
  assumes "bodyPacs008 body = Inr doc" "FromPacs008 doc = Inr d"
  shows "snd (handlePacs008 clock body b) = snd (Credit (dDestAccount d) (dAmount d) b)"
    and "StatusCode (fst (handlePacs008 clock body b)) = (if fst (Credit (dDestAccount d) (dAmount d) b) = None then 200 else 500)"
  using assms by (auto simp: handlePacs008_def writeXML_def writePacs002Error_def split: prod.splits option.splits)

lemma handlePacs008_state:
  "StatusCode (fst (handlePacs008 clock body b)) = 200 \<or> snd (handlePacs008 clock body b) = b"
  using bank_op_errors(3)
  by (auto simp: handlePacs008_def writeXML_def split: sum.splits prod.splits option.splits)

lemma admin_state:
  "StatusCode (fst (handleCreateAccount j b)) = 201 \<or> snd (handleCreateAccount j b) = b"
  "StatusCode (fst (handleSetBalance number j b)) = 200 \<or> snd (handleSetBalance number j b) = b"
  "snd (handlePacs002Callback body b) = b"
  using bank_op_errors(5,6)
  by (auto simp: handleCreateAccount_def handleSetBalance_def handlePacs002Callback_def writeJSON_def
      split: sum.splits prod.splits option.splits)

lemma post_routes_state:
  "StatusCode (fst (post_routes clock path body b)) \<in> {200, 201} \<or> snd (post_routes clock path body b) = b"
proof (cases "money_route clock path :: (json_body \<Rightarrow> BankState \<Rightarrow> xml_doc http_response \<times> BankState) option")
  case (Some h)
  then show ?thesis using money_route_state [OF Some] by (simp add: post_routes_def) blast
next
  case None
  then show ?thesis
    using admin_state(1) [of "bodyJson body" b] handlePacs008_state [of clock body b]
    by (simp add: post_routes_def admin_state(3) handleCamt003_keeps) blast
qed

lemma put_routes_state:
  "StatusCode (fst (put_routes path body b)) \<in> {200, 201} \<or> snd (put_routes path body b) = b"
  using admin_state(2) [of _ "bodyJson body" b] by (simp add: put_routes_def split: option.split) blast

lemma Server_Handler_state:
  "StatusCode (fst (Server_Handler order clock method path body b)) \<in> {200, 201} \<or>
   snd (Server_Handler order clock method path body b) = b"
  using post_routes_state [of clock path body b] put_routes_state [of path body b]
  by (simp add: Server_Handler_def)

end
