(* ===== verification/Participant.thy ===== *)
theory Participant
  imports Wire
begin

text \<open>
  Who a request comes from: the participant registry (src/internal/participant/registry.go), the
  certificate service (src/internal/certificate/service.go), the gateway's authentication middleware
  and \<^verbatim>\<open>parseCN\<close> (src/cmd/gateway/main.go), the mTLS and idempotency middleware
  (src/pkg/middleware) and the signature and replay checks (src/pkg/crypto/verify.go). SHA-256, RSA
  verification and the key-value store behind \<^verbatim>\<open>SetNX\<close> are parameters. The lemmas show that
  registered participants are found, that a common name is read back from an escaped subject, and
  that no message is accepted twice.
\<close>

section \<open>registry.go\<close>

record Participant =
  partID :: string
  partName :: string
  partBIC :: string
  partAccount :: string
  partCertHash :: string

text \<open>The map from ids is the list of its values, in the order of registration; ids are distinct
  because \<^verbatim>\<open>Register\<close> refuses a second one.\<close>

record Registry =
  regByID :: "Participant list"
  regByCertHash :: "string \<rightharpoonup> Participant"

definition NewRegistry :: Registry where
  "NewRegistry = \<lparr>regByID = [], regByCertHash = Map.empty\<rparr>"

definition Register :: "Participant \<Rightarrow> Registry \<Rightarrow> goerror option \<times> Registry" where
  "Register p r =
     (if row_by partID (partID p) (regByID r) \<noteq> None
      then (Some (ErrMsg (''participant '' @ partID p @ '' already registered'')), r)
      else (None, r\<lparr>regByID := regByID r @ [p],
                   regByCertHash := (if partCertHash p \<noteq> '''' then (regByCertHash r)(partCertHash p \<mapsto> p)
                                     else regByCertHash r)\<rparr>))"

definition Registry_GetByID :: "string \<Rightarrow> Registry \<Rightarrow> goerror + Participant" where
  "Registry_GetByID i r =
     (case row_by partID i (regByID r) of
        None \<Rightarrow> Inl (ErrMsg (''participant '' @ i @ '' not found''))
      | Some p \<Rightarrow> Inr p)"

text \<open>A certificate: its raw bytes and its public key, an RSA key or of another kind.\<close>

record 'k Certificate =
  certRaw :: string
  certPublicKey :: "'k option"

definition hex_encode :: "nat list \<Rightarrow> string" where
  "hex_encode bs = concat (map (\<lambda>b. [hex_digit (b div 16 mod 16), hex_digit (b mod 16)]) bs)"

definition Resolve :: "(string \<Rightarrow> nat list) \<Rightarrow> 'k Certificate \<Rightarrow> Registry \<Rightarrow> goerror + string" where
  "Resolve sha256 cert r =
     (case regByCertHash r (hex_encode (sha256 (certRaw cert))) of
        None \<Rightarrow> Inl (ErrMsg ''certificate not registered'')
      | Some p \<Rightarrow> Inr (partID p))"

definition GetBankForParticipant :: "string \<Rightarrow> Registry \<Rightarrow> goerror + string \<times> string" where
  "GetBankForParticipant i r =
     (case Registry_GetByID i r of Inl e \<Rightarrow> Inl e | Inr p \<Rightarrow> Inr (partBIC p, partAccount p))"

text \<open>The two lookups range over a Go map: \<open>order\<close> says in which order its values come.\<close>

definition LookupAccount :: "(Participant list \<Rightarrow> Participant list) \<Rightarrow> string \<Rightarrow> Registry \<Rightarrow> goerror + string \<times> string" where
  "LookupAccount order account r =
     (case find (\<lambda>p. partAccount p = account) (order (regByID r)) of
        Some p \<Rightarrow> Inr (partBIC p, partName p)
      | None \<Rightarrow> Inl (ErrMsg (''account '' @ account @ '' not found'')))"

definition LookupBIC :: "(Participant list \<Rightarrow> Participant list) \<Rightarrow> string \<Rightarrow> Registry \<Rightarrow> goerror + string \<times> string" where
  "LookupBIC order bic r =
     (case find (\<lambda>p. partBIC p = bic) (order (regByID r)) of
        Some p \<Rightarrow> Inr (partAccount p, partName p)
      | None \<Rightarrow> Inl (ErrMsg (''BIC '' @ bic @ '' not found'')))"

section \<open>certificate/service.go\<close>

definition RegisterParticipant ::
  "(string \<Rightarrow> nat list) \<Rightarrow> string \<Rightarrow> string \<Rightarrow> string \<Rightarrow> string \<Rightarrow> 'k Certificate \<Rightarrow> Registry \<Rightarrow> goerror option \<times> Registry" where
  "RegisterParticipant sha256 i name bic account cert r =
     Register \<lparr>partID = i, partName = name, partBIC = bic, partAccount = account,
               partCertHash = hex_encode (sha256 (certRaw cert))\<rparr> r"

definition LookupParticipant :: "string \<Rightarrow> Registry \<Rightarrow> goerror + Participant" where
  "LookupParticipant i r = Registry_GetByID i r"

section \<open>Requests and handlers\<close>

text \<open>A request as the handlers see it: header fields under their canonical names, the peer
  certificates when the connection is TLS, the values the middleware puts in its context, and a body.\<close>

record ('k, 'b) http_request =
  rqHeader :: "(string \<times> string) list"
  rqTLS :: "'k Certificate list option"
  ctxParticipant :: "string option"
  ctxIdempotencyKey :: "string option"
  rqBody :: 'b

type_synonym ('k, 'b, 'x, 'w) handler = "('k, 'b) http_request \<Rightarrow> 'w \<Rightarrow> 'x http_response \<times> 'w"

definition Header_Get :: "('k, 'b) http_request \<Rightarrow> string \<Rightarrow> string" where
  "Header_Get r key = (case map_of (rqHeader r) key of Some v \<Rightarrow> v | None \<Rightarrow> '''')"

section \<open>parseCN\<close>

fun ReplaceEscapedComma :: "string \<Rightarrow> string" where
  "ReplaceEscapedComma (a # b # s) =
     (if a = CHR 0x5C \<and> b = CHR '','' then CHR 0x00 # ReplaceEscapedComma s
      else a # ReplaceEscapedComma (b # s))"
| "ReplaceEscapedComma s = s"

fun Split_comma :: "string \<Rightarrow> string list" where
  "Split_comma [] = [[]]"
| "Split_comma (c # s) =
     (if c = CHR '','' then [] # Split_comma s
      else case Split_comma s of p # ps \<Rightarrow> (c # p) # ps | [] \<Rightarrow> [[c]])"

definition is_space :: "char \<Rightarrow> bool" where
  "is_space c \<longleftrightarrow> c = CHR '' '' \<or> (9 \<le> (of_char c :: nat) \<and> (of_char c :: nat) \<le> 13)"

definition TrimSpace :: "string \<Rightarrow> string" where
  "TrimSpace s = rev (dropWhile is_space (rev (dropWhile is_space s)))"

definition restore_commas :: "string \<Rightarrow> string" where
  "restore_commas = map (\<lambda>c. if c = CHR 0x00 then CHR '','' else c)"

definition CutPrefix_CN :: "string \<Rightarrow> string option" where
  "CutPrefix_CN s = (if take 3 s = ''CN='' then Some (drop 3 s) else None)"

fun first_CN :: "string list \<Rightarrow> string option" where
  "first_CN [] = None"
| "first_CN (p # ps) =
     (case CutPrefix_CN (TrimSpace (restore_commas p)) of Some v \<Rightarrow> Some v | None \<Rightarrow> first_CN ps)"

definition parseCN :: "string \<Rightarrow> string" where
  "parseCN subject =
     (case first_CN (Split_comma (ReplaceEscapedComma subject)) of Some v \<Rightarrow> v | None \<Rightarrow> subject)"

section \<open>Middleware\<close>

definition serve_as :: "string \<Rightarrow> ('k, 'b, 'x, 'w) handler \<Rightarrow> ('k, 'b, 'x, 'w) handler" where
  "serve_as i next r = next (r\<lparr>ctxParticipant := Some i\<rparr>)"

definition unauthorized :: "'x http_response" where
  "unauthorized = http_Error ''unauthorized'' 401"

definition tlsAuthMiddleware :: "Registry \<Rightarrow> ('k, 'b, 'x, 'w) handler \<Rightarrow> ('k, 'b, 'x, 'w) handler" where
  "tlsAuthMiddleware reg next r w =
     (let subject = Header_Get r ''X-Participant-Id''; info = Header_Get r ''X-Forwarded-Tls-Client-Cert-Info'' in
      if subject \<noteq> '''' then
        (case Registry_GetByID (parseCN subject) reg of
           Inl e \<Rightarrow> (unauthorized, w)
         | Inr p \<Rightarrow> serve_as (parseCN subject) next r w)
      else if info \<noteq> '''' then
        (case Registry_GetByID (parseCN info) reg of
           Inl e \<Rightarrow> (unauthorized, w)
         | Inr p \<Rightarrow> serve_as (parseCN info) next r w)
      else
        (case Registry_GetByID ''bank-a'' reg of
           Inl e \<Rightarrow> (unauthorized, w)
         | Inr p \<Rightarrow> serve_as (partID p) next r w))"

definition ExtractParticipant ::
  "('k Certificate \<Rightarrow> goerror + string) \<Rightarrow> ('k, 'b, 'x, 'w) handler \<Rightarrow> ('k, 'b, 'x, 'w) handler" where
  "ExtractParticipant resolve next r w =
     (case rqTLS r of
        Some (cert # _) \<Rightarrow>
          (case resolve cert of
             Inl e \<Rightarrow> (http_Error ''unknown or revoked certificate'' 401, w)
           | Inr i \<Rightarrow> serve_as i next r w)
      | _ \<Rightarrow> (http_Error ''client certificate required'' 401, w))"

text \<open>\<^verbatim>\<open>SetNX(key, value, ttl)\<close> on the state of a store: whether the key was set, or an error.\<close>

type_synonym 'w setnx = "string \<Rightarrow> string \<Rightarrow> duration \<Rightarrow> ('w, bool) call"

definition Idempotency :: "'w setnx \<Rightarrow> duration \<Rightarrow> ('k, 'b, 'x, 'w) handler \<Rightarrow> ('k, 'b, 'x, 'w) handler" where
  "Idempotency setNX ttl next r w =
     (let idemKey = Header_Get r ''Idempotency-Key'' in
      if idemKey = '''' then (http_Error ''Idempotency-Key header required'' 400, w)
      else case setNX (''idem:'' @ idemKey) ''processing'' ttl w of
             (Inl e, w') \<Rightarrow> (http_Error ''cache error'' 500, w')
           | (Inr False, w') \<Rightarrow> (http_Error ''duplicate request'' 409, w')
           | (Inr True, w') \<Rightarrow> next (r\<lparr>ctxIdempotencyKey := Some idemKey\<rparr>) w')"

section \<open>crypto/verify.go\<close>

definition ErrReplay :: goerror where
  "ErrReplay = ErrMsg ''replayed message''"

definition VerifySignature ::
  "(string \<Rightarrow> nat list) \<Rightarrow> ('k \<Rightarrow> nat list \<Rightarrow> string \<Rightarrow> goerror option) \<Rightarrow> 'k Certificate \<Rightarrow> string \<Rightarrow> string \<Rightarrow> goerror option" where
  "VerifySignature sha256 verifyPKCS1v15 cert canonicalXML signature =
     (case certPublicKey cert of
        None \<Rightarrow> Some (ErrMsg ''unsupported public key type'')
      | Some pub \<Rightarrow> verifyPKCS1v15 pub (sha256 canonicalXML) signature)"

definition nonce_key :: "string \<Rightarrow> string \<Rightarrow> string" where
  "nonce_key participantID nonce = ''nonce:'' @ participantID @ '':'' @ nonce"

definition CheckReplay :: "'w setnx \<Rightarrow> time \<Rightarrow> string \<Rightarrow> string \<Rightarrow> time \<Rightarrow> 'w \<Rightarrow> goerror option \<times> 'w" where
  "CheckReplay setNX now participantID nonce ts w =
     (if 5 * Minute < now - ts \<or> Minute < ts - now then (Some (ErrMsg ''timestamp out of window''), w)
      else case setNX (nonce_key participantID nonce) ''1'' (10 * Minute) w of
             (Inl e, w') \<Rightarrow> (Some e, w')
           | (Inr False, w') \<Rightarrow> (Some ErrReplay, w')
           | (Inr True, w') \<Rightarrow> (None, w'))"

section \<open>The gateway's participants\<close>

definition gateway_participants :: "Participant list" where
  "gateway_participants =
     [\<lparr>partID = ''bank-a'', partName = ''First National Bank'', partBIC = ''BANKUS33'', partAccount = ''ACC-A'', partCertHash = ''''\<rparr>,
      \<lparr>partID = ''bank-b'', partName = ''Deutsche Exchange Bank'', partBIC = ''BANKDEFF'', partAccount = ''ACC-B'', partCertHash = ''''\<rparr>,
      \<lparr>partID = ''bank-c'', partName = ''London Clearing Bank'', partBIC = ''BANKGB2L'', partAccount = ''ACC-C'', partCertHash = ''''\<rparr>]"

definition gateway_registry :: Registry where
  "gateway_registry = fold (\<lambda>p r. snd (Register p r)) gateway_participants NewRegistry"

section \<open>Lemmas: the registry\<close>

definition registry_wf :: "Registry \<Rightarrow> bool" where
  "registry_wf r \<longleftrightarrow> distinct (map partID (regByID r)) \<and>
     (\<forall>h p. regByCertHash r h = Some p \<longrightarrow> p \<in> set (regByID r) \<and> partCertHash p = h)"

lemma registry_wf_New: "registry_wf NewRegistry"
  by (simp add: registry_wf_def NewRegistry_def)

lemma registry_wf_Register:
  assumes "registry_wf r" "Register p r = (e, r')"
  shows "registry_wf r'"
  using assms by (auto simp: registry_wf_def Register_def row_by_None_iff split: if_splits)

lemma Register_ok:
  assumes "Register p r = (None, r')"
  shows "Registry_GetByID i r' = (if i = partID p then Inr p else Registry_GetByID i r)"
    and "partCertHash p \<noteq> '''' \<Longrightarrow> regByCertHash r' (partCertHash p) = Some p"
  using assms by (auto simp: Register_def Registry_GetByID_def split: if_splits option.splits)

lemma hex_encode_nonempty: "bs \<noteq> [] \<Longrightarrow> hex_encode bs \<noteq> ''''"
  by (cases bs) (simp_all add: hex_encode_def)

lemma Resolve_registered:
  assumes "RegisterParticipant sha256 i n b a cert r = (None, r')" "sha256 (certRaw cert) \<noteq> []"
  shows "Resolve sha256 cert r' = Inr i"
  using Register_ok(2) [OF assms(1) [unfolded RegisterParticipant_def]] hex_encode_nonempty [OF assms(2)]
  by (simp add: Resolve_def)

lemma gateway_registry_simps:
  "regByID gateway_registry = gateway_participants" "regByCertHash gateway_registry = Map.empty"
  by (simp_all add: gateway_registry_def gateway_participants_def Register_def NewRegistry_def row_by_def)

lemma find_unique:
  assumes "distinct (map f xs)" "set ys = set xs" "x \<in> set xs" "f x = k"
  shows "find (\<lambda>y. f y = k) ys = Some x"
proof (cases "find (\<lambda>y. f y = k) ys")
  case None
  then show ?thesis using assms by (auto simp: find_None_iff)
next
  case (Some y)
  then have "y \<in> set xs" "f y = k" using assms(2) by (auto simp: find_Some_iff)
  with assms have "y = x" by (auto simp: distinct_map inj_on_def)
  with Some show ?thesis by simp
qed

text \<open>A request either is refused with nothing changed, or is served as the participant it names.\<close>

lemma tlsAuthMiddleware_cases:
  assumes "tlsAuthMiddleware reg next r w = (resp, w')"
  shows "w' = w \<and> resp = unauthorized \<or>
    next (r\<lparr>ctxParticipant := Some
      (if Header_Get r ''X-Participant-Id'' \<noteq> '''' then parseCN (Header_Get r ''X-Participant-Id'')
       else if Header_Get r ''X-Forwarded-Tls-Client-Cert-Info'' \<noteq> '''' then parseCN (Header_Get r ''X-Forwarded-Tls-Client-Cert-Info'')
       else ''bank-a'')\<rparr>) w = (resp, w')"
proof -
  have "partID p = i" if "Registry_GetByID i reg = Inr p" for i p
    using that by (auto simp: Registry_GetByID_def dest: row_by_SomeD split: option.splits)
  with assms show ?thesis
    by (auto simp: tlsAuthMiddleware_def serve_as_def Let_def split: if_splits sum.splits)
qed

section \<open>Lemmas: parseCN\<close>

definition escape_commas :: "string \<Rightarrow> string" where
  "escape_commas v = concat (map (\<lambda>c. if c = CHR '','' then [CHR 0x5C, CHR '',''] else [c]) v)"

lemma ReplaceEscapedComma_Cons: "c \<noteq> CHR 0x5C \<Longrightarrow> ReplaceEscapedComma (c # s) = c # ReplaceEscapedComma s"
  by (cases s) simp_all

lemma ReplaceEscapedComma_escape:
  "CHR 0x5C \<notin> set v \<Longrightarrow>
     ReplaceEscapedComma (escape_commas v @ rest) = map (\<lambda>c. if c = CHR '','' then CHR 0x00 else c) v @ ReplaceEscapedComma rest"
  by (induction v) (auto simp: escape_commas_def ReplaceEscapedComma_Cons)

lemma Split_comma_prefix:
  assumes "CHR '','' \<notin> set xs"
  shows "Split_comma (xs @ CHR '','' # r) = xs # Split_comma r" "Split_comma xs = [xs]"
  using assms by (induction xs) auto

lemma restore_nulled:
  "CHR 0x00 \<notin> set v \<Longrightarrow> restore_commas (map (\<lambda>c. if c = CHR '','' then CHR 0x00 else c) v) = v"
  by (induction v) (auto simp: restore_commas_def)

lemma TrimSpace_CN: "v = [] \<or> \<not> is_space (last v) \<Longrightarrow> TrimSpace (''CN='' @ v) = ''CN='' @ v"
  by (cases v rule: rev_cases) (auto simp: TrimSpace_def is_space_def)

lemma parseCN_escaped:
  assumes "CHR 0x5C \<notin> set v" "CHR 0x00 \<notin> set v" "v = [] \<or> \<not> is_space (last v)"
    and "rest = [] \<or> hd rest = CHR '',''"
  shows "parseCN (''CN='' @ escape_commas v @ rest) = v"
proof -
  let ?n = "map (\<lambda>c. if c = CHR '','' then CHR 0x00 else c) v"
  have c: "CHR '','' \<notin> set (''CN='' @ ?n)" by auto
  have r: "ReplaceEscapedComma (''CN='' @ escape_commas v @ rest) = ''CN='' @ ?n @ ReplaceEscapedComma rest"
    using ReplaceEscapedComma_escape [OF assms(1), of rest] by (simp add: ReplaceEscapedComma_Cons)
  have "\<exists>ps. Split_comma (''CN='' @ ?n @ ReplaceEscapedComma rest) = (''CN='' @ ?n) # ps"
  proof (cases rest)
    case Nil
    then show ?thesis using Split_comma_prefix(2) [OF c] by simp
  next
    case (Cons x xs)
    then show ?thesis using Split_comma_prefix(1) [OF c] assms(4) by (simp add: ReplaceEscapedComma_Cons)
  qed
  then obtain ps where p: "Split_comma (''CN='' @ ?n @ ReplaceEscapedComma rest) = (''CN='' @ ?n) # ps" ..
  have "restore_commas (''CN='' @ ?n) = ''CN='' @ v"
    using restore_nulled [OF assms(2)] by (simp add: restore_commas_def)
  then have "CutPrefix_CN (TrimSpace (restore_commas (''CN='' @ ?n))) = Some v"
    using TrimSpace_CN [OF assms(3)] by (simp only: CutPrefix_CN_def) simp
  then show ?thesis unfolding parseCN_def r p by (simp only: first_CN.simps option.case)
qed

section \<open>Lemmas: stores that set a key once\<close>

text \<open>What \<^verbatim>\<open>SetNX\<close> promises: a key that is not held is set until \<open>ttl\<close> after the
  store's clock, a held key is reported as such, and an error changes nothing.\<close>

definition setnx_contract :: "'w setnx \<Rightarrow> ('w \<Rightarrow> time) \<Rightarrow> ('w \<Rightarrow> string \<Rightarrow> time option) \<Rightarrow> bool" where
  "setnx_contract setNX clock expiry \<longleftrightarrow>
     (\<forall>key v ttl w r w'. setNX key v ttl w = (r, w') \<longrightarrow> clock w' = clock w \<and>
        (case r of
           Inl e \<Rightarrow> expiry w' = expiry w
         | Inr b \<Rightarrow>
             (b \<longleftrightarrow> (case expiry w key of None \<Rightarrow> True | Some t \<Rightarrow> t \<le> clock w)) \<and>
             expiry w' = (if b then (expiry w)(key \<mapsto> clock w + ttl) else expiry w)))"

lemma setnx_contractD:
  assumes "setnx_contract setNX clock expiry" "setNX key v ttl w = (Inr b, w')"
  shows "clock w' = clock w" "b \<longleftrightarrow> (case expiry w key of None \<Rightarrow> True | Some t \<Rightarrow> t \<le> clock w)"
    "expiry w' = (if b then (expiry w)(key \<mapsto> clock w + ttl) else expiry w)"
  using assms unfolding setnx_contract_def by force+

lemma CheckReplay_once:
  assumes c: "setnx_contract setNX clock expiry"
    and a: "CheckReplay setNX (clock w) i nonce ts w = (None, w1)"
    and "clock w \<le> clock w2" "expiry w2 (nonce_key i nonce) = expiry w1 (nonce_key i nonce)"
  shows "\<exists>e w3. CheckReplay setNX (clock w2) i nonce ts w2 = (Some e, w3)"
proof -
  let ?k = "nonce_key i nonce"
  obtain r w' where s: "setNX ?k ''1'' (10 * Minute) w = (r, w')" by fastforce
  then have ok: "r = Inr True" "w' = w1" and t: "\<not> Minute < ts - clock w"
    using a by (auto simp: CheckReplay_def split: if_splits sum.splits bool.splits)
  have "expiry w2 ?k = Some (clock w + 10 * Minute)"
    using setnx_contractD(3) [OF c s [unfolded ok]] assms(4) by simp
  moreover have "clock w + 10 * Minute \<le> clock w2 \<Longrightarrow> 5 * Minute < clock w2 - ts"
    using t by (simp add: Minute_def Second_def)
  moreover obtain r2 w3 where s2: "setNX ?k ''1'' (10 * Minute) w2 = (r2, w3)" by fastforce
  moreover have "r2 \<noteq> Inr True" if "expiry w2 ?k = Some (clock w + 10 * Minute)" "\<not> clock w + 10 * Minute \<le> clock w2"
    using setnx_contractD(2) [OF c, of ?k "''1''" "10 * Minute" w2 True w3] s2 that by auto
  ultimately show ?thesis
    by (auto simp: CheckReplay_def split: sum.splits bool.splits)
qed

lemma Idempotency_once:
  assumes c: "setnx_contract setNX clock expiry" and h: "Header_Get r ''Idempotency-Key'' = k" "k \<noteq> ''''"
    and "expiry w (''idem:'' @ k) = Some t" "clock w < t"
  shows "\<exists>e w'. Idempotency setNX ttl next r w = (e, w') \<and> StatusCode e \<in> {409, 500} \<and> expiry w' = expiry w"
proof -
  obtain x w' where s: "setNX (''idem:'' @ k) ''processing'' ttl w = (x, w')" by fastforce
  have n: "x \<noteq> Inr True" using setnx_contractD(2) [OF c, of _ _ ttl w True w'] s assms(4,5) by fastforce
  have "expiry w' = expiry w"
    using c s n unfolding setnx_contract_def by (cases x) force+
  then show ?thesis using s h n
    by (auto simp: Idempotency_def http_Error_def split: sum.splits bool.splits)
qed

text \<open>A store in memory that keeps the contract.\<close>

record memstore =
  msClock :: time
  msKeys :: "string \<rightharpoonup> time"

definition mem_setnx :: "memstore setnx" where
  "mem_setnx key v ttl s =
     (case msKeys s key of
        Some t \<Rightarrow> if t \<le> msClock s then (Inr True, s\<lparr>msKeys := (msKeys s)(key \<mapsto> msClock s + ttl)\<rparr>) else (Inr False, s)
      | None \<Rightarrow> (Inr True, s\<lparr>msKeys := (msKeys s)(key \<mapsto> msClock s + ttl)\<rparr>))"

lemma mem_setnx_contract: "setnx_contract mem_setnx msClock msKeys"
  by (auto simp: setnx_contract_def mem_setnx_def split: option.splits if_splits)

end
