(* ===== verification/Gateway.thy ===== *)
theory Gateway
  imports BankServer Participant SwitchRuns
begin

text \<open>
  The gateway's HTTP interface (src/internal/gateway/handler.go): submitting a payment as JSON or as
  a pacs.008 message, running its saga in the background and reporting the outcome by callback,
  reading a payment back, looking an account up, and the health check. The handlers work on a state
  that pairs the switch with the payments handed to background goroutines. What a handler reads from
  outside the program, fresh UUIDs and the clock, is a parameter.
\<close>

section \<open>Requests and responses\<close>

record PaymentRequest =
  rqEndToEndID :: string
  rqDestinationBIC :: string
  rqDestAccount :: string
  rqAmount :: int64
  rqCurrency :: string
  rqUETR :: string
  rqInstructionID :: string
  rqChargeBearer :: string
  rqSettlementDate :: string
  rqDebtorName :: string
  rqCreditorName :: string
  rqPurposeCode :: string
  rqRemittanceInfo :: string

definition paymentRequest_zero :: PaymentRequest where
  "paymentRequest_zero =
     \<lparr>rqEndToEndID = '''', rqDestinationBIC = '''', rqDestAccount = '''', rqAmount = 0, rqCurrency = '''',
      rqUETR = '''', rqInstructionID = '''', rqChargeBearer = '''', rqSettlementDate = '''', rqDebtorName = '''',
      rqCreditorName = '''', rqPurposeCode = '''', rqRemittanceInfo = ''''\<rparr>"

definition set_field :: "string \<Rightarrow> json \<Rightarrow> string \<Rightarrow> (string \<Rightarrow> PaymentRequest) \<Rightarrow> PaymentRequest \<times> goerror option" where
  "set_field name v old upd =
     (case set_string (''PaymentRequest.'' @ name) v old of (s, e) \<Rightarrow> (upd s, e))"

definition paymentRequest_set :: "string \<Rightarrow> json \<Rightarrow> PaymentRequest \<Rightarrow> PaymentRequest \<times> goerror option" where
  "paymentRequest_set k v r =
     (if k = ''end_to_end_id'' then set_field k v (rqEndToEndID r) (\<lambda>s. r\<lparr>rqEndToEndID := s\<rparr>)
      else if k = ''destination_bic'' then set_field k v (rqDestinationBIC r) (\<lambda>s. r\<lparr>rqDestinationBIC := s\<rparr>)
      else if k = ''dest_account'' then set_field k v (rqDestAccount r) (\<lambda>s. r\<lparr>rqDestAccount := s\<rparr>)
      else if k = ''amount'' then
        (case set_int64 ''PaymentRequest.amount'' v (rqAmount r) of (i, e) \<Rightarrow> (r\<lparr>rqAmount := i\<rparr>, e))
      else if k = ''currency'' then set_field k v (rqCurrency r) (\<lambda>s. r\<lparr>rqCurrency := s\<rparr>)
      else if k = ''uetr'' then set_field k v (rqUETR r) (\<lambda>s. r\<lparr>rqUETR := s\<rparr>)
      else if k = ''instruction_id'' then set_field k v (rqInstructionID r) (\<lambda>s. r\<lparr>rqInstructionID := s\<rparr>)
      else if k = ''charge_bearer'' then set_field k v (rqChargeBearer r) (\<lambda>s. r\<lparr>rqChargeBearer := s\<rparr>)
      else if k = ''settlement_date'' then set_field k v (rqSettlementDate r) (\<lambda>s. r\<lparr>rqSettlementDate := s\<rparr>)
      else if k = ''debtor_name'' then set_field k v (rqDebtorName r) (\<lambda>s. r\<lparr>rqDebtorName := s\<rparr>)
      else if k = ''creditor_name'' then set_field k v (rqCreditorName r) (\<lambda>s. r\<lparr>rqCreditorName := s\<rparr>)
      else if k = ''purpose_code'' then set_field k v (rqPurposeCode r) (\<lambda>s. r\<lparr>rqPurposeCode := s\<rparr>)
      else if k = ''remittance_info'' then set_field k v (rqRemittanceInfo r) (\<lambda>s. r\<lparr>rqRemittanceInfo := s\<rparr>)
      else (r, None))"

record PaymentResponse =
  psID :: string
  psUETR :: string
  psInstructionID :: string
  psEndToEndID :: string
  psStatus :: PaymentStatus
  psISOStatus :: string
  psAmount :: int64
  psCurrency :: string
  psDebtorName :: string
  psCreditorName :: string
  psPurposeCode :: string
  psRemittanceInfo :: string
  psCreatedAt :: time

definition response_json :: "PaymentResponse \<Rightarrow> json" where
  "response_json r =
     JObj ([(''id'', JStr (psID r)), (''uetr'', JStr (psUETR r)), (''instruction_id'', JStr (psInstructionID r)),
            (''end_to_end_id'', JStr (psEndToEndID r)), (''status'', JStr (psStatus r)),
            (''iso_status'', JStr (psISOStatus r)), (''amount'', JInt (sint (psAmount r))),
            (''currency'', JStr (psCurrency r))] @
           omitempty ''debtor_name'' (psDebtorName r) @ omitempty ''creditor_name'' (psCreditorName r) @
           omitempty ''purpose_code'' (psPurposeCode r) @ omitempty ''remittance_info'' (psRemittanceInfo r) @
           [(''created_at'', JStr (Format_RFC3339Nano (utc (psCreatedAt r))))])"

definition toResponse :: "Payment \<Rightarrow> PaymentResponse" where
  "toResponse p =
     \<lparr>psID = pID p, psUETR = pUETR p, psInstructionID = pInstrID p, psEndToEndID = pEndToEndID p,
      psStatus = pStatus p, psISOStatus = DomainStatusToISO (pStatus p), psAmount = pAmount p,
      psCurrency = pCurrency p, psDebtorName = pDebtorName p, psCreditorName = pCreditorName p,
      psPurposeCode = pPurposeCode p, psRemittanceInfo = pRemittanceInfo p, psCreatedAt = pCreatedAt p\<rparr>"

section \<open>The handler and its state\<close>

text \<open>The statements the handler sends to the pool itself. The saga, whose counter of completed
  steps a run changes, is not a field of the record: a background run takes and returns it.\<close>

record 'w pool =
  poolPing :: "'w \<Rightarrow> goerror option \<times> 'w"
  poolSetAbortReason :: "string \<Rightarrow> string \<Rightarrow> 'w \<Rightarrow> goerror option \<times> 'w"
  poolCallbackURL :: "string \<Rightarrow> ('w, string) call"

record 'w Handler =
  hRepo :: "'w PaymentRepository"
  hResolver :: Registry
  hPool :: "'w pool option"
  hChecks :: "(string \<times> ('w \<Rightarrow> goerror option \<times> 'w)) list"

definition NewHandler :: "'w PaymentRepository \<Rightarrow> Registry \<Rightarrow> 'w Handler" where
  "NewHandler repo resolver = \<lparr>hRepo = repo, hResolver = resolver, hPool = None, hChecks = []\<rparr>"

definition AddPool :: "'w pool \<Rightarrow> 'w Handler \<Rightarrow> 'w Handler" where
  "AddPool pl h = h\<lparr>hPool := Some pl\<rparr>"

definition AddHealthCheck :: "string \<Rightarrow> ('w \<Rightarrow> goerror option \<times> 'w) \<Rightarrow> 'w Handler \<Rightarrow> 'w Handler" where
  "AddHealthCheck name f h = h\<lparr>hChecks := hChecks h @ [(name, f)]\<rparr>"

record 'w gw =
  gwWorld :: 'w
  gwSpawned :: "Payment list"

record gw_env =
  geUETR :: string
  geID :: string
  geErrID :: string
  geNow :: time

type_synonym gw_request = "(unit, request_body) http_request"
type_synonym 'w gw_handler = "(unit, request_body, xml_doc, 'w gw) handler"

section \<open>healthz\<close>

definition status_json :: "(string \<times> string) list \<Rightarrow> json" where
  "status_json kvs = JObj (map (\<lambda>(k, v). (k, JStr v)) kvs)"

fun run_checks :: "(string \<times> ('w \<Rightarrow> goerror option \<times> 'w)) list \<Rightarrow> 'w \<Rightarrow> 'x http_response \<times> 'w" where
  "run_checks [] w = (writeJSON 200 (status_json [(''status'', ''ok'')]), w)"
| "run_checks ((name, f) # cs) w =
     (case f w of
        (Some e, w') \<Rightarrow>
          (writeJSON 503 (status_json [(''error'', name @ '': '' @ Error e), (''status'', ''unhealthy'')]), w')
      | (None, w') \<Rightarrow> run_checks cs w')"

definition healthz :: "'w Handler \<Rightarrow> 'w \<Rightarrow> 'x http_response \<times> 'w" where
  "healthz h w =
     (case hPool h of
        None \<Rightarrow> run_checks (hChecks h) w
      | Some pl \<Rightarrow>
          (case poolPing pl w of
             (Some e, w') \<Rightarrow>
               (writeJSON 503 (status_json [(''error'', ''database unreachable''), (''status'', ''unhealthy'')]), w')
           | (None, w') \<Rightarrow> run_checks (hChecks h) w'))"

section \<open>Building a payment\<close>

definition buildPayment :: "gw_env \<Rightarrow> PaymentRequest \<Rightarrow> string \<Rightarrow> string \<Rightarrow> Payment" where
  "buildPayment env req sourceBIC sourceAccount =
     (let uetr = (if rqUETR req = '''' then geUETR env else rqUETR req);
          i = geID env;
          instrID = (if rqInstructionID req = '''' then i else rqInstructionID req);
          chargeBearer = (if rqChargeBearer req = '''' then ''SLEV'' else rqChargeBearer req);
          parsed = (if rqSettlementDate req \<noteq> ''''
                    then (case Parse_date (rqSettlementDate req) of Some t \<Rightarrow> instant t | None \<Rightarrow> 0) else 0);
          sttlmDate = (if IsZero parsed then Truncate (geNow env) (24 * Hour) else parsed)
      in zero_payment\<lparr>pID := i, pEndToEndID := rqEndToEndID req, pSourceBIC := sourceBIC,
           pDestinationBIC := rqDestinationBIC req, pSourceAccount := sourceAccount,
           pDestAccount := rqDestAccount req, pAmount := rqAmount req, pCurrency := rqCurrency req,
           pStatus := StatusReceived, pUETR := uetr, pInstrID := instrID, pChargeBearer := chargeBearer,
           pSettlementDate := sttlmDate, pDebtorName := rqDebtorName req, pCreditorName := rqCreditorName req,
           pPurposeCode := rqPurposeCode req, pRemittanceInfo := rqRemittanceInfo req\<rparr>)"

definition parseJSON :: "gw_env \<Rightarrow> request_body \<Rightarrow> string \<Rightarrow> string \<Rightarrow> goerror + Payment" where
  "parseJSON env body sourceBIC sourceAccount =
     (case Decode ''gateway.PaymentRequest'' paymentRequest_set paymentRequest_zero (bodyJson body) of
        Inl e \<Rightarrow> Inl e
      | Inr req \<Rightarrow> Inr (buildPayment env req sourceBIC sourceAccount))"

definition request_of_data :: "PaymentData \<Rightarrow> PaymentRequest" where
  "request_of_data d =
     \<lparr>rqEndToEndID = dEndToEndID d, rqDestinationBIC = dDestBIC d, rqDestAccount = dDestAccount d,
      rqAmount = dAmount d, rqCurrency = dCurrency d, rqUETR = dUETR d, rqInstructionID = dInstrID d,
      rqChargeBearer = dChargeBearer d,
      rqSettlementDate = (if IsZero (instant (dSettlementDate d)) then '''' else Format_date (dSettlementDate d)),
      rqDebtorName = dDebtorName d, rqCreditorName = dCreditorName d, rqPurposeCode = dPurposeCode d,
      rqRemittanceInfo = dRemittanceInfo d\<rparr>"

definition parsePacs008 :: "gw_env \<Rightarrow> request_body \<Rightarrow> string \<Rightarrow> string \<Rightarrow> goerror + Payment" where
  "parsePacs008 env body sourceBIC sourceAccount =
     (case bodyPacs008 body of
        Inl e \<Rightarrow> Inl e
      | Inr doc \<Rightarrow>
          (case FromPacs008 doc of
             Inl e \<Rightarrow> Inl e
           | Inr d \<Rightarrow> Inr (buildPayment env (request_of_data d) sourceBIC sourceAccount)))"

section \<open>Writing answers\<close>

definition data_of_payment :: "Payment \<Rightarrow> PaymentData" where
  "data_of_payment p =
     \<lparr>dID = pID p, dEndToEndID = pEndToEndID p, dUETR = pUETR p, dInstrID = pInstrID p,
      dSourceBIC = pSourceBIC p, dDestBIC = pDestinationBIC p, dSourceAccount = '''', dDestAccount = '''',
      dDebtorName = pDebtorName p, dCreditorName = pCreditorName p, dAmount = pAmount p, dCurrency = pCurrency p,
      dChargeBearer = pChargeBearer p, dSettlementDate = utc (pSettlementDate p), dPurposeCode = pPurposeCode p,
      dRemittanceInfo = pRemittanceInfo p, dStatus = pStatus p, dCreatedAt = utc (pCreatedAt p)\<rparr>"

definition status_report :: "time \<Rightarrow> Payment \<Rightarrow> DocumentPacs002" where
  "status_report now p = ToPacs002 now (''STS-'' @ pID p) (data_of_payment p)"

definition writePacs002 :: "time \<Rightarrow> Payment \<Rightarrow> int \<Rightarrow> xml_doc http_response" where
  "writePacs002 now p code = writeXML code (Pacs002Doc (status_report now p))"

definition writePacs002BadRequestError :: "gw_env \<Rightarrow> string \<Rightarrow> int \<Rightarrow> xml_doc http_response" where
  "writePacs002BadRequestError env errMsg code =
     writeXML code (Pacs002Doc
       \<lparr>d2XMLNS = NamespacePacs002,
        d2FIToFIPmtStsRpt =
          \<lparr>rpGrpHdr = \<lparr>g2MsgID = ''ERR-'' @ geErrID env, g2CreDtTm = Format_RFC3339 (utc (geNow env))\<rparr>,
           rpTxInfAndSts =
             [\<lparr>tsOrgnlInstrID = '''', tsOrgnlEndToEndID = '''', tsOrgnlTxID = '''', tsTxSts = IsoRejected,
               tsStsRsnInf = Some \<lparr>srsRsn = \<lparr>srcCd = ReasonNoInstruction\<rparr>, srsAddtlInf = errMsg\<rparr>\<rparr>]\<rparr>\<rparr>)"

definition json_error_text :: "string \<Rightarrow> string" where
  "json_error_text msg = ''{'' @ [CHR 0x22] @ ''error'' @ [CHR 0x22] @ '':'' @ [CHR 0x22] @ msg @ [CHR 0x22] @ ''}''"

text \<open>An error in the format of the request.\<close>

definition request_error :: "gw_env \<Rightarrow> bool \<Rightarrow> string \<Rightarrow> int \<Rightarrow> xml_doc http_response" where
  "request_error env isXML msg code =
     (if isXML then writePacs002BadRequestError env msg code else http_Error (json_error_text msg) code)"

definition is_xml :: "string \<Rightarrow> bool" where
  "is_xml ct \<longleftrightarrow> Contains ct ''application/xml''"

section \<open>SubmitPayment\<close>

definition persist_error :: "gw_env \<Rightarrow> bool \<Rightarrow> goerror \<Rightarrow> xml_doc http_response" where
  "persist_error env isXML err =
     (let (status, message) =
        (if AsPgCode err = Some ''23505'' then (409, ''a payment with this end-to-end ID already exists'')
         else (500, Error err))
      in if isXML then writePacs002BadRequestError env message status else writeJSON status (jerror message))"

definition accepted :: "gw_env \<Rightarrow> bool \<Rightarrow> Payment \<Rightarrow> xml_doc http_response" where
  "accepted env isXML p =
     (if isXML then writePacs002 (geNow env) p 202
      else writeJSON 202 (status_json [(''id'', pID p), (''iso_status'', ''RCVD''), (''status'', ''RECEIVED'')]))"

definition SubmitPayment :: "'w Handler \<Rightarrow> gw_env \<Rightarrow> 'w gw_handler" where
  "SubmitPayment h env r g =
     (let ct = Header_Get r ''Content-Type''; isXML = is_xml ct in
      case ctxParticipant r of
        None \<Rightarrow> (request_error env isXML ''participant identity required'' 401, g)
      | Some participantID \<Rightarrow>
          (case GetBankForParticipant participantID (hResolver h) of
             Inl e \<Rightarrow> (request_error env isXML ''unknown participant'' 401, g)
           | Inr (sourceBIC, sourceAccount) \<Rightarrow>
               (case (if isXML then parsePacs008 env (rqBody r) sourceBIC sourceAccount
                      else parseJSON env (rqBody r) sourceBIC sourceAccount) of
                  Inl err \<Rightarrow> (request_error env isXML (Error err) 400, g)
                | Inr payment \<Rightarrow>
                    (case repoCreateWithEvent (hRepo h) payment (gwWorld g) of
                       (Some err, payment', w') \<Rightarrow> (persist_error env isXML err, g\<lparr>gwWorld := w'\<rparr>)
                     | (None, payment', w') \<Rightarrow>
                         (accepted env isXML payment',
                          g\<lparr>gwWorld := w', gwSpawned := gwSpawned g @ [payment']\<rparr>)))))"

section \<open>processPaymentAsync\<close>

text \<open>The outgoing side of the callback: whether the URL makes a request, and posting the document.\<close>

record 'w callback_http =
  cbNewRequest :: "string \<Rightarrow> goerror option"
  cbPost :: "string \<Rightarrow> DocumentPacs002 \<Rightarrow> ('w, int) call"

definition getCallbackURL :: "'w pool \<Rightarrow> string \<Rightarrow> ('w, string) call" where
  "getCallbackURL pl bic w =
     (case poolCallbackURL pl bic w of
        (Inl e, w') \<Rightarrow> if IsNoRows e then (Inr '''', w') else (Inl e, w')
      | (Inr url, w') \<Rightarrow> (Inr url, w'))"

text \<open>The answer of the callback is only logged.\<close>

definition sendCallback :: "'w callback_http \<Rightarrow> time \<Rightarrow> string \<Rightarrow> Payment \<Rightarrow> 'w \<Rightarrow> 'w" where
  "sendCallback cb now url p w =
     (case cbNewRequest cb url of
        Some e \<Rightarrow> w
      | None \<Rightarrow> (case cbPost cb url (status_report now p) w of (_, w') \<Rightarrow> w'))"

definition record_abort :: "'w pool option \<Rightarrow> goerror option \<Rightarrow> Payment \<Rightarrow> 'w \<Rightarrow> 'w" where
  "record_abort plo err p w =
     (case (err, plo) of
        (Some e, Some pl) \<Rightarrow> (case poolSetAbortReason pl (Error e) (pID p) w of (_, w') \<Rightarrow> w')
      | _ \<Rightarrow> w)"

definition report_outcome :: "'w pool option \<Rightarrow> 'w callback_http \<Rightarrow> time \<Rightarrow> Payment \<Rightarrow> 'w \<Rightarrow> 'w" where
  "report_outcome plo cb now p w =
     (case plo of
        None \<Rightarrow> w
      | Some pl \<Rightarrow>
          (case getCallbackURL pl (pSourceBIC p) w of
             (Inl e, w') \<Rightarrow> w'
           | (Inr url, w') \<Rightarrow> if url = '''' then w' else sendCallback cb now url p w'))"

definition processPaymentAsync ::
  "'w Handler \<Rightarrow> 'w callback_http \<Rightarrow> time \<Rightarrow> 'w Saga \<Rightarrow> Payment \<Rightarrow> 'w \<Rightarrow> 'w Saga \<times> Payment \<times> 'w" where
  "processPaymentAsync h cb now s p w =
     (case Run s p w of
        (err, s', p', w1) \<Rightarrow> (s', p', report_outcome (hPool h) cb now p' (record_abort (hPool h) err p' w1)))"

section \<open>GetPayment\<close>

definition GetPayment :: "'w Handler \<Rightarrow> time \<Rightarrow> string \<Rightarrow> 'w gw_handler" where
  "GetPayment h now i r g =
     (case repoGetByID (hRepo h) i (gwWorld g) of
        (Inr (Some p), w') \<Rightarrow>
          (if is_xml (Header_Get r ''Accept'') then writePacs002 now p 200
           else writeJSON 200 (response_json (toResponse p)), g\<lparr>gwWorld := w'\<rparr>)
      | (_, w') \<Rightarrow> (http_Error (json_error_text ''payment not found'') 404, g\<lparr>gwWorld := w'\<rparr>))"

section \<open>AccountLookup\<close>

definition writeCamt004 :: "time \<Rightarrow> string \<Rightarrow> string \<Rightarrow> string \<Rightarrow> xml_doc http_response" where
  "writeCamt004 now accountNumber bankName bic =
     writeXML 200 (Camt004Doc
       \<lparr>drXMLNS = NamespaceCamt003,
        drAcctRpt =
          \<lparr>arMsgHdr = \<lparr>mhMsgID = ''ACCT-'' @ accountNumber, mhCreDtTm = Format_RFC3339 (utc now)\<rparr>,
           arRptOrErr =
             \<lparr>roAcctRpt = [\<lparr>raAcctId = generic_account accountNumber, raNm = bankName, raTp = '''', raCcy = ''USD'',
                            raLglNm = bic\<rparr>],
              roOprlErr = None\<rparr>\<rparr>\<rparr>)"

definition writeCamt004Error :: "time \<Rightarrow> string \<Rightarrow> string \<Rightarrow> int \<Rightarrow> xml_doc http_response" where
  "writeCamt004Error now accountNumber reason code =
     writeXML code (Camt004Doc
       \<lparr>drXMLNS = NamespaceCamt003,
        drAcctRpt =
          \<lparr>arMsgHdr = \<lparr>mhMsgID = ''ERR-'' @ accountNumber, mhCreDtTm = Format_RFC3339 (utc now)\<rparr>,
           arRptOrErr =
             \<lparr>roAcctRpt = [],
              roOprlErr = Some \<lparr>oePrtry = \<lparr>peCd = ReasonNotFound, peIssr = ''SWITCH''\<rparr>, oeDesc = reason\<rparr>\<rparr>\<rparr>\<rparr>)"

definition account_number_set :: "string \<Rightarrow> json \<Rightarrow> string \<Rightarrow> string \<times> goerror option" where
  "account_number_set k v old = (if k = ''account_number'' then set_string ''.account_number'' v old else (old, None))"

definition lookup_error :: "time \<Rightarrow> bool \<Rightarrow> string \<Rightarrow> string \<Rightarrow> int \<Rightarrow> xml_doc http_response" where
  "lookup_error now isXML account reason code =
     (if isXML then writeCamt004Error now account reason code else http_Error (json_error_text reason) code)"

text \<open>The account a request asks about, or the answer that refuses it.\<close>

definition requested_account :: "time \<Rightarrow> bool \<Rightarrow> request_body \<Rightarrow> xml_doc http_response + string" where
  "requested_account now isXML body =
     (if isXML then
        (case bodyCamt003 body of
           Inl e \<Rightarrow> Inl (writeCamt004Error now '''' ''invalid camt.003 XML'' 400)
         | Inr doc \<Rightarrow>
             (case queried_account doc of
                None \<Rightarrow> Inl (writeCamt004Error now '''' ''account identifier not found in camt.003'' 400)
              | Some a \<Rightarrow> Inr a))
      else
        (case Decode ''struct { AccountNumber string }'' account_number_set '''' (bodyJson body) of
           Inl e \<Rightarrow> Inl (http_Error (json_error_text ''invalid JSON'') 400)
         | Inr a \<Rightarrow> Inr a))"

definition lookup_json :: "string \<Rightarrow> string \<Rightarrow> string \<Rightarrow> json" where
  "lookup_json account bankName bic =
     JObj [(''account_number'', JStr account), (''bank_name'', JStr bankName), (''bic'', JStr bic), (''currency'', JStr ''USD'')]"

definition AccountLookup :: "'w Handler \<Rightarrow> (Participant list \<Rightarrow> Participant list) \<Rightarrow> time \<Rightarrow> 'w gw_handler" where
  "AccountLookup h order now r g =
     (let isXML = is_xml (Header_Get r ''Content-Type'') in
      case requested_account now isXML (rqBody r) of
        Inl resp \<Rightarrow> (resp, g)
      | Inr account \<Rightarrow>
          if account = '''' then (lookup_error now isXML '''' ''account_number is required'' 400, g)
          else (case LookupAccount order account (hResolver h) of
                  Inl e \<Rightarrow> (lookup_error now isXML account ''account not found'' 404, g)
                | Inr (bic, bankName) \<Rightarrow>
                    (if is_xml (Header_Get r ''Accept'') then writeCamt004 now account bankName bic
                     else writeJSON 200 (lookup_json account bankName bic), g)))"

section \<open>The gateway process\<close>

definition pg_set_abort_reason :: "string \<Rightarrow> string \<Rightarrow> pg \<Rightarrow> goerror option \<times> pg" where
  "pg_set_abort_reason reason pid s =
     (case stmt (\<lambda>s. (Inr (), s\<lparr>txview_tbl := upd_where (\<lambda>v. tvPaymentID v = pid)
                              (\<lambda>v. v\<lparr>tvAbortReason := Some reason\<rparr>) (txview_tbl s)\<rparr>)) s of
        (r, s') \<Rightarrow> (err_of r, s'))"

definition pg_callback_url :: "string \<Rightarrow> (pg, string) call" where
  "pg_callback_url bic = stmt (\<lambda>s.
     (case row_by bBic bic (bank_tbl s) of
        None \<Rightarrow> (Inl ErrNoRows, s)
      | Some b \<Rightarrow> (Inr (coalesce (bCallbackUrl b)), s)))"

definition pg_ping :: "pg \<Rightarrow> goerror option \<times> pg" where
  "pg_ping s = (case stmt (okE ()) s of (r, s') \<Rightarrow> (err_of r, s'))"

definition switch_pool :: "switch pool" where
  "switch_pool =
     \<lparr>poolPing = lift swPg swPg_update pg_ping,
      poolSetAbortReason = (\<lambda>reason pid. lift swPg swPg_update (pg_set_abort_reason reason pid)),
      poolCallbackURL = (\<lambda>bic. lift swPg swPg_update (pg_callback_url bic))\<rparr>"

definition gateway_handler :: "switch Handler" where
  "gateway_handler = AddPool switch_pool (NewHandler (lift_repo swPg swPg_update pg_repo) gateway_registry)"

text \<open>\<^verbatim>\<open>Register\<close> and the middleware of \<^verbatim>\<open>main\<close>; the metrics middleware only counts.\<close>

definition gateway_path :: "string \<Rightarrow> bool" where
  "gateway_path path \<longleftrightarrow>
     path \<in> {''/healthz'', ''/payments'', ''/payments/lookup''} \<or> path_param ''/payments/'' '''' path \<noteq> None"

definition gateway_routes ::
  "'w Handler \<Rightarrow> (Participant list \<Rightarrow> Participant list) \<Rightarrow> gw_env \<Rightarrow> string \<Rightarrow> string \<Rightarrow> 'w gw_handler" where
  "gateway_routes h order env method path r g =
     (if method = ''GET'' \<and> path = ''/healthz'' then
        (case healthz h (gwWorld g) of (resp, w') \<Rightarrow> (resp, g\<lparr>gwWorld := w'\<rparr>))
      else if method = ''POST'' \<and> path = ''/payments'' then SubmitPayment h env r g
      else if method = ''POST'' \<and> path = ''/payments/lookup'' then AccountLookup h order (geNow env) r g
      else if method = ''GET'' then
        (case path_param ''/payments/'' '''' path of
           Some i \<Rightarrow> GetPayment h (geNow env) i r g
         | None \<Rightarrow> (unrouted method (gateway_path path), g))
      else (unrouted method (gateway_path path), g))"

definition gateway_http ::
  "'w Handler \<Rightarrow> (Participant list \<Rightarrow> Participant list) \<Rightarrow> gw_env \<Rightarrow> string \<Rightarrow> string \<Rightarrow> 'w gw_handler" where
  "gateway_http h order env method path = tlsAuthMiddleware (hResolver h) (gateway_routes h order env method path)"

section \<open>Lemmas: what is stored is read back\<close>

definition storable :: "Payment \<Rightarrow> bool" where
  "storable p \<longleftrightarrow> length (pCurrency p) = 3 \<and> length (pChargeBearer p) \<in> {0, 4} \<and> length (pPurposeCode p) \<in> {0, 4} \<and>
     pSettlementDate p mod (24 * Hour) = 0 \<and> scast (ucast (pRouteEstimatedMs p) :: int32) = pRouteEstimatedMs p \<and>
     pQuoteID p = None \<and> pReservedAt p = None \<and> pExpiresAt p = None"

lemma bpchar_exact: "length s = n \<Longrightarrow> bpchar n s = Some s"
  by (simp add: bpchar_def)

lemma text_round_trip: "opt_or '''' (textOrNull s) = s"
  by (simp add: opt_or_def textOrNull_def)

lemma char4_round_trip: "length s \<in> {0, 4} \<Longrightarrow> bpchar_null 4 (textOrNull s) = Some (textOrNull s)"
  by (auto simp: bpchar_null_def textOrNull_def bpchar_exact)

lemma date_round_trip: "t mod (24 * Hour) = 0 \<Longrightarrow> opt_or 0 (map_option pg_date (dateOrNull t)) = t"
  by (auto simp: opt_or_def dateOrNull_def IsZero_def pg_date_def Truncate_def)

lemma stored_round_trip:
  assumes "insert_row t (create_params p) = Some row" "storable p"
  shows "mapFromSQLC row = p\<lparr>pCreatedAt := t, pUpdatedAt := t\<rparr>" "mapToDomain row p = p\<lparr>pCreatedAt := t, pUpdatedAt := t\<rparr>"
proof -
  from assms have row: "row = \<lparr>rID = pID p, rEndToEndID = pEndToEndID p, rSourceBic = pSourceBIC p,
      rDestinationBic = pDestinationBIC p, rSourceAccount = pSourceAccount p, rDestAccount = pDestAccount p,
      rAmount = pAmount p, rCurrency = pCurrency p, rStatus = pStatus p, rQuoteID = None,
      rRouteFee = Some (pRouteFee p), rRouteEstimatedMs = Some (ucast (pRouteEstimatedMs p)),
      rReservedAt = None, rExpiresAt = None, rCreatedAt = t, rUpdatedAt = t, rUetr = textOrNull (pUETR p),
      rInstrID = textOrNull (pInstrID p), rChargeBearer = textOrNull (pChargeBearer p),
      rSttlmDt = map_option pg_date (dateOrNull (pSettlementDate p)), rDebtorName = textOrNull (pDebtorName p),
      rCreditorName = textOrNull (pCreditorName p), rPurposeCode = textOrNull (pPurposeCode p),
      rRemittanceInfo = textOrNull (pRemittanceInfo p)\<rparr>"
    by (simp add: insert_row_def create_params_def storable_def bpchar_exact char4_round_trip)
  show "mapFromSQLC row = p\<lparr>pCreatedAt := t, pUpdatedAt := t\<rparr>"
    using assms(2) by (cases p) (simp add: row mapFromSQLC_def storable_def text_round_trip date_round_trip opt_or_def [of _ "Some _"])
  show "mapToDomain row p = p\<lparr>pCreatedAt := t, pUpdatedAt := t\<rparr>"
    using assms(2) by (cases p) (simp add: row mapToDomain_def storable_def opt_or_def)
qed

lemma CreateWithEvent_row:
  assumes "repo_CreateWithEvent p s = (None, p', s')"
  obtains row where "create_tx p s = (Inr row, s')" "p' = mapToDomain row p"
proof -
  obtain r s1 where c: "create_tx p s = (r, s1)" by fastforce
  with assms obtain row where r: "r = Inr row" "s1 = s'"
    by (cases r) (auto simp: repo_CreateWithEvent_def Let_def)
  have "created_row p s = Some row"
  proof -
    from c [unfolded r create_tx_def with_tx_def] show ?thesis
      by (auto simp: created_row_def bindE_def split: prod.splits sum.splits)
  qed
  then show thesis using that c r assms by (auto simp: repo_CreateWithEvent_def Let_def)
qed

lemma row_by_fresh:
  assumes "\<not> payment_conflict s (create_params p)" "rID row = pID p"
  shows "row_by rID (pID p) (payment_tbl s @ [row]) = Some row"
proof -
  have "row_by rID (pID p) (payment_tbl s) = None"
    using assms(1) by (auto simp: payment_conflict_def create_params_def row_by_None_iff list_ex_iff)
  with assms(2) show ?thesis by simp
qed

lemma create_then_get:
  assumes "repo_CreateWithEvent p s = (None, p', s')" "storable p" "no_faults s'"
  shows "p' = p\<lparr>pCreatedAt := pg_now s, pUpdatedAt := pg_now s\<rparr> \<and>
    (\<exists>s2. repo_GetByID (pID p) s' = (Inr (Some p'), s2) \<and> tables s2 = tables s')"
proof -
  from assms(1) obtain row where c: "create_tx p s = (Inr row, s')" and p': "p' = mapToDomain row p"
    by (rule CreateWithEvent_row)
  from c have f: "insert_row (pg_now s) (create_params p) = Some row" "\<not> payment_conflict s (create_params p)"
    "payment_tbl s' = payment_tbl s @ [row]" by (auto elim: create_tx_okE)
  note rt = stored_round_trip [OF f(1) assms(2)]
  have "rID row = pID p" using insert_row_fields(1) [OF f(1)] by (simp add: create_params_def)
  then have "row_by rID (pID p) (payment_tbl s') = Some row" using row_by_fresh [OF f(2)] f(3) by simp
  then have "GetPaymentByID (pID p) s' = (Inr row, s'\<lparr>pg_faults := tl (pg_faults s')\<rparr>)"
    by (simp add: GetPaymentByID_def no_faults_stmt [OF assms(3)])
  then show ?thesis using rt p' by (simp add: repo_GetByID_def no_rows_as_nil_def)
qed

section \<open>Lemmas: the two formats of a payment\<close>

text \<open>A client's JSON body for a request: the fields of \<^verbatim>\<open>PaymentRequest\<close> under their tags.\<close>

definition request_json :: "PaymentRequest \<Rightarrow> json" where
  "request_json r =
     JObj ([(''end_to_end_id'', JStr (rqEndToEndID r)), (''destination_bic'', JStr (rqDestinationBIC r)),
            (''dest_account'', JStr (rqDestAccount r)), (''amount'', JInt (sint (rqAmount r))),
            (''currency'', JStr (rqCurrency r))] @
           omitempty ''uetr'' (rqUETR r) @ omitempty ''instruction_id'' (rqInstructionID r) @
           omitempty ''charge_bearer'' (rqChargeBearer r) @ omitempty ''settlement_date'' (rqSettlementDate r) @
           omitempty ''debtor_name'' (rqDebtorName r) @ omitempty ''creditor_name'' (rqCreditorName r) @
           omitempty ''purpose_code'' (rqPurposeCode r) @ omitempty ''remittance_info'' (rqRemittanceInfo r))"

lemma decode_omitempty:
  assumes "snd (setter (ToLower k) (JStr v) acc) = None" "v = '''' \<Longrightarrow> fst (setter (ToLower k) (JStr v) acc) = acc"
  shows "decode_members setter (omitempty k v @ ms) acc None = decode_members setter ms (fst (setter (ToLower k) (JStr v) acc)) None"
    "decode_members setter (omitempty k v) acc None = Inr (fst (setter (ToLower k) (JStr v) acc))"
  using assms by (auto simp: omitempty_def split: prod.splits)

lemma request_tags: "ToLower ''end_to_end_id'' = ''end_to_end_id''" "ToLower ''destination_bic'' = ''destination_bic''"
  "ToLower ''dest_account'' = ''dest_account''" "ToLower ''amount'' = ''amount''" "ToLower ''currency'' = ''currency''"
  "ToLower ''uetr'' = ''uetr''" "ToLower ''instruction_id'' = ''instruction_id''" "ToLower ''charge_bearer'' = ''charge_bearer''"
  "ToLower ''settlement_date'' = ''settlement_date''" "ToLower ''debtor_name'' = ''debtor_name''"
  "ToLower ''creditor_name'' = ''creditor_name''" "ToLower ''purpose_code'' = ''purpose_code''"
  "ToLower ''remittance_info'' = ''remittance_info''"
  by code_simp+

lemma request_json_round_trip:
  "Decode ''gateway.PaymentRequest'' paymentRequest_set paymentRequest_zero (Inr (request_json r)) = Inr r"
  by (simp add: Decode_def request_json_def paymentRequest_set_def set_field_def set_string_def
      paymentRequest_zero_def request_tags decode_omitempty)

lemma Format_date_day:
  assumes "wall t div Day = wall u div Day"
  shows "Format_date t = Format_date u"
  by (simp add: Format_date_def assms)

lemma Format_date_truncated: "Format_date (utc (Truncate (wall t) Day)) = Format_date t"
proof (rule Format_date_day)
  have "0 < Day" by (simp add: Day_def Hour_def Minute_def Second_def)
  then show "wall (utc (Truncate (wall t) Day)) div Day = wall t div Day"
    by (simp add: utc_def Truncate_def minus_mod_eq_div_mult) (simp add: wall_def)
qed

lemma buildPayment_bearer:
  "buildPayment env (req\<lparr>rqChargeBearer := (if rqChargeBearer req = '''' then ''SLEV'' else rqChargeBearer req)\<rparr>) sb sa =
   buildPayment env req sb sa"
  by (cases "rqChargeBearer req = ''''") (simp_all add: buildPayment_def Let_def)

lemma request_of_data_bearer: "rqChargeBearer (request_of_data d) = dChargeBearer d"
  by (simp add: request_of_data_def)

lemma formats_agree:
  assumes "bodyPacs008 body = Inr (ToPacs008 clock msgID d)" "bodyJson body' = Inr (request_json (request_of_data d))"
    and "\<bar>sint (dAmount d)\<bar> < 2 ^ 50" "instant (dSettlementDate d) \<noteq> 0"
    and "Day \<le> wall (dSettlementDate d)" "wall (dSettlementDate d) < days_before_year 10000 * Day"
  shows "parsePacs008 env body sb sa = parseJSON env body' sb sa"
proof -
  let ?t = "dSettlementDate d"
  let ?cb = "if dChargeBearer d = '''' then ''SLEV'' else dChargeBearer d"
  let ?d = "d\<lparr>dID := '''', dStatus := '''', dCreatedAt := utc 0, dChargeBearer := ?cb,
    dSettlementDate := utc (Truncate (wall ?t) Day)\<rparr>"
  have D: "0 < Day" by (simp add: Day_def Hour_def Minute_def Second_def)
  have f: "FromPacs008 (ToPacs008 clock msgID d) = Inr ?d"
    using assms(3-6) D by (intro pacs008_round_trip) auto
  have "Day \<le> wall ?t div Day * Day"
  proof -
    have "1 \<le> wall ?t div Day" using assms(5) D by (simp add: pos_imp_zdiv_pos_iff int_one_le_iff_zero_less)
    then show ?thesis using mult_right_mono [of 1 "wall ?t div Day" Day] D by simp
  qed
  then have z: "Truncate (wall ?t) Day \<noteq> 0" using D by (simp add: Truncate_def minus_mod_eq_div_mult)
  have "request_of_data ?d = (request_of_data d)\<lparr>rqChargeBearer := ?cb\<rparr>"
    using z assms(4) by (simp add: request_of_data_def Format_date_truncated IsZero_def utc_def [of 0])
      (simp add: utc_def IsZero_def)
  then have "buildPayment env (request_of_data ?d) sb sa = buildPayment env (request_of_data d) sb sa"
    using buildPayment_bearer [of env "request_of_data d" sb sa] request_of_data_bearer [of d] by (simp only:)
  then show ?thesis by (simp add: parsePacs008_def parseJSON_def assms(1,2) f request_json_round_trip)
qed

section \<open>Lemmas: submitting a payment\<close>

lemma answer_codes [simp]:
  "StatusCode (request_error env x msg code) = code"
  "StatusCode (accepted env x p) = 202"
  "StatusCode (persist_error env x e) = (if AsPgCode e = Some ''23505'' then 409 else 500)"
  by (simp_all add: request_error_def writePacs002BadRequestError_def writeXML_def http_Error_def accepted_def
      writePacs002_def writeJSON_def persist_error_def)

definition parse_payment :: "gw_env \<Rightarrow> gw_request \<Rightarrow> string \<Rightarrow> string \<Rightarrow> goerror + Payment" where
  "parse_payment env r sb sa =
     (if is_xml (Header_Get r ''Content-Type'') then parsePacs008 env (rqBody r) sb sa
      else parseJSON env (rqBody r) sb sa)"

lemma parse_payment_fields:
  assumes "parse_payment env r sb sa = Inr p"
  shows "pID p = geID env" "pStatus p = StatusReceived" "pSourceBIC p = sb" "pSourceAccount p = sa"
    "pSettlementDate p mod (24 * Hour) = 0" "pQuoteID p = None" "pReservedAt p = None" "pExpiresAt p = None"
    "pRouteEstimatedMs p = 0" "pChargeBearer p \<noteq> ''''"
proof -
  obtain req where p: "p = buildPayment env req sb sa"
    using assms by (auto simp: parse_payment_def parsePacs008_def parseJSON_def split: if_splits sum.splits)
  show "pID p = geID env" "pStatus p = StatusReceived" "pSourceBIC p = sb" "pSourceAccount p = sa"
    "pQuoteID p = None" "pReservedAt p = None" "pExpiresAt p = None" "pRouteEstimatedMs p = 0" "pChargeBearer p \<noteq> ''''"
    by (simp_all add: p buildPayment_def Let_def zero_payment_def)
  have m: "instant t mod (24 * Hour) = 0" if "Parse_date x = Some t" for x t
    using that by (auto simp: Parse_date_def utc_def midnight_def Day_def split: option.splits list.splits if_splits prod.splits)
  have "Truncate x (24 * Hour) mod (24 * Hour) = 0" for x
    by (simp add: Truncate_def Hour_def Minute_def Second_def minus_mod_eq_div_mult)
  then show "pSettlementDate p mod (24 * Hour) = 0"
    by (auto simp: p buildPayment_def Let_def m split: option.splits)
qed

lemma SubmitPayment_cases:
  obtains (refused) code msg where "SubmitPayment h env r g = (request_error env (is_xml (Header_Get r ''Content-Type'')) msg code, g)"
      "code \<in> {400, 401}"
  | (stored) i sb sa p e p' w' where "ctxParticipant r = Some i" "GetBankForParticipant i (hResolver h) = Inr (sb, sa)"
      "parse_payment env r sb sa = Inr p" "repoCreateWithEvent (hRepo h) p (gwWorld g) = (e, p', w')"
      "SubmitPayment h env r g =
        (case e of
           Some err \<Rightarrow> (persist_error env (is_xml (Header_Get r ''Content-Type'')) err, g\<lparr>gwWorld := w'\<rparr>)
         | None \<Rightarrow> (accepted env (is_xml (Header_Get r ''Content-Type'')) p',
                    g\<lparr>gwWorld := w', gwSpawned := gwSpawned g @ [p']\<rparr>))"
proof (cases "ctxParticipant r")
  case None
  then show thesis by (intro refused) (auto simp: SubmitPayment_def)
next
  case (Some i)
  show thesis
  proof (cases "GetBankForParticipant i (hResolver h)")
    case (Inl e)
    with Some show thesis by (intro refused) (auto simp: SubmitPayment_def)
  next
    case (Inr b)
    obtain sb sa where b: "b = (sb, sa)" by (cases b)
    show thesis
    proof (cases "parse_payment env r sb sa")
      case (Inl e)
      with Some Inr b show thesis by (intro refused) (auto simp: SubmitPayment_def parse_payment_def)
    next
      case p: (Inr p)
      obtain e p' w' where c: "repoCreateWithEvent (hRepo h) p (gwWorld g) = (e, p', w')" by (metis prod_cases3)
      show thesis
        by (rule stored [OF Some Inr [unfolded b] p c])
          (use Some Inr b p c in \<open>simp add: SubmitPayment_def parse_payment_def Let_def split: option.split\<close>)
    qed
  qed
qed

lemma gateway_handler_sel [simp]:
  "hRepo gateway_handler = lift_repo swPg swPg_update pg_repo" "hResolver gateway_handler = gateway_registry"
  "hPool gateway_handler = Some switch_pool"
  by (simp_all add: gateway_handler_def AddPool_def NewHandler_def)

lemma gateway_create:
  assumes "repoCreateWithEvent (hRepo gateway_handler) p w = (e, p', w')"
  obtains s' where "repo_CreateWithEvent p (swPg w) = (e, p', s')" "w' = w\<lparr>swPg := s'\<rparr>"
  using assms by (auto simp: lift_repo_def lift_pay_def pg_repo_def split: prod.splits)

lemma submit_refused_keeps:
  assumes "SubmitPayment gateway_handler env r g = (resp, g')" "StatusCode resp \<noteq> 202"
  shows "gwSpawned g' = gwSpawned g \<and> tables (swPg (gwWorld g')) = tables (swPg (gwWorld g)) \<and>
    swBank (gwWorld g') = swBank (gwWorld g)"
proof (rule SubmitPayment_cases [of gateway_handler env r g])
  fix code msg assume "SubmitPayment gateway_handler env r g =
    (request_error env (is_xml (Header_Get r ''Content-Type'')) msg code, g)"
  then show ?thesis using assms(1) by simp
next
  fix i sb sa p e p' w'
  assume c: "repoCreateWithEvent (hRepo gateway_handler) p (gwWorld g) = (e, p', w')"
    and r: "SubmitPayment gateway_handler env r g =
        (case e of
           Some err \<Rightarrow> (persist_error env (is_xml (Header_Get r ''Content-Type'')) err, g\<lparr>gwWorld := w'\<rparr>)
         | None \<Rightarrow> (accepted env (is_xml (Header_Get r ''Content-Type'')) p',
                    g\<lparr>gwWorld := w', gwSpawned := gwSpawned g @ [p']\<rparr>))"
  from r assms obtain err where e: "e = Some err" "g' = g\<lparr>gwWorld := w'\<rparr>" by (cases e) auto
  from c obtain s' where "repo_CreateWithEvent p (swPg (gwWorld g)) = (Some err, p', s')" "w' = (gwWorld g)\<lparr>swPg := s'\<rparr>"
    unfolding e(1) by (rule gateway_create)
  then show ?thesis using repo_CreateWithEvent_err e(2) by auto
qed

lemma submit_accepted_stores:
  assumes "SubmitPayment gateway_handler env r g = (resp, g')" "StatusCode resp = 202"
  obtains i p p' s' where "ctxParticipant r = Some i"
    and "GetBankForParticipant i gateway_registry = Inr (pSourceBIC p, pSourceAccount p)"
    and "parse_payment env r (pSourceBIC p) (pSourceAccount p) = Inr p"
    and "repo_CreateWithEvent p (swPg (gwWorld g)) = (None, p', s')"
    and "g' = g\<lparr>gwWorld := (gwWorld g)\<lparr>swPg := s'\<rparr>, gwSpawned := gwSpawned g @ [p']\<rparr>"
proof (rule SubmitPayment_cases [of gateway_handler env r g])
  fix code msg assume "SubmitPayment gateway_handler env r g =
    (request_error env (is_xml (Header_Get r ''Content-Type'')) msg code, g)" "code \<in> {400, 401 :: int}"
  then show thesis using assms by auto
next
  fix i sb sa p e p' w'
  assume i: "ctxParticipant r = Some i" "GetBankForParticipant i (hResolver gateway_handler) = Inr (sb, sa)"
    and pp: "parse_payment env r sb sa = Inr p"
    and c: "repoCreateWithEvent (hRepo gateway_handler) p (gwWorld g) = (e, p', w')"
    and r: "SubmitPayment gateway_handler env r g =
        (case e of
           Some err \<Rightarrow> (persist_error env (is_xml (Header_Get r ''Content-Type'')) err, g\<lparr>gwWorld := w'\<rparr>)
         | None \<Rightarrow> (accepted env (is_xml (Header_Get r ''Content-Type'')) p',
                    g\<lparr>gwWorld := w', gwSpawned := gwSpawned g @ [p']\<rparr>))"
  from r assms have e: "e = None" "g' = g\<lparr>gwWorld := w', gwSpawned := gwSpawned g @ [p']\<rparr>"
    by (cases e; auto split: if_splits)+
  from c obtain s' where "repo_CreateWithEvent p (swPg (gwWorld g)) = (None, p', s')" "w' = (gwWorld g)\<lparr>swPg := s'\<rparr>"
    unfolding e(1) by (rule gateway_create)
  then show thesis using i pp parse_payment_fields(3,4) [OF pp] e(2) by (intro that) simp_all
qed

lemma create_effects:
  assumes "repo_CreateWithEvent p s = (None, p', s')"
  obtains row where "payment_tbl s' = payment_tbl s @ [row]" "rID row = pID p" "rStatus row = pStatus p"
    "rSourceBic row = pSourceBIC p" "rEndToEndID row = pEndToEndID p"
    "outbox_tbl s' = outbox_tbl s @ [pending_row s ''payment.received'' (pEndToEndID p) (received_event p row)]"
    "row_by rID (pID p) (payment_tbl s') = Some row" "pID p' = pID p" "pStatus p' = pStatus p"
    "rSourceAccount row = pSourceAccount p"
proof -
  from assms obtain row where c: "create_tx p s = (Inr row, s')" and p': "p' = mapToDomain row p"
    by (rule CreateWithEvent_row)
  from c have f: "insert_row (pg_now s) (create_params p) = Some row" "\<not> payment_conflict s (create_params p)"
    "payment_tbl s' = payment_tbl s @ [row]"
    "outbox_tbl s' = outbox_tbl s @ [pending_row s ''payment.received'' (pEndToEndID p) (received_event p row)]"
    by (auto elim: create_tx_okE)
  note r = insert_row_fields [OF f(1)]
  have i: "rID row = pID p" using r(1) by (simp add: create_params_def)
  have "rSourceAccount row = pSourceAccount p"
    using f(1) by (auto simp: insert_row_def create_params_def split: option.splits)
  then show thesis
    by (intro that [OF f(3) i])
      (use r f i row_by_fresh [OF f(2) i] in \<open>simp_all add: create_params_def p' mapToDomain_def\<close>)
qed

lemma duplicate_conflict:
  assumes "row \<in> set (payment_tbl s)" "rSourceBic row = pSourceBIC p" "rEndToEndID row = pEndToEndID p" "no_faults s"
    and "length (pCurrency p) \<le> 3" "length (pChargeBearer p) \<le> 4" "length (pPurposeCode p) \<le> 4"
  shows "\<exists>p' s'. repo_CreateWithEvent p s = (Some unique_violation, p', s')"
proof -
  have b: "\<exists>v. bpchar n x = Some v" if "length x \<le> n" for n x using that by (simp add: bpchar_def)
  then have b': "\<exists>v. bpchar_null 4 (textOrNull x) = Some v" if "length x \<le> 4" for x
    using that b [of x 4] by (auto simp: bpchar_null_def textOrNull_def)
  have c: "\<exists>v. insert_row t (create_params p) = Some v" for t
    using b [OF assms(5)] b' [OF assms(6)] b' [OF assms(7)] by (auto simp: insert_row_def create_params_def)
  have x: "payment_conflict s' (create_params p)" if "payment_tbl s' = payment_tbl s" for s'
    using assms(1-3) that by (auto simp: payment_conflict_def create_params_def list_ex_iff)
  let ?s1 = "s\<lparr>pg_faults := tl (pg_faults s)\<rparr>"
  have "CreatePayment (create_params p) ?s1 = (Inl unique_violation, ?s1\<lparr>pg_faults := tl (pg_faults ?s1)\<rparr>)"
    using c [of "pg_now s"] x no_faults_stmt [OF no_faults_tl [OF assms(4)]]
    by (auto simp: CreatePayment_def no_faults_stmt [OF no_faults_tl [OF assms(4)], simplified])
  then show ?thesis
    by (simp add: repo_CreateWithEvent_def create_tx_def with_tx_def bindE_def no_faults_stmt [OF assms(4)] Let_def)
qed

section \<open>Lemmas: the routes that only read\<close>

lemma repo_GetByID_keeps: "repo_GetByID i s = (r, s') \<Longrightarrow> tables s' = tables s"
proof -
  assume "repo_GetByID i s = (r, s')"
  then obtain x s1 where "GetPaymentByID i s = (x, s1)" "s' = s1"
    by (cases "GetPaymentByID i s") (auto simp: repo_GetByID_def no_rows_as_nil_def split: sum.splits if_splits)
  then show ?thesis
    by (cases "pg_faults s"; cases "hd (pg_faults s)")
      (auto simp: GetPaymentByID_def stmt_def tables_def split: option.splits)
qed

lemma healthz_keeps:
  assumes "healthz gateway_handler w = (resp, w')"
  shows "tables (swPg w') = tables (swPg w)"
proof -
  obtain x s1 where x: "stmt (okE ()) (swPg w) = (x, s1)" by fastforce
  then obtain fs where s1: "s1 = (swPg w)\<lparr>pg_faults := fs\<rparr>" using stmt_ok_unit by blast
  have "hChecks gateway_handler = []" by (simp add: gateway_handler_def AddPool_def NewHandler_def)
  then show ?thesis using assms x s1
    by (cases x) (auto simp: healthz_def switch_pool_def lift_def pg_ping_def err_of_def tables_def split: sum.splits)
qed

lemma reads_keep:
  assumes "gateway_routes gateway_handler order env method path r g = (resp, g')"
    and "\<not> (method = ''POST'' \<and> path = ''/payments'')"
  shows "tables (swPg (gwWorld g')) = tables (swPg (gwWorld g)) \<and> gwSpawned g' = gwSpawned g"
proof -
  have a: "snd (AccountLookup h order now r g) = g" for h :: "switch Handler" and now
    by (auto simp: AccountLookup_def Let_def split: sum.splits)
  have p: "tables (swPg (gwWorld (snd (GetPayment gateway_handler now i r g)))) = tables (swPg (gwWorld g)) \<and>
      gwSpawned (snd (GetPayment gateway_handler now i r g)) = gwSpawned g" for now i
  proof -
    obtain x s1 where x: "repo_GetByID i (swPg (gwWorld g)) = (x, s1)" by fastforce
    then have "repoGetByID (hRepo gateway_handler) i (gwWorld g) = (x, (gwWorld g)\<lparr>swPg := s1\<rparr>)"
      by (simp add: lift_repo_def lift_def pg_repo_def)
    with repo_GetByID_keeps [OF x] show ?thesis
      by (auto simp: GetPayment_def split: sum.splits option.splits)
  qed
  have g': "snd (gateway_routes gateway_handler order env method path r g) = g'" using assms(1) by simp
  consider w' where "tables (swPg w') = tables (swPg (gwWorld g))"
      "snd (gateway_routes gateway_handler order env method path r g) = g\<lparr>gwWorld := w'\<rparr>"
    | "snd (gateway_routes gateway_handler order env method path r g) = g"
    | now i where "snd (gateway_routes gateway_handler order env method path r g) = snd (GetPayment gateway_handler now i r g)"
  proof (cases "method = ''GET'' \<and> path = ''/healthz''")
    case True
    obtain resp w' where h: "healthz gateway_handler (gwWorld g) = (resp :: xml_doc http_response, w')" by fastforce
    show thesis by (rule that(1) [OF healthz_keeps [OF h]]) (simp add: gateway_routes_def True h)
  next
    case False
    note F = this assms(2)
    show thesis
    proof (cases "method = ''GET''")
      case False
      have "snd (gateway_routes gateway_handler order env method path r g) = g"
        using F False a by (cases "method = ''POST''") (simp_all add: gateway_routes_def)
      then show thesis by (rule that(2))
    next
      case True
      show thesis
      proof (cases "path_param ''/payments/'' '''' path")
        case None
        then have "snd (gateway_routes gateway_handler order env method path r g) = g"
          using F True by (simp add: gateway_routes_def)
        then show thesis by (rule that(2))
      next
        case (Some i)
        then have "gateway_routes gateway_handler order env method path r g = GetPayment gateway_handler (geNow env) i r g"
          using F True by (simp add: gateway_routes_def)
        then show thesis by (intro that(3)) simp
      qed
    qed
  qed
  then show ?thesis
  proof cases
    case (3 now i)
    with p [of now i] g' show ?thesis by simp
  qed (simp_all add: g')
qed

section \<open>Lemmas: the outcome that is reported\<close>

lemma step_memory_status:
  assumes "st \<in> set (gateway_steps P)" "Execute st p w = (r, p', w')"
  shows "pStatus p' = pStatus p \<or> pStatus p' \<in> set (step_statuses @ [StatusSettled])"
  using assms
  by (auto simp: gateway_steps_def step_ctors step_defs step_statuses_def set_status_def Let_def
      split: option.splits if_splits prod.splits sum.splits)

lemma not_aborted_step:
  "st \<in> set (gateway_steps P) \<Longrightarrow> Execute st p w = (r, p', w') \<Longrightarrow> pStatus p \<noteq> StatusAborted \<Longrightarrow> pStatus p' \<noteq> StatusAborted"
  using step_memory_status [of st P p w r p' w'] by (auto simp: step_statuses_def go_string)

lemma not_aborted_forward:
  assumes "set sts \<subseteq> set (gateway_steps P)" "forward sts p w = Some (p', w')" "pStatus p \<noteq> StatusAborted"
  shows "pStatus p' \<noteq> StatusAborted"
  using assms
proof (induction sts arbitrary: p w)
  case (Cons st sts)
  from Cons.prems obtain p1 w1 where e: "Execute st p w = (None, p1, w1)" "forward sts p1 w1 = Some (p', w')"
    by (auto split: prod.splits option.splits)
  have "pStatus p1 \<noteq> StatusAborted" using Cons.prems not_aborted_step [OF _ e(1)] by auto
  with Cons.IH Cons.prems(1) e(2) show ?case by auto
qed simp

lemma compensate_all_payment:
  assumes "set sts \<subseteq> set (gateway_steps P)" "compensate_all sts p w = (p', w')"
  shows "p' = p"
  using assms
proof (induction sts arbitrary: p w)
  case (Cons st sts)
  obtain e p1 w1 where c: "Compensate st p w = (e, p1, w1)" by (metis prod_cases3)
  then have "p1 = p" using gateway_compensate_payment [OF _ c] Cons.prems(1) by auto
  with Cons c show ?case by simp
qed simp

lemma Run_never_aborts_memory:
  assumes "sagaSteps s = gateway_steps P" "pStatus p \<noteq> StatusAborted" "Run s p w = (r, s', p', w')"
  shows "pStatus p' \<noteq> StatusAborted"
proof (cases r)
  case None
  then have "forward (gateway_steps P) p w = Some (p', w')" using Run_okE(1) assms(1,3) by fastforce
  from not_aborted_forward [OF subset_refl this assms(2)] show ?thesis .
next
  case (Some e)
  from assms(3) [unfolded Some] obtain k p1 w1 p2 w2 where k: "k < length (gateway_steps P)"
    "forward (take k (gateway_steps P)) p w = Some (p1, w1)" "Execute (gateway_steps P ! k) p1 w1 = (Some e, p2, w2)"
    "compensate_all (rev (take k (gateway_steps P))) p2 w2 = (p', w')"
    by (rule Run_errE) (simp add: assms(1))
  have "pStatus p1 \<noteq> StatusAborted"
    by (rule not_aborted_forward [OF _ k(2) assms(2)]) (auto dest: in_set_takeD)
  then have "pStatus p2 \<noteq> StatusAborted" using not_aborted_step [OF nth_mem [OF k(1)] k(3)] by simp
  moreover have "p' = p2" by (rule compensate_all_payment [OF _ k(4)]) (auto dest: in_set_takeD)
  ultimately show ?thesis by simp
qed

lemma report_rejected_iff:
  "map tsTxSts (rpTxInfAndSts (d2FIToFIPmtStsRpt (status_report now p))) = [IsoRejected] \<longleftrightarrow> pStatus p = StatusAborted"
  by (simp add: status_report_def ToPacs002_def Let_def data_of_payment_def DomainStatusToISO_def go_string)

text \<open>What a background run posts: at most one document, to the callback URL of the source bank.\<close>

lemma process_once:
  assumes "processPaymentAsync h cb now s p w = (s', p', w')" "Run s p w = (r, s1, p1, w1)"
  shows "p' = p1 \<and> s' = s1 \<and>
    (w' = record_abort (hPool h) r p1 w1 \<or>
     (\<exists>pl x w2. hPool h = Some pl \<and> getCallbackURL pl (pSourceBIC p1) (record_abort (hPool h) r p1 w1) = (x, w2) \<and>
        (w' = w2 \<or> (\<exists>url. x = Inr url \<and> url \<noteq> '''' \<and> w' = snd (cbPost cb url (status_report now p1) w2)))))"
  using assms
  by (auto simp: processPaymentAsync_def report_outcome_def sendCallback_def split: option.splits sum.splits prod.splits if_splits)

end
