(* ===== verification/GatewayExamples.thy ===== *)
theory GatewayExamples
  imports Examples Gateway
begin

text \<open>
  Concrete requests to the gateway of src/internal/gateway/handler.go, on which its properties are
  exercised: a bank that submits the payment of theory \<open>Examples\<close> as JSON, twice, a request
  without a participant, and a callback client that keeps what it is asked to post.
\<close>

definition demo_data :: PaymentData where
  "demo_data =
     \<lparr>dID = ''TX-1'', dEndToEndID = ''e2e-1'', dUETR = ''123e4567-e89b-12d3-a456-426614174000'', dInstrID = ''I-1'',
      dSourceBIC = ''BANKUS33'', dDestBIC = ''BANKDEFF'', dSourceAccount = ''ACC-A'', dDestAccount = ''ACC-B'',
      dDebtorName = ''Ann'', dCreditorName = ''Bob'', dAmount = 5000, dCurrency = ''USD'', dChargeBearer = '''',
      dSettlementDate = utc (738000 * Day), dPurposeCode = ''SALA'', dRemittanceInfo = ''rent'', dStatus = '''',
      dCreatedAt = utc 0\<rparr>"

definition demo_body :: request_body where
  "demo_body =
     \<lparr>bodyJson = Inr (request_json (paymentRequest_zero\<lparr>rqEndToEndID := ''e2e-1'', rqDestinationBIC := ''BANKDEFF'',
        rqDestAccount := ''ACC-B'', rqAmount := 5000, rqCurrency := ''USD''\<rparr>)),
      bodyPacs008 = Inl (ErrMsg ''EOF''), bodyCamt003 = Inl (ErrMsg ''EOF''), bodyReadErr = None\<rparr>"

definition demo_request :: gw_request where
  "demo_request = \<lparr>rqHeader = [(''X-Participant-Id'', ''CN=bank-a,O=First National Bank'')], rqTLS = None,
     ctxParticipant = Some ''bank-a'', ctxIdempotencyKey = None, rqBody = demo_body\<rparr>"

definition anonymous_request :: gw_request where
  "anonymous_request = demo_request\<lparr>ctxParticipant := None\<rparr>"

definition demo_gw_env :: gw_env where
  "demo_gw_env = \<lparr>geUETR = ''123e4567-e89b-12d3-a456-426614174001'', geID = ''pay-7'', geErrID = ''err-7'',
     geNow = 63000000000000000000\<rparr>"

definition empty_gw :: "switch gw" where
  "empty_gw = \<lparr>gwWorld = (demo_world demo_payment)\<lparr>swPg := demo_database\<rparr>, gwSpawned = []\<rparr>"

definition demo_gw :: "switch gw" where
  "demo_gw = snd (SubmitPayment gateway_handler demo_gw_env demo_request empty_gw)"

definition silent_callback :: "switch callback_http" where
  "silent_callback = \<lparr>cbNewRequest = (\<lambda>_. None), cbPost = (\<lambda>url doc w. (Inr 200, w))\<rparr>"

definition is_rejection :: "DocumentPacs002 \<Rightarrow> bool" where
  "is_rejection doc \<longleftrightarrow> map tsTxSts (rpTxInfAndSts (d2FIToFIPmtStsRpt doc)) = [IsoRejected]"

text \<open>A client that drops the bank's accounts when it is asked to post a rejection.\<close>

definition alarm_callback :: "switch callback_http" where
  "alarm_callback = \<lparr>cbNewRequest = (\<lambda>_. None),
     cbPost = (\<lambda>url doc w. (Inr 200, if is_rejection doc then w\<lparr>swBank := NewBankState\<rparr> else w))\<rparr>"

lemma demo_submitted: "StatusCode (fst (SubmitPayment gateway_handler demo_gw_env demo_request empty_gw)) = 202"
  by code_simp

lemma demo_row: "map (\<lambda>r. (rID r, rSourceBic r, rEndToEndID r)) (payment_tbl (swPg (gwWorld demo_gw))) = [(''pay-7'', ''BANKUS33'', ''e2e-1'')]"
  by code_simp

lemma demo_parsed:
  "case parse_payment demo_gw_env demo_request ''BANKUS33'' ''ACC-A'' of
     Inr p \<Rightarrow> pEndToEndID p = ''e2e-1'' \<and> length (pCurrency p) \<le> 3 \<and> length (pChargeBearer p) \<le> 4 \<and> length (pPurposeCode p) \<le> 4
   | Inl e \<Rightarrow> False"
  by code_simp

lemma demo_data_facts:
  "\<bar>sint (dAmount demo_data)\<bar> < 2 ^ 50" "instant (dSettlementDate demo_data) \<noteq> 0"
  "Day \<le> wall (dSettlementDate demo_data)" "wall (dSettlementDate demo_data) < days_before_year 10000 * Day"
  by code_simp+

end
