(* ===== verification/History.thy ===== *)
theory History
  imports SwitchRuns OutboxRelay
begin

text \<open>
  The events a payment leaves behind. Every status change of the Postgres repository writes one
  event into the outbox in its own transaction, and the relay publishes the outbox in order; this
  theory follows both through a run of the saga. \<^verbatim>\<open>recording_ports\<close> is the contract: which
  repository call appends which message to the queue of pending events, and that no other port
  touches it. Under it the queue after a run is a function of the number of completed steps, and
  after the relay has drained the outbox the broker holds exactly these messages, in this order.
\<close>

section \<open>The messages of a run\<close>

text \<open>The pending events in the order of their ids, as the messages the relay will send.\<close>

definition queued :: "pg \<Rightarrow> message list" where
  "queued s = map row_message (pending_rows s)"

definition stored_fields :: "pg \<Rightarrow> string \<Rightarrow> GetPaymentEventFieldsRow option" where
  "stored_fields s i = map_option event_fields (row_by rID i (payment_tbl s))"

definition change_message :: "GetPaymentEventFieldsRow \<Rightarrow> PaymentStatus \<Rightarrow> PaymentStatus \<Rightarrow> message" where
  "change_message f a b = (''payment.'' @ ToLower b, gfEndToEndID f, transition_event f a b)"

text \<open>The change each of the ten steps records. The route step writes no event; the reservation is
  recorded as coming from \<^verbatim>\<open>VALIDATED\<close>; every other event names the new status twice.\<close>

definition step_changes :: "(PaymentStatus \<times> PaymentStatus) option list" where
  "step_changes =
     [Some (StatusValidated, StatusValidated), Some (StatusLookedUp, StatusLookedUp), None,
      Some (StatusQuoted, StatusQuoted), Some (StatusScreened, StatusScreened),
      Some (StatusValidated, StatusReserved), Some (StatusCommitted, StatusCommitted),
      Some (StatusSettled, StatusSettled), None, None]"

definition step_messages :: "GetPaymentEventFieldsRow \<Rightarrow> nat \<Rightarrow> message list" where
  "step_messages f i = (case step_changes ! i of None \<Rightarrow> [] | Some (a, b) \<Rightarrow> [change_message f a b])"

definition run_messages :: "GetPaymentEventFieldsRow \<Rightarrow> nat \<Rightarrow> message list" where
  "run_messages f k = concat (map (step_messages f) [0..<k])"

text \<open>The steps whose compensation writes \<^verbatim>\<open>ABORTED\<close>, and how many of the first \<open>k\<close> there are.\<close>

definition aborting :: "nat \<Rightarrow> bool" where
  "aborting i \<longleftrightarrow> i \<in> {0, 3, 4, 5, 6, 7}"

definition abort_count :: "nat \<Rightarrow> nat" where
  "abort_count k = length (filter aborting [0..<k])"

definition abort_messages :: "GetPaymentEventFieldsRow \<Rightarrow> nat \<Rightarrow> message list" where
  "abort_messages f n = replicate n (change_message f StatusAborted StatusAborted)"

lemma run_messages_Suc: "run_messages f (Suc k) = run_messages f k @ step_messages f k"
  by (simp add: run_messages_def)

lemma run_messages_0 [simp]: "run_messages f 0 = []"
  by (simp add: run_messages_def)

lemma abort_count_Suc: "abort_count (Suc k) = abort_count k + (if aborting k then 1 else 0)"
  by (simp add: abort_count_def)

lemma abort_count_0 [simp]: "abort_count 0 = 0"
  by (simp add: abort_count_def)

lemma abort_messages_add: "abort_messages f (a + b) = abort_messages f a @ abort_messages f b"
  by (simp add: abort_messages_def replicate_add)

lemma abort_messages_0 [simp]: "abort_messages f 0 = []"
  by (simp add: abort_messages_def)

section \<open>The contract\<close>

type_synonym book = "message list \<times> (string \<Rightarrow> GetPaymentEventFieldsRow option)"

definition push :: "message list \<Rightarrow> book \<Rightarrow> book" where
  "push ms b = (fst b @ ms, snd b)"

lemma push_simps [simp]: "push [] b = b" "push ms (push ns b) = push (ns @ ms) b" "snd (push ms b) = snd b"
    "fst (push ms b) = fst b @ ms"
  by (simp_all add: push_def)

text \<open>\<open>book w\<close> is the queue of pending messages and the fields the events of a payment repeat.\<close>

locale recording_ports = switch_ports P status_of
  for P :: "'w ports" and status_of :: "'w \<Rightarrow> string \<Rightarrow> PaymentStatus option" +
  fixes book :: "'w \<Rightarrow> book"
  assumes settlement_present: "portSettlement P \<noteq> None"
    and UpdateStatus_book: "repoUpdateStatus (portRepo P) pid st w = (None, w') \<Longrightarrow>
        \<exists>f. snd (book w) pid = Some f \<and> book w' = push [change_message f st st] (book w)"
    and UpdateStatus_err_book: "repoUpdateStatus (portRepo P) pid st w = (Some e, w') \<Longrightarrow> book w' = book w"
    and MarkReserved_book: "repoMarkReserved (portRepo P) pid ttl w = (None, w') \<Longrightarrow>
        \<exists>f. snd (book w) pid = Some f \<and> book w' = push [change_message f StatusValidated StatusReserved] (book w)"
    and MarkReserved_err_book: "repoMarkReserved (portRepo P) pid ttl w = (Some e, w') \<Longrightarrow> book w' = book w"
    and UpdateRoute_book: "repoUpdateRoute (portRepo P) pid fee ms w = (r0, w') \<Longrightarrow> book w' = book w"
    and bank_book:
      "bankReserve (portBank P) b a m w = (r0, w') \<Longrightarrow> book w' = book w"
      "bankReleaseReservation (portBank P) b a m w = (r0, w') \<Longrightarrow> book w' = book w"
      "bankCredit (portBank P) b a m w = (r0, w') \<Longrightarrow> book w' = book w"
      "bankReverseCredit (portBank P) b a m w = (r0, w') \<Longrightarrow> book w' = book w"
    and lookup_book: "portLookup P bic w = (r1, w') \<Longrightarrow> book w' = book w"
    and routing_book: "portRouting P sb db ccy w = (r2, w') \<Longrightarrow> book w' = book w"
    and quoting_book: "portQuoting P sb db m ccy w = (r3, w') \<Longrightarrow> book w' = book w"
    and compliance_book: "portCompliance P pay w = (r4, w') \<Longrightarrow> book w' = book w"
    and settlement_book: "portSettlement P = Some cl \<Longrightarrow> cl pay w = (r0, w') \<Longrightarrow> book w' = book w"
    and reconciliation_book: "portReconciliation P i sb db m ccy stat w = (r0, w') \<Longrightarrow> book w' = book w"
    and notification_book: "portNotification P b ch sj bd i stat w = (r0, w') \<Longrightarrow> book w' = book w"
begin

lemmas book_frames = UpdateRoute_book bank_book lookup_book routing_book quoting_book compliance_book
  reconciliation_book notification_book

lemma ten_steps:
  obtains cl where "portSettlement P = Some cl" "gateway_steps P =
     [ValidateStep (portRepo P), LookupStep (portLookup P) (portRepo P), RouteStep (portRouting P) (portRepo P),
      QuoteStep (portQuoting P) (portRepo P), ScreenStep (portCompliance P) (portRepo P),
      ReserveStep (portRepo P) (portBank P) DefaultReservationTTL, CommitStep (portRepo P) (portBank P),
      SettleStep cl (portRepo P), RecordReconciliationStep (portReconciliation P), NotifyStep (portNotification P)]"
  using settlement_present by (auto simp: gateway_steps_def)

lemma ten: "length (gateway_steps P) = 10"
  by (rule ten_steps) simp

lemma set_status_book:
  assumes "set_status (portRepo P) pre st p w = (r, p', w')" and "snd (book w) (pID p) = Some f"
  shows "book w' = (if r = None then push [change_message f st st] (book w) else book w)"
  using assms UpdateStatus_book [of "pID p" st w w'] UpdateStatus_err_book [of "pID p" st w _ w']
  by (auto simp: set_status_cases split: option.splits)

lemma abort_status_book:
  assumes "abort_status (portRepo P) p w = (r, p', w')" and "snd (book w) (pID p) = Some f"
  shows "book w' = (if r = None then push [change_message f StatusAborted StatusAborted] (book w) else book w)"
  using assms UpdateStatus_book [of "pID p" StatusAborted w w'] UpdateStatus_err_book [of "pID p" StatusAborted w _ w']
  by (cases r) (auto simp: abort_status_cases)

text \<open>A step that succeeds appends its message, a step that fails appends nothing.\<close>

lemma ten_cases:
  assumes "i < (10::nat)"
  obtains "i = 0" | "i = 1" | "i = 2" | "i = 3" | "i = 4" | "i = 5" | "i = 6" | "i = 7" | "i = 8" | "i = 9"
proof -
  have "i = 0 \<or> i = 1 \<or> i = 2 \<or> i = 3 \<or> i = 4 \<or> i = 5 \<or> i = 6 \<or> i = 7 \<or> i = 8 \<or> i = 9" using assms by presburger
  then show thesis using that by blast
qed

lemma execute_book:
  assumes "i < 10" "Execute (gateway_steps P ! i) p w = (r, p', w')" "snd (book w) (pID p) = Some f"
  shows "book w' = push (if r = None then step_messages f i else []) (book w)"
proof -
  obtain cl where cl: "portSettlement P = Some cl" and g: "gateway_steps P =
     [ValidateStep (portRepo P), LookupStep (portLookup P) (portRepo P), RouteStep (portRouting P) (portRepo P),
      QuoteStep (portQuoting P) (portRepo P), ScreenStep (portCompliance P) (portRepo P),
      ReserveStep (portRepo P) (portBank P) DefaultReservationTTL, CommitStep (portRepo P) (portBank P),
      SettleStep cl (portRepo P), RecordReconciliationStep (portReconciliation P), NotifyStep (portNotification P)]"
    by (rule ten_steps)
  note e = assms(2) [unfolded g]
  have m: "step_messages f 0 = [change_message f StatusValidated StatusValidated]"
    "step_messages f (Suc 0) = [change_message f StatusLookedUp StatusLookedUp]" "step_messages f 2 = []"
    "step_messages f 3 = [change_message f StatusQuoted StatusQuoted]"
    "step_messages f 4 = [change_message f StatusScreened StatusScreened]"
    "step_messages f 5 = [change_message f StatusValidated StatusReserved]"
    "step_messages f 6 = [change_message f StatusCommitted StatusCommitted]"
    "step_messages f 7 = [change_message f StatusSettled StatusSettled]" "step_messages f 8 = []" "step_messages f 9 = []"
    by (simp_all add: step_messages_def step_changes_def)
  show ?thesis
    using assms(1)
  proof (cases rule: ten_cases)
    case 1
    with e assms(3) show ?thesis
      by (auto simp: m ValidateStep_def ValidateStep_Execute_def split: if_splits dest: set_status_book)
  next
    case 2
    with e assms(3) show ?thesis
      by (auto simp: m LookupStep_def LookupStep_Execute_def split: prod.splits sum.splits
          dest!: lookup_book dest: set_status_book)
  next
    case 3
    with e show ?thesis
      by (auto simp: m RouteStep_def RouteStep_Execute_def Let_def split: prod.splits sum.splits option.splits
          dest!: routing_book UpdateRoute_book)
  next
    case 4
    with e assms(3) show ?thesis
      by (auto simp: m QuoteStep_def QuoteStep_Execute_def split: prod.splits sum.splits
          dest!: quoting_book dest: set_status_book)
  next
    case 5
    with e assms(3) show ?thesis
      by (auto simp: m ScreenStep_def ScreenStep_Execute_def split: prod.splits sum.splits if_splits
          dest!: compliance_book dest: set_status_book)
  next
    case 6
    with e assms(3) show ?thesis
      by (auto simp: m ReserveStep_def ReserveStep_Execute_def Let_def split: prod.splits option.splits
          dest!: bank_book MarkReserved_book MarkReserved_err_book)
  next
    case 7
    with e assms(3) show ?thesis
      by (auto simp: m CommitStep_def CommitStep_Execute_def split: prod.splits option.splits
          dest!: bank_book dest: set_status_book)
  next
    case 8
    with e assms(3) show ?thesis
      by (auto simp: m SettleStep_def SettleStep_Execute_def split: prod.splits option.splits
          dest!: settlement_book [OF cl] dest: set_status_book)
  next
    case 9
    with e show ?thesis
      by (auto simp: m RecordReconciliationStep_def RecordReconciliationStep_Execute_def split: prod.splits
          dest!: reconciliation_book)
  next
    case 10
    with e show ?thesis
      by (auto simp: m NotifyStep_def NotifyStep_Execute_def split: prod.splits dest!: notification_book)
  qed
qed

text \<open>A compensation appends one \<^verbatim>\<open>payment.aborted\<close> event when its step has one and its write succeeds.\<close>

lemma compensate_book:
  assumes "i < 10" "Compensate (gateway_steps P ! i) p w = (r, p', w')" "snd (book w) (pID p) = Some f"
  shows "book w' = push (abort_messages f (if aborting i \<and> r = None then 1 else 0)) (book w)"
proof -
  obtain cl where g: "gateway_steps P =
     [ValidateStep (portRepo P), LookupStep (portLookup P) (portRepo P), RouteStep (portRouting P) (portRepo P),
      QuoteStep (portQuoting P) (portRepo P), ScreenStep (portCompliance P) (portRepo P),
      ReserveStep (portRepo P) (portBank P) DefaultReservationTTL, CommitStep (portRepo P) (portBank P),
      SettleStep cl (portRepo P), RecordReconciliationStep (portReconciliation P), NotifyStep (portNotification P)]"
    by (rule ten_steps)
  note e = assms(2) [unfolded g]
  have one: "abort_messages f (Suc 0) = [change_message f StatusAborted StatusAborted]" by (simp add: abort_messages_def)
  show ?thesis
    using assms(1)
  proof (cases rule: ten_cases)
    case 6
    obtain x v where b: "bankReleaseReservation (portBank P) (pSourceBIC p) (pSourceAccount p) (pAmount p) w = (x, v)" by fastforce
    with e 6 have "abort_status (portRepo P) p v = (r, p', w')" by (simp add: ReserveStep_def ReserveStep_Compensate_def)
    with abort_status_book [OF this] bank_book(2) [OF b] assms(3) show ?thesis by (simp add: 6 aborting_def one)
  next
    case 7
    obtain x v where b: "bankReverseCredit (portBank P) (pDestinationBIC p) (pDestAccount p) (pAmount p) w = (x, v)" by fastforce
    with e 7 have "abort_status (portRepo P) p v = (r, p', w')" by (simp add: CommitStep_def CommitStep_Compensate_def)
    with abort_status_book [OF this] bank_book(4) [OF b] assms(3) show ?thesis by (simp add: 7 aborting_def one)
  qed (use e assms(3) in \<open>auto simp: step_ctors no_compensation_def aborting_def one dest: abort_status_book\<close>)
qed

lemma forward_book:
  assumes "k \<le> 10" "forward (take k (gateway_steps P)) p w = Some (p', w')" "snd (book w) (pID p) = Some f"
  shows "book w' = push (run_messages f k) (book w) \<and> pID p' = pID p"
  using assms(1,2)
proof (induction k arbitrary: p' w')
  case (Suc k)
  from Suc.prems(1) have k: "k < length (gateway_steps P)" by (simp add: ten)
  from Suc.prems(2) obtain q v where f: "forward (take k (gateway_steps P)) p w = Some (q, v)"
    and x: "Execute (gateway_steps P ! k) q v = (None, p', w')"
    unfolding take_Suc_conv_app_nth [OF k] by (rule forward_lastE)
  note IH = Suc.IH [OF _ f]
  from IH Suc.prems(1) have v: "book v = push (run_messages f k) (book w)" "pID q = pID p" by auto
  have "book w' = push (step_messages f k) (book v)"
    using execute_book [OF _ x, of f] k v assms(3) by (simp add: ten)
  moreover have "pID p' = pID q" using gateway_step_core [OF nth_mem [OF k] x] by (simp add: pay_core_def)
  ultimately show ?case using v by (simp add: run_messages_Suc)
qed simp

end

section \<open>With a database that answers\<close>

locale live_recording = live_repository P status_of live + recording_ports P status_of book
  for P :: "'w ports" and status_of live book +
  assumes bank_keeps_live:
      "bankReleaseReservation (portBank P) b a m w = (r0, w') \<Longrightarrow> live w \<Longrightarrow> live w'"
      "bankReverseCredit (portBank P) b a m w = (r0, w') \<Longrightarrow> live w \<Longrightarrow> live w'"
    and stored_book: "status_of w i \<noteq> None \<longleftrightarrow> snd (book w) i \<noteq> None"
begin

lemma abort_status_succeeds:
  assumes "abort_status (portRepo P) p w = (r, p', w')" "live w" "snd (book w) (pID p) \<noteq> None"
  shows "r = None"
  using assms UpdateStatus_live [of w "pID p" StatusAborted] stored_book by (auto simp: abort_status_cases)

lemma compensate_succeeds:
  assumes "i < 10" "aborting i" "Compensate (gateway_steps P ! i) p w = (r, p', w')" "live w" "snd (book w) (pID p) \<noteq> None"
  shows "r = None"
proof -
  obtain cl where g: "gateway_steps P =
     [ValidateStep (portRepo P), LookupStep (portLookup P) (portRepo P), RouteStep (portRouting P) (portRepo P),
      QuoteStep (portQuoting P) (portRepo P), ScreenStep (portCompliance P) (portRepo P),
      ReserveStep (portRepo P) (portBank P) DefaultReservationTTL, CommitStep (portRepo P) (portBank P),
      SettleStep cl (portRepo P), RecordReconciliationStep (portReconciliation P), NotifyStep (portNotification P)]"
    by (rule ten_steps)
  note e = assms(3) [unfolded g]
  show ?thesis
    using assms(1)
  proof (cases rule: ten_cases)
    case 6
    obtain x v where b: "bankReleaseReservation (portBank P) (pSourceBIC p) (pSourceAccount p) (pAmount p) w = (x, v)" by fastforce
    with e 6 have "abort_status (portRepo P) p v = (r, p', w')" by (simp add: ReserveStep_def ReserveStep_Compensate_def)
    then show ?thesis by (rule abort_status_succeeds) (use assms(4,5) b in \<open>simp_all add: bank_keeps_live bank_book\<close>)
  next
    case 7
    obtain x v where b: "bankReverseCredit (portBank P) (pDestinationBIC p) (pDestAccount p) (pAmount p) w = (x, v)" by fastforce
    with e 7 have "abort_status (portRepo P) p v = (r, p', w')" by (simp add: CommitStep_def CommitStep_Compensate_def)
    then show ?thesis by (rule abort_status_succeeds) (use assms(4,5) b in \<open>simp_all add: bank_keeps_live bank_book\<close>)
  qed (use e assms(2,4,5) in \<open>auto simp: step_ctors aborting_def dest: abort_status_succeeds\<close>)
qed

lemma rollback_book:
  assumes "k \<le> 10" "compensate_all (rev (take k (gateway_steps P))) p w = (p', w')" "snd (book w) (pID p) = Some f"
  shows "\<exists>n \<le> abort_count k. book w' = push (abort_messages f n) (book w) \<and> (live w \<longrightarrow> n = abort_count k)"
  using assms
proof (induction k arbitrary: p w)
  case (Suc k)
  from Suc.prems(1) have k: "k < length (gateway_steps P)" "k < 10" by (simp_all add: ten)
  obtain r q v where c: "Compensate (gateway_steps P ! k) p w = (r, q, v)" by (cases "Compensate (gateway_steps P ! k) p w") auto
  let ?m = "if aborting k \<and> r = None then 1 else 0 :: nat"
  from Suc.prems(2) c have rest: "compensate_all (rev (take k (gateway_steps P))) q v = (p', w')"
    by (simp add: take_Suc_conv_app_nth [OF k(1)])
  have q: "q = p" by (rule gateway_compensate_payment [OF nth_mem [OF k(1)] c])
  have v: "book v = push (abort_messages f ?m) (book w)" by (rule compensate_book [OF k(2) c Suc.prems(3)])
  then have fv: "snd (book v) (pID q) = Some f" using Suc.prems(3) q by simp
  note IH = Suc.IH [OF _ rest fv]
  from IH k(2) obtain n where n: "n \<le> abort_count k" "book w' = push (abort_messages f n) (book v)"
    "live v \<longrightarrow> n = abort_count k" by auto
  have "book w' = push (abort_messages f (?m + n)) (book w)" unfolding n(2) v by (simp only: push_simps abort_messages_add)
  moreover have "?m + n \<le> abort_count (Suc k)" using n(1) by (simp add: abort_count_Suc)
  moreover have "?m + n = abort_count (Suc k)" if l: "live w"
  proof -
    have "live v" by (rule compensate_live [OF l nth_mem [OF k(1)] c])
    moreover have "r = None" if "aborting k" using compensate_succeeds [OF k(2) that c l] Suc.prems(3) by simp
    ultimately show ?thesis using n(3) by (simp add: abort_count_Suc)
  qed
  ultimately show ?case by blast
qed simp

lemma Run_book:
  assumes "sagaSteps s = gateway_steps P" "Run s p w = (r, s', p', w')" "snd (book w) (pID p) = Some f"
    and "k = nat (completedSteps s')"
  shows "\<exists>n \<le> abort_count k. book w' = push (run_messages f k @ abort_messages f n) (book w) \<and> k \<le> 10 \<and>
    (r = None \<longrightarrow> k = 10 \<and> n = 0) \<and> (r \<noteq> None \<and> live w \<longrightarrow> n = abort_count k)"
proof (cases r)
  case None
  note ok = Run_okE [OF assms(2) [unfolded None], unfolded assms(1)]
  from ok(2) assms(4) have k: "k = 10" by (simp add: ten)
  have "forward (take 10 (gateway_steps P)) p w = Some (p', w')" using ok(1) ten by simp
  from forward_book [OF _ this assms(3)] k None show ?thesis by (intro exI [of _ 0]) simp
next
  case (Some e)
  from Run_errE [OF assms(2) [unfolded Some], unfolded assms(1)] obtain j p1 w1 p2 w2 where
    j: "j < length (gateway_steps P)" "s' = s\<lparr>completedSteps := int j\<rparr>"
    and f: "forward (take j (gateway_steps P)) p w = Some (p1, w1)"
    and x: "Execute (gateway_steps P ! j) p1 w1 = (Some e, p2, w2)"
    and c: "compensate_all (rev (take j (gateway_steps P))) p2 w2 = (p', w')" by metis
  have k: "k = j" "j < 10" "j \<le> 10" using j assms(4) by (simp_all add: ten)
  from forward_book [OF k(3) f assms(3)] have b1: "book w1 = push (run_messages f j) (book w)" "pID p1 = pID p" by auto
  then have b2: "book w2 = book w1" using execute_book [OF k(2) x, of f] assms(3) by simp
  have id: "pID p2 = pID p" using gateway_step_core [OF nth_mem [OF j(1)] x] b1(2) by (simp add: pay_core_def)
  have "snd (book w2) (pID p2) = Some f" using b1 b2 id assms(3) by simp
  from rollback_book [OF k(3) c this] obtain n where n: "n \<le> abort_count j"
    "book w' = push (abort_messages f n) (book w2)" "live w2 \<longrightarrow> n = abort_count j" by blast
  have "live w2" if "live w"
    by (rule step_live [OF forward_live [OF _ f that] nth_mem [OF j(1)] x]) (rule set_take_subset)
  with n b1 b2 k Some show ?thesis by (intro exI [of _ n]) auto
qed

end

section \<open>The gateway's repository records\<close>

definition sw_book :: "switch \<Rightarrow> book" where
  "sw_book w = (queued (swPg w), stored_fields (swPg w))"

lemma book_tables:
  assumes "payment_tbl s' = payment_tbl s" "outbox_tbl s' = outbox_tbl s"
  shows "queued s' = queued s" "stored_fields s' = stored_fields s"
  using assms by (simp_all add: queued_def pending_rows_def stored_fields_def fun_eq_iff)

lemma err_keeps_book:
  assumes "tables s' = tables s"
  shows "queued s' = queued s \<and> stored_fields s' = stored_fields s"
  using assms book_tables [of s' s] by (simp add: tables_def)

lemma stored_fields_upd:
  assumes "payment_tbl s' = upd_where (\<lambda>r. rID r = pid) f (payment_tbl s)"
    and "\<And>r. event_fields (f r) = event_fields r"
  shows "stored_fields s' = stored_fields s"
proof
  have "rID (f r) = rID r" for r using assms(2) [of r] by (simp add: event_fields_def)
  then have "row_by rID i (payment_tbl s') = map_option (\<lambda>r. if rID r = pid then f r else r) (row_by rID i (payment_tbl s))" for i
    unfolding assms(1) by (rule row_by_upd)
  then show "stored_fields s' i = stored_fields s i" for i
    by (cases "row_by rID i (payment_tbl s)") (auto simp: stored_fields_def assms(2))
qed

lemma queued_snoc:
  assumes "outbox_tbl s' = outbox_tbl s @ [pending_row t topic key ev]"
  shows "queued s' = queued s @ [(topic, key, ev)]"
  using assms by (simp add: queued_def pending_rows_def pending_row_def row_message_def)

text \<open>The shape of a recorded change.\<close>

lemma change_book:
  assumes "row_by rID pid (payment_tbl s) = Some r"
    and "payment_tbl s' = upd_where (\<lambda>r. rID r = pid) g (payment_tbl s)"
    and "outbox_tbl s' = outbox_tbl s @ [pending_row s (''payment.'' @ ToLower b) (rEndToEndID r) (transition_event (event_fields r) a b)]"
    and "\<And>r. event_fields (g r) = event_fields r"
  shows "\<exists>f. stored_fields s pid = Some f \<and> queued s' = queued s @ [change_message f a b] \<and> stored_fields s' = stored_fields s"
proof (intro exI conjI)
  show "stored_fields s pid = Some (event_fields r)" by (simp add: stored_fields_def assms(1))
  have "rEndToEndID r = gfEndToEndID (event_fields r)" by (simp add: event_fields_def)
  then show "queued s' = queued s @ [change_message (event_fields r) a b]"
    unfolding queued_snoc [OF assms(3)] change_message_def by simp
  show "stored_fields s' = stored_fields s" by (rule stored_fields_upd [OF assms(2,4)])
qed

lemma UpdateStatus_records:
  assumes "repo_UpdateStatus pid st s = (None, s')"
  shows "\<exists>f. stored_fields s pid = Some f \<and> queued s' = queued s @ [change_message f st st] \<and> stored_fields s' = stored_fields s"
  by (rule repo_UpdateStatus_okE [OF assms], rule change_book, assumption+) (simp add: event_fields_def)

lemma MarkReserved_records:
  assumes "repo_MarkReserved pid ttl s = (None, s')"
  shows "\<exists>f. stored_fields s pid = Some f \<and> queued s' = queued s @ [change_message f StatusValidated StatusReserved] \<and>
    stored_fields s' = stored_fields s"
  by (rule repo_MarkReserved_okE [OF assms], rule change_book, assumption+) (simp add: event_fields_def)

lemma UpdateRoute_records:
  assumes "repo_UpdateRoute pid fee ms s = (r, s')"
  shows "queued s' = queued s \<and> stored_fields s' = stored_fields s"
proof (cases r)
  case None
  let ?g = "\<lambda>r. r\<lparr>rRouteFee := Some fee, rRouteEstimatedMs := Some (ucast ms), rStatus := StatusRouted, rUpdatedAt := pg_now s\<rparr>"
  from assms None obtain fs where s': "s' = update_payment pid ?g (s\<lparr>pg_faults := fs\<rparr>)" by (auto elim: repo_UpdateRoute_okE)
  have "stored_fields s' = stored_fields s"
    by (rule stored_fields_upd [where f = ?g and pid = pid]) (simp_all add: s' event_fields_def)
  moreover have "queued s' = queued s" by (simp add: s' queued_def pending_rows_def)
  ultimately show ?thesis by simp
next
  case (Some e)
  with assms err_keeps_book repo_UpdateRoute_err show ?thesis by blast
qed

lemma frame_book:
  assumes "swPg w' = swPg w \<and> swBank w' = swBank w \<and> swNetFaults w' = swNetFaults w"
  shows "sw_book w' = sw_book w"
  using assms by (simp add: sw_book_def)

lemma callBank_book:
  assumes "x \<in> set bank_ops" "callBank switch_bank_api bic x (money_body acc m) w = (r, w')"
  shows "sw_book w' = sw_book w"
proof (rule callBank_effect [OF assms])
  fix fs nf b'
  assume "w' = w\<lparr>swPg := (swPg w)\<lparr>pg_faults := fs\<rparr>, swNetFaults := nf, swBank := b'\<rparr>"
  then show ?thesis using book_tables [of "swPg w'" "swPg w"] by (simp add: sw_book_def)
qed

lemmas callBank_books = callBank_book [OF bank_ops_mem(1)] callBank_book [OF bank_ops_mem(2)]
  callBank_book [OF bank_ops_mem(3)] callBank_book [OF bank_ops_mem(4)]

lemma lift_records:
  assumes "lift swPg swPg_update m w = (r, w')"
  obtains s' where "m (swPg w) = (r, s')" "w' = w\<lparr>swPg := s'\<rparr>"
  using assms by (auto simp: lift_eq)

lemma gateway_recording: "recording_ports (gateway_ports env) sw_status sw_book"
proof (intro recording_ports.intro recording_ports_axioms.intro gateway_switch_ports, goal_cases)
  case 1
  then show ?case by (simp add: gateway_ports_def)
next
  case (2 pid st w w')
  then have "lift swPg swPg_update (repo_UpdateStatus pid st) w = (None, w')" by simp
  then show ?case by (rule lift_records) (auto simp: sw_book_def push_def dest: UpdateStatus_records)
next
  case (3 pid st w e w')
  then have "lift swPg swPg_update (repo_UpdateStatus pid st) w = (Some e, w')" by simp
  then show ?case by (rule lift_records) (auto simp: sw_book_def dest!: repo_UpdateStatus_err err_keeps_book)
next
  case (4 pid ttl w w')
  then have "lift swPg swPg_update (repo_MarkReserved pid ttl) w = (None, w')" by simp
  then show ?case by (rule lift_records) (auto simp: sw_book_def push_def dest: MarkReserved_records)
next
  case (5 pid ttl w e w')
  then have "lift swPg swPg_update (repo_MarkReserved pid ttl) w = (Some e, w')" by simp
  then show ?case by (rule lift_records) (auto simp: sw_book_def dest!: repo_MarkReserved_err err_keeps_book)
next
  case (6 pid fee ms w r w')
  then have "lift swPg swPg_update (repo_UpdateRoute pid fee ms) w = (r, w')" by simp
  then show ?case by (rule lift_records) (auto simp: sw_book_def dest!: UpdateRoute_records)
qed (use service_frame [where env = env, THEN frame_book] callBank_books in \<open>simp_all\<close>)

interpretation gbook: live_recording "gateway_ports env" sw_status sw_live sw_book for env
proof (intro live_recording.intro live_recording_axioms.intro gateway_live gateway_recording, goal_cases)
  case (1 b a m w r w')
  then show ?case using callBank_frame(2) [OF bank_ops_mem(2)] by simp
next
  case (2 b a m w r w')
  then show ?case using callBank_frame(2) [OF bank_ops_mem(4)] by simp
next
  case (3 w i)
  then show ?case by (simp add: sw_status_def pg_status_def sw_book_def stored_fields_def)
qed

text \<open>What a run of the gateway's saga leaves in the outbox, whatever fails on the way.\<close>

lemma gateway_run_messages:
  assumes "stored_fields (swPg w) (pID p) = Some f" "Run (gateway_saga env) p w = (r, s', p', w')"
    and "k = nat (completedSteps s')"
  shows "\<exists>n \<le> abort_count k. queued (swPg w') = queued (swPg w) @ run_messages f k @ abort_messages f n \<and> k \<le> 10 \<and>
    (r = None \<longrightarrow> k = 10 \<and> n = 0) \<and> (r \<noteq> None \<and> sw_live w \<longrightarrow> n = abort_count k)"
proof -
  have "snd (sw_book w) (pID p) = Some f" using assms(1) by (simp add: sw_book_def)
  from gbook.Run_book [OF gateway_saga_steps assms(2) this assms(3)] obtain n where n: "n \<le> abort_count k"
    "sw_book w' = push (run_messages f k @ abort_messages f n) (sw_book w)" "k \<le> 10"
    "r = None \<longrightarrow> k = 10 \<and> n = 0" "r \<noteq> None \<and> sw_live w \<longrightarrow> n = abort_count k" by blast
  from n(2) have "fst (sw_book w') = fst (sw_book w) @ run_messages f k @ abort_messages f n" by simp
  with n(1,3-5) show ?thesis by (auto simp: sw_book_def)
qed

section \<open>The relay empties the queue in order\<close>

lemma drop_published:
  "distinct (map g xs) \<Longrightarrow> filter (\<lambda>x. g x \<notin> set (map g (take n xs))) xs = drop n xs"
proof (induction xs arbitrary: n)
  case (Cons x xs)
  show ?case
  proof (cases n)
    case (Suc m)
    have "filter (\<lambda>y. g y \<notin> set (map g (take n (x # xs)))) (x # xs) = filter (\<lambda>y. g y \<notin> set (map g (take m xs))) xs"
      using Cons.prems Suc by (auto intro!: filter_cong) (metis imageI)
    also have "\<dots> = drop m xs" using Cons by simp
    finally show ?thesis by (simp add: Suc)
  qed simp
qed simp

lemma outbox_ids_mark: "map oID (outbox_tbl (mark_published ids s)) = map oID (outbox_tbl s)"
  by (simp add: mark_published_def map_upd_where)

lemma sorted_pending:
  assumes "sorted_wrt (<) (map oID (outbox_tbl s))"
  shows "sorted_wrt (<) (map oID (pending_rows s))"
  using assms by (simp add: pending_rows_def sorted_wrt_map sorted_wrt_filter)

lemma pending_batch_head:
  assumes "sorted_wrt (<) (map oID (outbox_tbl s))"
  shows "pending_batch (\<lambda>_. False) (outbox_tbl s) = take 500 (pending_rows s)"
proof -
  have "sort_key oID (pending_rows s) = pending_rows s"
    using sorted_pending [OF assms] by (intro sort_key_id_if_sorted) (simp add: strict_sorted_iff)
  then show ?thesis by (simp add: pending_batch_def pending_rows_def)
qed

lemma flushBatch_sends:
  assumes "no_faults s" "sorted_wrt (<) (map oID (outbox_tbl s))"
    and "appends publish" "\<And>t key ev k. fst (publish t key ev k) = None"
  shows "\<exists>s'. flushBatch publish (\<lambda>_. False) s k = (None, s', k @ map row_message (take 500 (pending_rows s))) \<and>
    no_faults s' \<and> sorted_wrt (<) (map oID (outbox_tbl s')) \<and> pending_rows s' = drop 500 (pending_rows s)"
proof -
  let ?P = "pending_rows s"
  obtain s' k' where fl: "flushBatch publish (\<lambda>_. False) s k = (None, s', k')" "no_faults s'"
    and len: "length (pending_rows s') \<le> length ?P - 500"
    using flushBatch_progress [where publish = publish and k = k, OF assms(1,4)] by blast
  from flushBatch_ok [OF assms(3) fl(1)] obtain n where n: "n \<le> length (take 500 ?P)"
    "k' = k @ map row_message (take n (take 500 ?P))"
    "outbox_tbl s' = outbox_tbl (mark_published (map oID (take n (take 500 ?P))) s)"
    unfolding pending_batch_head [OF assms(2)] by blast
  have d: "distinct (map oID ?P)" using sorted_pending [OF assms(2)] by (simp add: strict_sorted_iff)
  have tn: "take n (take 500 ?P) = take n ?P" using n(1) by (simp add: take_take)
  have p': "pending_rows s' = drop n ?P"
  proof -
    have "pending_rows s' = pending_rows (mark_published (map oID (take n ?P)) s)"
      by (simp only: pending_rows_def [of s'] pending_rows_def [of "mark_published _ _"] n(3) tn)
    also have "\<dots> = drop n ?P" unfolding pending_after_mark by (rule drop_published [OF d])
    finally show ?thesis .
  qed
  with len n(1) have "n = min 500 (length ?P)" by (simp add: min_def split: if_split_asm)
  then have "take n ?P = take 500 ?P" "drop n ?P = drop 500 ?P" by (simp_all add: min_def)
  moreover have "map oID (outbox_tbl s') = map oID (outbox_tbl s)" unfolding n(3) by (rule outbox_ids_mark)
  ultimately show ?thesis using fl n(2) tn p' assms(2) by (intro exI [of _ s']) simp
qed

lemma Relay_Run_sends:
  assumes "no_faults s" "sorted_wrt (<) (map oID (outbox_tbl s))" "length (pending_rows s) \<le> 500 * n"
    and "appends publish" "\<And>t key ev k. fst (publish t key ev k) = None"
  shows "\<exists>s'. Relay_Run publish (replicate n (\<lambda>_. False)) s k = (s', k @ queued s) \<and> queued s' = []"
  using assms(1-3)
proof (induction n arbitrary: s k)
  case 0
  then show ?case by (simp add: queued_def)
next
  case (Suc n)
  let ?k = "k @ map row_message (take 500 (pending_rows s))"
  obtain s1 where s1: "flushBatch publish (\<lambda>_. False) s k = (None, s1, ?k)" "no_faults s1"
    "sorted_wrt (<) (map oID (outbox_tbl s1))" "pending_rows s1 = drop 500 (pending_rows s)"
    using flushBatch_sends [where k = k, OF Suc.prems(1,2) assms(4,5)] by blast
  have "length (pending_rows s1) \<le> 500 * n" using s1(4) Suc.prems(3) by simp
  from Suc.IH [OF s1(2,3) this, of ?k] obtain s' where
    "Relay_Run publish (replicate n (\<lambda>_. False)) s1 ?k = (s', ?k @ queued s1)" "queued s' = []" by blast
  moreover have "map row_message (take 500 (pending_rows s)) @ queued s1 = queued s"
    unfolding queued_def s1(4) map_append [symmetric] by simp
  ultimately show ?case using s1(1) by (intro exI [of _ s']) simp
qed

end
