(* ===== verification/Story.thy ===== *)
theory Story
  imports History Gateway
begin

section \<open>From the request to the broker\<close>

text \<open>What happens between the answer 202 and the broker: the background task of the gateway runs the saga, may record
  an abort reason and post the callback; the relay then drains the outbox.\<close>

definition calm :: "pg \<Rightarrow> bool" where
  "calm s \<longleftrightarrow> no_faults s \<and> sorted_wrt (<) (map oID (outbox_tbl s))"

text \<open>A call that leaves the two tables alone and brings no failure.\<close>

definition still :: "pg \<Rightarrow> pg \<Rightarrow> bool" where
  "still s s' \<longleftrightarrow> payment_tbl s' = payment_tbl s \<and> outbox_tbl s' = outbox_tbl s \<and> (no_faults s \<longrightarrow> no_faults s')"

lemma still_refl [simp]: "still s s"
  by (simp add: still_def)

lemma still_trans: "still a b \<Longrightarrow> still b c \<Longrightarrow> still a c"
  by (simp add: still_def)

lemma stillD: "still s s' \<Longrightarrow> queued s' = queued s \<and> stored_fields s' = stored_fields s \<and> (calm s \<longrightarrow> calm s')"
  using book_tables [of s' s] by (simp add: still_def calm_def)

lemma still_stmt:
  assumes "stmt body s = (r, s')" "\<And>s r s'. body s = (r, s') \<Longrightarrow> still s s'"
  shows "still s s'"
  using assms(1)
proof (rule stmt_cases)
  fix e fs assume "pg_faults s = Some e # fs" "s' = s\<lparr>pg_faults := fs\<rparr>"
  then show ?thesis by (simp add: still_def no_faults_def)
next
  fix fs assume b: "body (s\<lparr>pg_faults := fs\<rparr>) = (r, s')" and n: "no_faults s \<Longrightarrow> no_faults (s\<lparr>pg_faults := fs\<rparr>)"
  have "still s (s\<lparr>pg_faults := fs\<rparr>)" using n by (simp add: still_def)
  then show ?thesis using assms(2) [OF b] by (rule still_trans)
qed

lemma pool_still:
  "poolSetAbortReason switch_pool reason pid w = (r, w') \<Longrightarrow> still (swPg w) (swPg w')"
  "poolCallbackURL switch_pool bic w = (u, w') \<Longrightarrow> still (swPg w) (swPg w')"
proof -
  assume "poolSetAbortReason switch_pool reason pid w = (r, w')"
  then obtain s' where s: "pg_set_abort_reason reason pid (swPg w) = (r, s')" "w' = w\<lparr>swPg := s'\<rparr>"
    by (auto simp: switch_pool_def lift_eq)
  then obtain x where "stmt (\<lambda>s. (Inr (), s\<lparr>txview_tbl := upd_where (\<lambda>v. tvPaymentID v = pid)
      (\<lambda>v. v\<lparr>tvAbortReason := Some reason\<rparr>) (txview_tbl s)\<rparr>)) (swPg w) = (x, s')"
    by (auto simp: pg_set_abort_reason_def split: prod.splits)
  then have "still (swPg w) s'" by (rule still_stmt) (auto simp: still_def no_faults_def)
  with s(2) show "still (swPg w) (swPg w')" by simp
next
  assume "poolCallbackURL switch_pool bic w = (u, w')"
  then obtain s' where s: "pg_callback_url bic (swPg w) = (u, s')" "w' = w\<lparr>swPg := s'\<rparr>"
    by (auto simp: switch_pool_def lift_eq)
  from s(1) have "still (swPg w) s'"
    unfolding pg_callback_url_def by (rule still_stmt) (auto split: option.splits)
  with s(2) show "still (swPg w) (swPg w')" by simp
qed

text \<open>The bank that receives the callback does not write to the switch's database.\<close>

definition callback_apart :: "switch callback_http \<Rightarrow> bool" where
  "callback_apart cb \<longleftrightarrow> (\<forall>url d w. swPg (snd (cbPost cb url d w)) = swPg w)"

lemma record_still: "still (swPg w) (swPg (record_abort (Some switch_pool) r p w))"
  by (auto simp: record_abort_def pool_still(1) split: option.splits prod.splits)

lemma report_still:
  assumes "callback_apart cb"
  shows "still (swPg w) (swPg (report_outcome (Some switch_pool) cb now p w))"
proof -
  obtain x w3 where c: "getCallbackURL switch_pool (pSourceBIC p) w = (x, w3)" by fastforce
  have b: "still (swPg w) (swPg w3)"
    using c by (auto simp: getCallbackURL_def pool_still(2) split: prod.splits sum.splits if_splits)
  have "swPg (sendCallback cb now url p w3) = swPg w3" for url
  proof (cases "cbNewRequest cb url")
    case None
    obtain y w4 where q: "cbPost cb url (status_report now p) w3 = (y, w4)" by fastforce
    have "swPg (snd (cbPost cb url (status_report now p) w3)) = swPg w3" using assms(1) unfolding callback_apart_def by blast
    with None q show ?thesis by (simp add: sendCallback_def)
  qed (simp add: sendCallback_def)
  then have "swPg (report_outcome (Some switch_pool) cb now p w) = swPg w3"
    by (simp add: report_outcome_def c split: sum.split)
  with b show ?thesis by simp
qed

lemma process_run:
  assumes "callback_apart cb" "processPaymentAsync gateway_handler cb now s p w = (s', p', w')"
  obtains r w1 where "Run s p w = (r, s', p', w1)" "still (swPg w1) (swPg w')"
proof -
  obtain r s1 p1 w1 where run: "Run s p w = (r, s1, p1, w1)" by (cases "Run s p w") auto
  have eq: "p' = p1" "s' = s1" and w': "w' = report_outcome (Some switch_pool) cb now p1 (record_abort (Some switch_pool) r p1 w1)"
    using assms(2) run by (auto simp: processPaymentAsync_def)
  show thesis using that run eq still_trans [OF record_still report_still [OF assms(1)]] by (simp add: w')
qed

lemma Run_keeps_live:
  assumes "sw_live w" "Run (gateway_saga env) p w = (r, s', p', w')"
  shows "sw_live w'"
proof (cases r)
  case None
  with Run_okE(1) [of "gateway_saga env" p w s' p' w'] assms(2)
  have "forward (gateway_steps (gateway_ports env)) p w = Some (p', w')" by simp
  with assms(1) show ?thesis using gsafe.forward_live by blast
next
  case (Some e)
  from Run_errE [OF assms(2) [unfolded Some], unfolded gateway_saga_steps] obtain j p1 w1 p2 w2 where
    j: "j < length (gateway_steps (gateway_ports env))"
    and f: "forward (take j (gateway_steps (gateway_ports env))) p w = Some (p1, w1)"
    and x: "Execute (gateway_steps (gateway_ports env) ! j) p1 w1 = (Some e, p2, w2)"
    and c: "compensate_all (rev (take j (gateway_steps (gateway_ports env)))) p2 w2 = (p', w')" by metis
  have "sw_live w1" by (rule gsafe.forward_live [OF _ f assms(1)]) (rule set_take_subset)
  then have "sw_live w2" by (rule gsafe.step_live [OF _ nth_mem [OF j] x])
  then show ?thesis using gsafe.compensate_all_live [where env = env, OF _ c] by (simp add: set_take_subset)
qed

text \<open>The message of an accepted submission.\<close>

definition received_message :: "Payment \<Rightarrow> payment_row \<Rightarrow> message" where
  "received_message p row = (''payment.received'', pEndToEndID p, received_event p row)"

lemma submit_queues:
  assumes "SubmitPayment gateway_handler genv r g = (resp, g')" "StatusCode resp = 202"
  obtains p p' row where "parse_payment genv r (pSourceBIC p) (pSourceAccount p) = Inr p" "gwSpawned g' = gwSpawned g @ [p']"
    "pID p' = pID p"
    "queued (swPg (gwWorld g')) = queued (swPg (gwWorld g)) @ [received_message p row]"
    "stored_fields (swPg (gwWorld g')) (pID p) = Some (event_fields row)"
    "rID row = pID p" "rEndToEndID row = pEndToEndID p"
    "sw_live (gwWorld g) \<Longrightarrow> sw_live (gwWorld g')"
proof -
  from assms obtain i p p' s' where p: "parse_payment genv r (pSourceBIC p) (pSourceAccount p) = Inr p"
    and c: "repo_CreateWithEvent p (swPg (gwWorld g)) = (None, p', s')"
    and g': "g' = g\<lparr>gwWorld := (gwWorld g)\<lparr>swPg := s'\<rparr>, gwSpawned := gwSpawned g @ [p']\<rparr>"
    by (rule submit_accepted_stores)
  from c obtain row where row: "rID row = pID p" "rEndToEndID row = pEndToEndID p"
    "outbox_tbl s' = outbox_tbl (swPg (gwWorld g)) @
       [pending_row (swPg (gwWorld g)) ''payment.received'' (pEndToEndID p) (received_event p row)]"
    "row_by rID (pID p) (payment_tbl s') = Some row" "pID p' = pID p" by (rule create_effects)
  have "queued s' = queued (swPg (gwWorld g)) @ [received_message p row]"
    using queued_snoc [OF row(3)] by (simp add: received_message_def)
  moreover have "stored_fields s' (pID p) = Some (event_fields row)" by (simp add: stored_fields_def row(4))
  moreover have "sw_live (gwWorld g')" if "sw_live (gwWorld g)"
    using that pg_wf_CreateWithEvent [OF _ c] repo_evolves(4) [OF c] by (simp add: g' sw_live_def pg_evolves_def)
  ultimately show thesis using p row(1,2,5) by (intro that [where p = p and p' = p' and row = row]) (simp_all add: g')
qed

definition step_events :: "nat \<Rightarrow> nat" where
  "step_events i = (if step_changes ! i = None then 0 else 1)"

lemma length_run_messages: "length (run_messages f k) = sum_list (map step_events [0..<k])"
proof -
  have "length (step_messages f i) = step_events i" for i
    by (simp add: step_messages_def step_events_def split: option.split prod.split)
  then show ?thesis by (simp add: run_messages_def length_concat o_def)
qed

lemma few_messages: "k \<le> 10 \<Longrightarrow> length (run_messages f k) \<le> 7 \<and> abort_count k \<le> 6"
proof -
  have "list_all (\<lambda>k. sum_list (map step_events [0..<k]) \<le> 7 \<and> abort_count k \<le> 6) [0..<11]" by code_simp
  moreover assume "k \<le> 10"
  ultimately show ?thesis by (auto simp: list_all_iff length_run_messages)
qed

text \<open>The background task of a stored payment: the queue afterwards.\<close>

lemma process_queues:
  assumes "callback_apart cb" "sw_live w" "stored_fields (swPg w) (pID p) = Some f"
    and "processPaymentAsync gateway_handler cb now (gateway_saga env) p w = (s', p', w')"
    and "k = nat (completedSteps s')"
  shows "queued (swPg w') = queued (swPg w) @ run_messages f k @ (if k = 10 then [] else abort_messages f (abort_count k))"
    and "calm (swPg w')" "k \<le> 10"
proof -
  from assms(1,4) obtain r w1 where run: "Run (gateway_saga env) p w = (r, s', p', w1)" and st: "still (swPg w1) (swPg w')"
    by (rule process_run)
  from gateway_run_messages [OF assms(3) run assms(5)] obtain n where n:
    "queued (swPg w1) = queued (swPg w) @ run_messages f k @ abort_messages f n" "k \<le> 10"
    "r = None \<longrightarrow> k = 10 \<and> n = 0" "r \<noteq> None \<and> sw_live w \<longrightarrow> n = abort_count k" by blast
  have k: "k \<noteq> 10" if "r \<noteq> None"
  proof -
    from that obtain e where "r = Some e" by auto
    with Run_errE [of "gateway_saga env" p w e s' p' w1] run obtain j where "j < length (sagaSteps (gateway_saga env))"
      "s' = (gateway_saga env)\<lparr>completedSteps := int j\<rparr>" by blast
    then show ?thesis using assms(5) gbook.ten by simp
  qed
  show "queued (swPg w') = queued (swPg w) @ run_messages f k @ (if k = 10 then [] else abort_messages f (abort_count k))"
    using stillD [OF st] n k assms(2) by (cases r) auto
  have "sw_live w1" by (rule Run_keeps_live [OF assms(2) run])
  then have "calm (swPg w1)" by (simp add: calm_def sw_live_def pg_wf_def outbox_wf_def)
  then show "calm (swPg w')" using stillD [OF st] by blast
  show "k \<le> 10" by (rule n(2))
qed

end
