(* ===== verification/System.thy ===== *)
theory System
  imports Story Concurrent Sweeper Reachable
begin

text \<open>
  The gateway process as one state machine: requests that arrive, the background runs of accepted
  payments making one saga step at a time in any order, the sweeper, the outbox relay and the
  reports of ended runs, over one database, with statements and requests that may fail at any
  moment. \<^verbatim>\<open>row_ports\<close> is the contract on the payment table: a repository call changes
  the status of the rows of its own payment and no other column of interest. The invariant types
  the stored rows and ties every run to its row.
\<close>

section \<open>Typed rows\<close>

definition row_core :: "payment_row \<Rightarrow> string \<times> string \<times> string \<times> string \<times> string \<times> int64 \<times> string \<times> string option \<times> string option" where
  "row_core r = (rID r, rSourceBic r, rSourceAccount r, rDestinationBic r, rDestAccount r, rAmount r, rCurrency r,
     rChargeBearer r, rPurposeCode r)"

text \<open>What the column types and the registry guarantee, and what the first step of the saga has checked.\<close>

definition row_typed :: "payment_row \<Rightarrow> bool" where
  "row_typed r \<longleftrightarrow> length (rCurrency r) = 3 \<and> (\<forall>c \<in> set_option (rChargeBearer r). length c = 4) \<and>
     (\<forall>c \<in> set_option (rPurposeCode r). length c = 4) \<and>
     (rSourceBic r, rSourceAccount r) \<in> (\<lambda>p. (partBIC p, partAccount p)) ` set gateway_participants"

definition row_valid :: "payment_row \<Rightarrow> bool" where
  "row_valid r \<longleftrightarrow> 0 < sint (rAmount r) \<and> rDestinationBic r \<noteq> '''' \<and> rDestAccount r \<noteq> ''''"

definition row_ok :: "payment_row \<Rightarrow> bool" where
  "row_ok r \<longleftrightarrow> rStatus r \<in> set all_statuses \<and> row_typed r \<and> (rStatus r \<noteq> StatusReceived \<longrightarrow> row_valid r)"

definition rows_ok :: "payment_row list \<Rightarrow> bool" where
  "rows_ok R \<longleftrightarrow> distinct (map rID R) \<and> list_all row_ok R"

lemma core_decides:
  assumes "row_core r' = row_core r"
  shows "row_typed r' = row_typed r" "row_valid r' = row_valid r" "rID r' = rID r"
  using assms by (simp_all add: row_core_def row_typed_def row_valid_def)

section \<open>Changes of one payment's rows\<close>

definition writes :: "string \<Rightarrow> PaymentStatus set \<Rightarrow> payment_row list \<Rightarrow> payment_row list \<Rightarrow> bool" where
  "writes pid S R R' \<longleftrightarrow> (\<exists>f. R' = upd_where (\<lambda>r. rID r = pid) f R \<and>
     (\<forall>r. row_core (f r) = row_core r \<and> (rStatus (f r) = rStatus r \<or> rStatus (f r) \<in> S)))"

lemma writesI:
  assumes "R' = upd_where (\<lambda>r. rID r = pid) f R" "\<And>r. row_core (f r) = row_core r" "\<And>r. rStatus (f r) \<in> S"
  shows "writes pid S R R'"
  using assms unfolding writes_def by blast

lemma writes_same [intro, simp]: "writes pid S R R"
  unfolding writes_def by (rule exI [of _ "\<lambda>r. r"]) (simp add: upd_where_def)

lemma writes_mono: "writes pid S R R' \<Longrightarrow> S \<subseteq> T \<Longrightarrow> writes pid T R R'"
  unfolding writes_def by blast

lemma writes_trans:
  assumes "writes pid S R1 R2" "writes pid S R2 R3"
  shows "writes pid S R1 R3"
proof -
  obtain f where f: "R2 = upd_where (\<lambda>r. rID r = pid) f R1"
      "\<And>r. row_core (f r) = row_core r" "\<And>r. rStatus (f r) = rStatus r \<or> rStatus (f r) \<in> S"
    using assms(1) unfolding writes_def by blast
  obtain g where g: "R3 = upd_where (\<lambda>r. rID r = pid) g R2"
      "\<And>r. row_core (g r) = row_core r" "\<And>r. rStatus (g r) = rStatus r \<or> rStatus (g r) \<in> S"
    using assms(2) unfolding writes_def by blast
  have "rID (f r) = rID r" for r using f(2) core_decides(3) by blast
  then have "R3 = upd_where (\<lambda>r. rID r = pid) (\<lambda>r. g (f r)) R1" by (simp add: g(1) f(1) upd_where_def)
  moreover have "row_core (g (f r)) = row_core r" for r by (simp only: f(2) g(2))
  moreover have "rStatus (g (f r)) = rStatus r \<or> rStatus (g (f r)) \<in> S" for r
    using f(3) [of r] g(3) [of "f r"] by (elim disjE) simp_all
  ultimately show ?thesis unfolding writes_def by blast
qed

lemma writes_ids:
  assumes "writes pid S R R'"
  shows "map rID R' = map rID R"
proof -
  from assms obtain f where f: "R' = upd_where (\<lambda>r. rID r = pid) f R" "\<And>r. row_core (f r) = row_core r"
    unfolding writes_def by blast
  show ?thesis unfolding f(1) by (rule map_upd_where) (rule core_decides(3) [OF f(2)])
qed

lemma writes_row:
  assumes "writes pid S R R'" "row_by rID i R = Some row"
  obtains row' where "row_by rID i R' = Some row'" "row_core row' = row_core row"
proof -
  from assms(1) obtain f where f: "R' = upd_where (\<lambda>r. rID r = pid) f R" "\<And>r. row_core (f r) = row_core r"
    unfolding writes_def by blast
  have "row_by rID i R' = map_option (\<lambda>r. if rID r = pid then f r else r) (row_by rID i R)"
    unfolding f(1) by (rule row_by_upd) (rule core_decides(3) [OF f(2)])
  with assms(2) f(2) that show thesis by simp
qed

text \<open>Writing a legal status to a valid row keeps the table typed.\<close>

lemma writes_rows_ok:
  assumes "writes pid S R R'" "rows_ok R" "S \<subseteq> set all_statuses"
    and "R' \<noteq> R \<longrightarrow> (\<exists>row. row_by rID pid R = Some row \<and> row_valid row)"
  shows "rows_ok R'"
proof (cases "R' = R")
  case False
  with assms(4) obtain row where row: "row_by rID pid R = Some row" "row_valid row" by blast
  from assms(1) obtain f where f: "R' = upd_where (\<lambda>r. rID r = pid) f R"
    "\<And>r. row_core (f r) = row_core r \<and> (rStatus (f r) = rStatus r \<or> rStatus (f r) \<in> S)"
    unfolding writes_def by blast
  have "row_ok (if rID r = pid then f r else r)" if "r \<in> set R" for r
  proof (cases "rID r = pid")
    case True
    have "row \<in> set R" "rID row = pid" using row(1) by (auto dest: row_by_SomeD)
    with True that assms(2) have "r = row" by (auto simp: rows_ok_def distinct_map inj_on_def)
    moreover have "row_ok r" using assms(2) that by (simp add: rows_ok_def list_all_iff)
    ultimately show ?thesis using True f(2) [of r] row(2) core_decides [of "f r" r] assms(3) by (auto simp: row_ok_def)
  next
    case False
    with assms(2) that show ?thesis by (simp add: rows_ok_def list_all_iff)
  qed
  then have "list_all row_ok R'" by (auto simp: f(1) list_all_iff upd_where_in)
  moreover have "distinct (map rID R')" using writes_ids [OF assms(1)] assms(2) by (simp add: rows_ok_def)
  ultimately show ?thesis by (simp add: rows_ok_def)
qed (use assms(2) in simp)

section \<open>The contract on the payment table\<close>

definition run_statuses :: "PaymentStatus set" where
  "run_statuses = set (step_statuses @ [StatusSettled])"

definition pay_valid :: "Payment \<Rightarrow> bool" where
  "pay_valid p \<longleftrightarrow> 0 < sint (pAmount p) \<and> pDestinationBIC p \<noteq> '''' \<and> pDestAccount p \<noteq> ''''"

locale row_ports = switch_ports P status_of
  for P :: "'w ports" and status_of :: "'w \<Rightarrow> string \<Rightarrow> PaymentStatus option" +
  fixes rows :: "'w \<Rightarrow> payment_row list"
  assumes UpdateStatus_rows: "repoUpdateStatus (portRepo P) pid st w = (r0, w') \<Longrightarrow> writes pid {st} (rows w) (rows w')"
    and MarkReserved_rows: "repoMarkReserved (portRepo P) pid ttl w = (r0, w') \<Longrightarrow> writes pid {StatusReserved} (rows w) (rows w')"
    and UpdateRoute_rows: "repoUpdateRoute (portRepo P) pid fee ms w = (r0, w') \<Longrightarrow> writes pid {StatusRouted} (rows w) (rows w')"
    and bank_rows:
      "bankReserve (portBank P) b a m w = (r0, w') \<Longrightarrow> rows w' = rows w"
      "bankReleaseReservation (portBank P) b a m w = (r0, w') \<Longrightarrow> rows w' = rows w"
      "bankCredit (portBank P) b a m w = (r0, w') \<Longrightarrow> rows w' = rows w"
      "bankReverseCredit (portBank P) b a m w = (r0, w') \<Longrightarrow> rows w' = rows w"
    and lookup_rows: "portLookup P bic w = (r1, w') \<Longrightarrow> rows w' = rows w"
    and routing_rows: "portRouting P sb db ccy w = (r2, w') \<Longrightarrow> rows w' = rows w"
    and quoting_rows: "portQuoting P sb db m ccy w = (r3, w') \<Longrightarrow> rows w' = rows w"
    and compliance_rows: "portCompliance P pay w = (r4, w') \<Longrightarrow> rows w' = rows w"
    and settlement_rows: "portSettlement P = Some cl \<Longrightarrow> cl pay w = (r0, w') \<Longrightarrow> rows w' = rows w"
    and reconciliation_rows: "portReconciliation P i sb db m ccy stat w = (r0, w') \<Longrightarrow> rows w' = rows w"
    and notification_rows: "portNotification P b ch sj bd i stat w = (r0, w') \<Longrightarrow> rows w' = rows w"
begin

lemmas row_frames = bank_rows lookup_rows routing_rows quoting_rows compliance_rows reconciliation_rows notification_rows

lemma set_status_rows: "set_status (portRepo P) pre st p w = (r, p', w') \<Longrightarrow> writes (pID p) {st} (rows w) (rows w')"
  by (auto simp: set_status_cases dest: UpdateStatus_rows)

lemma abort_status_rows: "abort_status (portRepo P) p w = (r, p', w') \<Longrightarrow> writes (pID p) {StatusAborted} (rows w) (rows w')"
  by (auto simp: abort_status_cases dest: UpdateStatus_rows)

lemma settle_rows:
  assumes "Some cl = portSettlement P" "SettleStep_Execute cl (portRepo P) p w = (r, p', w')"
  shows "writes (pID p) {StatusSettled} (rows w) (rows w')"
proof -
  obtain x w1 where c: "cl p w = (x, w1)" by fastforce
  have "rows w1 = rows w" by (rule settlement_rows [OF assms(1) [symmetric] c])
  with assms(2) c show ?thesis
    by (auto simp: SettleStep_Execute_def split: option.splits dest: set_status_rows)
qed

lemma execute_writes:
  assumes "stp \<in> set (gateway_steps P)" "Execute stp p w = (r, p', w')"
  shows "writes (pID p) run_statuses (rows w) (rows w')"
proof -
  have "StatusValidated \<in> run_statuses" "StatusLookedUp \<in> run_statuses" "StatusRouted \<in> run_statuses" "StatusQuoted \<in> run_statuses"
    "StatusScreened \<in> run_statuses" "StatusReserved \<in> run_statuses" "StatusCommitted \<in> run_statuses" "StatusSettled \<in> run_statuses"
    by (simp_all add: run_statuses_def step_statuses_def)
  then show ?thesis
    using assms
    by (auto simp: gateway_steps_def step_ctors other_step_defs Let_def
        split: option.splits if_splits prod.splits sum.splits
        dest!: row_frames set_status_rows MarkReserved_rows UpdateRoute_rows dest: settle_rows elim!: writes_mono)
qed

lemma validate_writes:
  assumes "ValidateStep_Execute (portRepo P) p w = (r, p', w')" "r = None \<or> rows w' \<noteq> rows w"
  shows "pay_valid p"
  using assms by (auto simp: ValidateStep_Execute_def pay_valid_def sle_def split: if_splits)

lemma compensate_writes:
  assumes "stp \<in> set (gateway_steps P)" "Compensate stp p w = (r, p', w')"
  shows "writes (pID p) {StatusAborted} (rows w) (rows w')"
  using assms
  by (auto simp: gateway_steps_def step_ctors step_defs no_compensation_def split: option.splits prod.splits
      dest!: row_frames abort_status_rows)

lemma sweep_writes:
  assumes "set sts \<subseteq> set (gateway_steps P)" "compensate_until_error sts p w = (r, p', w')"
  shows "writes (pID p) {StatusAborted} (rows w) (rows w')"
  using assms
proof (induction sts arbitrary: w p)
  case (Cons stp sts)
  obtain x q v where c: "Compensate stp p w = (x, q, v)" by (cases "Compensate stp p w") auto
  have stp: "stp \<in> set (gateway_steps P)" and sub: "set sts \<subseteq> set (gateway_steps P)" using Cons.prems(1) by simp_all
  have q: "q = p" by (rule gateway_compensate_payment [OF stp c])
  note one = compensate_writes [OF stp c]
  show ?case
  proof (cases x)
    case None
    with Cons.prems(2) c q have "compensate_until_error sts p v = (r, p', w')" by simp
    from writes_trans [OF one Cons.IH [OF sub this]] show ?thesis .
  next
    case (Some e)
    with Cons.prems(2) c one show ?thesis by simp
  qed
qed simp

end

section \<open>A run and its row\<close>

definition matches :: "Payment \<Rightarrow> payment_row \<Rightarrow> bool" where
  "matches p r \<longleftrightarrow> pAmount p = rAmount r \<and> pDestinationBIC p = rDestinationBic r \<and> pDestAccount p = rDestAccount r"

fun touched :: "phase \<Rightarrow> bool" where
  "touched (Forward i) \<longleftrightarrow> 0 < i"
| "touched (Undo k) \<longleftrightarrow> 0 < k"

fun undo_within :: "nat \<Rightarrow> phase \<Rightarrow> bool" where
  "undo_within n (Forward i) \<longleftrightarrow> True"
| "undo_within n (Undo k) \<longleftrightarrow> k \<le> n"

definition tied :: "nat \<Rightarrow> payment_row list \<Rightarrow> phase \<times> Payment \<Rightarrow> bool" where
  "tied n R c \<longleftrightarrow> undo_within n (fst c) \<and> (\<exists>row. row_by rID (pID (snd c)) R = Some row \<and> matches (snd c) row \<and> (touched (fst c) \<longrightarrow> row_valid row))"

definition sweepable :: "payment_row list \<Rightarrow> Reservation \<Rightarrow> bool" where
  "sweepable R r \<longleftrightarrow> (\<exists>row. row_by rID (rsPaymentID r) R = Some row \<and> row_valid row)"

lemma matches_core: "row_core r' = row_core r \<Longrightarrow> matches p r' = matches p r"
  by (simp add: matches_def row_core_def)

lemma tied_writes:
  assumes "writes pid S R R'" "tied n R c"
  shows "tied n R' c"
proof -
  from assms(2) obtain row where row: "row_by rID (pID (snd c)) R = Some row" "matches (snd c) row" "touched (fst c) \<longrightarrow> row_valid row"
      "undo_within n (fst c)"
    unfolding tied_def by blast
  from assms(1) row(1) obtain row' where "row_by rID (pID (snd c)) R' = Some row'" "row_core row' = row_core row" by (rule writes_row)
  with row(2,3,4) show ?thesis unfolding tied_def using matches_core core_decides(2) by blast
qed

lemma sweepable_writes:
  assumes "writes pid S R R'" "sweepable R r"
  shows "sweepable R' r"
proof -
  from assms(2) obtain row where row: "row_by rID (rsPaymentID r) R = Some row" "row_valid row" unfolding sweepable_def by blast
  from assms(1) row(1) obtain row' where "row_by rID (rsPaymentID r) R' = Some row'" "row_core row' = row_core row" by (rule writes_row)
  with row(2) show ?thesis unfolding sweepable_def using core_decides(2) by blast
qed

lemma legal_statuses: "run_statuses \<subseteq> set all_statuses" "StatusAborted \<in> set all_statuses" "StatusReceived \<in> set all_statuses"
  by (simp_all add: run_statuses_def step_statuses_def all_statuses_def)

context row_ports
begin

lemma run_step_rows:
  assumes "run_step (gateway_steps P) ph p w = Some (c, w')" "rows_ok (rows w)" "tied (length (gateway_steps P)) (rows w) (ph, p)"
  shows "rows_ok (rows w')" "\<exists>S. writes (pID p) S (rows w) (rows w')" "tied (length (gateway_steps P)) (rows w') c"
proof -
  from assms(3) obtain row where row: "row_by rID (pID p) (rows w) = Some row" "matches p row" "touched ph \<longrightarrow> row_valid row"
    by (auto simp: tied_def)
  have "rows_ok (rows w') \<and> (\<exists>S. writes (pID p) S (rows w) (rows w')) \<and> tied (length (gateway_steps P)) (rows w') c"
  proof (cases ph)
    case (Forward i)
    obtain r p' w1 where e: "Execute (gateway_steps P ! i) p w = (r, p', w1)" by (cases "Execute (gateway_steps P ! i) p w") auto
    from assms(1) Forward e have i: "i < length (gateway_steps P)" and w1: "w1 = w'"
      and c: "c = (if r = None then Forward (Suc i) else Undo i, p')"
      by (auto simp: execStep_def split: if_splits option.splits)
    note e = e [unfolded w1]
    note st = execute_writes [OF nth_mem [OF i] e]
    have "row_valid row" if "r = None \<or> rows w' \<noteq> rows w"
    proof (cases i)
      case 0
      then have "ValidateStep_Execute (portRepo P) p w = (r, p', w')"
        using e by (simp add: gateway_steps_def ValidateStep_def)
      from validate_writes [OF this that] row(2) show ?thesis by (simp add: pay_valid_def matches_def row_valid_def)
    qed (use Forward row(3) in simp)
    note valid = this
    obtain row' where row': "row_by rID (pID p) (rows w') = Some row'" "row_core row' = row_core row"
      by (rule writes_row [OF st row(1)])
    have core: "pID p' = pID p" "matches p' row' = matches p row"
      using gateway_step_core [OF nth_mem [OF i] e] matches_core [OF row'(2)] by (simp_all add: pay_core_def matches_def)
    have "row_valid row" if "touched (fst c)" using that valid Forward row(3) by (cases r) (auto simp: c)
    then have "tied (length (gateway_steps P)) (rows w') c" using row' core row(2) core_decides(2) [OF row'(2)] i by (auto simp: tied_def c)
    moreover have "rows_ok (rows w')"
      by (rule writes_rows_ok [OF st assms(2)]) (use legal_statuses(1) valid row(1) in auto)
    ultimately show ?thesis using st by blast
  next
    case (Undo n)
    with assms(1) obtain k where n: "n = Suc k" by (cases n) auto
    obtain r p' w1 where e: "Compensate (gateway_steps P ! k) p w = (r, p', w1)" by (cases "Compensate (gateway_steps P ! k) p w") auto
    from assms(1) Undo n e have w1: "w1 = w'" and c: "c = (Undo k, p')" by auto
    have k: "k < length (gateway_steps P)" and valid: "row_valid row" using assms(3) row(3) Undo n by (simp_all add: tied_def)
    note e = e [unfolded w1]
    have p': "p' = p" by (rule gateway_compensate_payment [OF nth_mem [OF k] e])
    note st = compensate_writes [OF nth_mem [OF k] e]
    have "tied (length (gateway_steps P)) (rows w) c" using row valid k by (simp add: tied_def c p')
    then have "tied (length (gateway_steps P)) (rows w') c" by (rule tied_writes [OF st])
    moreover have "rows_ok (rows w')"
      by (rule writes_rows_ok [OF st assms(2)]) (use legal_statuses(2) valid row(1) in auto)
    ultimately show ?thesis using st by blast
  qed
  then show "rows_ok (rows w')" "\<exists>S. writes (pID p) S (rows w) (rows w')" "tied (length (gateway_steps P)) (rows w') c" by blast+
qed

end

section \<open>The gateway's payment table\<close>

definition sw_rows :: "switch \<Rightarrow> payment_row list" where
  "sw_rows w = payment_tbl (swPg w)"

lemma tables_rows: "tables s' = tables s \<Longrightarrow> payment_tbl s' = payment_tbl s"
  by (simp add: tables_def)

lemma UpdateStatus_writes:
  assumes "repo_UpdateStatus pid st s = (r, s')"
  shows "writes pid {st} (payment_tbl s) (payment_tbl s')"
proof (cases r)
  case None
  with assms have "repo_UpdateStatus pid st s = (None, s')" by simp
  then show ?thesis by (rule repo_UpdateStatus_okE) (rule writesI, assumption, simp_all add: row_core_def)
next
  case (Some e)
  with assms tables_rows [OF repo_UpdateStatus_err] show ?thesis by simp
qed

lemma MarkReserved_writes:
  assumes "repo_MarkReserved pid ttl s = (r, s')"
  shows "writes pid {StatusReserved} (payment_tbl s) (payment_tbl s')"
proof (cases r)
  case None
  with assms have "repo_MarkReserved pid ttl s = (None, s')" by simp
  then show ?thesis by (rule repo_MarkReserved_okE) (rule writesI, assumption, simp_all add: row_core_def)
next
  case (Some e)
  with assms tables_rows [OF repo_MarkReserved_err] show ?thesis by simp
qed

lemma UpdateRoute_writes:
  assumes "repo_UpdateRoute pid fee ms s = (r, s')"
  shows "writes pid {StatusRouted} (payment_tbl s) (payment_tbl s')"
proof (cases r)
  case None
  let ?g = "\<lambda>r. r\<lparr>rRouteFee := Some fee, rRouteEstimatedMs := Some (ucast ms), rStatus := StatusRouted, rUpdatedAt := pg_now s\<rparr>"
  from assms None obtain fs where s': "s' = update_payment pid ?g (s\<lparr>pg_faults := fs\<rparr>)" by (auto elim: repo_UpdateRoute_okE)
  show ?thesis by (rule writesI [where f = ?g]) (simp_all add: s' row_core_def)
next
  case (Some e)
  with assms tables_rows [OF repo_UpdateRoute_err] show ?thesis by simp
qed

lemma frame_rows:
  "swPg w' = swPg w \<and> swBank w' = swBank w \<and> swNetFaults w' = swNetFaults w \<Longrightarrow> sw_rows w' = sw_rows w"
  by (simp add: sw_rows_def)

lemma callBank_rows:
  assumes "x \<in> set bank_ops" "callBank switch_bank_api bic x (money_body acc m) w = (r, w')"
  shows "sw_rows w' = sw_rows w"
  by (rule callBank_effect [OF assms]) (simp add: sw_rows_def)

lemmas callBank_row_frames = callBank_rows [OF bank_ops_mem(1)] callBank_rows [OF bank_ops_mem(2)]
  callBank_rows [OF bank_ops_mem(3)] callBank_rows [OF bank_ops_mem(4)]

interpretation grow: row_ports "gateway_ports env" sw_status sw_rows for env
proof (intro row_ports.intro row_ports_axioms.intro gateway_switch_ports, goal_cases)
  case (1 pid st w r w')
  then have "lift swPg swPg_update (repo_UpdateStatus pid st) w = (r, w')" by simp
  then show ?case by (rule lift_records) (simp add: sw_rows_def UpdateStatus_writes)
next
  case (2 pid ttl w r w')
  then have "lift swPg swPg_update (repo_MarkReserved pid ttl) w = (r, w')" by simp
  then show ?case by (rule lift_records) (simp add: sw_rows_def MarkReserved_writes)
next
  case (3 pid fee ms w r w')
  then have "lift swPg swPg_update (repo_UpdateRoute pid fee ms) w = (r, w')" by simp
  then show ?case by (rule lift_records) (simp add: sw_rows_def UpdateRoute_writes)
qed (use service_frame [where env = env, THEN frame_rows] callBank_row_frames in \<open>simp_all\<close>)

lemma sweep_one_rows:
  assumes "sagaSteps s = gateway_steps (gateway_ports env)"
  shows "writes (rsPaymentID r) {StatusAborted} (sw_rows w) (sw_rows (sweep_one (portRepo (gateway_ports env)) s r w))"
proof -
  obtain x s1 where g: "repo_GetByID (rsPaymentID r) (swPg w) = (x, s1)" by fastforce
  have same: "payment_tbl s1 = payment_tbl (swPg w)" by (rule tables_rows [OF repo_GetByID_keeps [OF g]])
  have get: "repoGetByID (portRepo (gateway_ports env)) (rsPaymentID r) w = (x, w\<lparr>swPg := s1\<rparr>)" using g by (simp add: lift_def)
  show ?thesis
  proof (cases "\<exists>p. x = Inr (Some p)")
    case True
    then obtain p where x: "x = Inr (Some p)" by blast
    have "pID p = rsPaymentID r"
      using g x by (auto simp: repo_GetByID_def no_rows_as_nil_def GetPaymentByID_def mapFromSQLC_def split: sum.splits prod.splits if_splits option.splits
          elim!: stmt_InrE dest!: row_by_SomeD)
    moreover obtain y q v where c: "CompensatePayment s p (w\<lparr>swPg := s1\<rparr>) = (y, q, v)" by (cases "CompensatePayment s p (w\<lparr>swPg := s1\<rparr>)") auto
    have "writes (pID p) {StatusAborted} (sw_rows (w\<lparr>swPg := s1\<rparr>)) (sw_rows v)"
      by (rule grow.sweep_writes [OF _ c [unfolded CompensatePayment_def]]) (use assms in \<open>auto dest: in_set_takeD\<close>)
    ultimately show ?thesis using get x c same by (simp add: sweep_one_def sw_rows_def)
  next
    case False
    with get same show ?thesis by (auto simp: sweep_one_def sw_rows_def split: sum.split option.split)
  qed
qed

section \<open>What a request does to the payment table\<close>

lemma http_routes:
  assumes "gateway_http h order genv method path r g = (resp, g')"
  obtains "g' = g" | r' where "gateway_routes h order genv method path r' g = (resp, g')"
  using assms by (auto simp: gateway_http_def tlsAuthMiddleware_def serve_as_def Let_def split: if_splits sum.splits)

lemma routes_cases:
  assumes "gateway_routes gateway_handler order genv method path r g = (resp, g')"
  obtains "tables (swPg (gwWorld g')) = tables (swPg (gwWorld g))" "gwSpawned g' = gwSpawned g"
  | "SubmitPayment gateway_handler genv r g = (resp, g')" "StatusCode resp = 202"
proof (cases "method = ''POST'' \<and> path = ''/payments''")
  case True
  then have s: "SubmitPayment gateway_handler genv r g = (resp, g')" using assms by (simp add: gateway_routes_def)
  show thesis
  proof (cases "StatusCode resp = 202")
    case False
    with submit_refused_keeps [OF s] that(1) show thesis by blast
  qed (rule that(2) [OF s])
next
  case False
  from reads_keep [OF assms False] that(1) show thesis by blast
qed

lemma participant_bank:
  assumes "GetBankForParticipant i gateway_registry = Inr (b, a)"
  shows "(b, a) \<in> (\<lambda>p. (partBIC p, partAccount p)) ` set gateway_participants"
  using assms by (auto simp: GetBankForParticipant_def Registry_GetByID_def gateway_registry_simps
      split: sum.splits option.splits dest!: row_by_SomeD intro!: image_eqI)

lemma bpchar_length: "bpchar n s = Some v \<Longrightarrow> length v = n"
  by (auto simp: bpchar_def split: if_splits)

lemma inserted_row_ok:
  assumes "insert_row t (create_params p) = Some row" "pStatus p = StatusReceived"
    and "(pSourceBIC p, pSourceAccount p) \<in> (\<lambda>p. (partBIC p, partAccount p)) ` set gateway_participants"
  shows "row_ok row" "rID row = pID p" "matches p row"
proof -
  from assms(1) obtain ccy cb pc where v: "bpchar 3 (pCurrency p) = Some ccy" "bpchar_null 4 (textOrNull (pChargeBearer p)) = Some cb"
      "bpchar_null 4 (textOrNull (pPurposeCode p)) = Some pc"
    and f: "rCurrency row = ccy" "rChargeBearer row = cb" "rPurposeCode row = pc" "rStatus row = pStatus p"
      "rSourceBic row = pSourceBIC p" "rSourceAccount row = pSourceAccount p" "rID row = pID p" "rAmount row = pAmount p"
      "rDestinationBic row = pDestinationBIC p" "rDestAccount row = pDestAccount p"
    by (auto simp: insert_row_def create_params_def split: option.splits)
  have null: "length c = 4" if "bpchar_null 4 x = Some y" "y = Some c" for x y c
    using that by (auto simp: bpchar_null_def split: option.splits dest: bpchar_length)
  have "row_typed row"
    using f(1-6) assms(3) bpchar_length [OF v(1)] null [OF v(2)] null [OF v(3)] by (auto simp: row_typed_def)
  then show "row_ok row" using f(4) assms(2) legal_statuses(3) by (simp add: row_ok_def)
  show "rID row = pID p" "matches p row" using f(7-10) by (simp_all add: matches_def)
qed

lemma submit_rows:
  assumes "SubmitPayment gateway_handler genv r g = (resp, g')" "StatusCode resp = 202"
  obtains row p' where "sw_rows (gwWorld g') = sw_rows (gwWorld g) @ [row]" "row_ok row" "rID row \<notin> rID ` set (sw_rows (gwWorld g))"
    "gwSpawned g' = gwSpawned g @ [p']" "pID p' = rID row" "matches p' row"
proof -
  from assms obtain i p p' s' where p: "GetBankForParticipant i gateway_registry = Inr (pSourceBIC p, pSourceAccount p)"
      "parse_payment genv r (pSourceBIC p) (pSourceAccount p) = Inr p"
    and c: "repo_CreateWithEvent p (swPg (gwWorld g)) = (None, p', s')"
    and g': "g' = g\<lparr>gwWorld := (gwWorld g)\<lparr>swPg := s'\<rparr>, gwSpawned := gwSpawned g @ [p']\<rparr>"
    by (rule submit_accepted_stores)
  from c obtain row where t: "create_tx p (swPg (gwWorld g)) = (Inr row, s')" and p': "p' = mapToDomain row p" by (rule CreateWithEvent_row)
  from t have f: "insert_row (pg_now (swPg (gwWorld g))) (create_params p) = Some row"
    "\<not> payment_conflict (swPg (gwWorld g)) (create_params p)" "payment_tbl s' = payment_tbl (swPg (gwWorld g)) @ [row]"
    by (auto elim: create_tx_okE)
  note ok = inserted_row_ok [OF f(1) parse_payment_fields(2) [OF p(2)] participant_bank [OF p(1)]]
  have "rID row \<notin> rID ` set (payment_tbl (swPg (gwWorld g)))"
    using f(2) ok(2) by (auto simp: payment_conflict_def create_params_def list_ex_iff)
  then show thesis
    using ok f(3) by (intro that [of row p']) (simp_all add: g' sw_rows_def p' mapToDomain_def matches_def)
qed

section \<open>The machine\<close>

record sys =
  sysRuns :: "(phase \<times> Payment) list"
  sysSweep :: "Reservation list"
  sysWorld :: switch

text \<open>\<^verbatim>\<open>arrive\<close>: a request is served, an accepted payment starts its run. \<^verbatim>\<open>advance\<close>: a run
  makes its next step. \<^verbatim>\<open>report\<close>: an ended run records the abort reason and posts the
  callback. \<^verbatim>\<open>expired\<close> and \<^verbatim>\<open>sweep\<close>: the sweeper reads the expired reservations and
  compensates the next of them, by whatever step count the saga holds at that moment. \<^verbatim>\<open>relay\<close>:
  a batch of the outbox. \<^verbatim>\<open>outside\<close>: time, failures to come, the bank directory and the bank's
  accounts change.\<close>

inductive sys_step :: "quote_env \<Rightarrow> sys \<Rightarrow> sys \<Rightarrow> bool" for env where
  arrive: "gateway_http gateway_handler order genv method path r \<lparr>gwWorld = sysWorld S, gwSpawned = []\<rparr> = (resp, g') \<Longrightarrow>
     sys_step env S (S\<lparr>sysRuns := sysRuns S @ map (Pair (Forward 0)) (gwSpawned g'), sysWorld := gwWorld g'\<rparr>)"
| advance: "j < length (sysRuns S) \<Longrightarrow> sysRuns S ! j = (ph, p) \<Longrightarrow>
     run_step (gateway_steps (gateway_ports env)) ph p (sysWorld S) = Some (c, w') \<Longrightarrow>
     sys_step env S (S\<lparr>sysRuns := (sysRuns S)[j := c], sysWorld := w'\<rparr>)"
| report: "j < length (sysRuns S) \<Longrightarrow> sysRuns S ! j = (ph, p) \<Longrightarrow> ended 10 ph \<Longrightarrow> callback_apart cb \<Longrightarrow>
     w' = report_outcome (Some switch_pool) cb now p (record_abort (Some switch_pool) err p (sysWorld S)) \<Longrightarrow>
     sys_step env S (S\<lparr>sysRuns := take j (sysRuns S) @ drop (Suc j) (sysRuns S), sysWorld := w'\<rparr>)"
| expired: "repoFindExpiredReservations (portRepo (gateway_ports env)) now (sysWorld S) = (Inr rs, w') \<Longrightarrow>
     sys_step env S (S\<lparr>sysSweep := rs, sysWorld := w'\<rparr>)"
| sweep: "sysSweep S = r # rs \<Longrightarrow> sagaSteps s = gateway_steps (gateway_ports env) \<Longrightarrow>
     sys_step env S (S\<lparr>sysSweep := rs, sysWorld := sweep_one (portRepo (gateway_ports env)) s r (sysWorld S)\<rparr>)"
| relay: "appends publish \<Longrightarrow> flushBatch publish locked (swPg (sysWorld S)) k = (e, s', k') \<Longrightarrow>
     sys_step env S (S\<lparr>sysWorld := (sysWorld S)\<lparr>swPg := s'\<rparr>\<rparr>)"
| outside: "sys_step env S (S\<lparr>sysWorld := (sysWorld S)\<lparr>swPg := (swPg (sysWorld S))\<lparr>pg_clock := t, pg_faults := fs, bank_tbl := bs\<rparr>,
     swNetFaults := nf, swBank := b\<rparr>\<rparr>)"

inductive_cases sys_stepE: "sys_step env S S'"

inductive sys_reachable :: "quote_env \<Rightarrow> sys \<Rightarrow> bool" for env where
  boot: "payment_tbl (swPg w) = [] \<Longrightarrow> sys_reachable env \<lparr>sysRuns = [], sysSweep = [], sysWorld = w\<rparr>"
| onward: "sys_reachable env S \<Longrightarrow> sys_step env S S' \<Longrightarrow> sys_reachable env S'"

definition sys_ok :: "sys \<Rightarrow> bool" where
  "sys_ok S \<longleftrightarrow> rows_ok (sw_rows (sysWorld S)) \<and> list_all (tied 10 (sw_rows (sysWorld S))) (sysRuns S) \<and>
     list_all (sweepable (sw_rows (sysWorld S))) (sysSweep S)"

lemma sys_ok_writes:
  assumes "sys_ok S" "writes pid T (sw_rows (sysWorld S)) (sw_rows w')" "rows_ok (sw_rows w')"
  shows "rows_ok (sw_rows w')" "list_all (tied 10 (sw_rows w')) (sysRuns S)" "list_all (sweepable (sw_rows w')) (sysSweep S)"
  using assms tied_writes [OF assms(2)] sweepable_writes [OF assms(2)] by (auto simp: sys_ok_def list_all_iff)

lemma reserved_sweepable:
  assumes "repo_FindExpiredReservations now s = (Inr rs, s')" "rows_ok (payment_tbl s)"
  shows "list_all (sweepable (payment_tbl s)) rs"
proof -
  have "\<exists>row \<in> set (payment_tbl s). rID row = rsPaymentID r \<and> rStatus row = StatusReserved" if "r \<in> set rs" for r
    using assms(1) that
    by (auto simp: repo_FindExpiredReservations_def FindExpiredReservations_q_def reservation_of_def is_expired_def StatusReserved_def
        split: sum.splits prod.splits elim!: stmt_InrE) blast
  moreover have "row_by rID (rID row) (payment_tbl s) = Some row \<and> row_valid row" if "row \<in> set (payment_tbl s)" "rStatus row = StatusReserved" for row
  proof -
    have "row_ok row" using assms(2) that(1) by (simp add: rows_ok_def list_all_iff)
    then have "row_valid row" using that(2) by (simp add: row_ok_def go_string)
    moreover have "row_by rID (rID row) (payment_tbl s) = Some row"
      unfolding row_by_def by (rule find_unique [where ys = "payment_tbl s"]) (use assms(2) that(1) in \<open>simp_all add: rows_ok_def\<close>)
    ultimately show ?thesis by simp
  qed
  ultimately show ?thesis unfolding list_all_iff sweepable_def by metis
qed

lemma tied_append: "tied n R c \<Longrightarrow> tied n (R @ [row]) c"
  by (auto simp: tied_def)

lemma sweepable_append: "sweepable R r \<Longrightarrow> sweepable (R @ [row]) r"
  by (auto simp: sweepable_def)

lemma tied_new:
  assumes "rID row \<notin> rID ` set R" "pID p = rID row" "matches p row"
  shows "tied n (R @ [row]) (Forward 0, p)"
proof -
  have "row_by rID (rID row) R = None" using assms(1) by (simp add: row_by_None_iff)
  then show ?thesis using assms(2,3) by (simp add: tied_def)
qed

lemma sys_ok_insert:
  assumes "sys_ok S" "sw_rows w' = sw_rows (sysWorld S) @ [row]" "row_ok row"
    and "rID row \<notin> rID ` set (sw_rows (sysWorld S))" "pID p = rID row" "matches p row"
  shows "sys_ok (S\<lparr>sysRuns := sysRuns S @ [(Forward 0, p)], sysWorld := w'\<rparr>)"
proof -
  have "rows_ok (sw_rows w')" using assms(1,3,4) by (simp add: sys_ok_def rows_ok_def assms(2))
  moreover have "list_all (tied 10 (sw_rows w')) (sysRuns S)" "list_all (sweepable (sw_rows w')) (sysSweep S)"
    using assms(1) tied_append sweepable_append unfolding sys_ok_def list_all_iff assms(2) by blast+
  moreover have "tied 10 (sw_rows w') (Forward 0, p)" unfolding assms(2) by (rule tied_new [OF assms(4-6)])
  ultimately show ?thesis by (simp add: sys_ok_def)
qed

lemma arrive_ok:
  assumes "sys_ok S" "gateway_http gateway_handler order genv method path r \<lparr>gwWorld = sysWorld S, gwSpawned = []\<rparr> = (resp, g')"
  shows "sys_ok (S\<lparr>sysRuns := sysRuns S @ map (Pair (Forward 0)) (gwSpawned g'), sysWorld := gwWorld g'\<rparr>)"
  using assms(2)
proof (rule http_routes)
  assume "g' = \<lparr>gwWorld = sysWorld S, gwSpawned = []\<rparr>"
  then show ?thesis using assms(1) by (simp add: sys_ok_def)
next
  fix r' assume "gateway_routes gateway_handler order genv method path r' \<lparr>gwWorld = sysWorld S, gwSpawned = []\<rparr> = (resp, g')"
  then show ?thesis
  proof (rule routes_cases)
    assume t: "tables (swPg (gwWorld g')) = tables (swPg (gwWorld \<lparr>gwWorld = sysWorld S, gwSpawned = []\<rparr>))"
      "gwSpawned g' = gwSpawned \<lparr>gwWorld = sysWorld S, gwSpawned = []\<rparr>"
    have "sw_rows (gwWorld g') = sw_rows (sysWorld S)" "gwSpawned g' = []"
      using tables_rows [OF t(1)] t(2) by (simp_all add: sw_rows_def)
    then show ?thesis using assms(1) by (simp add: sys_ok_def)
  next
    assume "SubmitPayment gateway_handler genv r' \<lparr>gwWorld = sysWorld S, gwSpawned = []\<rparr> = (resp, g')" "StatusCode resp = 202"
    then show ?thesis
    proof (rule submit_rows)
      fix row p'
      assume a: "sw_rows (gwWorld g') = sw_rows (gwWorld \<lparr>gwWorld = sysWorld S, gwSpawned = []\<rparr>) @ [row]" "row_ok row"
        "rID row \<notin> rID ` set (sw_rows (gwWorld \<lparr>gwWorld = sysWorld S, gwSpawned = []\<rparr>))"
        "gwSpawned g' = gwSpawned \<lparr>gwWorld = sysWorld S, gwSpawned = []\<rparr> @ [p']" "pID p' = rID row" "matches p' row"
      have sp: "map (Pair (Forward 0)) (gwSpawned g') = [(Forward 0, p')]" using a(4) by simp
      show ?thesis
        unfolding sp by (rule sys_ok_insert [OF assms(1) _ a(2) _ a(5,6)]) (use a(1,3) in simp_all)
    qed
  qed
qed

lemma sys_step_ok:
  assumes "sys_step env S S'" "sys_ok S"
  shows "sys_ok S'"
  using assms(1)
proof cases
  case (arrive order genv meth path r resp g')
  then show ?thesis using arrive_ok [OF assms(2)] by simp
next
  case (advance j ph p c w')
  have ten: "length (gateway_steps (gateway_ports env)) = 10" by (rule gateway_steps_ten)
  have t: "tied 10 (sw_rows (sysWorld S)) (ph, p)" using assms(2) nth_mem [OF advance(2)] unfolding advance(3) sys_ok_def list_all_iff by blast
  note st = grow.run_step_rows [OF advance(4), unfolded ten, OF _ t]
  from st(2) assms(2) obtain T where w: "writes (pID p) T (sw_rows (sysWorld S)) (sw_rows w')" by (auto simp: sys_ok_def)
  note keep = sys_ok_writes [OF assms(2) w st(1)]
  show ?thesis
    using keep st(1,3) assms(2) set_update_subset_insert [of "sysRuns S" j c]
    by (auto simp: advance(1) sys_ok_def list_all_iff)
next
  case (report j ph p cb w' now err)
  have "sw_rows w' = sw_rows (sysWorld S)"
    using report_still [OF report(5), where now = now and p = p and w = "record_abort (Some switch_pool) err p (sysWorld S)"]
      record_still [where r = err and p = p and w = "sysWorld S"] by (simp add: report(6) still_def sw_rows_def)
  then show ?thesis using assms(2) by (auto simp: report(1) sys_ok_def list_all_iff dest: in_set_takeD in_set_dropD)
next
  case (expired now rs w')
  then obtain s' where f: "repo_FindExpiredReservations now (swPg (sysWorld S)) = (Inr rs, s')" "w' = (sysWorld S)\<lparr>swPg := s'\<rparr>"
    by (auto simp: lift_eq)
  obtain x s1 where q: "FindExpiredReservations_q now (swPg (sysWorld S)) = (x, s1)" by fastforce
  with f(1) have "s' = s1" by (cases x) (simp_all add: repo_FindExpiredReservations_def)
  then have same: "sw_rows w' = sw_rows (sysWorld S)" using tables_rows [OF FindExpired_tables [OF q]] f(2) by (simp add: sw_rows_def)
  have "list_all (sweepable (sw_rows (sysWorld S))) rs"
    using reserved_sweepable [OF f(1)] assms(2) by (simp add: sys_ok_def sw_rows_def)
  then show ?thesis using assms(2) same by (simp add: expired(1) sys_ok_def)
next
  case (sweep r rs s)
  let ?w = "sweep_one (portRepo (gateway_ports env)) s r (sysWorld S)"
  note w = sweep_one_rows [OF sweep(3), of r "sysWorld S"]
  have "sweepable (sw_rows (sysWorld S)) r" using assms(2) sweep(2) by (simp add: sys_ok_def)
  then have "rows_ok (sw_rows ?w)"
    by (intro writes_rows_ok [OF w]) (use assms(2) legal_statuses(2) in \<open>auto simp: sys_ok_def sweepable_def\<close>)
  from sys_ok_writes [OF assms(2) w this] show ?thesis by (simp add: sweep(1,2) sys_ok_def)
next
  case (relay publish locked k e s' k')
  have "payment_tbl s' = payment_tbl (swPg (sysWorld S))"
  proof (cases e)
    case None
    with flushBatch_ok [OF relay(2)] relay(3) show ?thesis by blast
  next
    case (Some x)
    with flushBatch_err_tables relay(3) show ?thesis by (metis tables_rows)
  qed
  then show ?thesis using assms(2) by (simp add: relay(1) sys_ok_def sw_rows_def)
next
  case (outside t fs bs nf b)
  then show ?thesis using assms(2) by (simp add: sys_ok_def sw_rows_def)
qed

lemma sys_reachable_ok: "sys_reachable env S \<Longrightarrow> sys_ok S"
proof (induction rule: sys_reachable.induct)
  case (boot w)
  then show ?case by (simp add: sys_ok_def rows_ok_def sw_rows_def)
qed (rule sys_step_ok)

end
