(* ===== verification/StoryExamples.thy ===== *)
theory StoryExamples
  imports GatewayExamples System
begin

text \<open>
  Concrete inputs for the properties of theories \<open>History\<close>, \<open>Story\<close> and \<open>System\<close>: a request
  whose payment fails at its second step, followed from the answer to the broker, and the state of
  the whole process after one request.
\<close>

text \<open>A payment to a bank that is in no directory.\<close>

definition lost_request :: gw_request where
  "lost_request = demo_request\<lparr>rqBody := demo_body\<lparr>bodyJson := Inr (request_json (paymentRequest_zero\<lparr>rqEndToEndID := ''e2e-1'',
     rqDestinationBIC := ''NOWHERE'', rqDestAccount := ''ACC-B'', rqAmount := 5000, rqCurrency := ''USD''\<rparr>))\<rparr>\<rparr>"

definition lost_gw :: "switch gw" where
  "lost_gw = snd (SubmitPayment gateway_handler demo_gw_env lost_request empty_gw)"

definition lost_story :: "switch Saga \<times> Payment \<times> switch" where
  "lost_story = processPaymentAsync gateway_handler silent_callback 63000000000000000000 (gateway_saga demo_env)
     (last (gwSpawned lost_gw)) (gwWorld lost_gw)"

lemma lost_submitted: "StatusCode (fst (SubmitPayment gateway_handler demo_gw_env lost_request empty_gw)) = 202"
  by code_simp

lemma lost_story_runs:
  "case Run (gateway_saga demo_env) (last (gwSpawned lost_gw)) (gwWorld lost_gw) of (r, s, _) \<Rightarrow> completedSteps s = 1"
  by code_simp

lemma silent_apart: "callback_apart silent_callback"
  by (simp add: callback_apart_def silent_callback_def)

lemma lost_story_ends: "completedSteps (fst lost_story) = 1"
proof -
  have "lost_story = (fst lost_story, fst (snd lost_story), snd (snd lost_story))" by simp
  from process_run [OF silent_apart this [unfolded lost_story_def]] obtain r w1 where
    "Run (gateway_saga demo_env) (last (gwSpawned lost_gw)) (gwWorld lost_gw) = (r, fst lost_story, fst (snd lost_story), w1)"
    unfolding lost_story_def by blast
  with lost_story_runs show ?thesis by simp
qed

lemma empty_gw_facts: "sw_live (gwWorld empty_gw)" "queued (swPg (gwWorld empty_gw)) = []"
  by code_simp+

definition demo_http :: "switch gw" where
  "demo_http = snd (gateway_http gateway_handler (\<lambda>ps. ps) demo_gw_env ''POST'' ''/payments'' demo_request empty_gw)"

lemma demo_http_rows: "map rID (payment_tbl (swPg (gwWorld demo_http))) = [''pay-7'']"
  by code_simp

lemma demo_http_reachable:
  "sys_reachable demo_env \<lparr>sysRuns = map (Pair (Forward 0)) (gwSpawned demo_http), sysSweep = [], sysWorld = gwWorld demo_http\<rparr>"
proof -
  let ?S = "\<lparr>sysRuns = [], sysSweep = [], sysWorld = gwWorld empty_gw\<rparr>"
  have "payment_tbl (swPg (gwWorld empty_gw)) = []" by code_simp
  then have "sys_reachable demo_env ?S" by (rule sys_reachable.boot)
  moreover have "gateway_http gateway_handler (\<lambda>ps. ps) demo_gw_env ''POST'' ''/payments'' demo_request
      \<lparr>gwWorld = sysWorld ?S, gwSpawned = []\<rparr> =
      (fst (gateway_http gateway_handler (\<lambda>ps. ps) demo_gw_env ''POST'' ''/payments'' demo_request empty_gw), demo_http)"
    by (simp add: demo_http_def empty_gw_def)
  from sys_step.arrive [OF this, of demo_env]
  have "sys_step demo_env ?S (?S\<lparr>sysRuns := sysRuns ?S @ map (Pair (Forward 0)) (gwSpawned demo_http), sysWorld := gwWorld demo_http\<rparr>)" .
  ultimately have "sys_reachable demo_env (?S\<lparr>sysRuns := sysRuns ?S @ map (Pair (Forward 0)) (gwSpawned demo_http), sysWorld := gwWorld demo_http\<rparr>)"
    by (rule sys_reachable.onward)
  then show ?thesis by simp
qed

end
