(* ===== verification/PortalAuth.thy ===== *)
theory PortalAuth
  imports Participant
begin

text \<open>
  Who may do what in the operators' portal: the claims a request carries and the roles
  (src/internal/portal/auth/claims.go) and the store of CSRF tokens (csrf.go). A request carries the
  claims the middleware has put into its context, its query parameters and its decoded JSON body.
  HMAC-SHA256 and the random nonce are parameters. The lemmas show for whom and how long a token is
  valid, and that cleaning up changes neither.
\<close>

section \<open>claims.go\<close>

definition RoleSwitchAdmin :: string where [go_string]: "RoleSwitchAdmin = ''SWITCH_ADMIN''"
definition RoleSwitchOps :: string where [go_string]: "RoleSwitchOps = ''SWITCH_OPS''"
definition RoleBankAdmin :: string where [go_string]: "RoleBankAdmin = ''BANK_ADMIN''"
definition RoleBankOperator :: string where [go_string]: "RoleBankOperator = ''BANK_OPERATOR''"
definition RoleBankViewer :: string where [go_string]: "RoleBankViewer = ''BANK_VIEWER''"

record Claims =
  clSub :: string
  clUsername :: string
  clRole :: string
  clParticipantID :: string

record portal_input =
  inQuery :: "(string \<times> string) list"
  inClaims :: "Claims option"
  inJson :: json_body

type_synonym portal_request = "(unit, portal_input) http_request"

definition FromRequest :: "portal_request \<Rightarrow> Claims" where
  "FromRequest r =
     (case inClaims (rqBody r) of
        Some c \<Rightarrow> c
      | None \<Rightarrow> \<lparr>clSub = Header_Get r ''X-Authentik-Uid'', clUsername = Header_Get r ''X-Authentik-Username'',
                  clRole = Header_Get r ''X-User-Role'', clParticipantID = Header_Get r ''X-Participant-Id''\<rparr>)"

definition WithClaims :: "Claims \<Rightarrow> portal_request \<Rightarrow> portal_request" where
  "WithClaims c r = r\<lparr>rqBody := (rqBody r)\<lparr>inClaims := Some c\<rparr>\<rparr>"

definition IsSwitchStaff :: "Claims \<Rightarrow> bool" where
  "IsSwitchStaff c \<longleftrightarrow> clRole c = RoleSwitchAdmin \<or> clRole c = RoleSwitchOps"

definition IsBankRole :: "Claims \<Rightarrow> bool" where
  "IsBankRole c \<longleftrightarrow> clRole c = RoleBankAdmin \<or> clRole c = RoleBankOperator \<or> clRole c = RoleBankViewer"

definition CanWriteBanks :: "Claims \<Rightarrow> bool" where
  "CanWriteBanks c \<longleftrightarrow> clRole c = RoleSwitchAdmin"

definition ScopeFilter :: "Claims \<Rightarrow> bool \<times> string" where
  "ScopeFilter c = (if IsSwitchStaff c then (True, '''') else (False, clParticipantID c))"

section \<open>csrf.go\<close>

record CSRFStore =
  csSecret :: string
  csTokens :: "string \<rightharpoonup> time"

definition NewCSRFStore :: "string \<Rightarrow> CSRFStore" where
  "NewCSRFStore secret = \<lparr>csSecret = secret, csTokens = Map.empty\<rparr>"

definition token_key :: "string \<Rightarrow> string \<Rightarrow> string" where
  "token_key uid token = uid @ '':'' @ token"

text \<open>\<open>mac secret data\<close> is the HMAC, \<open>nonce\<close> the sixteen random bytes; byte lists print as
  hexadecimal digits.\<close>

definition csrf_token :: "(string \<Rightarrow> nat list \<Rightarrow> nat list) \<Rightarrow> nat list \<Rightarrow> string \<Rightarrow> string \<Rightarrow> string" where
  "csrf_token mac nonce secret uid =
     hex_encode nonce @ ''.'' @ hex_encode (mac secret (map of_char uid @ nonce))"

definition Generate :: "(string \<Rightarrow> nat list \<Rightarrow> nat list) \<Rightarrow> nat list \<Rightarrow> time \<Rightarrow> string \<Rightarrow> CSRFStore \<Rightarrow> string \<times> CSRFStore" where
  "Generate mac nonce now uid s =
     (let token = csrf_token mac nonce (csSecret s) uid in
      (token, s\<lparr>csTokens := (csTokens s)(token_key uid token \<mapsto> now + 24 * Hour)\<rparr>))"

definition Valid :: "time \<Rightarrow> string \<Rightarrow> string \<Rightarrow> CSRFStore \<Rightarrow> bool" where
  "Valid now uid token s = (case csTokens s (token_key uid token) of None \<Rightarrow> False | Some e \<Rightarrow> now < e)"

definition Cleanup :: "time \<Rightarrow> CSRFStore \<Rightarrow> CSRFStore" where
  "Cleanup now s =
     s\<lparr>csTokens := (\<lambda>k. case csTokens s k of None \<Rightarrow> None | Some e \<Rightarrow> if e < now then None else Some e)\<rparr>"

section \<open>Lemmas\<close>

lemma FromRequest_WithClaims [simp]: "FromRequest (WithClaims c r) = c"
  by (simp add: FromRequest_def WithClaims_def)

lemma roles_disjoint: "IsSwitchStaff c \<Longrightarrow> \<not> IsBankRole c"
  by (auto simp: IsSwitchStaff_def IsBankRole_def go_string)

lemma token_key_inj:
  assumes "token_key u t = token_key u' t'" "CHR '':'' \<notin> set u" "CHR '':'' \<notin> set u'"
  shows "u = u' \<and> t = t'"
proof -
  have "takeWhile (\<lambda>c. c \<noteq> CHR '':'') (token_key v x) = v" if "CHR '':'' \<notin> set v" for v x
  proof -
    have "takeWhile (\<lambda>c. c \<noteq> CHR '':'') (v @ CHR '':'' # x) = v" using that by (subst takeWhile_append2) auto
    then show ?thesis by (simp add: token_key_def)
  qed
  then have "u = u'" using assms by metis
  with assms(1) show ?thesis by (simp add: token_key_def)
qed

text \<open>After a token has been issued, it is valid for its user for 24 hours, and for everything else
  nothing has changed.\<close>

lemma Generate_Valid:
  assumes "Generate mac nonce now uid s = (token, s')" "CHR '':'' \<notin> set uid" "CHR '':'' \<notin> set u"
  shows "Valid t u x s' = (if u = uid \<and> x = token then t < now + 24 * Hour else Valid t u x s)"
proof -
  have "token_key u x = token_key uid token \<longleftrightarrow> u = uid \<and> x = token"
    using token_key_inj [of u x uid token] assms(2,3) by auto
  with assms(1) show ?thesis by (auto simp: Generate_def Valid_def Let_def)
qed

lemma Cleanup_Valid:
  assumes "now \<le> t"
  shows "Valid t u x (Cleanup now s) = Valid t u x s"
  using assms by (auto simp: Valid_def Cleanup_def split: option.splits)

end
