(* ===== verification/PortalStore.thy ===== *)
theory PortalStore
  imports PaymentRepo BankClient Calendar Float64
begin

text \<open>
  The portal's database access (src/internal/portal/store/store.go): onboarding of banks and their
  life cycle, certificates, the views of transactions, the dashboard and settlement summaries derived
  from them, the audit log and export jobs. The tables the switch writes are those of theory
  \<open>Postgres\<close>; the portal adds certificates, audit entries and export jobs. Statements fail as
  that theory says. The loops over rows do not consult \<^verbatim>\<open>rows.Err()\<close>: a row that cannot be
  fetched ends the list without an error. Rows with equal sorting keys come in the order of the plan,
  a parameter of the query; the session's time zone is UTC.
\<close>

section \<open>Tables and statements\<close>

record cert_row =
  ctID :: string
  ctBankID :: string
  ctSubject :: string
  ctFingerprint :: string
  ctNotBefore :: time
  ctNotAfter :: time
  ctStatus :: string
  ctIssuedAt :: time
  ctRevokedAt :: "time option"

record audit_row =
  auID :: string
  auActorID :: string
  auActorRole :: string
  auAction :: string
  auTargetType :: string
  auTargetID :: string
  auDiff :: "json option"
  auOccurredAt :: time

record job_row =
  joID :: string
  joOwnerID :: string
  joFormat :: string
  joFilters :: json
  joStatus :: string
  joDownloadURL :: "string option"
  joRowCount :: "int option"
  joError :: "string option"
  joCreatedAt :: time
  joCompletedAt :: "time option"

record pdb =
  pdPg :: pg
  pdCerts :: "cert_row list"
  pdAudit :: "audit_row list"
  pdJobs :: "job_row list"

definition pstmt :: "(pdb, 'a) call \<Rightarrow> (pdb, 'a) call" where
  "pstmt body s =
     (case stmt (okE ()) (pdPg s) of
        (Inl e, g) \<Rightarrow> (Inl e, s\<lparr>pdPg := g\<rparr>)
      | (Inr _, g) \<Rightarrow> body (s\<lparr>pdPg := g\<rparr>))"

definition pd_banks :: "pdb \<Rightarrow> bank_row list" where
  "pd_banks s = bank_tbl (pdPg s)"

definition pd_now :: "pdb \<Rightarrow> time" where
  "pd_now s = pg_now (pdPg s)"

definition set_banks :: "bank_row list \<Rightarrow> pdb \<Rightarrow> pdb" where
  "set_banks bs s = s\<lparr>pdPg := (pdPg s)\<lparr>bank_tbl := bs\<rparr>\<rparr>"

text \<open>\<^verbatim>\<open>WHERE id = $1\<close> on a \<^verbatim>\<open>UUID\<close> column: a text that is no UUID is an error.\<close>

definition with_uuid :: "string \<Rightarrow> (string \<Rightarrow> (pdb, 'a) call) \<Rightarrow> (pdb, 'a) call" where
  "with_uuid i f s = (case uuid_in i of None \<Rightarrow> (Inl invalid_uuid, s) | Some u \<Rightarrow> f u s)"

text \<open>\<^verbatim>\<open>if errors.Is(err, pgx.ErrNoRows) { return nil, nil }\<close>.\<close>

definition nil_if_no_rows :: "(pdb, 'a) call \<Rightarrow> (pdb, 'a option) call" where
  "nil_if_no_rows m s =
     (case m s of
        (Inl e, s') \<Rightarrow> if IsNoRows e then (Inr None, s') else (Inl e, s')
      | (Inr a, s') \<Rightarrow> (Inr (Some a), s'))"

text \<open>The loop \<^verbatim>\<open>for rows.Next() { rows.Scan(...) }\<close>.\<close>

fun scan_rows :: "('r \<Rightarrow> goerror + 'a) \<Rightarrow> 'r list \<Rightarrow> 'a list \<Rightarrow> (pdb, 'a list) call" where
  "scan_rows f [] acc s = (Inr acc, s)"
| "scan_rows f (r # rs) acc s =
     (case pstmt (okE ()) s of
        (Inl e, s1) \<Rightarrow> (Inr acc, s1)
      | (Inr _, s1) \<Rightarrow> (case f r of Inl e \<Rightarrow> (Inl e, s1) | Inr a \<Rightarrow> scan_rows f rs (acc @ [a]) s1))"

text \<open>\<^verbatim>\<open>ORDER BY key DESC\<close>. The server refuses a negative offset while it executes the query, which
  the client library reports in \<^verbatim>\<open>rows.Err()\<close>: no row comes.\<close>

definition newest_first :: "('r list \<Rightarrow> 'r list) \<Rightarrow> ('r \<Rightarrow> time) \<Rightarrow> 'r list \<Rightarrow> 'r list" where
  "newest_first ord key rows = sort_key (\<lambda>r. - key r) (ord rows)"

definition limit_offset :: "int64 \<Rightarrow> int64 \<Rightarrow> 'r list \<Rightarrow> 'r list" where
  "limit_offset limit offset rows =
     (if slt limit 0 \<or> slt offset 0 then [] else take (nat (sint limit)) (drop (nat (sint offset)) rows))"

record 'a paginated =
  pgData :: "'a list"
  pgTotal :: int
  pgPage :: int64
  pgPageSize :: int64

text \<open>The shape of the four paginated lists: a count, then a page of the rows.\<close>

definition paginate :: "(pdb \<Rightarrow> nat) \<Rightarrow> (pdb \<Rightarrow> 'r list) \<Rightarrow> ('r \<Rightarrow> goerror + 'a) \<Rightarrow> int64 \<Rightarrow> int64 \<Rightarrow> (pdb, 'a paginated) call" where
  "paginate count rows scan page pageSize =
     bindE (pstmt (\<lambda>s. (Inr (int (count s)), s))) (\<lambda>total.
     bindE (pstmt (\<lambda>s. (Inr (limit_offset pageSize ((page - 1) * pageSize) (rows s)), s))) (\<lambda>rs.
     bindE (scan_rows scan rs []) (\<lambda>data.
       okE \<lparr>pgData = data, pgTotal = total, pgPage = page, pgPageSize = pageSize\<rparr>)))"

section \<open>Banks\<close>

record Bank =
  bkID :: string
  bkBIC :: string
  bkName :: string
  bkCountry :: string
  bkStatus :: string
  bkSettlementAccount :: string
  bkAPIBaseURL :: string
  bkAPIEnabled :: bool
  bkCallbackURL :: string
  bkLookupAPIURL :: string
  bkPaymentAPIURL :: string
  bkStatusCheckAPIURL :: string
  bkOnboardedAt :: "time option"
  bkCreatedAt :: time

definition bank_of_row :: "bank_row \<Rightarrow> Bank" where
  "bank_of_row r =
     \<lparr>bkID = bID r, bkBIC = bBic r, bkName = bName r, bkCountry = bCountry r, bkStatus = bStatus r,
      bkSettlementAccount = bSettlementAccount r, bkAPIBaseURL = coalesce (bApiBaseUrl r),
      bkAPIEnabled = bApiEnabled r, bkCallbackURL = coalesce (bCallbackUrl r),
      bkLookupAPIURL = coalesce (bLookupApiUrl r), bkPaymentAPIURL = coalesce (bPaymentApiUrl r),
      bkStatusCheckAPIURL = coalesce (bStatusCheckApiUrl r), bkOnboardedAt = bOnboardedAt r,
      bkCreatedAt = bCreatedAt r\<rparr>"

definition nilIfEmpty :: "string \<Rightarrow> string option" where
  "nilIfEmpty s = (if s = '''' then None else Some s)"

record CreateBankParams =
  cbBIC :: string
  cbName :: string
  cbCountry :: string
  cbSettlementAccount :: string
  cbNotes :: string
  cbAPIBaseURL :: string
  cbAPIEnabled :: bool
  cbCallbackURL :: string
  cbLookupAPIURL :: string
  cbPaymentAPIURL :: string
  cbStatusCheckAPIURL :: string

record UpdateBankAPIParams =
  ubAPIBaseURL :: string
  ubAPIEnabled :: bool
  ubLookupAPIURL :: string
  ubPaymentAPIURL :: string
  ubStatusCheckAPIURL :: string

definition new_bank :: "string \<Rightarrow> time \<Rightarrow> CreateBankParams \<Rightarrow> bank_row option" where
  "new_bank uuid now p =
     (case bpchar 2 (cbCountry p) of
        None \<Rightarrow> None
      | Some country \<Rightarrow> Some
          \<lparr>bID = uuid, bBic = cbBIC p, bName = cbName p, bCountry = country, bStatus = ''APPLICATION'',
           bSettlementAccount = cbSettlementAccount p, bNotes = nilIfEmpty (cbNotes p), bOnboardedAt = None,
           bCreatedAt = now, bApiBaseUrl = nilIfEmpty (cbAPIBaseURL p), bApiKey = None,
           bApiEnabled = cbAPIEnabled p, bCallbackUrl = nilIfEmpty (cbCallbackURL p),
           bLookupApiUrl = nilIfEmpty (cbLookupAPIURL p), bPaymentApiUrl = nilIfEmpty (cbPaymentAPIURL p),
           bStatusCheckApiUrl = nilIfEmpty (cbStatusCheckAPIURL p)\<rparr>)"

definition CreateBank :: "string \<Rightarrow> CreateBankParams \<Rightarrow> (pdb, Bank) call" where
  "CreateBank uuid p = pstmt (\<lambda>s.
     (case new_bank uuid (pd_now s) p of
        None \<Rightarrow> (Inl value_too_long, s)
      | Some r \<Rightarrow>
          if list_ex (\<lambda>b. bID b = bID r \<or> bBic b = bBic r) (pd_banks s) then (Inl unique_violation, s)
          else (Inr (bank_of_row r), set_banks (pd_banks s @ [r]) s)))"

definition select_bank :: "(bank_row \<Rightarrow> string) \<Rightarrow> string \<Rightarrow> (pdb, bank_row) call" where
  "select_bank key k s = (case row_by key k (pd_banks s) of None \<Rightarrow> (Inl ErrNoRows, s) | Some r \<Rightarrow> (Inr r, s))"

definition GetBank :: "string \<Rightarrow> (pdb, Bank option) call" where
  "GetBank i = nil_if_no_rows (pstmt (with_uuid i (\<lambda>u. bindE (select_bank bID u) (\<lambda>r. okE (bank_of_row r)))))"

definition GetBankByBIC :: "string \<Rightarrow> (pdb, Bank option) call" where
  "GetBankByBIC bic = nil_if_no_rows (pstmt (bindE (select_bank bBic bic) (\<lambda>r. okE (bank_of_row r))))"

text \<open>\<^verbatim>\<open>UPDATE bank SET ... WHERE id = $n RETURNING ...\<close>.\<close>

definition update_bank :: "(bank_row \<Rightarrow> bank_row) \<Rightarrow> string \<Rightarrow> (pdb, bank_row) call" where
  "update_bank f u s =
     (case row_by bID u (pd_banks s) of
        None \<Rightarrow> (Inl ErrNoRows, s)
      | Some r \<Rightarrow> (Inr (f r), set_banks (upd_where (\<lambda>b. bID b = u) f (pd_banks s)) s))"

definition UpdateBankCallback :: "string \<Rightarrow> string \<Rightarrow> (pdb, Bank option) call" where
  "UpdateBankCallback i url = nil_if_no_rows (pstmt (with_uuid i (\<lambda>u.
     bindE (update_bank (\<lambda>b. b\<lparr>bCallbackUrl := nilIfEmpty url\<rparr>) u) (\<lambda>r. okE (bank_of_row r)))))"

definition UpdateBankAPI :: "string \<Rightarrow> UpdateBankAPIParams \<Rightarrow> (pdb, Bank option) call" where
  "UpdateBankAPI i p = nil_if_no_rows (pstmt (with_uuid i (\<lambda>u.
     bindE (update_bank (\<lambda>b. b\<lparr>bApiBaseUrl := nilIfEmpty (ubAPIBaseURL p), bApiEnabled := ubAPIEnabled p,
              bLookupApiUrl := nilIfEmpty (ubLookupAPIURL p), bPaymentApiUrl := nilIfEmpty (ubPaymentAPIURL p),
              bStatusCheckApiUrl := nilIfEmpty (ubStatusCheckAPIURL p)\<rparr>) u) (\<lambda>r. okE (bank_of_row r)))))"

record BankListFilter =
  blStatus :: string
  blPage :: int64
  blPageSize :: int64

definition bank_matches :: "BankListFilter \<Rightarrow> bank_row \<Rightarrow> bool" where
  "bank_matches f b \<longleftrightarrow> blStatus f = '''' \<or> bStatus b = blStatus f"

definition ListBanks :: "(bank_row list \<Rightarrow> bank_row list) \<Rightarrow> BankListFilter \<Rightarrow> (pdb, Bank paginated) call" where
  "ListBanks ord f =
     paginate (\<lambda>s. length (filter (bank_matches f) (pd_banks s)))
       (\<lambda>s. newest_first ord bCreatedAt (filter (bank_matches f) (pd_banks s)))
       (\<lambda>r. Inr (bank_of_row r)) (blPage f) (blPageSize f)"

definition validTransitions :: "string \<Rightarrow> string list" where
  "validTransitions status =
     (if status = ''APPLICATION'' then [''SANDBOX'']
      else if status = ''SANDBOX'' then [''CERTIFICATION'']
      else if status = ''CERTIFICATION'' then [''PRODUCTION_ACTIVE'']
      else if status = ''PRODUCTION_ACTIVE'' then [''SUSPENDED'']
      else if status = ''SUSPENDED'' then [''PRODUCTION_ACTIVE'', ''DECOMMISSIONED'']
      else [])"

definition set_bank_status :: "time \<Rightarrow> string \<Rightarrow> bank_row \<Rightarrow> bank_row" where
  "set_bank_status now newStatus b =
     b\<lparr>bStatus := newStatus,
       bOnboardedAt := (if newStatus = ''PRODUCTION_ACTIVE'' \<and> bOnboardedAt b = None then Some (pg_timestamp now)
                        else bOnboardedAt b)\<rparr>"

text \<open>The body of the transaction: whether there is such a bank.\<close>

definition status_tx :: "time \<Rightarrow> string \<Rightarrow> string \<Rightarrow> (pdb, bool) call" where
  "status_tx now i newStatus =
     bindE (nil_if_no_rows (pstmt (with_uuid i (select_bank bID)))) (\<lambda>row.
       case row of
         None \<Rightarrow> okE False
       | Some b \<Rightarrow>
           if newStatus \<notin> set (validTransitions (bStatus b))
           then failE (ErrMsg (''invalid transition from '' @ bStatus b @ '' to '' @ newStatus))
           else bindE (pstmt (with_uuid i (update_bank (set_bank_status now newStatus)))) (\<lambda>_. okE True))"

definition pd_rollback :: "pdb \<Rightarrow> pdb \<Rightarrow> pdb" where
  "pd_rollback s0 s = s0\<lparr>pdPg := tx_rollback (pdPg s0) (pdPg s)\<rparr>"

definition UpdateBankStatus :: "time \<Rightarrow> string \<Rightarrow> string \<Rightarrow> string \<Rightarrow> (pdb, Bank option) call" where
  "UpdateBankStatus now i newStatus reason s =
     (case pstmt (okE ()) s of
        (Inl e, s1) \<Rightarrow> (Inl e, s1)
      | (Inr _, s1) \<Rightarrow>
          (case status_tx now i newStatus s1 of
             (Inl e, s2) \<Rightarrow> (Inl e, pd_rollback s1 s2)
           | (Inr False, s2) \<Rightarrow> (Inr None, pd_rollback s1 s2)
           | (Inr True, s2) \<Rightarrow>
               (case pstmt (okE ()) s2 of
                  (Inl e, s3) \<Rightarrow> (Inl e, pd_rollback s1 s3)
                | (Inr _, s3) \<Rightarrow> GetBank i s3)))"

section \<open>Certificates\<close>

definition ListCertificates :: "(cert_row list \<Rightarrow> cert_row list) \<Rightarrow> string \<Rightarrow> (pdb, cert_row list) call" where
  "ListCertificates ord bankID =
     bindE (pstmt (with_uuid bankID (\<lambda>u s.
         (Inr (newest_first ord ctIssuedAt (filter (\<lambda>c. ctBankID c = u) (pdCerts s))), s))))
       (\<lambda>rows. scan_rows Inr rows [])"

record CreateCertificateParams =
  ccBankID :: string
  ccSubject :: string
  ccFingerprint :: string
  ccNotBefore :: time
  ccNotAfter :: time

definition CreateCertificate :: "string \<Rightarrow> CreateCertificateParams \<Rightarrow> (pdb, cert_row) call" where
  "CreateCertificate uuid p = pstmt (with_uuid (ccBankID p) (\<lambda>u s.
     (let c = \<lparr>ctID = uuid, ctBankID = u, ctSubject = ccSubject p, ctFingerprint = ccFingerprint p,
               ctNotBefore = pg_timestamp (ccNotBefore p), ctNotAfter = pg_timestamp (ccNotAfter p),
               ctStatus = ''ACTIVE'', ctIssuedAt = pd_now s, ctRevokedAt = None\<rparr> in
      if list_ex (\<lambda>d. ctID d = ctID c \<or> ctFingerprint d = ctFingerprint c) (pdCerts s) then (Inl unique_violation, s)
      else if row_by bID u (pd_banks s) = None then (Inl (ErrPg ''23503'' ''violates foreign key constraint''), s)
      else (Inr c, s\<lparr>pdCerts := pdCerts s @ [c]\<rparr>))))"

definition revocable :: "string \<Rightarrow> string \<Rightarrow> cert_row \<Rightarrow> bool" where
  "revocable c b r \<longleftrightarrow> ctID r = c \<and> ctBankID r = b \<and> ctStatus r = ''ACTIVE''"

definition RevokeCertificate :: "string \<Rightarrow> string \<Rightarrow> pdb \<Rightarrow> goerror option \<times> pdb" where
  "RevokeCertificate bankID certID s =
     (case pstmt (with_uuid certID (\<lambda>c. with_uuid bankID (\<lambda>b s.
             (Inr (length (filter (revocable c b) (pdCerts s))),
              s\<lparr>pdCerts := upd_where (revocable c b)
                  (\<lambda>r. r\<lparr>ctStatus := ''REVOKED'', ctRevokedAt := Some (pd_now s)\<rparr>) (pdCerts s)\<rparr>)))) s of
        (Inl e, s') \<Rightarrow> (Some e, s')
      | (Inr n, s') \<Rightarrow> (if n = 0 then Some ErrNoRows else None, s'))"

end
