(* ===== verification/PortalViews.thy ===== *)
theory PortalViews
  imports PortalStore
begin

text \<open>
  The rest of src/internal/portal/store/store.go: transactions as the portal shows them, the dashboard,
  settlement windows derived from the dates of transactions, the audit log and export jobs. Sums that do
  not fit in 64 bits are scan errors. The lemmas show that grouping loses no row and that the positions of
  a settlement window balance, when the whole window is asked for; theory \<open>PortalScope\<close> shows what
  the filter by bank does.
\<close>

definition pd_views :: "pdb \<Rightarrow> txview_row list" where
  "pd_views s = txview_tbl (pdPg s)"

definition opt_all :: "('a \<Rightarrow> bool) \<Rightarrow> 'a option \<Rightarrow> bool" where
  "opt_all P v = (case v of None \<Rightarrow> True | Some a \<Rightarrow> P a)"

definition query :: "(pdb \<Rightarrow> 'a) \<Rightarrow> (pdb, 'a) call" where
  "query f = pstmt (\<lambda>s. (Inr (f s), s))"

text \<open>The filter by bank that several queries share.\<close>

definition in_scope :: "string \<Rightarrow> txview_row \<Rightarrow> bool" where
  "in_scope bic v \<longleftrightarrow> bic = '''' \<or> tvSourceBic v = bic \<or> tvDestinationBic v = bic"

definition scan_sum :: "int \<Rightarrow> goerror + int64" where
  "scan_sum i = (if fits64 i then Inr (word_of_int i) else Inl (ErrMsg ''cannot scan numeric into *int64''))"

section \<open>Transactions\<close>

record BankRef =
  brBIC :: string
  brName :: string

record TransactionSummary =
  smPaymentID :: string
  smEndToEndID :: string
  smSourceBank :: BankRef
  smDestinationBank :: BankRef
  smAmount :: int64
  smCurrency :: string
  smStatus :: string
  smAbortReason :: "string option"
  smCreatedAt :: time
  smUpdatedAt :: time

record TransactionEvent =
  txeEvent :: string
  txeOccurredAt :: time
  txeDetail :: PaymentEvent

record TransactionDetail =
  tdSummary :: TransactionSummary
  tdUETR :: "string option"
  tdInstructionID :: "string option"
  tdChargeBearer :: "string option"
  tdSettlementDate :: "string option"
  tdDebtorName :: "string option"
  tdCreditorName :: "string option"
  tdPurposeCode :: "string option"
  tdRemittanceInfo :: "string option"
  tdTimeline :: "TransactionEvent list"

record TransactionFilter =
  tfStatus :: string
  tfBIC :: string
  tfFrom :: "time option"
  tfTo :: "time option"
  tfMinAmount :: "int64 option"
  tfMaxAmount :: "int64 option"
  tfPage :: int64
  tfPageSize :: int64

definition summary_of_row :: "txview_row \<Rightarrow> TransactionSummary" where
  "summary_of_row v =
     \<lparr>smPaymentID = tvPaymentID v, smEndToEndID = tvEndToEndID v,
      smSourceBank = \<lparr>brBIC = tvSourceBic v, brName = tvSourceBankName v\<rparr>,
      smDestinationBank = \<lparr>brBIC = tvDestinationBic v, brName = tvDestinationBankName v\<rparr>,
      smAmount = tvAmount v, smCurrency = tvCurrency v, smStatus = tvStatus v,
      smAbortReason = tvAbortReason v, smCreatedAt = tvCreatedAt v, smUpdatedAt = tvUpdatedAt v\<rparr>"

definition tx_matches :: "TransactionFilter \<Rightarrow> txview_row \<Rightarrow> bool" where
  "tx_matches f v \<longleftrightarrow>
     (tfStatus f = '''' \<or> tvStatus v = tfStatus f) \<and> in_scope (tfBIC f) v \<and>
     opt_all (\<lambda>t. pg_timestamp t \<le> tvCreatedAt v) (tfFrom f) \<and>
     opt_all (\<lambda>t. tvCreatedAt v \<le> pg_timestamp t) (tfTo f) \<and>
     opt_all (\<lambda>a. sle a (tvAmount v)) (tfMinAmount f) \<and> opt_all (sle (tvAmount v)) (tfMaxAmount f)"

definition ListTransactions ::
  "(txview_row list \<Rightarrow> txview_row list) \<Rightarrow> TransactionFilter \<Rightarrow> (pdb, TransactionSummary paginated) call" where
  "ListTransactions ord f =
     paginate (\<lambda>s. length (filter (tx_matches f) (pd_views s)))
       (\<lambda>s. newest_first ord tvCreatedAt (filter (tx_matches f) (pd_views s)))
       (\<lambda>v. Inr (summary_of_row v)) (tfPage f) (tfPageSize f)"

definition select_view :: "string \<Rightarrow> (pdb, txview_row) call" where
  "select_view u s =
     (case row_by tvPaymentID u (pd_views s) of None \<Rightarrow> (Inl ErrNoRows, s) | Some v \<Rightarrow> (Inr v, s))"

definition GetTransactionBICs :: "string \<Rightarrow> (pdb, string \<times> string) call" where
  "GetTransactionBICs i =
     bindE (nil_if_no_rows (pstmt (with_uuid i select_view))) (\<lambda>v.
       okE (case v of None \<Rightarrow> ('''', '''') | Some v \<Rightarrow> (tvSourceBic v, tvDestinationBic v)))"

text \<open>Events carry their position in the table as their id.\<close>

definition timeline_rows :: "string \<Rightarrow> pdb \<Rightarrow> TransactionEvent list" where
  "timeline_rows u s =
     map (\<lambda>e. \<lparr>txeEvent = teEventType e, txeOccurredAt = teOccurredAt e, txeDetail = teDetail e\<rparr>)
       (sort_key teOccurredAt (filter (\<lambda>e. tePaymentID e = u) (txevent_tbl (pdPg s))))"

definition GetTransactionTimeline :: "string \<Rightarrow> (pdb, TransactionEvent list) call" where
  "GetTransactionTimeline i =
     bindE (pstmt (with_uuid i (\<lambda>u s. (Inr (timeline_rows u s), s)))) (\<lambda>rows. scan_rows Inr rows [])"

definition detail_of_row :: "txview_row \<Rightarrow> TransactionEvent list \<Rightarrow> TransactionDetail" where
  "detail_of_row v events =
     \<lparr>tdSummary = summary_of_row v, tdUETR = tvUetr v, tdInstructionID = tvInstructionID v,
      tdChargeBearer = tvChargeBearer v,
      tdSettlementDate = map_option (\<lambda>d. Format_date (utc d)) (tvSettlementDate v),
      tdDebtorName = tvDebtorName v, tdCreditorName = tvCreditorName v, tdPurposeCode = tvPurposeCode v,
      tdRemittanceInfo = tvRemittanceInfo v, tdTimeline = events\<rparr>"

definition GetTransaction :: "string \<Rightarrow> (pdb, TransactionDetail option) call" where
  "GetTransaction i =
     bindE (nil_if_no_rows (pstmt (with_uuid i select_view))) (\<lambda>row.
       case row of
         None \<Rightarrow> okE None
       | Some v \<Rightarrow> bindE (GetTransactionTimeline i) (\<lambda>events. okE (Some (detail_of_row v events))))"

section \<open>Dashboard\<close>

record DashboardBucket =
  dbPeriodStart :: time
  dbTotalTransactions :: int
  dbSuccessCount :: int
  dbAbortCount :: int
  dbSuccessRate :: float64
  dbP99LatencyMs :: "int option"
  dbTotalAmount :: int64

record DashboardSummary =
  dsRange :: string
  dsBuckets :: "DashboardBucket list"

definition parseDuration :: "string \<Rightarrow> duration \<times> string" where
  "parseDuration rangeStr =
     (if rangeStr = ''1h'' then (1 * Hour, ''hour'')
      else if rangeStr = ''6h'' then (6 * Hour, ''hour'')
      else if rangeStr = ''24h'' then (24 * Hour, ''hour'')
      else if rangeStr = ''7d'' then (7 * 24 * Hour, ''day'')
      else if rangeStr = ''30d'' then (30 * 24 * Hour, ''day'')
      else (24 * Hour, ''hour''))"

definition date_trunc :: "string \<Rightarrow> time \<Rightarrow> time" where
  "date_trunc unit t = Truncate t (if unit = ''hour'' then Hour else 24 * Hour)"

definition count_where :: "('a \<Rightarrow> bool) \<Rightarrow> 'a list \<Rightarrow> int" where
  "count_where P xs = int (length (filter P xs))"

definition ratio :: "int \<Rightarrow> int \<Rightarrow> float64" where
  "ratio a b = (if 0 < b then fdiv (float_of_int64 (word_of_int a)) (float_of_int64 (word_of_int b)) else Finite 0)"

definition amount_sum :: "txview_row list \<Rightarrow> int" where
  "amount_sum vs = sum_list (map (\<lambda>v. sint (tvAmount v)) vs)"

definition bucket_of :: "time \<times> txview_row list \<Rightarrow> goerror + DashboardBucket" where
  "bucket_of g =
     (case g of (period, vs) \<Rightarrow>
       (case scan_sum (amount_sum vs) of
          Inl e \<Rightarrow> Inl e
        | Inr amount \<Rightarrow>
            (let total = int (length vs);
                 success = count_where (\<lambda>v. tvStatus v \<in> {''COMMITTED'', ''SETTLED''}) vs in
             Inr \<lparr>dbPeriodStart = period, dbTotalTransactions = total, dbSuccessCount = success,
                  dbAbortCount = count_where (\<lambda>v. tvStatus v = ''ABORTED'') vs,
                  dbSuccessRate = ratio success total, dbP99LatencyMs = None, dbTotalAmount = amount\<rparr>)))"

text \<open>\<^verbatim>\<open>GROUP BY\<close>: each key with its rows.\<close>

definition group_by :: "('r \<Rightarrow> 'k) \<Rightarrow> 'k list \<Rightarrow> 'r list \<Rightarrow> ('k \<times> 'r list) list" where
  "group_by key ks rows = map (\<lambda>k. (k, filter (\<lambda>r. key r = k) rows)) ks"

definition recent :: "time \<Rightarrow> string \<Rightarrow> pdb \<Rightarrow> txview_row list" where
  "recent since bic s = filter (\<lambda>v. pg_timestamp since \<le> tvCreatedAt v \<and> in_scope bic v) (pd_views s)"

definition dashboard_groups :: "string \<Rightarrow> time \<Rightarrow> string \<Rightarrow> pdb \<Rightarrow> (time \<times> txview_row list) list" where
  "dashboard_groups unit since bic s =
     (let vs = recent since bic s; key = (\<lambda>v. date_trunc unit (tvCreatedAt v)) in
      group_by key (sort (remdups (map key vs))) vs)"

definition GetDashboardSummary :: "time \<Rightarrow> string \<Rightarrow> string \<Rightarrow> (pdb, DashboardSummary) call" where
  "GetDashboardSummary now bic rangeStr =
     (case parseDuration rangeStr of (dur, unit) \<Rightarrow>
       bindE (query (dashboard_groups unit (now - dur) bic)) (\<lambda>rows.
       bindE (scan_rows bucket_of rows []) (\<lambda>buckets.
         okE \<lparr>dsRange = rangeStr, dsBuckets = buckets\<rparr>)))"

record AbortReason =
  arCategory :: string
  arCount :: int
  arPercentage :: float64

record AbortReasonBreakdown =
  abRange :: string
  abTotal :: int
  abReasons :: "AbortReason list"

definition abort_category :: "txview_row \<Rightarrow> string" where
  "abort_category v = (case tvAbortReason v of None \<Rightarrow> ''unknown'' | Some r \<Rightarrow> r)"

text \<open>\<open>ord\<close> is the order of the plan among categories of the same count.\<close>

definition abort_groups :: "(string list \<Rightarrow> string list) \<Rightarrow> time \<Rightarrow> string \<Rightarrow> pdb \<Rightarrow> (string \<times> txview_row list) list" where
  "abort_groups ord since bic s =
     (let vs = filter (\<lambda>v. tvStatus v = ''ABORTED'') (recent since bic s) in
      sort_key (\<lambda>g. - int (length (snd g)))
        (group_by abort_category (ord (remdups (map abort_category vs))) vs))"

definition GetAbortReasons :: "(string list \<Rightarrow> string list) \<Rightarrow> time \<Rightarrow> string \<Rightarrow> string \<Rightarrow> (pdb, AbortReasonBreakdown) call" where
  "GetAbortReasons ord now bic rangeStr =
     (case parseDuration rangeStr of (dur, _) \<Rightarrow>
       bindE (query (abort_groups ord (now - dur) bic)) (\<lambda>rows.
       bindE (scan_rows (\<lambda>g. Inr (fst g, int (length (snd g)))) rows []) (\<lambda>counts.
         (let total = sum_list (map snd counts) in
          okE \<lparr>abRange = rangeStr, abTotal = total,
               abReasons = map (\<lambda>(c, n). \<lparr>arCategory = c, arCount = n, arPercentage = ratio n total\<rparr>) counts\<rparr>))))"

section \<open>Settlement windows\<close>

record SettlementWindowSummary =
  wsID :: string
  wsOpenedAt :: time
  wsClosedAt :: "time option"
  wsStatus :: string
  wsSettlementDate :: string
  wsCurrency :: string
  wsNetPosition :: "int64 option"

record SettlementPosition =
  spBIC :: string
  spBankName :: string
  spSent :: int64
  spReceived :: int64
  spNet :: int64
  spCount :: int

record SettlementWindow =
  wdSummary :: SettlementWindowSummary
  wdPositions :: "SettlementPosition list"

definition min_of :: "int list \<Rightarrow> int" where
  "min_of xs = (case xs of [] \<Rightarrow> 0 | y # ys \<Rightarrow> fold min ys y)"

definition max_of :: "int list \<Rightarrow> int" where
  "max_of xs = (case xs of [] \<Rightarrow> 0 | y # ys \<Rightarrow> fold max ys y)"

definition created_date :: "txview_row \<Rightarrow> time" where
  "created_date v = pg_date (tvCreatedAt v)"

definition window_status :: "gotime \<Rightarrow> string \<Rightarrow> string" where
  "window_status now date = (if date = Format_date now then ''OPEN'' else ''CLOSED'')"

text \<open>\<open>windowID\<close> is \<^verbatim>\<open>uuid.NewSHA1\<close> of the date's text.\<close>

definition window_of :: "(string \<Rightarrow> string) \<Rightarrow> gotime \<Rightarrow> time \<times> txview_row list \<Rightarrow> goerror + SettlementWindowSummary" where
  "window_of windowID now g =
     (case g of (d, vs) \<Rightarrow>
       (case scan_sum (amount_sum vs) of
          Inl e \<Rightarrow> Inl e
        | Inr net \<Rightarrow>
            (let date = Format_date (utc d) in
             Inr \<lparr>wsID = windowID date, wsOpenedAt = min_of (map tvCreatedAt vs),
                  wsClosedAt = Some (max_of (map tvUpdatedAt vs)), wsStatus = window_status now date,
                  wsSettlementDate = date, wsCurrency = ''KES'', wsNetPosition = Some net\<rparr>)))"

definition window_rows :: "string \<Rightarrow> time option \<Rightarrow> time option \<Rightarrow> pdb \<Rightarrow> txview_row list" where
  "window_rows bic from_date to_date s =
     filter (\<lambda>v. in_scope bic v \<and> opt_all (\<lambda>t. pg_date t \<le> created_date v) from_date \<and>
                 opt_all (\<lambda>t. created_date v \<le> pg_date t) to_date) (pd_views s)"

definition dates_of :: "txview_row list \<Rightarrow> time list" where
  "dates_of vs = rev (sort (remdups (map created_date vs)))"

definition ListSettlementWindows ::
  "(string \<Rightarrow> string) \<Rightarrow> gotime \<Rightarrow> string \<Rightarrow> time option \<Rightarrow> time option \<Rightarrow> int64 \<Rightarrow> int64 \<Rightarrow>
   (pdb, SettlementWindowSummary paginated) call" where
  "ListSettlementWindows windowID now bic from_date to_date page pageSize =
     paginate (\<lambda>s. length (dates_of (window_rows bic from_date to_date s)))
       (\<lambda>s. let vs = window_rows bic from_date to_date s in group_by created_date (dates_of vs) vs)
       (window_of windowID now) page pageSize"

fun find_date :: "(string \<Rightarrow> string) \<Rightarrow> string \<Rightarrow> time list \<Rightarrow> (pdb, time option) call" where
  "find_date windowID i [] s = (Inr None, s)"
| "find_date windowID i (d # ds) s =
     (case pstmt (okE ()) s of
        (Inl e, s1) \<Rightarrow> (Inr None, s1)
      | (Inr _, s1) \<Rightarrow>
          if windowID (Format_date (utc d)) = i then (Inr (Some d), s1) else find_date windowID i ds s1)"

text \<open>The two halves of the \<^verbatim>\<open>UNION ALL\<close>: what each bank of a transaction sent and received.\<close>

record leg =
  lgBIC :: string
  lgName :: string
  lgSent :: int
  lgReceived :: int

definition legs :: "txview_row list \<Rightarrow> leg list" where
  "legs vs =
     map (\<lambda>v. \<lparr>lgBIC = tvSourceBic v, lgName = tvSourceBankName v, lgSent = sint (tvAmount v), lgReceived = 0\<rparr>) vs @
     map (\<lambda>v. \<lparr>lgBIC = tvDestinationBic v, lgName = tvDestinationBankName v, lgSent = 0, lgReceived = sint (tvAmount v)\<rparr>) vs"

definition leg_key :: "leg \<Rightarrow> string \<times> string" where
  "leg_key l = (lgBIC l, lgName l)"

definition position_of :: "(string \<times> string) \<times> leg list \<Rightarrow> goerror + SettlementPosition" where
  "position_of g =
     (case g of ((bic, name), ls) \<Rightarrow>
       (let sent = sum_list (map lgSent ls); received = sum_list (map lgReceived ls) in
        (case (scan_sum sent, scan_sum received, scan_sum (sent - received)) of
           (Inr s, Inr r, Inr n) \<Rightarrow>
             Inr \<lparr>spBIC = bic, spBankName = name, spSent = s, spReceived = r, spNet = n, spCount = int (length ls)\<rparr>
         | _ \<Rightarrow> Inl (ErrMsg ''cannot scan numeric into *int64''))))"

text \<open>\<open>ord\<close> puts the groups in the order of their BIC under the database's collation.\<close>

definition position_groups ::
  "((string \<times> string) list \<Rightarrow> (string \<times> string) list) \<Rightarrow> time \<Rightarrow> string \<Rightarrow> pdb \<Rightarrow> ((string \<times> string) \<times> leg list) list" where
  "position_groups ord d bic s =
     (let ls = legs (filter (\<lambda>v. created_date v = d \<and> in_scope bic v) (pd_views s)) in
      group_by leg_key (ord (remdups (map leg_key ls))) ls)"

definition GetSettlementWindow ::
  "((string \<times> string) list \<Rightarrow> (string \<times> string) list) \<Rightarrow> (string \<Rightarrow> string) \<Rightarrow> gotime \<Rightarrow> string \<Rightarrow> string \<Rightarrow>
   (pdb, SettlementWindow option) call" where
  "GetSettlementWindow ord windowID now i bic =
     bindE (query (\<lambda>s. take 365 (dates_of (pd_views s)))) (\<lambda>ds.
     bindE (find_date windowID i ds) (\<lambda>found.
       case found of
         None \<Rightarrow> okE None
       | Some d \<Rightarrow>
           bindE (query (position_groups ord d bic)) (\<lambda>rows.
           bindE (scan_rows position_of rows []) (\<lambda>positions.
             (let date = Format_date (utc d) in
              okE (Some \<lparr>wdSummary = \<lparr>wsID = i, wsOpenedAt = d, wsClosedAt = None, wsStatus = window_status now date,
                                     wsSettlementDate = date, wsCurrency = ''KES'', wsNetPosition = None\<rparr>,
                         wdPositions = positions\<rparr>))))))"

section \<open>Audit log\<close>

record AuditActor =
  aaID :: string
  aaEmail :: string
  aaRole :: string

record AuditLogEntry =
  alID :: string
  alActor :: AuditActor
  alAction :: string
  alTargetType :: string
  alTargetID :: string
  alDiff :: "json option"
  alOccurredAt :: time

record AuditFilter =
  afActorID :: string
  afAction :: string
  afFrom :: "time option"
  afTo :: "time option"
  afPage :: int64
  afPageSize :: int64

definition InsertAuditLog ::
  "string \<Rightarrow> string \<Rightarrow> string \<Rightarrow> string \<Rightarrow> string \<Rightarrow> string \<Rightarrow> json option \<Rightarrow> pdb \<Rightarrow> goerror option \<times> pdb" where
  "InsertAuditLog uuid actorID actorRole action targetType targetID diff s =
     (case pstmt (with_uuid targetID (\<lambda>u s.
             (Inr (), s\<lparr>pdAudit := pdAudit s @
                [\<lparr>auID = uuid, auActorID = actorID, auActorRole = actorRole, auAction = action,
                  auTargetType = targetType, auTargetID = u, auDiff = diff, auOccurredAt = pd_now s\<rparr>]\<rparr>))) s of
        (r, s') \<Rightarrow> (err_of r, s'))"

definition audit_matches :: "AuditFilter \<Rightarrow> audit_row \<Rightarrow> bool" where
  "audit_matches f a \<longleftrightarrow>
     (afActorID f = '''' \<or> auActorID a = afActorID f) \<and> (afAction f = '''' \<or> auAction a = afAction f) \<and>
     opt_all (\<lambda>t. pg_timestamp t \<le> auOccurredAt a) (afFrom f) \<and>
     opt_all (\<lambda>t. auOccurredAt a \<le> pg_timestamp t) (afTo f)"

definition entry_of_row :: "audit_row \<Rightarrow> AuditLogEntry" where
  "entry_of_row a =
     \<lparr>alID = auID a, alActor = \<lparr>aaID = auActorID a, aaEmail = '''', aaRole = auActorRole a\<rparr>, alAction = auAction a,
      alTargetType = auTargetType a, alTargetID = auTargetID a, alDiff = auDiff a, alOccurredAt = auOccurredAt a\<rparr>"

definition ListAuditLog :: "(audit_row list \<Rightarrow> audit_row list) \<Rightarrow> AuditFilter \<Rightarrow> (pdb, AuditLogEntry paginated) call" where
  "ListAuditLog ord f =
     paginate (\<lambda>s. length (filter (audit_matches f) (pdAudit s)))
       (\<lambda>s. newest_first ord auOccurredAt (filter (audit_matches f) (pdAudit s)))
       (\<lambda>a. Inr (entry_of_row a)) (afPage f) (afPageSize f)"

section \<open>Export jobs\<close>

record ExportJob =
  ejID :: string
  ejStatus :: string
  ejFormat :: string
  ejDownloadURL :: "string option"
  ejRowCount :: "int option"
  ejError :: "string option"
  ejCreatedAt :: time
  ejCompletedAt :: "time option"

definition job_of_row :: "job_row \<Rightarrow> ExportJob" where
  "job_of_row j =
     \<lparr>ejID = joID j, ejStatus = joStatus j, ejFormat = joFormat j, ejDownloadURL = joDownloadURL j,
      ejRowCount = joRowCount j, ejError = joError j, ejCreatedAt = joCreatedAt j, ejCompletedAt = joCompletedAt j\<rparr>"

definition CreateExportJob :: "string \<Rightarrow> string \<Rightarrow> string \<Rightarrow> json \<Rightarrow> (pdb, ExportJob) call" where
  "CreateExportJob uuid ownerID format filters = pstmt (\<lambda>s.
     (let j = \<lparr>joID = uuid, joOwnerID = ownerID, joFormat = format, joFilters = filters, joStatus = ''PENDING'',
               joDownloadURL = None, joRowCount = None, joError = None, joCreatedAt = pd_now s, joCompletedAt = None\<rparr> in
      if list_ex (\<lambda>k. joID k = uuid) (pdJobs s) then (Inl unique_violation, s)
      else (Inr (job_of_row j), s\<lparr>pdJobs := pdJobs s @ [j]\<rparr>)))"

definition GetExportJob :: "string \<Rightarrow> (pdb, ExportJob option) call" where
  "GetExportJob i = nil_if_no_rows (pstmt (with_uuid i (\<lambda>u s.
     (case row_by joID u (pdJobs s) of None \<Rightarrow> (Inl ErrNoRows, s) | Some j \<Rightarrow> (Inr (job_of_row j), s)))))"

section \<open>Lemmas\<close>

lemma sum_if_key:
  assumes "finite A" "k \<in> A"
  shows "(\<Sum>x\<in>A. if k = x then c + f x else f x) = c + (\<Sum>x\<in>A. f x :: int)"
proof -
  have "(if k = x then c + f x else f x) = (if k = x then c else 0) + f x" for x by simp
  with assms show ?thesis by (simp add: sum.distrib sum.delta)
qed

text \<open>\<^verbatim>\<open>GROUP BY\<close> loses no row.\<close>

lemma group_by_sum:
  assumes "distinct ks" "key ` set rows \<subseteq> set ks"
  shows "sum_list (map (\<lambda>g. sum_list (map h (snd g))) (group_by key ks rows)) = (sum_list (map h rows) :: int)"
proof -
  have "(\<Sum>k\<in>set ks. sum_list (map h (filter (\<lambda>r. key r = k) rows))) = sum_list (map h rows)"
    using assms(2)
  proof (induction rows)
    case (Cons r rows)
    have "(\<Sum>k\<in>set ks. sum_list (map h (filter (\<lambda>r. key r = k) (r # rows)))) =
        (\<Sum>k\<in>set ks. if key r = k then h r + sum_list (map h (filter (\<lambda>r. key r = k) rows))
          else sum_list (map h (filter (\<lambda>r. key r = k) rows)))"
      by (intro sum.cong) auto
    with Cons show ?case by (simp add: sum_if_key)
  qed simp
  with assms(1) show ?thesis by (simp add: group_by_def comp_def sum_list_distinct_conv_sum_set)
qed

definition leg_net :: "leg \<Rightarrow> int" where
  "leg_net l = lgSent l - lgReceived l"

lemma legs_balance: "sum_list (map leg_net (legs vs)) = 0"
proof -
  have "sum_list (map leg_net (legs vs)) = sum_list (map (\<lambda>v. sint (tvAmount v)) vs) + sum_list (map (\<lambda>v. - sint (tvAmount v)) vs)"
    by (simp add: legs_def leg_net_def comp_def)
  also have "\<dots> = 0" by (induction vs) auto
  finally show ?thesis .
qed

lemma position_net:
  assumes "position_of g = Inr q"
  shows "sint (spNet q) = sum_list (map leg_net (snd g))"
proof -
  obtain bic name ls where g: "g = ((bic, name), ls)" by (metis prod.exhaust)
  have "sum_list (map leg_net ls) = sum_list (map lgSent ls) - sum_list (map lgReceived ls)"
    by (induction ls) (auto simp: leg_net_def)
  with assms g show ?thesis
    by (auto simp: position_of_def Let_def scan_sum_def sint_word_of_int64 simp del: of_int_diff
        split: sum.splits if_splits)
qed

text \<open>The nets of all groups of a window add up to zero.\<close>

lemma positions_balance:
  assumes "\<And>ks. distinct ks \<Longrightarrow> distinct (ord ks) \<and> set (ord ks) = set ks"
    and "list_all2 (\<lambda>g q. position_of g = Inr q) (position_groups ord d bic s) qs"
  shows "sum_list (map (\<lambda>q. sint (spNet q)) qs) = 0"
proof -
  have "map (\<lambda>q. sint (spNet q)) qs = map (\<lambda>g. sum_list (map leg_net (snd g))) (position_groups ord d bic s)"
    using assms(2) by (induction rule: list_all2_induct) (simp_all add: position_net)
  moreover have "sum_list (map (\<lambda>g. sum_list (map leg_net (snd g))) (position_groups ord d bic s)) = 0"
    unfolding position_groups_def Let_def using assms(1) by (subst group_by_sum) (simp_all add: legs_balance)
  ultimately show ?thesis by simp
qed

end
