(* ===== verification/PortalApi.thy ===== *)
theory PortalApi
  imports PortalAuth PortalViews
begin

text \<open>
  The portal's HTTP interface: the middleware of src/internal/portal/api/middleware.go, the handlers and
  the routes of handlers.go. A body is the Go value a handler encodes or decodes. What comes from outside
  the program is in the environment: the clock, fresh UUIDs, random bytes, HMAC and SHA-256, PEM and X.509
  parsing, and the order of rows the database leaves open. The static files of the user interface and
  the router's own answers to unknown paths are left out: there \<open>portal_http\<close> is \<^const>\<open>None\<close>.
\<close>

section \<open>Requests, answers, environment\<close>

datatype portal_doc =
    MapDoc "(string \<times> string option) list"
  | BanksDoc "Bank paginated"
  | BankDoc Bank
  | CertificatesDoc "cert_row list"
  | CertificateDoc cert_row
  | TransactionsDoc "TransactionSummary paginated"
  | TransactionDoc TransactionDetail
  | TimelineDoc "TransactionEvent list"
  | DashboardDoc DashboardSummary
  | AbortReasonsDoc AbortReasonBreakdown
  | WindowsDoc "SettlementWindowSummary paginated"
  | WindowDoc SettlementWindow
  | AuditLogDoc "AuditLogEntry paginated"
  | JobDoc ExportJob
  | NoDoc

record portal_response =
  poCode :: int
  poHeader :: "(string \<times> string) list"
  poDoc :: portal_doc

record portal =
  ptDb :: pdb
  ptCsrf :: CSRFStore

record x509 =
  xcRaw :: string
  xcSubject :: string
  xcNotBefore :: time
  xcNotAfter :: time

record portal_env =
  peNow :: gotime
  peUUID :: string
  peAuditUUID :: string
  peNonce :: "nat list"
  peMac :: "string \<Rightarrow> nat list \<Rightarrow> nat list"
  peSha256 :: "string \<Rightarrow> nat list"
  pePemDecode :: "string \<Rightarrow> (string \<times> string) option"
  peParseCertificate :: "string \<Rightarrow> goerror + x509"
  peWindowID :: "string \<Rightarrow> string"
  peBankOrd :: "bank_row list \<Rightarrow> bank_row list"
  peCertOrd :: "cert_row list \<Rightarrow> cert_row list"
  peTxOrd :: "txview_row list \<Rightarrow> txview_row list"
  peAuditOrd :: "audit_row list \<Rightarrow> audit_row list"
  peReasonOrd :: "string list \<Rightarrow> string list"
  pePositionOrd :: "(string \<times> string) list \<Rightarrow> (string \<times> string) list"

type_synonym portal_handler = "portal_request \<Rightarrow> portal \<Rightarrow> portal_response \<times> portal"

section \<open>Helpers\<close>

definition portal_writeJSON :: "int \<Rightarrow> portal_doc \<Rightarrow> portal_response" where
  "portal_writeJSON code v = \<lparr>poCode = code, poHeader = [(''Content-Type'', ''application/json'')], poDoc = v\<rparr>"

definition writeError :: "int \<Rightarrow> string \<Rightarrow> portal_response" where
  "writeError code msg = portal_writeJSON code (MapDoc [(''error'', Some msg)])"

definition serverError :: portal_response where
  "serverError = writeError 500 ''internal server error''"

definition Query_Get :: "portal_request \<Rightarrow> string \<Rightarrow> string" where
  "Query_Get r key = (case map_of (inQuery (rqBody r)) key of Some v \<Rightarrow> v | None \<Rightarrow> '''')"

text \<open>\<^verbatim>\<open>strconv.ParseInt(s, 10, 64)\<close>, which \<^verbatim>\<open>strconv.Atoi\<close> is on a 64-bit target.\<close>

definition ParseInt :: "string \<Rightarrow> int64 option" where
  "ParseInt s =
     (let neg = (take 1 s = ''-''); ds = (if neg \<or> take 1 s = ''+'' then drop 1 s else s);
          n = (if neg then - num ds else num ds)
      in if ds = [] \<or> \<not> list_all is_digit ds \<or> \<not> fits64 n then None else Some (word_of_int n))"

definition intQuery :: "portal_request \<Rightarrow> string \<Rightarrow> int64 \<Rightarrow> int64" where
  "intQuery r key defaultVal =
     (let v = Query_Get r key in
      if v = '''' then defaultVal
      else case ParseInt v of None \<Rightarrow> defaultVal | Some n \<Rightarrow> if slt n 1 then defaultVal else n)"

text \<open>An optional parameter that is ignored when it does not parse.\<close>

definition optQuery :: "(string \<Rightarrow> 'a option) \<Rightarrow> portal_request \<Rightarrow> string \<Rightarrow> 'a option" where
  "optQuery parse r key = (let v = Query_Get r key in if v = '''' then None else parse v)"

definition timeQuery :: "portal_request \<Rightarrow> string \<Rightarrow> time option" where
  "timeQuery = optQuery (\<lambda>v. map_option instant (Parse_RFC3339 v))"

definition dateQuery :: "portal_request \<Rightarrow> string \<Rightarrow> time option" where
  "dateQuery = optQuery (\<lambda>v. map_option instant (Parse_date v))"

text \<open>A call of the store, and an audit entry whose error is dropped.\<close>

definition db_call :: "(pdb, 'a) call \<Rightarrow> (portal, 'a) call" where
  "db_call m p = (case m (ptDb p) of (r, d) \<Rightarrow> (r, p\<lparr>ptDb := d\<rparr>))"

definition audit :: "portal_env \<Rightarrow> portal_request \<Rightarrow> string \<Rightarrow> string \<Rightarrow> string \<Rightarrow> json option \<Rightarrow> portal \<Rightarrow> portal" where
  "audit env r action targetType targetID diff p =
     (let c = FromRequest r in
      p\<lparr>ptDb := snd (InsertAuditLog (peAuditUUID env) (clSub c) (clRole c) action targetType targetID diff (ptDb p))\<rparr>)"

text \<open>The ends that the handlers share: \<^verbatim>\<open>serverError\<close> on an error, 404 on a nil result.\<close>

definition reply :: "('a \<Rightarrow> portal_response) \<Rightarrow> (goerror + 'a) \<times> portal \<Rightarrow> portal_response \<times> portal" where
  "reply f x = (case x of (Inl e, p) \<Rightarrow> (serverError, p) | (Inr a, p) \<Rightarrow> (f a, p))"

definition or_404 :: "string \<Rightarrow> ('a \<Rightarrow> portal_response) \<Rightarrow> 'a option \<Rightarrow> portal_response" where
  "or_404 msg f v = (case v of None \<Rightarrow> writeError 404 msg | Some a \<Rightarrow> f a)"

section \<open>Identity\<close>

definition getMe :: portal_handler where
  "getMe r p =
     (let c = FromRequest r;
          me = (\<lambda>bankID bankName. portal_writeJSON 200 (MapDoc
            [(''userId'', Some (clSub c)), (''username'', Some (clUsername c)), (''role'', Some (clRole c)),
             (''participantId'', Some (clParticipantID c)), (''bankId'', bankID), (''bankName'', bankName)]))
      in if clParticipantID c = '''' then (me None None, p)
         else case db_call (GetBankByBIC (clParticipantID c)) p of
                (Inr (Some b), p') \<Rightarrow> (me (Some (bkID b)) (Some (bkName b)), p')
              | (_, p') \<Rightarrow> (me None None, p'))"

definition getCSRFToken :: "portal_env \<Rightarrow> portal_handler" where
  "getCSRFToken env r p =
     (case Generate (peMac env) (peNonce env) (instant (peNow env)) (clSub (FromRequest r)) (ptCsrf p) of
        (token, s) \<Rightarrow> (portal_writeJSON 200 (MapDoc [(''token'', Some token)]), p\<lparr>ptCsrf := s\<rparr>))"

section \<open>Banks\<close>

definition listBanks :: "portal_env \<Rightarrow> portal_handler" where
  "listBanks env r p =
     reply (\<lambda>b. portal_writeJSON 200 (BanksDoc b))
       (db_call (ListBanks (peBankOrd env)
          \<lparr>blStatus = Query_Get r ''status'', blPage = intQuery r ''page'' 1, blPageSize = intQuery r ''pageSize'' 20\<rparr>) p)"

record createBankRequest =
  cqBIC :: string
  cqName :: string
  cqCountry :: string
  cqSettlementAccount :: string
  cqNotes :: string

definition createBankRequest_zero :: createBankRequest where
  "createBankRequest_zero = \<lparr>cqBIC = '''', cqName = '''', cqCountry = '''', cqSettlementAccount = '''', cqNotes = ''''\<rparr>"

definition set_member :: "string \<Rightarrow> json \<Rightarrow> string \<Rightarrow> (string \<Rightarrow> 's) \<Rightarrow> 's \<times> goerror option" where
  "set_member place v old upd = (case set_string place v old of (s, e) \<Rightarrow> (upd s, e))"

definition createBankRequest_set :: "string \<Rightarrow> json \<Rightarrow> createBankRequest \<Rightarrow> createBankRequest \<times> goerror option" where
  "createBankRequest_set k v q =
     (if k = ''bic'' then set_member ''createBankRequest.bic'' v (cqBIC q) (\<lambda>s. q\<lparr>cqBIC := s\<rparr>)
      else if k = ''name'' then set_member ''createBankRequest.name'' v (cqName q) (\<lambda>s. q\<lparr>cqName := s\<rparr>)
      else if k = ''country'' then set_member ''createBankRequest.country'' v (cqCountry q) (\<lambda>s. q\<lparr>cqCountry := s\<rparr>)
      else if k = ''settlementaccount'' then
        set_member ''createBankRequest.settlementAccount'' v (cqSettlementAccount q) (\<lambda>s. q\<lparr>cqSettlementAccount := s\<rparr>)
      else if k = ''notes'' then set_member ''createBankRequest.notes'' v (cqNotes q) (\<lambda>s. q\<lparr>cqNotes := s\<rparr>)
      else (q, None))"

definition createBankRequest_json :: "createBankRequest \<Rightarrow> json" where
  "createBankRequest_json q =
     JObj [(''bic'', JStr (cqBIC q)), (''name'', JStr (cqName q)), (''country'', JStr (cqCountry q)),
           (''settlementAccount'', JStr (cqSettlementAccount q)), (''notes'', JStr (cqNotes q))]"

definition createBank :: "portal_env \<Rightarrow> portal_handler" where
  "createBank env r p =
     (case Decode ''api.createBankRequest'' createBankRequest_set createBankRequest_zero (inJson (rqBody r)) of
        Inl e \<Rightarrow> (writeError 400 ''invalid request body'', p)
      | Inr q \<Rightarrow>
          if cqBIC q = '''' \<or> cqName q = '''' \<or> cqCountry q = '''' \<or> cqSettlementAccount q = ''''
          then (writeError 400 ''bic, name, country, and settlementAccount are required'', p)
          else (case db_call (CreateBank (peUUID env)
                   \<lparr>cbBIC = cqBIC q, cbName = cqName q, cbCountry = cqCountry q, cbSettlementAccount = cqSettlementAccount q,
                    cbNotes = cqNotes q, cbAPIBaseURL = '''', cbAPIEnabled = False, cbCallbackURL = '''',
                    cbLookupAPIURL = '''', cbPaymentAPIURL = '''', cbStatusCheckAPIURL = ''''\<rparr>) p of
                  (Inl e, p') \<Rightarrow> (serverError, p')
                | (Inr bank, p') \<Rightarrow>
                    (portal_writeJSON 201 (BankDoc bank),
                     audit env r ''bank.create'' ''bank'' (bkID bank) (Some (createBankRequest_json q)) p')))"

definition getBank :: "string \<Rightarrow> portal_handler" where
  "getBank bankID r p =
     reply (or_404 ''bank not found'' (\<lambda>b. portal_writeJSON 200 (BankDoc b))) (db_call (GetBank bankID) p)"

record updateStatusRequest =
  uqStatus :: string
  uqReason :: string

definition updateStatusRequest_set :: "string \<Rightarrow> json \<Rightarrow> updateStatusRequest \<Rightarrow> updateStatusRequest \<times> goerror option" where
  "updateStatusRequest_set k v q =
     (if k = ''status'' then set_member ''updateStatusRequest.status'' v (uqStatus q) (\<lambda>s. q\<lparr>uqStatus := s\<rparr>)
      else if k = ''reason'' then set_member ''updateStatusRequest.reason'' v (uqReason q) (\<lambda>s. q\<lparr>uqReason := s\<rparr>)
      else (q, None))"

definition updateStatusRequest_json :: "updateStatusRequest \<Rightarrow> json" where
  "updateStatusRequest_json q = JObj [(''status'', JStr (uqStatus q)), (''reason'', JStr (uqReason q))]"

text \<open>What the three handlers that change a bank do with the store's result; \<open>failed\<close> answers an error.\<close>

definition finish_update ::
  "portal_env \<Rightarrow> portal_request \<Rightarrow> string \<Rightarrow> string \<Rightarrow> json \<Rightarrow> (goerror \<Rightarrow> portal_response) \<Rightarrow>
   (goerror + Bank option) \<times> portal \<Rightarrow> portal_response \<times> portal" where
  "finish_update env r action bankID diff failed x =
     (case x of
        (Inl e, p) \<Rightarrow> (failed e, p)
      | (Inr None, p) \<Rightarrow> (writeError 404 ''bank not found'', p)
      | (Inr (Some b), p) \<Rightarrow> (portal_writeJSON 200 (BankDoc b), audit env r action ''bank'' bankID (Some diff) p))"

definition updateBankStatus :: "portal_env \<Rightarrow> string \<Rightarrow> portal_handler" where
  "updateBankStatus env bankID r p =
     (case Decode ''api.updateStatusRequest'' updateStatusRequest_set \<lparr>uqStatus = '''', uqReason = ''''\<rparr> (inJson (rqBody r)) of
        Inl e \<Rightarrow> (writeError 400 ''invalid request body'', p)
      | Inr q \<Rightarrow>
          if uqStatus q = '''' then (writeError 400 ''status is required'', p)
          else finish_update env r ''bank.status_change'' bankID (updateStatusRequest_json q) (\<lambda>e. writeError 409 (Error e))
                 (db_call (UpdateBankStatus (instant (peNow env)) bankID (uqStatus q) (uqReason q)) p))"

definition set_bool :: "string \<Rightarrow> json \<Rightarrow> bool \<Rightarrow> bool \<times> goerror option" where
  "set_bool place v old =
     (case v of JBool b \<Rightarrow> (b, None) | JNull \<Rightarrow> (old, None)
      | _ \<Rightarrow> (old, Some (type_error (json_kind v) (''struct field '' @ place) ''bool'')))"

definition updateAPIRequest_set :: "string \<Rightarrow> json \<Rightarrow> UpdateBankAPIParams \<Rightarrow> UpdateBankAPIParams \<times> goerror option" where
  "updateAPIRequest_set k v q =
     (if k = ''apibaseurl'' then set_member ''updateAPIRequest.apiBaseUrl'' v (ubAPIBaseURL q) (\<lambda>s. q\<lparr>ubAPIBaseURL := s\<rparr>)
      else if k = ''apienabled'' then
        (case set_bool ''updateAPIRequest.apiEnabled'' v (ubAPIEnabled q) of (b, e) \<Rightarrow> (q\<lparr>ubAPIEnabled := b\<rparr>, e))
      else if k = ''lookupapiurl'' then
        set_member ''updateAPIRequest.lookupApiUrl'' v (ubLookupAPIURL q) (\<lambda>s. q\<lparr>ubLookupAPIURL := s\<rparr>)
      else if k = ''paymentapiurl'' then
        set_member ''updateAPIRequest.paymentApiUrl'' v (ubPaymentAPIURL q) (\<lambda>s. q\<lparr>ubPaymentAPIURL := s\<rparr>)
      else if k = ''statuscheckapiurl'' then
        set_member ''updateAPIRequest.statusCheckApiUrl'' v (ubStatusCheckAPIURL q) (\<lambda>s. q\<lparr>ubStatusCheckAPIURL := s\<rparr>)
      else (q, None))"

definition updateAPIRequest_zero :: UpdateBankAPIParams where
  "updateAPIRequest_zero = \<lparr>ubAPIBaseURL = '''', ubAPIEnabled = False, ubLookupAPIURL = '''', ubPaymentAPIURL = '''',
     ubStatusCheckAPIURL = ''''\<rparr>"

definition updateAPIRequest_json :: "UpdateBankAPIParams \<Rightarrow> json" where
  "updateAPIRequest_json q =
     JObj [(''apiBaseUrl'', JStr (ubAPIBaseURL q)), (''apiEnabled'', JBool (ubAPIEnabled q)),
           (''lookupApiUrl'', JStr (ubLookupAPIURL q)), (''paymentApiUrl'', JStr (ubPaymentAPIURL q)),
           (''statusCheckApiUrl'', JStr (ubStatusCheckAPIURL q))]"

definition updateBankAPI :: "portal_env \<Rightarrow> string \<Rightarrow> portal_handler" where
  "updateBankAPI env bankID r p =
     (case Decode ''api.updateAPIRequest'' updateAPIRequest_set updateAPIRequest_zero (inJson (rqBody r)) of
        Inl e \<Rightarrow> (writeError 400 ''invalid request body'', p)
      | Inr q \<Rightarrow>
          finish_update env r ''bank.api_config'' bankID (updateAPIRequest_json q) (\<lambda>e. writeError 409 (Error e))
            (db_call (UpdateBankAPI bankID q) p))"

definition callback_set :: "string \<Rightarrow> json \<Rightarrow> string \<Rightarrow> string \<times> goerror option" where
  "callback_set k v old = (if k = ''callbackurl'' then set_string ''.callbackUrl'' v old else (old, None))"

definition updateBankCallback :: "portal_env \<Rightarrow> string \<Rightarrow> portal_handler" where
  "updateBankCallback env bankID r p =
     (case Decode ''struct { CallbackURL string }'' callback_set '''' (inJson (rqBody r)) of
        Inl e \<Rightarrow> (writeError 400 ''invalid request body'', p)
      | Inr url \<Rightarrow>
          finish_update env r ''bank.callback_config'' bankID (JObj [(''callbackUrl'', JStr url)]) (\<lambda>_. serverError)
            (db_call (UpdateBankCallback bankID url) p))"

section \<open>Certificates\<close>

definition listCertificates :: "portal_env \<Rightarrow> string \<Rightarrow> portal_handler" where
  "listCertificates env bankID r p =
     reply (\<lambda>cs. portal_writeJSON 200 (CertificatesDoc cs)) (db_call (ListCertificates (peCertOrd env) bankID) p)"

definition pem_set :: "string \<Rightarrow> json \<Rightarrow> string \<Rightarrow> string \<times> goerror option" where
  "pem_set k v old = (if k = ''pem'' then set_string ''createCertRequest.pem'' v old else (old, None))"

definition store_certificate :: "portal_env \<Rightarrow> string \<Rightarrow> x509 \<Rightarrow> portal_handler" where
  "store_certificate env bankID x r p =
     (case db_call (CreateCertificate (peUUID env)
         \<lparr>ccBankID = bankID, ccSubject = xcSubject x, ccFingerprint = hex_encode (peSha256 env (xcRaw x)),
          ccNotBefore = xcNotBefore x, ccNotAfter = xcNotAfter x\<rparr>) p of
        (Inl e, p') \<Rightarrow> (serverError, p')
      | (Inr c, p') \<Rightarrow>
          (portal_writeJSON 201 (CertificateDoc c),
           audit env r ''certificate.create'' ''certificate'' (ctID c)
             (Some (JObj [(''fingerprint'', JStr (ctFingerprint c)), (''subject'', JStr (ctSubject c))])) p'))"

definition createCertificate :: "portal_env \<Rightarrow> string \<Rightarrow> portal_handler" where
  "createCertificate env bankID r p =
     (case Decode ''api.createCertRequest'' pem_set '''' (inJson (rqBody r)) of
        Inl e \<Rightarrow> (writeError 400 ''invalid request body'', p)
      | Inr pem \<Rightarrow>
          if pem = '''' then (writeError 400 ''pem is required'', p)
          else (case pePemDecode env pem of
                  None \<Rightarrow> (writeError 400 ''invalid PEM: expected a CERTIFICATE block'', p)
                | Some (typ, bytes) \<Rightarrow>
                    if typ \<noteq> ''CERTIFICATE'' then (writeError 400 ''invalid PEM: expected a CERTIFICATE block'', p)
                    else (case peParseCertificate env bytes of
                            Inl e \<Rightarrow> (writeError 400 (''cannot parse certificate: '' @ Error e), p)
                          | Inr x \<Rightarrow> store_certificate env bankID x r p)))"

definition revokeCertificate :: "portal_env \<Rightarrow> string \<Rightarrow> string \<Rightarrow> portal_handler" where
  "revokeCertificate env bankID certID r p =
     (case RevokeCertificate bankID certID (ptDb p) of
        (Some e, d) \<Rightarrow>
          (if IsNoRows e then writeError 404 ''certificate not found or already revoked'' else serverError, p\<lparr>ptDb := d\<rparr>)
      | (None, d) \<Rightarrow>
          (\<lparr>poCode = 204, poHeader = [], poDoc = NoDoc\<rparr>,
           audit env r ''certificate.revoke'' ''certificate'' certID None (p\<lparr>ptDb := d\<rparr>)))"

end
