(* ===== verification/PortalRoutes.thy ===== *)
theory PortalRoutes
  imports PortalApi
begin

text \<open>
  The rest of the portal's HTTP interface (src/internal/portal/api): the handlers that only read
  (transactions, dashboard, settlement, audit log), the exports, the middleware and the routes. The router
  is a package outside the repository; a path parameter is a non-empty segment, and where no route is
  registered for the method and path the answer is the router's or the file server's: \<open>portal_http\<close> is
  \<^const>\<open>None\<close> there.
\<close>

section \<open>Transactions\<close>

definition txScopeCheck :: "Claims \<Rightarrow> string \<Rightarrow> string \<Rightarrow> bool" where
  "txScopeCheck claims sourceBIC destBIC =
     (if \<not> IsBankRole claims then True
      else clParticipantID claims = sourceBIC \<or> clParticipantID claims = destBIC)"

text \<open>The bank a list is restricted to: one's own for bank roles, else the one asked for.\<close>

definition scope_bic :: "portal_request \<Rightarrow> string" where
  "scope_bic r =
     (let claims = FromRequest r in
      if IsBankRole claims then clParticipantID claims else Query_Get r ''bic'')"

definition tx_filter :: "portal_request \<Rightarrow> TransactionFilter" where
  "tx_filter r =
     \<lparr>tfStatus = Query_Get r ''status'', tfBIC = scope_bic r, tfFrom = timeQuery r ''from'', tfTo = timeQuery r ''to'',
      tfMinAmount = optQuery ParseInt r ''minAmount'', tfMaxAmount = optQuery ParseInt r ''maxAmount'',
      tfPage = intQuery r ''page'' 1, tfPageSize = intQuery r ''pageSize'' 20\<rparr>"

definition listTransactions :: "portal_env \<Rightarrow> portal_handler" where
  "listTransactions env r p =
     reply (\<lambda>ts. portal_writeJSON 200 (TransactionsDoc ts)) (db_call (ListTransactions (peTxOrd env) (tx_filter r)) p)"

definition getTransaction :: "string \<Rightarrow> portal_handler" where
  "getTransaction paymentID r p =
     reply (or_404 ''transaction not found'' (\<lambda>tx.
         if \<not> txScopeCheck (FromRequest r) (brBIC (smSourceBank (tdSummary tx))) (brBIC (smDestinationBank (tdSummary tx)))
         then writeError 403 ''access denied''
         else portal_writeJSON 200 (TransactionDoc tx)))
       (db_call (GetTransaction paymentID) p)"

definition answer_timeline :: "string \<Rightarrow> portal \<Rightarrow> portal_response \<times> portal" where
  "answer_timeline paymentID p =
     reply (\<lambda>es. portal_writeJSON 200 (TimelineDoc es)) (db_call (GetTransactionTimeline paymentID) p)"

definition getTransactionTimeline :: "string \<Rightarrow> portal_handler" where
  "getTransactionTimeline paymentID r p =
     (let claims = FromRequest r in
      if \<not> IsBankRole claims then answer_timeline paymentID p
      else (case db_call (GetTransactionBICs paymentID) p of
              (Inl e, p') \<Rightarrow> (serverError, p')
            | (Inr (sourceBIC, destBIC), p') \<Rightarrow>
                if sourceBIC = '''' then (writeError 404 ''transaction not found'', p')
                else if \<not> txScopeCheck claims sourceBIC destBIC then (writeError 403 ''access denied'', p')
                else answer_timeline paymentID p'))"

section \<open>Dashboard\<close>

definition range_query :: "portal_request \<Rightarrow> string" where
  "range_query r = (let v = Query_Get r ''range'' in if v = '''' then ''24h'' else v)"

definition getDashboardSummary :: "portal_env \<Rightarrow> portal_handler" where
  "getDashboardSummary env r p =
     reply (\<lambda>d. portal_writeJSON 200 (DashboardDoc d))
       (db_call (GetDashboardSummary (instant (peNow env)) (scope_bic r) (range_query r)) p)"

definition getAbortReasons :: "portal_env \<Rightarrow> portal_handler" where
  "getAbortReasons env r p =
     reply (\<lambda>b. portal_writeJSON 200 (AbortReasonsDoc b))
       (db_call (GetAbortReasons (peReasonOrd env) (instant (peNow env)) (scope_bic r) (range_query r)) p)"

section \<open>Settlement\<close>

definition listSettlementWindows :: "portal_env \<Rightarrow> portal_handler" where
  "listSettlementWindows env r p =
     reply (\<lambda>ws. portal_writeJSON 200 (WindowsDoc ws))
       (db_call (ListSettlementWindows (peWindowID env) (peNow env) (scope_bic r) (dateQuery r ''from'') (dateQuery r ''to'')
              (intQuery r ''page'' 1) (intQuery r ''pageSize'' 20)) p)"

definition getSettlementWindow :: "portal_env \<Rightarrow> string \<Rightarrow> portal_handler" where
  "getSettlementWindow env windowID r p =
     (let claims = FromRequest r; bic = (if IsBankRole claims then clParticipantID claims else '''') in
      reply (or_404 ''settlement window not found'' (\<lambda>w. portal_writeJSON 200 (WindowDoc w)))
        (db_call (GetSettlementWindow (pePositionOrd env) (peWindowID env) (peNow env) windowID bic) p))"

section \<open>Audit log and exports\<close>

definition listAuditLogs :: "portal_env \<Rightarrow> portal_handler" where
  "listAuditLogs env r p =
     reply (\<lambda>l. portal_writeJSON 200 (AuditLogDoc l))
       (db_call (ListAuditLog (peAuditOrd env)
          \<lparr>afActorID = Query_Get r ''actorId'', afAction = Query_Get r ''action'', afFrom = timeQuery r ''from'',
           afTo = timeQuery r ''to'', afPage = intQuery r ''page'' 1, afPageSize = intQuery r ''pageSize'' 20\<rparr>) p)"

text \<open>A Go map prints its keys in order.\<close>

definition export_filters :: "portal_request \<Rightarrow> string \<Rightarrow> json" where
  "export_filters r format =
     JObj [(''bic'', JStr (scope_bic r)), (''format'', JStr format), (''from'', JStr (Query_Get r ''from'')),
           (''status'', JStr (Query_Get r ''status'')), (''to'', JStr (Query_Get r ''to''))]"

definition createExport :: "portal_env \<Rightarrow> portal_handler" where
  "createExport env r p =
     (let v = Query_Get r ''format''; format = (if v = '''' then ''csv'' else v) in
      if format \<noteq> ''csv'' \<and> format \<noteq> ''xlsx'' then (writeError 400 ''format must be \"csv\" or \"xlsx\"'', p)
      else reply (\<lambda>j. portal_writeJSON 202 (JobDoc j))
             (db_call (CreateExportJob (peUUID env) (clSub (FromRequest r)) format (export_filters r format)) p))"

definition getExportStatus :: "string \<Rightarrow> portal_handler" where
  "getExportStatus jobID r p =
     reply (or_404 ''export job not found'' (\<lambda>j. portal_writeJSON 200 (JobDoc j))) (db_call (GetExportJob jobID) p)"

section \<open>Middleware\<close>

type_synonym portal_next = "portal_request \<Rightarrow> portal \<Rightarrow> portal_response option \<times> portal"

definition serve :: "portal_handler \<Rightarrow> portal_next" where
  "serve h r p = (case h r p of (a, p') \<Rightarrow> (Some a, p'))"

definition cors_headers :: "string \<Rightarrow> portal_request \<Rightarrow> (string \<times> string) list" where
  "cors_headers allowedOrigin r =
     (let origin = Header_Get r ''Origin'' in
      if origin \<noteq> '''' \<and> allowedOrigin \<noteq> '''' \<and> origin = allowedOrigin then
        [(''Access-Control-Allow-Origin'', allowedOrigin), (''Access-Control-Allow-Credentials'', ''true''),
         (''Access-Control-Allow-Headers'', ''Content-Type, X-CSRF-Token''),
         (''Access-Control-Allow-Methods'', ''GET, POST, PUT, PATCH, DELETE, OPTIONS''),
         (''Access-Control-Max-Age'', ''86400'')]
      else [])"

definition corsMiddleware :: "string \<Rightarrow> string \<Rightarrow> portal_next \<Rightarrow> portal_next" where
  "corsMiddleware allowedOrigin meth inner r p =
     (let hs = cors_headers allowedOrigin r in
      if meth = ''OPTIONS'' then (Some \<lparr>poCode = 204, poHeader = hs, poDoc = NoDoc\<rparr>, p)
      else (case inner r p of (a, p') \<Rightarrow> (map_option (\<lambda>x. x\<lparr>poHeader := hs @ poHeader x\<rparr>) a, p')))"

definition AuthMiddleware :: "portal_next \<Rightarrow> portal_next" where
  "AuthMiddleware inner r p =
     (let claims = FromRequest r in
      if clSub claims = '''' then (Some (writeError 401 ''missing authentication''), p)
      else inner (WithClaims claims r) p)"

definition RequireRoles :: "string list \<Rightarrow> portal_next \<Rightarrow> portal_next" where
  "RequireRoles roles inner r p =
     (if list_ex (\<lambda>role. clRole (FromRequest r) = role) roles then inner r p
      else (Some (writeError 403 ''insufficient permissions''), p))"

definition csrf_header :: "portal_request \<Rightarrow> string" where
  "csrf_header r =
     (let token = Header_Get r ''X-Csrf-Token'' in if token = '''' then Header_Get r ''X-Xsrf-Token'' else token)"

definition CSRFMiddleware :: "time \<Rightarrow> string \<Rightarrow> portal_next \<Rightarrow> portal_next" where
  "CSRFMiddleware now meth inner r p =
     (if meth = ''GET'' \<or> meth = ''HEAD'' \<or> meth = ''OPTIONS'' then inner r p
      else if \<not> Valid now (clSub (FromRequest r)) (csrf_header r) (ptCsrf p)
      then (Some (writeError 403 ''invalid or missing CSRF token''), p)
      else inner r p)"

definition bankScopeMiddleware :: "string \<Rightarrow> portal_next \<Rightarrow> portal_next" where
  "bankScopeMiddleware bankID inner r p =
     (let claims = FromRequest r in
      if \<not> IsBankRole claims then inner r p
      else if bankID = '''' then inner r p
      else (case db_call (GetBank bankID) p of
              (Inl e, p') \<Rightarrow> (Some serverError, p')
            | (Inr None, p') \<Rightarrow> (Some (writeError 404 ''bank not found''), p')
            | (Inr (Some bank), p') \<Rightarrow>
                if bkBIC bank \<noteq> clParticipantID claims then (Some (writeError 403 ''access denied to this bank''), p')
                else inner r p'))"

section \<open>Routes\<close>

datatype endpoint =
    EpMe | EpCsrfToken | EpListBanks | EpCreateBank
  | EpGetBank string | EpBankStatus string | EpBankAPI string | EpBankCallback string
  | EpListCertificates string | EpCreateCertificate string | EpRevokeCertificate string string
  | EpTransactions | EpExport | EpTransaction string | EpTimeline string | EpExportStatus string
  | EpDashboard | EpAbortReasons | EpWindows | EpWindow string | EpAuditLog

text \<open>A path below a prefix as its segments. Mounted routers (\<^verbatim>\<open>r.Route\<close>) answer their root with and
  without a slash at the end.\<close>

fun bank_endpoint :: "string \<Rightarrow> string \<Rightarrow> string list \<Rightarrow> endpoint option" where
  "bank_endpoint m b ps =
     (if ps \<in> {[], ['''']} then (if m = ''GET'' then Some (EpGetBank b) else None)
      else if ps = [''status''] then (if m = ''PATCH'' then Some (EpBankStatus b) else None)
      else if ps = [''api''] then (if m = ''PATCH'' then Some (EpBankAPI b) else None)
      else if ps = [''callback''] then (if m = ''PATCH'' then Some (EpBankCallback b) else None)
      else if ps = [''certificates''] then
        (if m = ''GET'' then Some (EpListCertificates b) else if m = ''POST'' then Some (EpCreateCertificate b) else None)
      else (case ps of
              [d, c] \<Rightarrow> if d = ''certificates'' \<and> c \<noteq> '''' \<and> m = ''DELETE'' then Some (EpRevokeCertificate b c) else None
            | _ \<Rightarrow> None))"

definition banks_endpoint :: "string \<Rightarrow> string list \<Rightarrow> endpoint option" where
  "banks_endpoint m ps =
     (if ps \<in> {[], ['''']} then
        (if m = ''GET'' then Some EpListBanks else if m = ''POST'' then Some EpCreateBank else None)
      else if hd ps = '''' then None
      else bank_endpoint m (hd ps) (tl ps))"

definition transactions_endpoint :: "string \<Rightarrow> string list \<Rightarrow> endpoint option" where
  "transactions_endpoint m ps =
     (if m \<noteq> ''GET'' then None
      else if ps \<in> {[], ['''']} then Some EpTransactions
      else if ps = [''export''] then Some EpExport
      else if hd ps = '''' then None
      else if tl ps = [] then Some (EpTransaction (hd ps))
      else if tl ps = [''timeline''] then Some (EpTimeline (hd ps))
      else None)"

definition endpoint_of :: "string \<Rightarrow> string list \<Rightarrow> endpoint option" where
  "endpoint_of m path =
     (case path of
        [] \<Rightarrow> None
      | a # ps \<Rightarrow>
          if a = ''banks'' then banks_endpoint m ps
          else if a = ''transactions'' then transactions_endpoint m ps
          else if m \<noteq> ''GET'' then None
          else if path = [''me''] then Some EpMe
          else if path = [''csrf-token''] then Some EpCsrfToken
          else if a = ''export-jobs'' \<and> length ps = 1 \<and> hd ps \<noteq> '''' then Some (EpExportStatus (hd ps))
          else if path = [''dashboard'', ''summary''] then Some EpDashboard
          else if path = [''dashboard'', ''abort-reasons''] then Some EpAbortReasons
          else if path = [''settlement'', ''windows''] then Some EpWindows
          else if a = ''settlement'' \<and> length ps = 2 \<and> hd ps = ''windows'' \<and> ps ! 1 \<noteq> '''' then Some (EpWindow (ps ! 1))
          else if path = [''audit-log''] then Some EpAuditLog
          else None)"

fun endpoint_handler :: "portal_env \<Rightarrow> endpoint \<Rightarrow> portal_handler" where
  "endpoint_handler env EpMe = getMe"
| "endpoint_handler env EpCsrfToken = getCSRFToken env"
| "endpoint_handler env EpListBanks = listBanks env"
| "endpoint_handler env EpCreateBank = createBank env"
| "endpoint_handler env (EpGetBank b) = getBank b"
| "endpoint_handler env (EpBankStatus b) = updateBankStatus env b"
| "endpoint_handler env (EpBankAPI b) = updateBankAPI env b"
| "endpoint_handler env (EpBankCallback b) = updateBankCallback env b"
| "endpoint_handler env (EpListCertificates b) = listCertificates env b"
| "endpoint_handler env (EpCreateCertificate b) = createCertificate env b"
| "endpoint_handler env (EpRevokeCertificate b c) = revokeCertificate env b c"
| "endpoint_handler env EpTransactions = listTransactions env"
| "endpoint_handler env EpExport = createExport env"
| "endpoint_handler env (EpTransaction i) = getTransaction i"
| "endpoint_handler env (EpTimeline i) = getTransactionTimeline i"
| "endpoint_handler env (EpExportStatus i) = getExportStatus i"
| "endpoint_handler env EpDashboard = getDashboardSummary env"
| "endpoint_handler env EpAbortReasons = getAbortReasons env"
| "endpoint_handler env EpWindows = listSettlementWindows env"
| "endpoint_handler env (EpWindow i) = getSettlementWindow env i"
| "endpoint_handler env EpAuditLog = listAuditLogs env"

fun endpoint_roles :: "endpoint \<Rightarrow> string list option" where
  "endpoint_roles EpListBanks = Some [RoleSwitchAdmin, RoleSwitchOps]"
| "endpoint_roles EpCreateBank = Some [RoleSwitchAdmin]"
| "endpoint_roles (EpBankStatus b) = Some [RoleSwitchAdmin]"
| "endpoint_roles (EpBankAPI b) = Some [RoleSwitchAdmin]"
| "endpoint_roles (EpBankCallback b) = Some [RoleSwitchAdmin, RoleBankAdmin]"
| "endpoint_roles (EpCreateCertificate b) = Some [RoleSwitchAdmin, RoleBankAdmin]"
| "endpoint_roles (EpRevokeCertificate b c) = Some [RoleSwitchAdmin, RoleBankAdmin]"
| "endpoint_roles EpExport = Some [RoleSwitchAdmin, RoleSwitchOps, RoleBankAdmin, RoleBankOperator]"
| "endpoint_roles EpAuditLog = Some [RoleSwitchAdmin]"
| "endpoint_roles _ = None"

definition serve_endpoint :: "portal_env \<Rightarrow> endpoint \<Rightarrow> portal_next" where
  "serve_endpoint env ep =
     (case endpoint_roles ep of
        None \<Rightarrow> serve (endpoint_handler env ep)
      | Some roles \<Rightarrow> RequireRoles roles (serve (endpoint_handler env ep)))"

text \<open>The router of the banks runs the bank's middleware before it looks at the rest of the path.\<close>

definition scoped_bank :: "string list \<Rightarrow> string option" where
  "scoped_bank path =
     (case path of a # b # _ \<Rightarrow> if a = ''banks'' \<and> b \<noteq> '''' then Some b else None | _ \<Rightarrow> None)"

definition route :: "portal_env \<Rightarrow> string \<Rightarrow> string list \<Rightarrow> portal_next" where
  "route env m path =
     (let handler = (case endpoint_of m path of Some ep \<Rightarrow> serve_endpoint env ep | None \<Rightarrow> (\<lambda>r p. (None, p))) in
      case scoped_bank path of Some b \<Rightarrow> bankScopeMiddleware b handler | None \<Rightarrow> handler)"

text \<open>Below a prefix the group's middleware runs for the registered routes and, whatever the rest of the
  path and the method, below the mounted routers.\<close>

definition mounted :: "string list \<Rightarrow> bool" where
  "mounted path \<longleftrightarrow> path \<noteq> [] \<and> hd path \<in> {''banks'', ''transactions'', ''dashboard'', ''settlement''}"

definition api_chain :: "portal_env \<Rightarrow> string \<Rightarrow> string \<Rightarrow> string list \<Rightarrow> portal_next" where
  "api_chain env allowedOrigin m path =
     corsMiddleware allowedOrigin m (AuthMiddleware (CSRFMiddleware (instant (peNow env)) m (route env m path)))"

definition api_path :: "string list \<Rightarrow> string list option" where
  "api_path path =
     (if take 3 path = [''portal'', ''api'', ''v1''] then Some (drop 3 path)
      else if take 2 path = [''api'', ''v1''] then Some (drop 2 path)
      else None)"

definition portal_http :: "portal_env \<Rightarrow> string \<Rightarrow> string \<Rightarrow> string list \<Rightarrow> portal_next" where
  "portal_http env allowedOrigin m path r p =
     (if m = ''GET'' \<and> path = [''healthz''] then (Some (portal_writeJSON 200 (MapDoc [(''status'', Some ''ok'')])), p)
      else (case api_path path of
              None \<Rightarrow> (None, p)
            | Some q \<Rightarrow>
                if endpoint_of m q \<noteq> None \<or> mounted q then api_chain env allowedOrigin m q r p else (None, p)))"

section \<open>Lemmas\<close>

end
