(* ===== verification/PortalInvariant.thy ===== *)
theory PortalInvariant
  imports PortalRoutes
begin

text \<open>
  What the portal does to the database, whoever asks and whatever fails. The locale \<open>audited_relation\<close>
  is a transitive relation on databases that writing the audit log and export jobs keeps to; inside it
  everything that does not write banks or certificates keeps to the relation. \<open>portal_relation\<close> adds a law
  for each statement that does, and then a whole request keeps to it. Theory \<open>PortalLife\<close> interprets it
  for the life of the data and for what the portal leaves to the switch, theory \<open>PortalAccess\<close> the
  first locale for what a caller without the right leaves alone.
\<close>

section \<open>Relations on databases\<close>

text \<open>All that statements can see of the database.\<close>

definition same_data :: "pdb \<Rightarrow> pdb \<Rightarrow> bool" where
  "same_data s s' \<longleftrightarrow> tables (pdPg s') = tables (pdPg s) \<and> pdCerts s' = pdCerts s \<and> pdAudit s' = pdAudit s \<and> pdJobs s' = pdJobs s"

definition keeps :: "(pdb \<Rightarrow> pdb \<Rightarrow> bool) \<Rightarrow> (pdb, 'a) call \<Rightarrow> bool" where
  "keeps R m \<longleftrightarrow> (\<forall>s r s'. m s = (r, s') \<longrightarrow> R s s')"

lemma keepsI: "(\<And>s r s'. m s = (r, s') \<Longrightarrow> R s s') \<Longrightarrow> keeps R m"
  by (simp add: keeps_def)

lemma keepsD: "keeps R m \<Longrightarrow> m s = (r, s') \<Longrightarrow> R s s'"
  by (simp add: keeps_def)

lemma same_data_refl [simp]: "same_data s s"
  by (simp add: same_data_def)

lemma same_data_faults [simp]: "same_data s (s\<lparr>pdPg := (pdPg s)\<lparr>pg_faults := fs\<rparr>\<rparr>)"
  by (simp add: same_data_def)

lemma same_data_trans: "same_data a b \<Longrightarrow> same_data b c \<Longrightarrow> same_data a c"
  by (simp add: same_data_def)

lemma same_data_sym: "same_data a b \<Longrightarrow> same_data b a"
  by (simp add: same_data_def)

lemma same_data_simps:
  assumes "same_data s s'"
  shows "pd_banks s' = pd_banks s" "pdCerts s' = pdCerts s" "pdAudit s' = pdAudit s" "pdJobs s' = pdJobs s"
    "pd_views s' = pd_views s" "txevent_tbl (pdPg s') = txevent_tbl (pdPg s)"
  using assms by (simp_all add: same_data_def tables_def pd_banks_def pd_views_def)

lemma same_data_rollback [simp]: "same_data s0 (pd_rollback s0 s)"
  by (simp add: same_data_def pd_rollback_def)

text \<open>A statement runs its body, on the same data, or fails and changes none.\<close>

lemma pstmt_cases:
  assumes "pstmt body s = (r, s')"
  obtains (fault) e where "r = Inl e" "same_data s s'"
  | (ran) fs where "body (s\<lparr>pdPg := (pdPg s)\<lparr>pg_faults := fs\<rparr>\<rparr>) = (r, s')"
proof -
  obtain x g where x: "stmt (okE ()) (pdPg s) = (x, g)" by (cases "stmt (okE ()) (pdPg s)")
  then obtain fs where "g = (pdPg s)\<lparr>pg_faults := fs\<rparr>" using stmt_ok_unit by blast
  with assms x that show thesis by (cases x) (auto simp: pstmt_def)
qed

lemma select_bank_SomeD:
  assumes "nil_if_no_rows (pstmt (with_uuid i (select_bank key))) s = (Inr (Some b), s')"
  shows "\<exists>u. uuid_in i = Some u \<and> row_by key u (pd_banks s') = Some b"
proof -
  from assms have "pstmt (with_uuid i (select_bank key)) s = (Inr b, s')"
    by (auto simp: nil_if_no_rows_def split: prod.splits sum.splits if_splits)
  then show ?thesis
  proof (cases rule: pstmt_cases)
    case (ran fs)
    then show ?thesis by (auto simp: with_uuid_def select_bank_def split: option.splits)
  qed simp
qed

definition handler_keeps :: "(pdb \<Rightarrow> pdb \<Rightarrow> bool) \<Rightarrow> (portal_request \<Rightarrow> portal \<Rightarrow> 'a \<times> portal) \<Rightarrow> bool" where
  "handler_keeps R h \<longleftrightarrow> (\<forall>r p. R (ptDb p) (ptDb (snd (h r p))))"

lemma handler_keepsI: "(\<And>r p. R (ptDb p) (ptDb (snd (h r p)))) \<Longrightarrow> handler_keeps R h"
  by (simp add: handler_keeps_def)

lemma snd_reply [simp]: "snd (reply f x) = snd x"
  by (simp add: reply_def split: prod.split sum.split)

text \<open>The endpoints that write the tables of banks and certificates.\<close>

fun writes_registry :: "endpoint \<Rightarrow> bool" where
  "writes_registry EpCreateBank = True"
| "writes_registry (EpBankStatus b) = True"
| "writes_registry (EpBankAPI b) = True"
| "writes_registry (EpBankCallback b) = True"
| "writes_registry (EpCreateCertificate b) = True"
| "writes_registry (EpRevokeCertificate b c) = True"
| "writes_registry _ = False"

named_theorems kept

locale audited_relation =
  fixes R :: "pdb \<Rightarrow> pdb \<Rightarrow> bool"
  assumes same: "same_data s s' \<Longrightarrow> R s s'"
    and trans: "R s s' \<Longrightarrow> R s' s'' \<Longrightarrow> R s s''"
    and insert_audit: "R s (s\<lparr>pdAudit := pdAudit s @ [a]\<rparr>)"
    and insert_job: "\<not> list_ex (\<lambda>k. joID k = joID j) (pdJobs s) \<Longrightarrow> joStatus j = ''PENDING'' \<Longrightarrow> R s (s\<lparr>pdJobs := pdJobs s @ [j]\<rparr>)"
begin

lemma refl: "R s s"
  by (rule same) simp

lemma keeps_okE [kept]: "keeps R (okE a)"
  by (rule keepsI) (auto intro: refl)

lemma keeps_failE [kept]: "keeps R (failE e)"
  by (rule keepsI) (auto intro: refl)

lemma keeps_bindE [kept]: "keeps R m \<Longrightarrow> (\<And>a. keeps R (f a)) \<Longrightarrow> keeps R (bindE m f)"
  by (rule keepsI) (auto simp: bindE_def split: prod.splits sum.splits dest: keepsD intro: trans)

lemma keeps_pstmt [kept]: "keeps R m \<Longrightarrow> keeps R (pstmt m)"
  by (rule keepsI, erule pstmt_cases) (auto intro: same trans [OF same [OF same_data_faults]] keepsD)

lemma keeps_with_uuid [kept]: "(\<And>u. keeps R (f u)) \<Longrightarrow> keeps R (with_uuid i f)"
  by (rule keepsI) (auto simp: with_uuid_def split: option.splits dest: keepsD intro: refl)

lemma keeps_nil_if_no_rows [kept]: "keeps R m \<Longrightarrow> keeps R (nil_if_no_rows m)"
  by (rule keepsI) (auto simp: nil_if_no_rows_def split: prod.splits sum.splits if_splits dest: keepsD)

lemma keeps_read: "(\<And>s. snd (m s) = s) \<Longrightarrow> keeps R m"
  by (rule keepsI) (metis refl snd_conv)

lemma keeps_query [kept]: "keeps R (query f)"
  unfolding query_def by (intro kept keeps_read) simp

lemma keeps_pair [kept]: "keeps R (\<lambda>s. (f s, s))"
  by (rule keeps_read) simp

lemma keeps_scan_rows [kept]: "keeps R (scan_rows f rs acc)"
proof (induction rs arbitrary: acc)
  case (Cons a rs)
  show ?case
  proof (rule keepsI)
    fix s r s'
    assume s: "scan_rows f (a # rs) acc s = (r, s')"
    obtain x s1 where x: "pstmt (okE ()) s = (x, s1)" by (cases "pstmt (okE ()) s")
    then have "R s s1" by (rule keepsD [OF keeps_pstmt [OF keeps_okE]])
    moreover have "R s1 s'"
      using s x by (auto split: sum.splits intro: refl keepsD [OF Cons.IH])
    ultimately show "R s s'" by (rule trans)
  qed
qed (auto simp: keeps_def intro: refl)

lemma keeps_find_date [kept]: "keeps R (find_date w i ds)"
proof (induction ds)
  case (Cons d ds)
  show ?case
  proof (rule keepsI)
    fix s r s'
    assume s: "find_date w i (d # ds) s = (r, s')"
    obtain x s1 where x: "pstmt (okE ()) s = (x, s1)" by (cases "pstmt (okE ()) s")
    then have "R s s1" by (rule keepsD [OF keeps_pstmt [OF keeps_okE]])
    moreover have "R s1 s'"
      using s x by (auto split: sum.splits if_splits intro: refl keepsD [OF Cons.IH])
    ultimately show "R s s'" by (rule trans)
  qed
qed (auto simp: keeps_def intro: refl)

lemma keeps_paginate [kept]: "keeps R (paginate c rows f page n)"
  unfolding paginate_def by (intro kept)

lemma keeps_select_bank [kept]: "keeps R (select_bank key k)"
  by (rule keeps_read) (simp add: select_bank_def split: option.split)

lemma keeps_select_view [kept]: "keeps R (select_view k)"
  by (rule keeps_read) (simp add: select_view_def split: option.split)

text \<open>The store.\<close>

lemma keeps_GetBank [kept]: "keeps R (GetBank i)"
  unfolding GetBank_def by (intro kept)

lemma keeps_GetBankByBIC [kept]: "keeps R (GetBankByBIC i)"
  unfolding GetBankByBIC_def by (intro kept)

lemma keeps_ListBanks [kept]: "keeps R (ListBanks ord f)"
  unfolding ListBanks_def by (intro kept)

lemma keeps_ListCertificates [kept]: "keeps R (ListCertificates ord b)"
  unfolding ListCertificates_def by (intro kept)

lemma keeps_ListTransactions [kept]: "keeps R (ListTransactions ord f)"
  unfolding ListTransactions_def by (intro kept)

lemma keeps_GetTransactionBICs [kept]: "keeps R (GetTransactionBICs i)"
  unfolding GetTransactionBICs_def by (intro kept)

lemma keeps_GetTransactionTimeline [kept]: "keeps R (GetTransactionTimeline i)"
  unfolding GetTransactionTimeline_def by (intro kept)

lemma keeps_GetTransaction [kept]: "keeps R (GetTransaction i)"
  unfolding GetTransaction_def by (intro kept) (auto split: option.split intro!: kept)

lemma keeps_GetDashboardSummary [kept]: "keeps R (GetDashboardSummary now bic rng)"
  unfolding GetDashboardSummary_def by (cases "parseDuration rng") (auto intro!: kept)

lemma keeps_GetAbortReasons [kept]: "keeps R (GetAbortReasons ord now bic rng)"
  unfolding GetAbortReasons_def by (cases "parseDuration rng") (auto simp: Let_def intro!: kept)

lemma keeps_ListSettlementWindows [kept]: "keeps R (ListSettlementWindows w now bic f t page n)"
  unfolding ListSettlementWindows_def by (intro kept)

lemma keeps_GetSettlementWindow [kept]: "keeps R (GetSettlementWindow ord w now i bic)"
  unfolding GetSettlementWindow_def by (intro kept) (auto simp: Let_def split: option.split intro!: kept)

lemma InsertAuditLog_keeps:
  assumes "InsertAuditLog uuid a ro ac tt ti d s = (r, s')"
  shows "R s s'"
proof -
  let ?m = "pstmt (with_uuid ti (\<lambda>u s. (Inr (), s\<lparr>pdAudit := pdAudit s @
    [\<lparr>auID = uuid, auActorID = a, auActorRole = ro, auAction = ac, auTargetType = tt, auTargetID = u, auDiff = d,
      auOccurredAt = pd_now s\<rparr>]\<rparr>)))"
  have "keeps R ?m" by (intro keeps_pstmt keeps_with_uuid keepsI) (auto intro: insert_audit)
  moreover have "\<exists>x. ?m s = (x, s')" using assms by (auto simp: InsertAuditLog_def split: prod.splits)
  ultimately show ?thesis by (auto dest: keepsD)
qed

lemma keeps_ListAuditLog [kept]: "keeps R (ListAuditLog ord f)"
  unfolding ListAuditLog_def by (intro kept)

lemma keeps_CreateExportJob [kept]: "keeps R (CreateExportJob uuid owner f fl)"
  unfolding CreateExportJob_def
  by (intro keeps_pstmt keepsI) (auto simp: Let_def split: if_splits intro: refl insert_job)

lemma keeps_GetExportJob [kept]: "keeps R (GetExportJob i)"
  unfolding GetExportJob_def by (intro keeps_nil_if_no_rows keeps_pstmt keeps_with_uuid keeps_read) (simp split: option.split)

text \<open>The handlers.\<close>

lemma db_keeps [kept]: "keeps R m \<Longrightarrow> R (ptDb p) (ptDb (snd (db_call m p)))"
  by (auto simp: db_call_def split: prod.split dest: keepsD)

lemma db_eq_keeps: "keeps R m \<Longrightarrow> db_call m p = (x, p') \<Longrightarrow> R (ptDb p) (ptDb p')"
  using db_keeps [of m p] by simp

lemma audit_keeps [kept]: "R (ptDb p) (ptDb (audit env r ac tt ti d p))"
proof -
  let ?c = "InsertAuditLog (peAuditUUID env) (clSub (FromRequest r)) (clRole (FromRequest r)) ac tt ti d (ptDb p)"
  have "R (ptDb p) (snd ?c)" by (rule InsertAuditLog_keeps [of _ _ _ _ _ _ _ _ "fst ?c"]) simp
  then show ?thesis by (simp add: audit_def Let_def)
qed

lemma audited_keeps: "keeps R m \<Longrightarrow> db_call m p = (x, p') \<Longrightarrow> R (ptDb p) (ptDb (audit env r ac tt ti d p'))"
  by (rule trans [OF db_eq_keeps audit_keeps])

lemma reply_keeps [kept]: "keeps R m \<Longrightarrow> R (ptDb p) (ptDb (snd (reply f (db_call m p))))"
  by (simp add: db_keeps)

lemma finish_update_keeps:
  assumes "keeps R m"
  shows "R (ptDb p) (ptDb (snd (finish_update env r ac b d f (db_call m p))))"
proof -
  obtain x p' where x: "db_call m p = (x, p')" by fastforce
  then show ?thesis
    using db_eq_keeps [OF assms x] audited_keeps [OF assms x]
    by (auto simp: finish_update_def split: sum.split option.split)
qed

lemma getMe_keeps [kept]: "handler_keeps R getMe"
proof (rule handler_keepsI)
  fix r p
  show "R (ptDb p) (ptDb (snd (getMe r p)))"
    using db_keeps [OF keeps_GetBankByBIC, of p "clParticipantID (FromRequest r)"]
    by (auto simp: getMe_def Let_def intro: refl split: prod.split sum.split option.split)
qed

lemma getCSRFToken_keeps [kept]: "handler_keeps R (getCSRFToken env)"
  by (rule handler_keepsI) (auto simp: getCSRFToken_def Generate_def Let_def intro: refl)

lemma getTransactionTimeline_keeps [kept]: "handler_keeps R (getTransactionTimeline i)"
proof (rule handler_keepsI)
  fix r p
  have t: "R (ptDb q) (ptDb (snd (answer_timeline i q)))" for q
    by (simp add: answer_timeline_def kept)
  obtain x q where x: "db_call (GetTransactionBICs i) p = (x, q)" by fastforce
  from db_eq_keeps [OF keeps_GetTransactionBICs x] have "R (ptDb p) (ptDb q)" .
  with x show "R (ptDb p) (ptDb (snd (getTransactionTimeline i r p)))"
    by (auto simp: getTransactionTimeline_def Let_def intro: t trans [OF _ t] split: sum.split)
qed

lemma createExport_keeps [kept]: "handler_keeps R (createExport env)"
  by (rule handler_keepsI) (simp add: createExport_def Let_def refl db_keeps keeps_CreateExportJob)

lemma updateBankCallback_keeps_if: "(\<And>url. keeps R (UpdateBankCallback b url)) \<Longrightarrow> handler_keeps R (updateBankCallback env b)"
  by (rule handler_keepsI) (auto simp: updateBankCallback_def intro: refl finish_update_keeps split: sum.split)

lemma createCertificate_keeps_if:
  assumes "\<And>uuid p. ccBankID p = b \<Longrightarrow> keeps R (CreateCertificate uuid p)"
  shows "handler_keeps R (createCertificate env b)"
proof -
  have "R (ptDb p) (ptDb (snd (store_certificate env b x r p)))" for x r p
    by (auto simp: store_certificate_def split: sum.split prod.split
        elim: db_eq_keeps [OF assms, rotated] audited_keeps [OF assms, rotated])
  then show ?thesis
    by (auto intro!: handler_keepsI simp: createCertificate_def intro: refl split: sum.split option.split)
qed

lemma revokeCertificate_keeps_if:
  assumes "\<And>s r s'. RevokeCertificate b c s = (r, s') \<Longrightarrow> R s s'"
  shows "handler_keeps R (revokeCertificate env b c)"
proof (rule handler_keepsI)
  fix r and p :: portal
  obtain e d where e: "RevokeCertificate b c (ptDb p) = (e, d)" by fastforce
  then have "R (ptDb p) d" by (rule assms)
  moreover from this have "R (ptDb p) (ptDb (audit env r ac tt ti x (p\<lparr>ptDb := d\<rparr>)))" for ac tt ti x
    using audit_keeps [of "p\<lparr>ptDb := d\<rparr>"] by (auto intro: trans)
  ultimately show "R (ptDb p) (ptDb (snd (revokeCertificate env b c r p)))"
    using e by (auto simp: revokeCertificate_def split: option.split)
qed

lemma reading_endpoint_keeps: "\<not> writes_registry ep \<Longrightarrow> handler_keeps R (endpoint_handler env ep)"
  by (cases ep)
    (auto intro!: kept handler_keepsI simp: listBanks_def getBank_def listCertificates_def listTransactions_def
      getTransaction_def getExportStatus_def getDashboardSummary_def getAbortReasons_def listSettlementWindows_def
      getSettlementWindow_def listAuditLogs_def Let_def simp del: snd_reply)

text \<open>The middleware and a whole request.\<close>

lemma serve_keeps [kept]: "handler_keeps R h \<Longrightarrow> handler_keeps R (serve h)"
  by (simp add: handler_keeps_def serve_def split_beta)

lemma RequireRoles_keeps [kept]: "handler_keeps R h \<Longrightarrow> handler_keeps R (RequireRoles roles h)"
  by (auto simp: handler_keeps_def RequireRoles_def intro: refl)

lemma bankScope_keeps [kept]: "handler_keeps R h \<Longrightarrow> handler_keeps R (bankScopeMiddleware b h)"
proof (rule handler_keepsI)
  fix r p
  assume h: "handler_keeps R h"
  obtain x q where x: "db_call (GetBank b) p = (x, q)" by fastforce
  from db_eq_keeps [OF keeps_GetBank x] have "R (ptDb p) (ptDb q)" .
  moreover have "R (ptDb z) (ptDb (snd (h r z)))" for z using h by (simp add: handler_keeps_def)
  ultimately show "R (ptDb p) (ptDb (snd (bankScopeMiddleware b h r p)))"
    using x by (auto simp: bankScopeMiddleware_def Let_def intro: trans split: sum.split option.split)
qed

end

locale portal_relation = audited_relation +
  assumes insert_bank: "new_bank uuid t p = Some r \<Longrightarrow> \<not> list_ex (\<lambda>b. bID b = bID r \<or> bBic b = bBic r) (pd_banks s) \<Longrightarrow>
      R s (set_banks (pd_banks s @ [r]) s)"
    and configure: "(\<And>b. bID (f b) = bID b \<and> bBic (f b) = bBic b \<and> bName (f b) = bName b \<and> bCountry (f b) = bCountry b \<and>
        bStatus (f b) = bStatus b \<and> bSettlementAccount (f b) = bSettlementAccount b \<and> bOnboardedAt (f b) = bOnboardedAt b \<and>
        bCreatedAt (f b) = bCreatedAt b) \<Longrightarrow>
      R s (set_banks (upd_where (\<lambda>b. bID b = u) f (pd_banks s)) s)"
    and set_status: "row_by bID u (pd_banks s) = Some b \<Longrightarrow> n \<in> set (validTransitions (bStatus b)) \<Longrightarrow>
      R s (set_banks (upd_where (\<lambda>b. bID b = u) (set_bank_status t n) (pd_banks s)) s)"
    and insert_cert: "\<not> list_ex (\<lambda>d. ctID d = ctID c \<or> ctFingerprint d = ctFingerprint c) (pdCerts s) \<Longrightarrow>
      row_by bID (ctBankID c) (pd_banks s) \<noteq> None \<Longrightarrow> ctStatus c = ''ACTIVE'' \<Longrightarrow> ctRevokedAt c = None \<Longrightarrow>
      R s (s\<lparr>pdCerts := pdCerts s @ [c]\<rparr>)"
    and revoke: "R s (s\<lparr>pdCerts := upd_where (revocable i u)
        (\<lambda>r. r\<lparr>ctStatus := ''REVOKED'', ctRevokedAt := Some t\<rparr>) (pdCerts s)\<rparr>)"
begin

lemma keeps_CreateBank [kept]: "keeps R (CreateBank uuid p)"
  unfolding CreateBank_def
  by (intro keeps_pstmt keepsI) (auto split: option.splits if_splits intro: refl insert_bank)

lemma keeps_update_bank:
  assumes "\<And>b. bID (f b) = bID b \<and> bBic (f b) = bBic b \<and> bName (f b) = bName b \<and> bCountry (f b) = bCountry b \<and>
    bStatus (f b) = bStatus b \<and> bSettlementAccount (f b) = bSettlementAccount b \<and> bOnboardedAt (f b) = bOnboardedAt b \<and>
    bCreatedAt (f b) = bCreatedAt b"
  shows "keeps R (update_bank f u)"
  by (rule keepsI) (auto simp: update_bank_def split: option.splits intro: refl configure [OF assms])

lemma keeps_UpdateBankCallback [kept]: "keeps R (UpdateBankCallback i url)"
  unfolding UpdateBankCallback_def by (intro kept keeps_update_bank) simp

lemma keeps_UpdateBankAPI [kept]: "keeps R (UpdateBankAPI i p)"
  unfolding UpdateBankAPI_def by (intro kept keeps_update_bank) simp

lemma keeps_set_status: "n \<in> set (validTransitions (bStatus b)) \<Longrightarrow> update_bank (set_bank_status t n) u s = (r, s') \<Longrightarrow>
    row_by bID u (pd_banks s) = Some b \<Longrightarrow> R s s'"
  by (auto simp: update_bank_def intro: set_status)

lemma status_tx_keeps:
  assumes "status_tx now i n s = (r, s')"
  shows "R s s'"
proof -
  obtain x s1 where x: "nil_if_no_rows (pstmt (with_uuid i (select_bank bID))) s = (x, s1)" by fastforce
  then have R1: "R s s1" by (rule keepsD [rotated]) (intro kept)
  have "R s1 s'" if b: "x = Inr (Some b)" "n \<in> set (validTransitions (bStatus b))" for b
  proof -
    from select_bank_SomeD [of i bID s b s1] x b(1) obtain u where u: "uuid_in i = Some u" "row_by bID u (pd_banks s1) = Some b" by blast
    obtain y s2 where y: "pstmt (with_uuid i (update_bank (set_bank_status now n))) s1 = (y, s2)" by fastforce
    then have "R s1 s2"
    proof (cases rule: pstmt_cases)
      case (ran fs)
      then have "update_bank (set_bank_status now n) u (s1\<lparr>pdPg := (pdPg s1)\<lparr>pg_faults := fs\<rparr>\<rparr>) = (y, s2)"
        using u(1) by (simp add: with_uuid_def)
      then have "R (s1\<lparr>pdPg := (pdPg s1)\<lparr>pg_faults := fs\<rparr>\<rparr>) s2"
        by (rule keeps_set_status [OF b(2)]) (use u(2) in \<open>simp add: pd_banks_def\<close>)
      then show ?thesis by (rule trans [OF same [OF same_data_faults]])
    qed (rule same)
    moreover have "s' = s2" using assms x y b by (auto simp: status_tx_def bindE_def split: sum.splits)
    ultimately show ?thesis by simp
  qed
  moreover have "s' = s1" if "\<not> (\<exists>b. x = Inr (Some b) \<and> n \<in> set (validTransitions (bStatus b)))"
    using assms x that by (auto simp: status_tx_def bindE_def split: sum.splits option.splits if_splits)
  ultimately show ?thesis using R1 trans [OF R1] by blast
qed

lemma keeps_UpdateBankStatus [kept]: "keeps R (UpdateBankStatus now i n reason)"
proof (rule keepsI)
  fix s r s'
  assume u: "UpdateBankStatus now i n reason s = (r, s')"
  obtain x1 s1 where A: "pstmt (okE ()) s = (x1, s1)" by fastforce
  obtain x2 s2 where B: "status_tx now i n s1 = (x2, s2)" by fastforce
  obtain x3 s3 where C: "pstmt (okE ()) s2 = (x3, s3)" by fastforce
  have R1: "R s s1" using A by (rule keepsD [OF keeps_pstmt [OF keeps_okE]])
  have R2: "R s1 s2" using B by (rule status_tx_keeps)
  have R3: "R s2 s3" using C by (rule keepsD [OF keeps_pstmt [OF keeps_okE]])
  have undone: "R s (pd_rollback s1 z)" for z by (rule trans [OF R1 same]) simp
  from u A B C have "s' = s1 \<or> s' = pd_rollback s1 s2 \<or> s' = pd_rollback s1 s3 \<or> GetBank i s3 = (r, s')"
    by (auto simp: UpdateBankStatus_def split: sum.splits bool.splits)
  then show "R s s'" using R1 R2 R3 undone keepsD [OF keeps_GetBank] trans by metis
qed

lemma keeps_CreateCertificate [kept]: "keeps R (CreateCertificate uuid p)"
  unfolding CreateCertificate_def
  by (intro keeps_pstmt keeps_with_uuid keepsI) (auto simp: Let_def split: if_splits intro: refl insert_cert)

lemma RevokeCertificate_keeps:
  assumes "RevokeCertificate b c s = (r, s')"
  shows "R s s'"
proof -
  let ?m = "pstmt (with_uuid c (\<lambda>c. with_uuid b (\<lambda>b s.
    (Inr (length (filter (revocable c b) (pdCerts s))), s\<lparr>pdCerts := upd_where (revocable c b)
       (\<lambda>r. r\<lparr>ctStatus := ''REVOKED'', ctRevokedAt := Some (pd_now s)\<rparr>) (pdCerts s)\<rparr>))))"
  have "keeps R ?m" by (intro keeps_pstmt keeps_with_uuid keepsI) (auto intro: revoke)
  moreover have "\<exists>x. ?m s = (x, s')" using assms by (auto simp: RevokeCertificate_def split: prod.splits sum.splits)
  ultimately show ?thesis by (auto dest: keepsD)
qed

lemma createBank_keeps [kept]: "handler_keeps R (createBank env)"
  by (rule handler_keepsI)
    (auto simp: createBank_def intro: refl db_eq_keeps [OF keeps_CreateBank] audited_keeps [OF keeps_CreateBank]
      split: sum.split prod.split)

lemma updateBankStatus_keeps [kept]: "handler_keeps R (updateBankStatus env b)"
  by (rule handler_keepsI)
    (auto simp: updateBankStatus_def intro: refl finish_update_keeps [OF keeps_UpdateBankStatus] split: sum.split)

lemma updateBankAPI_keeps [kept]: "handler_keeps R (updateBankAPI env b)"
  by (rule handler_keepsI)
    (auto simp: updateBankAPI_def intro: refl finish_update_keeps [OF keeps_UpdateBankAPI] split: sum.split)

lemma endpoint_handler_keeps: "handler_keeps R (endpoint_handler env ep)"
proof (cases "writes_registry ep")
  case True
  then show ?thesis
    by (cases ep) (simp_all add: createBank_keeps updateBankStatus_keeps updateBankAPI_keeps
        updateBankCallback_keeps_if [OF keeps_UpdateBankCallback] createCertificate_keeps_if [OF keeps_CreateCertificate]
        revokeCertificate_keeps_if [OF RevokeCertificate_keeps])
qed (rule reading_endpoint_keeps)

lemma route_keeps [kept]: "handler_keeps R (route env m path)"
proof -
  have "handler_keeps R (serve_endpoint env ep)" for ep
    by (auto simp: serve_endpoint_def intro!: kept endpoint_handler_keeps split: option.split)
  moreover have "handler_keeps R (\<lambda>r p. (None, p))" by (simp add: handler_keeps_def refl)
  ultimately show ?thesis
    by (auto simp: route_def Let_def intro!: bankScope_keeps split: option.split)
qed

lemma portal_http_keeps: "portal_http env o' m path r p = (a, p') \<Longrightarrow> R (ptDb p) (ptDb p')"
proof -
  have "handler_keeps R (CSRFMiddleware t m h)" if "handler_keeps R h" for t h
    using that by (auto simp: handler_keeps_def CSRFMiddleware_def intro: refl)
  moreover have "handler_keeps R (AuthMiddleware h)" if "handler_keeps R h" for h
    using that by (auto simp: handler_keeps_def AuthMiddleware_def Let_def intro: refl)
  moreover have "handler_keeps R (corsMiddleware o' m h)" if "handler_keeps R h" for h
    using that by (auto simp: handler_keeps_def corsMiddleware_def Let_def split_beta intro: refl)
  ultimately have "handler_keeps R (api_chain env o' m q)" for q
    unfolding api_chain_def using route_keeps by blast
  then have "R (ptDb p) (ptDb (snd (portal_http env o' m path r p)))"
    by (auto simp: portal_http_def handler_keeps_def intro: refl split: option.split)
  then show "portal_http env o' m path r p = (a, p') \<Longrightarrow> R (ptDb p) (ptDb p')" by simp
qed

end

end
