(* ===== verification/PortalLife.thy ===== *)
theory PortalLife
  imports PortalInvariant
begin

text \<open>
  The portal's database over time: its well-formedness (\<open>portal_ok\<close>), what may become of its rows
  (\<open>history\<close>) and the steps that happen to it (\<open>portal_step\<close>): requests, the hourly cleaning of tokens
  of src/cmd/portal-api/main.go, and the switch, which writes the tables it shares with the portal but
  not the banks. The two interpretations of \<open>portal_relation\<close> give the invariant and that the portal
  leaves the switch's tables alone.
\<close>

section \<open>Well-formedness and history\<close>

definition bank_ok :: "bank_row \<Rightarrow> bool" where
  "bank_ok b \<longleftrightarrow>
     bStatus b \<in> {''APPLICATION'', ''SANDBOX'', ''CERTIFICATION'', ''PRODUCTION_ACTIVE'', ''SUSPENDED'', ''DECOMMISSIONED''} \<and>
     (bOnboardedAt b = None \<longleftrightarrow> bStatus b \<in> {''APPLICATION'', ''SANDBOX'', ''CERTIFICATION''})"

definition cert_ok :: "cert_row \<Rightarrow> bool" where
  "cert_ok c \<longleftrightarrow> (ctStatus c = ''ACTIVE'' \<and> ctRevokedAt c = None) \<or> (ctStatus c = ''REVOKED'' \<and> ctRevokedAt c \<noteq> None)"

definition banks_ok :: "bank_row list \<Rightarrow> bool" where
  "banks_ok bs \<longleftrightarrow> distinct (map bID bs) \<and> distinct (map bBic bs) \<and> list_all bank_ok bs"

definition certs_ok :: "string set \<Rightarrow> cert_row list \<Rightarrow> bool" where
  "certs_ok ids cs \<longleftrightarrow> distinct (map ctID cs) \<and> distinct (map ctFingerprint cs) \<and>
     list_all (\<lambda>c. cert_ok c \<and> ctBankID c \<in> ids) cs"

definition jobs_ok :: "job_row list \<Rightarrow> bool" where
  "jobs_ok js \<longleftrightarrow> distinct (map joID js) \<and> list_all (\<lambda>j. joStatus j = ''PENDING'') js"

definition portal_ok :: "pdb \<Rightarrow> bool" where
  "portal_ok s \<longleftrightarrow>
     banks_ok (pd_banks s) \<and> certs_ok (bID ` set (pd_banks s)) (pdCerts s) \<and> jobs_ok (pdJobs s)"

definition moves :: "string \<Rightarrow> string \<Rightarrow> bool" where
  "moves = (\<lambda>a b. b \<in> set (validTransitions a))\<^sup>*\<^sup>*"

text \<open>What a bank and a certificate stay, and how they may change.\<close>

definition bank_future :: "bank_row \<Rightarrow> bank_row \<Rightarrow> bool" where
  "bank_future b b' \<longleftrightarrow>
     bID b' = bID b \<and> bBic b' = bBic b \<and> bName b' = bName b \<and> bCountry b' = bCountry b \<and>
     bSettlementAccount b' = bSettlementAccount b \<and> bCreatedAt b' = bCreatedAt b \<and>
     moves (bStatus b) (bStatus b') \<and> (bOnboardedAt b \<noteq> None \<longrightarrow> bOnboardedAt b' = bOnboardedAt b)"

definition cert_future :: "cert_row \<Rightarrow> cert_row \<Rightarrow> bool" where
  "cert_future c c' \<longleftrightarrow>
     ctID c' = ctID c \<and> ctBankID c' = ctBankID c \<and> ctSubject c' = ctSubject c \<and> ctFingerprint c' = ctFingerprint c \<and>
     ctNotBefore c' = ctNotBefore c \<and> ctNotAfter c' = ctNotAfter c \<and> ctIssuedAt c' = ctIssuedAt c \<and>
     (ctStatus c \<noteq> ''ACTIVE'' \<longrightarrow> ctStatus c' = ctStatus c \<and> ctRevokedAt c' = ctRevokedAt c)"

text \<open>Rows keep their places; new ones come at the end.\<close>

definition grows :: "('r \<Rightarrow> 'r \<Rightarrow> bool) \<Rightarrow> 'r list \<Rightarrow> 'r list \<Rightarrow> bool" where
  "grows P xs ys \<longleftrightarrow> length xs \<le> length ys \<and> (\<forall>i<length xs. P (xs ! i) (ys ! i))"

definition history :: "pdb \<Rightarrow> pdb \<Rightarrow> bool" where
  "history s s' \<longleftrightarrow>
     grows bank_future (pd_banks s) (pd_banks s') \<and> grows cert_future (pdCerts s) (pdCerts s') \<and>
     grows (=) (pdAudit s) (pdAudit s') \<and> grows (=) (pdJobs s) (pdJobs s')"

definition progress :: "pdb \<Rightarrow> pdb \<Rightarrow> bool" where
  "progress s s' \<longleftrightarrow> (portal_ok s \<longrightarrow> portal_ok s' \<and> history s s')"

definition switch_untouched :: "pdb \<Rightarrow> pdb \<Rightarrow> bool" where
  "switch_untouched s s' \<longleftrightarrow>
     payment_tbl (pdPg s') = payment_tbl (pdPg s) \<and> outbox_tbl (pdPg s') = outbox_tbl (pdPg s) \<and>
     txview_tbl (pdPg s') = txview_tbl (pdPg s) \<and> txevent_tbl (pdPg s') = txevent_tbl (pdPg s)"

section \<open>Lemmas\<close>

lemma grows_refl: "(\<And>x. P x x) \<Longrightarrow> grows P xs xs"
  by (simp add: grows_def)

lemma grows_append: "(\<And>x. P x x) \<Longrightarrow> grows P xs (xs @ ys)"
  by (simp add: grows_def nth_append)

lemma grows_trans:
  assumes "\<And>x y z. P x y \<Longrightarrow> P y z \<Longrightarrow> P x z" "grows P xs ys" "grows P ys zs"
  shows "grows P xs zs"
  unfolding grows_def
proof (intro conjI allI impI)
  show "length xs \<le> length zs" using assms(2,3) by (auto simp: grows_def)
  fix i assume "i < length xs"
  with assms(2,3) have "P (xs ! i) (ys ! i)" "P (ys ! i) (zs ! i)" by (auto simp: grows_def)
  then show "P (xs ! i) (zs ! i)" by (rule assms(1))
qed

lemma grows_upd:
  assumes "\<And>x. Q x \<Longrightarrow> x \<in> set xs \<Longrightarrow> P x (f x)" "\<And>x. P x x"
  shows "grows P xs (upd_where Q f xs)"
  using assms by (auto simp: grows_def upd_where_def)

lemma grows_memD:
  assumes "grows P xs ys" "x \<in> set xs"
  shows "\<exists>y\<in>set ys. P x y"
proof -
  from assms(2) obtain i where "i < length xs" "x = xs ! i" by (auto simp: in_set_conv_nth)
  with assms(1) have "P x (ys ! i)" "ys ! i \<in> set ys" by (auto simp: grows_def)
  then show ?thesis by blast
qed

lemma bank_future_refl: "bank_future b b"
  by (simp add: bank_future_def moves_def)

lemma bank_future_trans: "bank_future a b \<Longrightarrow> bank_future b c \<Longrightarrow> bank_future a c"
  by (auto simp: bank_future_def moves_def)

lemma cert_future_refl: "cert_future c c"
  by (simp add: cert_future_def)

lemma cert_future_trans: "cert_future a b \<Longrightarrow> cert_future b c \<Longrightarrow> cert_future a c"
  unfolding cert_future_def by metis

lemma history_refl: "history s s"
  by (simp add: history_def grows_refl bank_future_refl cert_future_refl)

lemma history_trans:
  assumes "history a b" "history b c"
  shows "history a c"
  unfolding history_def
proof (intro conjI)
  show "grows bank_future (pd_banks a) (pd_banks c)"
    by (rule grows_trans [of bank_future "pd_banks a" "pd_banks b"]) (use assms in \<open>auto simp: history_def elim: bank_future_trans\<close>)
  show "grows cert_future (pdCerts a) (pdCerts c)"
    by (rule grows_trans [of cert_future "pdCerts a" "pdCerts b"]) (use assms in \<open>auto simp: history_def elim: cert_future_trans\<close>)
  show "grows (=) (pdAudit a) (pdAudit c)"
    by (rule grows_trans [of "(=)" "pdAudit a" "pdAudit b"]) (use assms in \<open>auto simp: history_def\<close>)
  show "grows (=) (pdJobs a) (pdJobs c)"
    by (rule grows_trans [of "(=)" "pdJobs a" "pdJobs b"]) (use assms in \<open>auto simp: history_def\<close>)
qed

lemma progress_trans: "progress a b \<Longrightarrow> progress b c \<Longrightarrow> progress a c"
  by (auto simp: progress_def intro: history_trans)

lemma same_data_progress: "same_data s s' \<Longrightarrow> progress s s'"
  by (simp add: progress_def portal_ok_def history_def same_data_simps grows_refl bank_future_refl cert_future_refl)

lemma set_banks_simps [simp]: "pd_banks (set_banks bs s) = bs" "pdCerts (set_banks bs s) = pdCerts s"
    "pdAudit (set_banks bs s) = pdAudit s" "pdJobs (set_banks bs s) = pdJobs s"
  by (simp_all add: set_banks_def pd_banks_def)

text \<open>An update that keeps the keys of all banks and takes each to a possible future of it.\<close>

lemma progress_banks:
  assumes "\<And>b. bID (f b) = bID b \<and> bBic (f b) = bBic b"
    and "\<And>b. b \<in> set (pd_banks s) \<Longrightarrow> Q b \<Longrightarrow> banks_ok (pd_banks s) \<Longrightarrow> bank_future b (f b) \<and> bank_ok (f b)"
  shows "progress s (set_banks (upd_where Q f (pd_banks s)) s)"
proof -
  let ?bs = "upd_where Q f (pd_banks s)"
  have m: "map bID ?bs = map bID (pd_banks s)" "map bBic ?bs = map bBic (pd_banks s)"
    using assms(1) by (simp_all add: map_upd_where)
  from arg_cong [OF m(1), of set] have ids: "bID ` set ?bs = bID ` set (pd_banks s)" by simp
  have "banks_ok ?bs \<and> grows bank_future (pd_banks s) ?bs" if ok: "banks_ok (pd_banks s)"
  proof (intro conjI grows_upd bank_future_refl)
    have "list_all bank_ok ?bs" using ok assms(2) by (auto simp: upd_where_def list_all_iff banks_ok_def)
    with ok m show "banks_ok ?bs" by (simp add: banks_ok_def)
  qed (use ok assms(2) in blast)
  with ids show ?thesis by (simp add: progress_def portal_ok_def history_def grows_refl cert_future_refl)
qed

lemma new_bank_ok:
  assumes "new_bank uuid t p = Some r"
  shows "bank_ok r"
  using assms by (auto simp: new_bank_def bank_ok_def split: option.splits)

lemma status_future:
  assumes "bank_ok b" "n \<in> set (validTransitions (bStatus b))"
  shows "bank_future b (set_bank_status t n b) \<and> bank_ok (set_bank_status t n b)"
proof -
  have "moves (bStatus b) n" using assms(2) by (auto simp: moves_def)
  with assms show ?thesis
    by (auto simp: bank_future_def set_bank_status_def bank_ok_def validTransitions_def split: if_splits)
qed

interpretation life: portal_relation progress
proof
  fix s s' s'' :: pdb
  show "same_data s s' \<Longrightarrow> progress s s'" by (rule same_data_progress)
  show "progress s s' \<Longrightarrow> progress s' s'' \<Longrightarrow> progress s s''" by (rule progress_trans)
next
  fix uuid t p r s
  assume "new_bank uuid t p = Some r" and fresh: "\<not> list_ex (\<lambda>b. bID b = bID r \<or> bBic b = bBic r) (pd_banks s)"
  then have "bank_ok r" by (simp add: new_bank_ok)
  with fresh show "progress s (set_banks (pd_banks s @ [r]) s)"
    by (auto simp: progress_def portal_ok_def banks_ok_def certs_ok_def history_def grows_append grows_refl bank_future_refl
        cert_future_refl list_ex_iff list_all_iff)
next
  fix f :: "bank_row \<Rightarrow> bank_row" and s u
  assume "\<And>b. bID (f b) = bID b \<and> bBic (f b) = bBic b \<and> bName (f b) = bName b \<and> bCountry (f b) = bCountry b \<and>
    bStatus (f b) = bStatus b \<and> bSettlementAccount (f b) = bSettlementAccount b \<and> bOnboardedAt (f b) = bOnboardedAt b \<and>
    bCreatedAt (f b) = bCreatedAt b"
  then show "progress s (set_banks (upd_where (\<lambda>b. bID b = u) f (pd_banks s)) s)"
    by (intro progress_banks) (auto simp: bank_future_def bank_ok_def moves_def banks_ok_def list_all_iff)
next
  fix u s b n t
  assume b: "row_by bID u (pd_banks s) = Some b" "n \<in> set (validTransitions (bStatus b))"
  show "progress s (set_banks (upd_where (\<lambda>b. bID b = u) (set_bank_status t n) (pd_banks s)) s)"
  proof (rule progress_banks)
    fix c assume c: "c \<in> set (pd_banks s)" "bID c = u" "banks_ok (pd_banks s)"
    then have "c = b" using row_by_SomeD [OF b(1)] by (auto simp: banks_ok_def distinct_map inj_on_def)
    with b(2) c show "bank_future c (set_bank_status t n c) \<and> bank_ok (set_bank_status t n c)"
      by (intro status_future) (auto simp: banks_ok_def list_all_iff)
  qed (simp add: set_bank_status_def)
next
  fix c :: cert_row and s :: pdb
  assume "\<not> list_ex (\<lambda>d. ctID d = ctID c \<or> ctFingerprint d = ctFingerprint c) (pdCerts s)"
    "row_by bID (ctBankID c) (pd_banks s) \<noteq> None" "ctStatus c = ''ACTIVE''" "ctRevokedAt c = None"
  then show "progress s (s\<lparr>pdCerts := pdCerts s @ [c]\<rparr>)"
    by (auto simp: progress_def portal_ok_def certs_ok_def history_def grows_append grows_refl bank_future_refl
        cert_future_refl list_ex_iff list_all_iff cert_ok_def pd_banks_def row_by_None_iff)
next
  fix s :: pdb and i u t
  let ?f = "\<lambda>r :: cert_row. r\<lparr>ctStatus := ''REVOKED'', ctRevokedAt := Some t\<rparr>"
  have "list_all (\<lambda>c. cert_ok c \<and> ctBankID c \<in> ids) (upd_where (revocable i u) ?f cs)"
    if "list_all (\<lambda>c. cert_ok c \<and> ctBankID c \<in> ids) cs" for ids cs
    using that by (auto simp: upd_where_def list_all_iff cert_ok_def)
  then have "certs_ok ids (upd_where (revocable i u) ?f cs)" if "certs_ok ids cs" for ids cs
    using that by (simp add: certs_ok_def map_upd_where)
  moreover have "grows cert_future (pdCerts s) (upd_where (revocable i u) ?f (pdCerts s))"
    by (rule grows_upd) (auto simp: cert_future_def revocable_def)
  ultimately show "progress s (s\<lparr>pdCerts := upd_where (revocable i u) ?f (pdCerts s)\<rparr>)"
    by (simp add: progress_def portal_ok_def history_def grows_refl bank_future_refl pd_banks_def)
next
  fix s :: pdb and a :: audit_row
  show "progress s (s\<lparr>pdAudit := pdAudit s @ [a]\<rparr>)"
    by (auto simp: progress_def portal_ok_def history_def grows_append grows_refl bank_future_refl cert_future_refl pd_banks_def)
next
  fix j :: job_row and s :: pdb
  assume "\<not> list_ex (\<lambda>k. joID k = joID j) (pdJobs s)" "joStatus j = ''PENDING''"
  then show "progress s (s\<lparr>pdJobs := pdJobs s @ [j]\<rparr>)"
    by (auto simp: progress_def portal_ok_def jobs_ok_def history_def grows_append grows_refl bank_future_refl
        cert_future_refl pd_banks_def list_ex_iff)
qed

interpretation untouched: portal_relation switch_untouched
  by unfold_locales (auto simp: switch_untouched_def same_data_def tables_def set_banks_def)

section \<open>The portal over time\<close>

inductive portal_step :: "portal \<Rightarrow> portal \<Rightarrow> bool" where
  request: "portal_http env allowedOrigin m path r p = (a, p') \<Longrightarrow> portal_step p p'"
| cleanup: "portal_step p (p\<lparr>ptCsrf := Cleanup now (ptCsrf p)\<rparr>)"
| switch: "bank_tbl g = bank_tbl (pdPg (ptDb p)) \<Longrightarrow> portal_step p (p\<lparr>ptDb := (ptDb p)\<lparr>pdPg := g\<rparr>\<rparr>)"

lemma portal_step_progress: "portal_step p p' \<Longrightarrow> progress (ptDb p) (ptDb p')"
proof (induction rule: portal_step.induct)
  case (request env allowedOrigin m path r p a p')
  then show ?case by (rule life.portal_http_keeps)
next
  case (cleanup p now)
  show ?case by (simp add: life.refl)
next
  case (switch g p)
  then show ?case
    by (simp add: progress_def portal_ok_def history_def pd_banks_def grows_refl bank_future_refl cert_future_refl)
qed

lemma portal_steps_progress: "portal_step\<^sup>*\<^sup>* p p' \<Longrightarrow> progress (ptDb p) (ptDb p')"
proof (induction rule: rtranclp_induct)
  case base
  show ?case by (rule life.refl)
next
  case (step q r)
  then show ?case by (blast intro: progress_trans portal_step_progress)
qed

text \<open>A bank that has gone stays gone, and one in production goes through a suspension.\<close>

lemma moves_decommissioned: "moves ''DECOMMISSIONED'' s \<Longrightarrow> s = ''DECOMMISSIONED''"
  unfolding moves_def by (induction rule: rtranclp_induct) (auto simp: validTransitions_def)

end
