(* ===== verification/PortalAccess.thy ===== *)
theory PortalAccess
  imports PortalLife
begin

text \<open>
  Who may change and who may see what in the portal. A request that changes banks or certificates has
  passed authentication and the CSRF check and has the role for it, and a bank's administrator changes only
  the rows of the own bank. A bank's users see only the transactions in which their bank takes part,
  provided that their claims name it.
\<close>

section \<open>Relations of callers without the right\<close>

definition registry_same :: "pdb \<Rightarrow> pdb \<Rightarrow> bool" where
  "registry_same s s' \<longleftrightarrow> pd_banks s' = pd_banks s \<and> pdCerts s' = pdCerts s"

text \<open>Only the rows of the bank with this BIC have changed.\<close>

definition own_ids :: "string \<Rightarrow> pdb \<Rightarrow> string set" where
  "own_ids bic s = bID ` {b \<in> set (pd_banks s). bBic b = bic}"

definition only_own :: "string \<Rightarrow> pdb \<Rightarrow> pdb \<Rightarrow> bool" where
  "only_own bic s s' \<longleftrightarrow>
     filter (\<lambda>b. bBic b \<noteq> bic) (pd_banks s') = filter (\<lambda>b. bBic b \<noteq> bic) (pd_banks s) \<and>
     own_ids bic s' = own_ids bic s \<and>
     filter (\<lambda>c. ctBankID c \<notin> own_ids bic s) (pdCerts s') = filter (\<lambda>c. ctBankID c \<notin> own_ids bic s) (pdCerts s)"

text \<open>The id of a request names a bank with this BIC only.\<close>

definition names_own :: "string \<Rightarrow> string \<Rightarrow> pdb \<Rightarrow> bool" where
  "names_own i bic s \<longleftrightarrow>
     (\<exists>u. uuid_in i = Some u \<and> u \<in> own_ids bic s \<and> (\<forall>b\<in>set (pd_banks s). bID b = u \<longrightarrow> bBic b = bic))"

definition own_rel :: "string \<Rightarrow> string \<Rightarrow> pdb \<Rightarrow> pdb \<Rightarrow> bool" where
  "own_rel i bic s s' \<longleftrightarrow> (names_own i bic s \<longrightarrow> only_own bic s s' \<and> names_own i bic s')"

lemma only_own_refl: "only_own bic s s"
  by (simp add: only_own_def)

lemma only_own_trans: "only_own bic a b \<Longrightarrow> only_own bic b c \<Longrightarrow> only_own bic a c"
  by (simp add: only_own_def)

lemma same_data_own:
  assumes "same_data s s'"
  shows "only_own bic s s'" "names_own i bic s' = names_own i bic s"
  using same_data_simps [OF assms] by (simp_all add: only_own_def names_own_def own_ids_def)

interpretation registry: audited_relation registry_same
  by unfold_locales (auto simp: registry_same_def same_data_def tables_def pd_banks_def)

interpretation own: audited_relation "own_rel i bic" for i bic
proof
  fix s s' s'' :: pdb
  show "same_data s s' \<Longrightarrow> own_rel i bic s s'" by (simp add: own_rel_def same_data_own)
  show "own_rel i bic s s' \<Longrightarrow> own_rel i bic s' s'' \<Longrightarrow> own_rel i bic s s''"
    by (auto simp: own_rel_def intro: only_own_trans)
next
  fix s :: pdb and a j
  show "own_rel i bic s (s\<lparr>pdAudit := pdAudit s @ [a]\<rparr>)" "own_rel i bic s (s\<lparr>pdJobs := pdJobs s @ [j]\<rparr>)"
    by (auto simp: own_rel_def only_own_def names_own_def own_ids_def pd_banks_def)
qed

section \<open>What a bank's administrator may do\<close>

lemma filter_upd_where:
  assumes "\<And>x. x \<in> set xs \<Longrightarrow> Q x \<Longrightarrow> \<not> P x \<and> \<not> P (f x)"
  shows "filter P (upd_where Q f xs) = filter P xs"
  using assms by (induction xs) (auto simp: upd_where_def)

lemma image_Collect: "(\<And>x. P (g x) = P x) \<Longrightarrow> {x \<in> g ` S. P x} = g ` {x \<in> S. P x}"
  by auto

lemma own_ids_upd:
  assumes "\<And>b. bID (f b) = bID b \<and> bBic (f b) = bBic b"
  shows "own_ids bic (set_banks (upd_where Q f (pd_banks s)) s) = own_ids bic s"
proof -
  let ?g = "\<lambda>r. if Q r then f r else r"
  have g: "bID (?g b) = bID b" "bBic (?g b) = bBic b" for b using assms by simp_all
  have "bID ` {b \<in> ?g ` set (pd_banks s). bBic b = bic} = (\<lambda>b. bID (?g b)) ` {b \<in> set (pd_banks s). bBic b = bic}"
    by (subst image_Collect) (simp_all only: g image_image)
  then show ?thesis by (simp only: own_ids_def set_banks_simps upd_where_def set_map g)
qed

lemma own_UpdateBankCallback: "keeps (own_rel i bic) (UpdateBankCallback i url)"
proof -
  let ?f = "\<lambda>b. b\<lparr>bCallbackUrl := nilIfEmpty url\<rparr>"
  have "own_rel i bic s s'" if u: "uuid_in i = Some u" and e: "update_bank ?f u s = (r, s')" for u s r s'
    unfolding own_rel_def
  proof
    assume n: "names_own i bic s"
    show "only_own bic s s' \<and> names_own i bic s'"
    proof (cases "row_by bID u (pd_banks s)")
      case None
      with e n show ?thesis by (simp add: update_bank_def only_own_refl)
    next
      case (Some b)
      let ?bs = "upd_where (\<lambda>b. bID b = u) ?f (pd_banks s)"
      have "filter (\<lambda>b. bBic b \<noteq> bic) ?bs = filter (\<lambda>b. bBic b \<noteq> bic) (pd_banks s)"
        using n u by (intro filter_upd_where) (auto simp: names_own_def)
      moreover have ids: "own_ids bic (set_banks ?bs s) = own_ids bic s"
        by (rule own_ids_upd) simp
      moreover have "names_own i bic (set_banks ?bs s)"
        using n ids unfolding names_own_def by (auto simp: upd_where_def)
      moreover have "s' = set_banks ?bs s" using e Some by (simp add: update_bank_def)
      ultimately show ?thesis by (simp add: only_own_def)
    qed
  qed
  then have "keeps (own_rel i bic) (with_uuid i (\<lambda>u. bindE (update_bank ?f u) (\<lambda>r. okE (bank_of_row r))))"
    by (intro keepsI) (auto simp: with_uuid_def bindE_def own.refl split: option.splits prod.splits sum.splits)
  then show ?thesis
    unfolding UpdateBankCallback_def by (intro own.keeps_nil_if_no_rows own.keeps_pstmt)
qed

lemma own_CreateCertificate:
  assumes "ccBankID p = i"
  shows "keeps (own_rel i bic) (CreateCertificate uuid p)"
proof -
  have "own_rel i bic s (s\<lparr>pdCerts := pdCerts s @ [c]\<rparr>)" if "uuid_in i = Some (ctBankID c)" for s c
    using that by (auto simp: own_rel_def only_own_def names_own_def own_ids_def pd_banks_def)
  with assms show ?thesis
    unfolding CreateCertificate_def with_uuid_def
    by (intro own.keeps_pstmt keepsI) (auto simp: Let_def own.refl split: option.splits if_splits)
qed

lemma own_RevokeCertificate:
  assumes "RevokeCertificate i c s = (r, s')"
  shows "own_rel i bic s s'"
proof -
  let ?f = "\<lambda>t r. r\<lparr>ctStatus := ''REVOKED'', ctRevokedAt := Some t\<rparr>"
  have "own_rel i bic s (s\<lparr>pdCerts := upd_where (revocable k u) (?f t) (pdCerts s)\<rparr>)" if "uuid_in i = Some u" for s k u t
    unfolding own_rel_def
  proof
    assume "names_own i bic s"
    with that have "u \<in> own_ids bic s" by (auto simp: names_own_def)
    then have "filter (\<lambda>c. ctBankID c \<notin> own_ids bic s) (upd_where (revocable k u) (?f t) (pdCerts s)) =
        filter (\<lambda>c. ctBankID c \<notin> own_ids bic s) (pdCerts s)"
      by (intro filter_upd_where) (auto simp: revocable_def)
    then show "only_own bic s (s\<lparr>pdCerts := upd_where (revocable k u) (?f t) (pdCerts s)\<rparr>) \<and>
        names_own i bic (s\<lparr>pdCerts := upd_where (revocable k u) (?f t) (pdCerts s)\<rparr>)"
      using \<open>names_own i bic s\<close> by (simp add: only_own_def names_own_def own_ids_def pd_banks_def)
  qed
  then have "keeps (own_rel i bic) (pstmt (with_uuid c (\<lambda>c. with_uuid i (\<lambda>b s.
      (Inr (length (filter (revocable c b) (pdCerts s))), s\<lparr>pdCerts := upd_where (revocable c b)
         (?f (pd_now s)) (pdCerts s)\<rparr>)))))"
    by (intro own.keeps_pstmt own.keeps_with_uuid keepsI) (auto simp: with_uuid_def own.refl split: option.splits)
  with assms show ?thesis
    by (auto simp: RevokeCertificate_def split: prod.splits sum.splits dest: keepsD)
qed

section \<open>Who changes banks and certificates\<close>

lemma GetBank_SomeD:
  assumes "GetBank i s = (Inr (Some k), s')"
  shows "\<exists>u r. uuid_in i = Some u \<and> row_by bID u (pd_banks s') = Some r \<and> k = bank_of_row r"
proof -
  from assms have "pstmt (with_uuid i (\<lambda>u. bindE (select_bank bID u) (\<lambda>r. okE (bank_of_row r)))) s = (Inr k, s')"
    by (auto simp: GetBank_def nil_if_no_rows_def split: prod.splits sum.splits if_splits)
  then show ?thesis
  proof (cases rule: pstmt_cases)
    case (ran fs)
    then show ?thesis by (auto simp: with_uuid_def select_bank_def bindE_def split: option.splits)
  qed simp
qed

lemma GetBank_own:
  assumes "db_call (GetBank i) p = (Inr (Some k), p')" "portal_ok (ptDb p)"
  shows "registry_same (ptDb p) (ptDb p') \<and> names_own i (bkBIC k) (ptDb p')"
proof -
  have same: "registry_same (ptDb p) (ptDb p')" by (rule registry.db_eq_keeps [OF registry.keeps_GetBank assms(1)])
  from assms(1) obtain d where "GetBank i (ptDb p) = (Inr (Some k), d)" "ptDb p' = d"
    by (auto simp: db_call_def split: prod.splits)
  from GetBank_SomeD [OF this(1)] this(2) obtain u r where u: "uuid_in i = Some u"
    "row_by bID u (pd_banks (ptDb p')) = Some r" "k = bank_of_row r" by blast
  have "r \<in> set (pd_banks (ptDb p'))" "bID r = u" using row_by_SomeD [OF u(2)] by auto
  moreover have "distinct (map bID (pd_banks (ptDb p')))"
    using assms(2) same by (simp add: portal_ok_def banks_ok_def registry_same_def)
  ultimately have one: "bBic b = bBic r" if "b \<in> set (pd_banks (ptDb p'))" "bID b = u" for b
    using that by (metis distinct_map inj_on_def)
  have "u \<in> own_ids (bBic r) (ptDb p')" using \<open>r \<in> _\<close> \<open>bID r = u\<close> unfolding own_ids_def by blast
  with u(1) one have "names_own i (bBic r) (ptDb p')" unfolding names_own_def by blast
  with same u(3) show ?thesis by (simp add: bank_of_row_def)
qed

lemma endpoint_of_writes:
  assumes "endpoint_of m q = Some ep" "writes_registry ep"
  shows "m \<in> {''POST'', ''PATCH'', ''DELETE''}"
    and "endpoint_roles ep = Some [RoleSwitchAdmin] \<or>
      (endpoint_roles ep = Some [RoleSwitchAdmin, RoleBankAdmin] \<and>
       (\<exists>b. scoped_bank q = Some b \<and> (ep = EpBankCallback b \<or> ep = EpCreateCertificate b \<or> (\<exists>c. ep = EpRevokeCertificate b c))))"
  using assms
  by (auto simp: endpoint_of_def banks_endpoint_def transactions_endpoint_def scoped_bank_def neq_Nil_conv
      split: list.splits if_splits)

lemma own_endpoint_keeps:
  assumes "ep = EpBankCallback b \<or> ep = EpCreateCertificate b \<or> (\<exists>c. ep = EpRevokeCertificate b c)"
  shows "handler_keeps (own_rel b bic) (endpoint_handler env ep)"
  using assms own.updateBankCallback_keeps_if [OF own_UpdateBankCallback]
    own.createCertificate_keeps_if [OF own_CreateCertificate] own.revokeCertificate_keeps_if [OF own_RevokeCertificate]
  by auto

lemma scoped_handler:
  assumes "bankScopeMiddleware b h r p = (a, p')" "b \<noteq> ''''" "IsBankRole (FromRequest r)" "portal_ok (ptDb p)"
    and "handler_keeps (own_rel b (clParticipantID (FromRequest r))) h"
  shows "only_own (clParticipantID (FromRequest r)) (ptDb p) (ptDb p')"
proof -
  let ?bic = "clParticipantID (FromRequest r)"
  obtain x p1 where x: "db_call (GetBank b) p = (x, p1)" by fastforce
  have "registry_same (ptDb p) (ptDb p1)" by (rule registry.db_eq_keeps [OF registry.keeps_GetBank x])
  then have s: "only_own ?bic (ptDb p) (ptDb p1)" by (simp add: registry_same_def only_own_def own_ids_def)
  show ?thesis
  proof (cases "\<exists>k. x = Inr (Some k) \<and> bkBIC k = ?bic")
    case True
    then obtain k where k: "x = Inr (Some k)" "bkBIC k = ?bic" by blast
    with x assms(4) have "names_own b ?bic (ptDb p1)" using GetBank_own by fastforce
    moreover have "h r p1 = (a, p')" using assms(1,2,3) x k by (simp add: bankScopeMiddleware_def)
    then have "own_rel b ?bic (ptDb p1) (ptDb p')" using assms(5) by (metis handler_keeps_def snd_conv)
    ultimately show ?thesis using s by (auto simp: own_rel_def intro: only_own_trans)
  next
    case False
    with assms(1,2,3) x s show ?thesis
      by (auto simp: bankScopeMiddleware_def split: sum.splits option.splits if_splits)
  qed
qed

lemma route_access:
  assumes r: "route env m q r p = (a, p')" and ok: "portal_ok (ptDb p)" and ch: "\<not> registry_same (ptDb p) (ptDb p')"
  shows "m \<in> {''POST'', ''PATCH'', ''DELETE''} \<and>
    (clRole (FromRequest r) = RoleSwitchAdmin \<or>
     (clRole (FromRequest r) = RoleBankAdmin \<and> only_own (clParticipantID (FromRequest r)) (ptDb p) (ptDb p')))"
proof -
  let ?c = "FromRequest r"
  have scoped: "registry_same (ptDb p) (ptDb p')"
    if "handler_keeps registry_same h" "(case scoped_bank q of Some b \<Rightarrow> bankScopeMiddleware b h | None \<Rightarrow> h) r p = (a, p')" for h
    using that registry.bankScope_keeps [OF that(1)] by (auto simp: handler_keeps_def split: option.splits) (metis snd_conv)+
  have "handler_keeps registry_same (\<lambda>r p. (None, p))" by (simp add: handler_keeps_def registry.refl)
  with scoped [of "\<lambda>r p. (None, p)"] r ch obtain ep where ep: "endpoint_of m q = Some ep"
    by (auto simp: route_def Let_def split: option.splits)
  then have go: "(case scoped_bank q of Some b \<Rightarrow> bankScopeMiddleware b (serve_endpoint env ep) | None \<Rightarrow> serve_endpoint env ep) r p = (a, p')"
    using r by (simp add: route_def Let_def)
  have w: "writes_registry ep"
  proof (rule ccontr)
    assume "\<not> writes_registry ep"
    then have "handler_keeps registry_same (serve_endpoint env ep)"
      by (auto simp: serve_endpoint_def intro!: registry.serve_keeps registry.RequireRoles_keeps registry.reading_endpoint_keeps
          split: option.split)
    with scoped go ch show False by blast
  qed
  note roles = endpoint_of_writes [OF ep w]
  have denied: "clRole ?c = RoleSwitchAdmin \<or> clRole ?c = RoleBankAdmin \<and> endpoint_roles ep \<noteq> Some [RoleSwitchAdmin]"
  proof (rule ccontr)
    assume no: "\<not> ?thesis"
    then have "serve_endpoint env ep r z = (Some (writeError 403 ''insufficient permissions''), z)" for z
      using roles(2) by (auto simp: serve_endpoint_def RequireRoles_def)
    then have "registry_same (ptDb p) (ptDb p')"
      using go registry.keeps_GetBank
      by (auto simp: bankScopeMiddleware_def Let_def registry.refl split: option.splits if_splits prod.splits sum.splits
          dest: registry.db_eq_keeps)
    with ch show False by blast
  qed
  show ?thesis
  proof (cases "clRole ?c = RoleSwitchAdmin")
    case False
    with denied have ba: "clRole ?c = RoleBankAdmin" "endpoint_roles ep \<noteq> Some [RoleSwitchAdmin]" by auto
    with roles(2) obtain b where b: "scoped_bank q = Some b"
      "ep = EpBankCallback b \<or> ep = EpCreateCertificate b \<or> (\<exists>c. ep = EpRevokeCertificate b c)" by auto
    have "handler_keeps (own_rel b (clParticipantID ?c)) (serve_endpoint env ep)"
      using own_endpoint_keeps [OF b(2)]
      by (auto simp: serve_endpoint_def intro!: own.serve_keeps own.RequireRoles_keeps split: option.split)
    moreover have "b \<noteq> ''''" using b(1) by (auto simp: scoped_bank_def split: list.splits if_splits)
    moreover have "IsBankRole ?c" using ba(1) by (simp add: IsBankRole_def)
    ultimately have "only_own (clParticipantID ?c) (ptDb p) (ptDb p')"
      using scoped_handler go ok b(1) by fastforce
    with roles(1) ba(1) show ?thesis by blast
  qed (use roles(1) in blast)
qed

text \<open>A request that reaches the routes has claims and, unless it only reads, a valid token.\<close>

lemma csrf_header_WithClaims [simp]: "csrf_header (WithClaims c r) = csrf_header r"
  by (simp add: csrf_header_def WithClaims_def Header_Get_def Let_def)

lemma portal_http_cases:
  assumes "portal_http env allowedOrigin m path r p = (a, p')"
  obtains (outside) "p' = p"
    "case a of None \<Rightarrow> True | Some x \<Rightarrow> poDoc x \<in> {NoDoc} \<union> range MapDoc"
  | (routed) q a' where "api_path path = Some q" "clSub (FromRequest r) \<noteq> ''''"
    "m \<in> {''GET'', ''HEAD''} \<or> Valid (instant (peNow env)) (clSub (FromRequest r)) (csrf_header r) (ptCsrf p)"
    "route env m q (WithClaims (FromRequest r) r) p = (a', p')" "map_option poDoc a' = map_option poDoc a"
proof (cases "api_path path")
  case None
  with assms outside show thesis by (auto simp: portal_http_def portal_writeJSON_def split: if_splits)
next
  case (Some q)
  obtain a' p2 where x: "route env m q (WithClaims (FromRequest r) r) p = (a', p2)" by fastforce
  show thesis
  proof (cases "(m = ''GET'' \<and> path = [''healthz'']) \<or> \<not> (endpoint_of m q \<noteq> None \<or> mounted q) \<or> m = ''OPTIONS'' \<or>
      clSub (FromRequest r) = '''' \<or>
      \<not> (m \<in> {''GET'', ''HEAD''} \<or> Valid (instant (peNow env)) (clSub (FromRequest r)) (csrf_header r) (ptCsrf p))")
    case True
    with assms Some show thesis
      by (intro outside) (auto simp: portal_http_def portal_writeJSON_def writeError_def api_chain_def corsMiddleware_def
          AuthMiddleware_def CSRFMiddleware_def Let_def split: if_splits option.splits)
  next
    case False
    with assms Some x show thesis
      by (intro routed [of q a']) (auto simp: portal_http_def api_chain_def corsMiddleware_def AuthMiddleware_def
          CSRFMiddleware_def Let_def option.map_comp comp_def split: if_splits)
  qed
qed

lemma portal_http_access:
  assumes "portal_http env allowedOrigin m path r p = (a, p')" "portal_ok (ptDb p)" "\<not> registry_same (ptDb p) (ptDb p')"
  shows "clSub (FromRequest r) \<noteq> '''' \<and>
    Valid (instant (peNow env)) (clSub (FromRequest r)) (csrf_header r) (ptCsrf p) \<and>
    (clRole (FromRequest r) = RoleSwitchAdmin \<or>
     (clRole (FromRequest r) = RoleBankAdmin \<and> only_own (clParticipantID (FromRequest r)) (ptDb p) (ptDb p')))"
  using assms(1)
proof (cases rule: portal_http_cases)
  case outside
  with assms(3) show ?thesis by (simp add: registry.refl)
next
  case (routed q a')
  from route_access [OF routed(4) assms(2,3)] routed(2,3) show ?thesis by auto
qed

end
