(* ===== verification/PortalScope.thy ===== *)
theory PortalScope
  imports PortalAccess
begin

text \<open>
  What the users of a bank get to see (\<open>shown\<close>): of transactions, events, banks and certificates only
  those of their own bank, whatever they ask for. The lemmas go up from the loops over rows through the
  store and the handlers to a whole request.
\<close>

section \<open>What may be shown\<close>

definition takes_part :: "string \<Rightarrow> TransactionSummary \<Rightarrow> bool" where
  "takes_part bic t \<longleftrightarrow> brBIC (smSourceBank t) = bic \<or> brBIC (smDestinationBank t) = bic"

definition own_payments :: "string \<Rightarrow> pdb \<Rightarrow> string set" where
  "own_payments bic s = tvPaymentID ` {v \<in> set (pd_views s). tvSourceBic v = bic \<or> tvDestinationBic v = bic}"

definition own_events :: "string \<Rightarrow> pdb \<Rightarrow> TransactionEvent set" where
  "own_events bic s = (\<Union>u\<in>own_payments bic s. set (timeline_rows u s))"

fun shown :: "string \<Rightarrow> pdb \<Rightarrow> portal_doc \<Rightarrow> bool" where
  "shown bic s (TransactionsDoc ts) \<longleftrightarrow> list_all (takes_part bic) (pgData ts)"
| "shown bic s (TransactionDoc t) \<longleftrightarrow> takes_part bic (tdSummary t)"
| "shown bic s (TimelineDoc es) \<longleftrightarrow> set es \<subseteq> own_events bic s"
| "shown bic s (BankDoc b) \<longleftrightarrow> bkBIC b = bic"
| "shown bic s (CertificatesDoc cs) \<longleftrightarrow> list_all (\<lambda>c. ctBankID c \<in> own_ids bic s) cs"
| "shown bic s (CertificateDoc c) \<longleftrightarrow> ctBankID c \<in> own_ids bic s"
| "shown bic s (BanksDoc bs) \<longleftrightarrow> False"
| "shown bic s (AuditLogDoc l) \<longleftrightarrow> False"
| "shown bic s _ \<longleftrightarrow> True"

section \<open>The store\<close>

lemma scan_rows_sound:
  assumes "scan_rows f rs acc s = (Inr xs, s')"
  shows "\<exists>ys. xs = acc @ ys \<and> (\<forall>y\<in>set ys. \<exists>r\<in>set rs. f r = Inr y)"
  using assms
proof (induction rs arbitrary: acc s)
  case (Cons r rs)
  obtain x s1 where x: "pstmt (okE ()) s = (x, s1)" by fastforce
  show ?case
  proof (cases x)
    case (Inl e)
    with Cons.prems x show ?thesis by auto
  next
    case (Inr u)
    with Cons.prems x obtain a where a: "f r = Inr a" "scan_rows f rs (acc @ [a]) s1 = (Inr xs, s')"
      by (auto split: sum.splits)
    from Cons.IH [OF a(2)] obtain ys where "xs = (acc @ [a]) @ ys" "\<forall>y\<in>set ys. \<exists>r\<in>set rs. f r = Inr y" by blast
    with a(1) show ?thesis by (intro exI [of _ "a # ys"]) auto
  qed
qed simp

text \<open>A single statement that reads: its value is that of the data.\<close>

lemma pstmt_readD:
  assumes "pstmt (\<lambda>s. (f s, s)) s = (Inr x, s')"
  shows "same_data s s'" "f s' = Inr x"
  using assms by (auto elim!: pstmt_cases)

lemma paginate_sound:
  assumes "paginate c rows f page n s = (Inr pg, s')" "\<And>s'. same_data s s' \<Longrightarrow> rows s' = rows s"
  shows "\<forall>y\<in>set (pgData pg). \<exists>r\<in>set (rows s). f r = Inr y"
proof -
  from assms(1) obtain t s1 where 1: "pstmt (\<lambda>s. (Inr (int (c s)), s)) s = (Inr t, s1)"
    and "bindE (pstmt (\<lambda>s. (Inr (limit_offset n ((page - 1) * n) (rows s)), s))) (\<lambda>rs.
      bindE (scan_rows f rs []) (\<lambda>data. okE \<lparr>pgData = data, pgTotal = t, pgPage = page, pgPageSize = n\<rparr>)) s1 = (Inr pg, s')"
    unfolding paginate_def by (rule bindE_okD)
  from this(2) obtain rs s2 where 2: "pstmt (\<lambda>s. (Inr (limit_offset n ((page - 1) * n) (rows s)), s)) s1 = (Inr rs, s2)"
    and "bindE (scan_rows f rs []) (\<lambda>data. okE \<lparr>pgData = data, pgTotal = t, pgPage = page, pgPageSize = n\<rparr>) s2 = (Inr pg, s')"
    by (rule bindE_okD)
  from this(2) obtain ys s3 where "scan_rows f rs [] s2 = (Inr ys, s3)"
    and "okE \<lparr>pgData = ys, pgTotal = t, pgPage = page, pgPageSize = n\<rparr> s3 = (Inr pg, s')"
    by (rule bindE_okD)
  then have 3: "scan_rows f rs [] s2 = (Inr ys, s')" "pgData pg = ys" by auto
  have "same_data s s2" using pstmt_readD(1) [OF 1] pstmt_readD(1) [OF 2] by (rule same_data_trans)
  with pstmt_readD(2) [OF 2] assms(2) [of s2] have "rs = limit_offset n ((page - 1) * n) (rows s)" by simp
  then have "set rs \<subseteq> set (rows s)"
    by (auto simp: limit_offset_def split: if_splits dest: in_set_takeD in_set_dropD)
  with scan_rows_sound [OF 3(1)] 3(2) show ?thesis by fastforce
qed

lemma set_newest_first: "set (newest_first ord key rows) = set (ord rows)"
  by (simp add: newest_first_def)

text \<open>The order the plan leaves open is an order of the rows.\<close>

definition reorders :: "('r list \<Rightarrow> 'r list) \<Rightarrow> bool" where
  "reorders ord \<longleftrightarrow> (\<forall>rows. set (ord rows) \<subseteq> set rows)"

lemma reordersD: "reorders ord \<Longrightarrow> set (newest_first ord key rows) \<subseteq> set rows"
  by (simp add: reorders_def set_newest_first)

lemma ListTransactions_shown:
  assumes "ListTransactions ord f s = (Inr ts, s')" "reorders ord" "tfBIC f = bic" "bic \<noteq> ''''"
  shows "list_all (takes_part bic) (pgData ts)"
proof -
  have "\<forall>y\<in>set (pgData ts). \<exists>r\<in>set (newest_first ord tvCreatedAt (filter (tx_matches f) (pd_views s))). Inr (summary_of_row r) = (Inr y :: goerror + _)"
    using assms(1) unfolding ListTransactions_def by (rule paginate_sound) (simp add: same_data_simps)
  moreover have "takes_part bic (summary_of_row v)" if "v \<in> set (newest_first ord tvCreatedAt (filter (tx_matches f) (pd_views s)))" for v
  proof -
    have "v \<in> set (filter (tx_matches f) (pd_views s))"
      using that reordersD [OF assms(2)] by blast
    with assms(3,4) show ?thesis by (simp add: tx_matches_def in_scope_def takes_part_def summary_of_row_def)
  qed
  ultimately show ?thesis by (auto simp: list_all_iff)
qed

lemma select_view_SomeD:
  assumes "nil_if_no_rows (pstmt (with_uuid i select_view)) s = (Inr (Some v), s')"
  shows "same_data s s' \<and> (\<exists>u. uuid_in i = Some u \<and> row_by tvPaymentID u (pd_views s') = Some v)"
proof -
  from assms have "pstmt (with_uuid i select_view) s = (Inr v, s')"
    by (auto simp: nil_if_no_rows_def split: prod.splits sum.splits if_splits)
  then show ?thesis
    by (cases rule: pstmt_cases) (auto simp: with_uuid_def select_view_def split: option.splits)
qed

lemma GetTransactionBICs_own:
  assumes "GetTransactionBICs i s = (Inr (a, b), s')" "bic \<noteq> ''''" "bic = a \<or> bic = b"
  shows "same_data s s' \<and> (\<exists>u. uuid_in i = Some u \<and> u \<in> own_payments bic s)"
proof -
  from assms(1) obtain v where v: "nil_if_no_rows (pstmt (with_uuid i select_view)) s = (Inr v, s')"
    "(a, b) = (case v of None \<Rightarrow> ('''', '''') | Some v \<Rightarrow> (tvSourceBic v, tvDestinationBic v))"
    unfolding GetTransactionBICs_def by (elim bindE_okD) simp
  with assms(2,3) obtain w where w: "v = Some w" "bic = tvSourceBic w \<or> bic = tvDestinationBic w"
    by (cases v) auto
  from select_view_SomeD [of i s w s'] v(1) w(1) obtain u where u: "same_data s s'" "uuid_in i = Some u"
    "row_by tvPaymentID u (pd_views s') = Some w" by blast
  then have "w \<in> set (pd_views s)" "tvPaymentID w = u" using row_by_SomeD [OF u(3)] by (simp_all add: same_data_simps)
  with w(2) have "u \<in> own_payments bic s" unfolding own_payments_def by blast
  with u show ?thesis by blast
qed

lemma GetTransactionTimeline_sound:
  assumes "GetTransactionTimeline i s = (Inr es, s')"
  shows "\<exists>u. uuid_in i = Some u \<and> set es \<subseteq> set (timeline_rows u s)"
proof -
  from assms obtain rs s1 where 1: "pstmt (with_uuid i (\<lambda>u s. (Inr (timeline_rows u s), s))) s = (Inr rs, s1)"
    and 2: "scan_rows Inr rs [] s1 = (Inr es, s')"
    unfolding GetTransactionTimeline_def by (elim bindE_okD)
  from 1 obtain u where "uuid_in i = Some u" "rs = timeline_rows u s"
    by (cases rule: pstmt_cases) (auto simp: with_uuid_def timeline_rows_def split: option.splits)
  with scan_rows_sound [OF 2] show ?thesis by auto
qed

lemma ListCertificates_shown:
  assumes "ListCertificates ord i s = (Inr cs, s')" "reorders ord" "names_own i bic s"
  shows "list_all (\<lambda>c. ctBankID c \<in> own_ids bic s) cs"
proof -
  from assms(3) obtain u where u: "uuid_in i = Some u" "u \<in> own_ids bic s" by (auto simp: names_own_def)
  from assms(1) obtain rs s1 where 1: "pstmt (with_uuid i (\<lambda>u s.
      (Inr (newest_first ord ctIssuedAt (filter (\<lambda>c. ctBankID c = u) (pdCerts s))), s))) s = (Inr rs, s1)"
    and 2: "scan_rows Inr rs [] s1 = (Inr cs, s')"
    unfolding ListCertificates_def by (elim bindE_okD)
  from 1 u(1) have "rs = newest_first ord ctIssuedAt (filter (\<lambda>c. ctBankID c = u) (pdCerts s))"
    by (cases rule: pstmt_cases) (auto simp: with_uuid_def)
  then have "set rs \<subseteq> set (filter (\<lambda>c. ctBankID c = u) (pdCerts s))"
    using reordersD [OF assms(2)] by blast
  with scan_rows_sound [OF 2] u(2) show ?thesis by (fastforce simp: list_all_iff)
qed

section \<open>The handlers\<close>

lemma shown_writeError [simp]: "shown bic s (poDoc (writeError c m))"
  by (simp add: writeError_def portal_writeJSON_def)

lemma shown_serverError [simp]: "shown bic s (poDoc serverError)"
  by (simp add: serverError_def)

lemma poDoc_writeJSON [simp]: "poDoc (portal_writeJSON c d) = d"
  by (simp add: portal_writeJSON_def)

lemma db_InrD:
  assumes "db_call m p = (x, p')"
  shows "m (ptDb p) = (x, ptDb p')"
  using assms by (auto simp: db_call_def split: prod.splits)

lemma reply_shown:
  assumes "\<And>v d. m (ptDb p) = (Inr v, d) \<Longrightarrow> shown bic s (poDoc (f v))"
  shows "shown bic s (poDoc (fst (reply f (db_call m p))))"
proof -
  obtain x p' where x: "db_call m p = (x, p')" by fastforce
  from db_InrD [OF x] assms show ?thesis by (cases x) (simp_all add: x reply_def)
qed

lemma reply_hidden: "(\<And>v. shown bic s (poDoc (f v))) \<Longrightarrow> shown bic s (poDoc (fst (reply f x)))"
  by (simp add: reply_def split: prod.split sum.split)

lemma or_404_shown: "(\<And>a. v = Some a \<Longrightarrow> shown bic s (poDoc (f a))) \<Longrightarrow> shown bic s (poDoc (or_404 m f v))"
  by (cases v) (simp_all add: or_404_def)

text \<open>The caller of a bank with this BIC; the plan's open orders only reorder rows.\<close>

definition of_bank :: "portal_request \<Rightarrow> string \<Rightarrow> bool" where
  "of_bank r bic \<longleftrightarrow> IsBankRole (FromRequest r) \<and> clParticipantID (FromRequest r) = bic \<and> bic \<noteq> ''''"

definition env_ok :: "portal_env \<Rightarrow> bool" where
  "env_ok env \<longleftrightarrow> reorders (peTxOrd env) \<and> reorders (peCertOrd env)"

lemma listTransactions_shown:
  assumes "of_bank r bic" "env_ok env"
  shows "shown bic s (poDoc (fst (listTransactions env r p)))"
proof -
  have "tfBIC (tx_filter r) = bic" using assms(1) by (simp add: tx_filter_def scope_bic_def of_bank_def Let_def)
  with assms show ?thesis
    unfolding listTransactions_def
    by (intro reply_shown) (auto simp: env_ok_def of_bank_def intro: ListTransactions_shown)
qed

lemma getTransaction_shown:
  assumes "of_bank r bic"
  shows "shown bic s (poDoc (fst (getTransaction i r p)))"
  unfolding getTransaction_def
  using assms by (intro reply_hidden or_404_shown) (auto simp: txScopeCheck_def of_bank_def takes_part_def)

lemma answer_timeline_shown:
  assumes "uuid_in i = Some u" "u \<in> own_payments bic s" "same_data s (ptDb p)"
  shows "shown bic s (poDoc (fst (answer_timeline i p)))"
proof -
  have t: "timeline_rows u (ptDb p) = timeline_rows u s"
    using assms(3) by (simp add: timeline_rows_def same_data_def tables_def)
  show ?thesis
    unfolding answer_timeline_def
    using assms(1,2) t by (intro reply_shown) (fastforce simp: own_events_def dest!: GetTransactionTimeline_sound)
qed

lemma getTransactionTimeline_shown:
  assumes "of_bank r bic"
  shows "shown bic (ptDb p) (poDoc (fst (getTransactionTimeline i r p)))"
proof -
  obtain x p1 where x: "db_call (GetTransactionBICs i) p = (x, p1)" by fastforce
  note d = db_InrD [OF x]
  show ?thesis
  proof (cases "\<exists>a b. x = Inr (a, b) \<and> a \<noteq> '''' \<and> (bic = a \<or> bic = b)")
    case True
    then obtain a b where ab: "x = Inr (a, b)" "a \<noteq> ''''" "bic = a \<or> bic = b" by blast
    with d have "GetTransactionBICs i (ptDb p) = (Inr (a, b), ptDb p1)" by simp
    from GetTransactionBICs_own [OF this _ ab(3)] assms obtain u where
      u: "same_data (ptDb p) (ptDb p1)" "uuid_in i = Some u" "u \<in> own_payments bic (ptDb p)" by (auto simp: of_bank_def)
    have "fst (getTransactionTimeline i r p) = fst (answer_timeline i p1)"
      using assms x ab by (auto simp: getTransactionTimeline_def of_bank_def txScopeCheck_def)
    with answer_timeline_shown [OF u(2,3,1)] show ?thesis by simp
  next
    case False
    with assms x show ?thesis
      by (auto simp: getTransactionTimeline_def of_bank_def txScopeCheck_def split: sum.split)
  qed
qed

text \<open>Below a bank's routes, once the bank's middleware has let the request pass.\<close>

lemma names_own_row:
  assumes "names_own i bic s" "uuid_in i = Some u" "row_by bID u (pd_banks s) = Some r"
  shows "bBic r = bic"
  using assms row_by_SomeD [OF assms(3)] by (auto simp: names_own_def)

lemma getBank_shown:
  assumes "names_own i bic (ptDb p)"
  shows "shown bic s (poDoc (fst (getBank i r p)))"
proof -
  have "bkBIC k = bic" if "GetBank i (ptDb p) = (Inr (Some k), d)" for k d
  proof -
    have "registry_same (ptDb p) d" using that by (rule keepsD [OF registry.keeps_GetBank])
    with GetBank_SomeD [OF that] obtain u b where "uuid_in i = Some u" "row_by bID u (pd_banks (ptDb p)) = Some b" "k = bank_of_row b"
      by (auto simp: registry_same_def)
    with names_own_row [OF assms] show ?thesis by (simp add: bank_of_row_def)
  qed
  then show ?thesis unfolding getBank_def by (intro reply_shown or_404_shown) auto
qed

lemma UpdateBankCallback_SomeD:
  assumes "UpdateBankCallback i url s = (Inr (Some k), s')"
  shows "\<exists>u r. uuid_in i = Some u \<and> row_by bID u (pd_banks s) = Some r \<and> k = bank_of_row (r\<lparr>bCallbackUrl := nilIfEmpty url\<rparr>)"
proof -
  from assms have "pstmt (with_uuid i (\<lambda>u. bindE (update_bank (\<lambda>b. b\<lparr>bCallbackUrl := nilIfEmpty url\<rparr>) u) (\<lambda>r. okE (bank_of_row r)))) s =
      (Inr k, s')"
    by (auto simp: UpdateBankCallback_def nil_if_no_rows_def split: prod.splits sum.splits if_splits)
  then show ?thesis
  proof (cases rule: pstmt_cases)
    case (ran fs)
    then show ?thesis by (auto simp: with_uuid_def update_bank_def bindE_def pd_banks_def split: option.splits)
  qed simp
qed

lemma updateBankCallback_shown:
  assumes "names_own i bic (ptDb p)"
  shows "shown bic s (poDoc (fst (updateBankCallback env i r p)))"
proof -
  have "bkBIC k = bic" if "db_call (UpdateBankCallback i url) p = (Inr (Some k), p')" for k url p'
    using UpdateBankCallback_SomeD [OF db_InrD [OF that]] names_own_row [OF assms] by (auto simp: bank_of_row_def)
  then show ?thesis
    by (auto simp: updateBankCallback_def finish_update_def split: sum.split option.split prod.split)
qed

lemma CreateCertificate_bank:
  assumes "CreateCertificate uuid q s = (Inr c, s')"
  shows "uuid_in (ccBankID q) = Some (ctBankID c)"
  using assms unfolding CreateCertificate_def
  by (cases rule: pstmt_cases) (auto simp: with_uuid_def Let_def split: option.splits if_splits)

lemma createCertificate_shown:
  assumes "names_own i bic (ptDb p)"
  shows "shown bic (ptDb p) (poDoc (fst (createCertificate env i r p)))"
proof -
  have "ctBankID c \<in> own_ids bic (ptDb p)" if "db_call (CreateCertificate uuid q) p = (Inr c, p')" "ccBankID q = i" for uuid q c p'
    using CreateCertificate_bank [OF db_InrD [OF that(1)]] that(2) assms by (auto simp: names_own_def)
  then have "shown bic (ptDb p) (poDoc (fst (store_certificate env i x r p)))" for x
    by (auto simp: store_certificate_def split: sum.split prod.split)
  then show ?thesis by (auto simp: createCertificate_def split: sum.split option.split)
qed

lemma listCertificates_shown:
  assumes "names_own i bic (ptDb p)" "env_ok env"
  shows "shown bic (ptDb p) (poDoc (fst (listCertificates env i r p)))"
  unfolding listCertificates_def
  using assms by (intro reply_shown) (auto simp: env_ok_def dest: ListCertificates_shown)

section \<open>A whole request\<close>

fun endpoint_bank :: "endpoint \<Rightarrow> string option" where
  "endpoint_bank (EpGetBank b) = Some b"
| "endpoint_bank (EpBankStatus b) = Some b"
| "endpoint_bank (EpBankAPI b) = Some b"
| "endpoint_bank (EpBankCallback b) = Some b"
| "endpoint_bank (EpListCertificates b) = Some b"
| "endpoint_bank (EpCreateCertificate b) = Some b"
| "endpoint_bank (EpRevokeCertificate b c) = Some b"
| "endpoint_bank _ = None"

lemma endpoint_of_bank: "endpoint_of m q = Some ep \<Longrightarrow> endpoint_bank ep = Some b \<Longrightarrow> scoped_bank q = Some b \<and> b \<noteq> ''''"
  by (auto simp: endpoint_of_def banks_endpoint_def transactions_endpoint_def scoped_bank_def neq_Nil_conv
      split: list.splits if_splits)

lemma serve_endpoint_shown:
  assumes "of_bank r bic" "env_ok env" "\<And>b. endpoint_bank ep = Some b \<Longrightarrow> names_own b bic (ptDb p)"
    and "serve_endpoint env ep r p = (Some a, p')"
  shows "shown bic (ptDb p) (poDoc a)"
proof (cases "ep \<in> {EpListBanks, EpCreateBank, EpAuditLog} \<union> range EpBankStatus \<union> range EpBankAPI")
  case True
  with assms(1) have "serve_endpoint env ep r p = (Some (writeError 403 ''insufficient permissions''), p)"
    by (auto simp: serve_endpoint_def RequireRoles_def of_bank_def IsBankRole_def go_string)
  with assms(4) show ?thesis by auto
next
  case False
  have "shown bic (ptDb p) (poDoc (fst (endpoint_handler env ep r p)))"
    using False assms(1-3)
    by (cases ep)
      (auto simp: listTransactions_shown getTransaction_shown getTransactionTimeline_shown getBank_shown updateBankCallback_shown
        createCertificate_shown listCertificates_shown getMe_def getCSRFToken_def revokeCertificate_def createExport_def
        getExportStatus_def getDashboardSummary_def getAbortReasons_def listSettlementWindows_def getSettlementWindow_def Let_def
        split: prod.split sum.split option.split intro!: reply_hidden or_404_shown)
  then show ?thesis
    using assms(4) by (auto simp: serve_endpoint_def serve_def RequireRoles_def split: option.splits if_splits prod.splits)
qed

lemma shown_cong:
  assumes "registry_same s s'" "switch_untouched s s'"
  shows "shown bic s' d = shown bic s d"
proof -
  have "own_ids bic s' = own_ids bic s" using assms(1) by (simp add: own_ids_def registry_same_def)
  moreover have "own_events bic s' = own_events bic s"
    using assms(2) by (simp add: own_events_def own_payments_def timeline_rows_def pd_views_def switch_untouched_def)
  ultimately show ?thesis by (cases d) simp_all
qed

lemma route_shown:
  assumes "of_bank r bic" "env_ok env" "portal_ok (ptDb p)" "route env m q r p = (Some a, p')"
  shows "shown bic (ptDb p) (poDoc a)"
proof (cases "endpoint_of m q")
  case None
  with assms(1,4) show ?thesis
    by (auto simp: route_def bankScopeMiddleware_def Let_def split: option.splits if_splits sum.splits prod.splits)
next
  case (Some ep)
  let ?h = "serve_endpoint env ep"
  show ?thesis
  proof (cases "scoped_bank q")
    case None
    with Some assms endpoint_of_bank [OF Some] show ?thesis
      by (intro serve_endpoint_shown [of r bic env ep p a p']) (auto simp: route_def)
  next
    case (Some b)
    with \<open>endpoint_of m q = Some ep\<close> assms(4) have go: "bankScopeMiddleware b ?h r p = (Some a, p')" by (simp add: route_def)
    have "b \<noteq> ''''" using Some by (auto simp: scoped_bank_def split: list.splits if_splits)
    obtain x p1 where x: "db_call (GetBank b) p = (x, p1)" by fastforce
    have same: "registry_same (ptDb p) (ptDb p1)" "switch_untouched (ptDb p) (ptDb p1)"
      using registry.db_eq_keeps [OF registry.keeps_GetBank x] untouched.db_eq_keeps [OF untouched.keeps_GetBank x] by auto
    show ?thesis
    proof (cases "\<exists>k. x = Inr (Some k) \<and> bkBIC k = bic")
      case True
      then obtain k where k: "x = Inr (Some k)" "bkBIC k = bic" by blast
      with GetBank_own [of b p k p1] x assms(3) have "names_own b bic (ptDb p1)" by auto
      moreover have "?h r p1 = (Some a, p')"
        using go x k assms(1) \<open>b \<noteq> ''''\<close> by (simp add: bankScopeMiddleware_def of_bank_def)
      moreover have "endpoint_bank ep = Some c \<Longrightarrow> c = b" for c
        using endpoint_of_bank [OF \<open>endpoint_of m q = Some ep\<close>] Some by auto
      ultimately have "shown bic (ptDb p1) (poDoc a)" using serve_endpoint_shown [OF assms(1,2)] by blast
      with shown_cong [OF same] show ?thesis by simp
    next
      case False
      with go x assms(1) \<open>b \<noteq> ''''\<close> show ?thesis
        by (auto simp: bankScopeMiddleware_def of_bank_def split: sum.splits option.splits if_splits)
    qed
  qed
qed

lemma portal_http_shown:
  assumes "portal_http env allowedOrigin m path r p = (Some a, p')" "of_bank r bic" "env_ok env" "portal_ok (ptDb p)"
  shows "shown bic (ptDb p) (poDoc a)"
  using assms(1)
proof (cases rule: portal_http_cases)
  case outside
  then show ?thesis by auto
next
  case (routed q a')
  from routed(5) obtain x where "a' = Some x" "poDoc x = poDoc a" by (cases a') auto
  moreover have "of_bank (WithClaims (FromRequest r) r) bic" using assms(2) by (simp add: of_bank_def)
  ultimately show ?thesis using route_shown assms(3,4) routed(4) by metis
qed

end
