(* ===== verification/AuthService.thy ===== *)
theory AuthService
  imports PortalAuth
begin

text \<open>
  The authentication service (src/cmd/auth-service/main.go): the fixed users, the store of sessions and
  the three handlers the reverse proxy and the browser call. Random bytes, the order in which Go ranges
  over the map of users, the parsing of cookies and forms are inputs; the login page is its data. The
  lemmas show that a session exists only between a login with the right password and a logout, and that
  the headers of a positive answer are the claims theory \<open>PortalAuth\<close> reads.
\<close>

section \<open>Users and sessions\<close>

record User =
  usUsername :: string
  usPassword :: string
  usEmail :: string
  usName :: string
  usRole :: string
  usParticipantID :: string

definition auth_users :: "User list" where
  "auth_users =
    [\<lparr>usUsername = ''switch-admin'', usPassword = ''switchadmin'', usEmail = ''switch-admin@switch.local'',
      usName = ''Switch Admin'', usRole = ''SWITCH_ADMIN'', usParticipantID = ''''\<rparr>,
     \<lparr>usUsername = ''switch-ops'', usPassword = ''switchops'', usEmail = ''switch-ops@switch.local'',
      usName = ''Switch Ops'', usRole = ''SWITCH_OPS'', usParticipantID = ''''\<rparr>,
     \<lparr>usUsername = ''bank-admin'', usPassword = ''bankadmin'', usEmail = ''bank-admin@switch.local'',
      usName = ''Bank A Admin'', usRole = ''BANK_ADMIN'', usParticipantID = ''BANKABICX''\<rparr>,
     \<lparr>usUsername = ''bank-viewer'', usPassword = ''bankviewer'', usEmail = ''bank-viewer@switch.local'',
      usName = ''Bank A Viewer'', usRole = ''BANK_VIEWER'', usParticipantID = ''BANKABICX''\<rparr>]"

type_synonym sessions = "string \<rightharpoonup> User"

definition createSession :: "nat list \<Rightarrow> User \<Rightarrow> sessions \<Rightarrow> string \<times> sessions" where
  "createSession b user s = (let token = hex_encode b in (token, s(token \<mapsto> user)))"

definition getSession :: "string \<Rightarrow> sessions \<Rightarrow> User option" where
  "getSession token s = s token"

definition deleteSession :: "string \<Rightarrow> sessions \<Rightarrow> sessions" where
  "deleteSession token s = s(token := None)"

text \<open>\<^verbatim>\<open>strings.EqualFold\<close> for an ASCII first argument: beyond the ASCII letters only the long s
  (U+017F) and the Kelvin sign (U+212A), here in UTF-8, fold to ASCII.\<close>

fun fold_ascii :: "string \<Rightarrow> string" where
  "fold_ascii [] = []"
| "fold_ascii (a # s) =
     (case s of
        b # t \<Rightarrow>
          if a = CHR 0xC5 \<and> b = CHR 0xBF then CHR ''s'' # fold_ascii t
          else (case t of
                  c # v \<Rightarrow> if a = CHR 0xE2 \<and> b = CHR 0x84 \<and> c = CHR 0xAA then CHR ''k'' # fold_ascii v
                           else lower_char a # fold_ascii s
                | [] \<Rightarrow> lower_char a # fold_ascii s)
      | [] \<Rightarrow> [lower_char a])"

definition EqualFold :: "string \<Rightarrow> string \<Rightarrow> bool" where
  "EqualFold s t \<longleftrightarrow> ToLower s = fold_ascii t"

definition findUser :: "(User list \<Rightarrow> User list) \<Rightarrow> string \<Rightarrow> User option" where
  "findUser order loginID =
     find (\<lambda>u. EqualFold (usUsername u) loginID \<or> EqualFold (usEmail u) loginID) (order auth_users)"

section \<open>Requests and answers\<close>

record auth_input =
  auMethod :: string
  auHost :: string
  auCookies :: "(string \<times> string) list"
  auQuery :: "(string \<times> string) list"
  auForm :: "goerror + (string \<times> string) list"

type_synonym auth_request = "(unit, auth_input) http_request"

record loginPageData =
  lpError :: string
  lpRedirect :: string
  lpUsername :: string

record cookie =
  ckName :: string
  ckValue :: string
  ckPath :: string
  ckHttpOnly :: bool
  ckMaxAge :: int

datatype auth_page = NoPage | MessagePage string | LoginPage loginPageData

record auth_response =
  apCode :: int
  apHeader :: "(string \<times> string) list"
  apCookie :: "cookie option"
  apPage :: auth_page

definition Cookie :: "auth_request \<Rightarrow> string \<Rightarrow> string option" where
  "Cookie r name = map_of (auCookies (rqBody r)) name"

definition first_value :: "(string \<times> string) list \<Rightarrow> string \<Rightarrow> string" where
  "first_value vs key = (case map_of vs key of Some v \<Rightarrow> v | None \<Rightarrow> '''')"

text \<open>\<^verbatim>\<open>url.QueryEscape\<close>.\<close>

definition upper_hex :: "nat \<Rightarrow> char" where
  "upper_hex n = (if n < 10 then char_of (48 + n) else char_of (55 + n))"

definition unreserved :: "char \<Rightarrow> bool" where
  "unreserved c \<longleftrightarrow>
     (let n = (of_char c :: nat) in
      (48 \<le> n \<and> n \<le> 57) \<or> (65 \<le> n \<and> n \<le> 90) \<or> (97 \<le> n \<and> n \<le> 122) \<or> c \<in> {CHR ''-'', CHR ''_'', CHR ''.'', CHR ''~''})"

definition QueryEscape :: "string \<Rightarrow> string" where
  "QueryEscape s = concat (map (\<lambda>c. if unreserved c then [c] else if c = CHR '' '' then ''+''
     else [CHR ''%'', upper_hex (of_char c div 16), upper_hex (of_char c mod 16)]) s)"

section \<open>Handlers\<close>

definition session_user :: "auth_request \<Rightarrow> sessions \<Rightarrow> User option" where
  "session_user r s =
     (case Cookie r ''switch_session'' of
        None \<Rightarrow> None
      | Some v \<Rightarrow> if v = '''' then None else getSession v s)"

definition user_headers :: "User \<Rightarrow> (string \<times> string) list" where
  "user_headers u =
     [(''X-Authentik-Uid'', usUsername u), (''X-Authentik-Username'', usUsername u), (''X-Authentik-Name'', usName u),
      (''X-Authentik-Email'', usEmail u), (''X-Authentik-Groups'', ''admins''), (''X-User-Role'', usRole u),
      (''X-Participant-Id'', usParticipantID u)]"

definition original_uri :: "auth_request \<Rightarrow> string" where
  "original_uri r =
     (let a = Header_Get r ''X-Forwarded-Uri''; b = Header_Get r ''X-Original-Uri''; c = Header_Get r ''X-Original-Url'' in
      if a \<noteq> '''' then a else if b \<noteq> '''' then b else if c \<noteq> '''' then c else ''/portal/'')"

definition handleAuth :: "auth_request \<Rightarrow> sessions \<Rightarrow> auth_response" where
  "handleAuth r s =
     (case session_user r s of
        Some user \<Rightarrow> \<lparr>apCode = 200, apHeader = user_headers user, apCookie = None, apPage = NoPage\<rparr>
      | None \<Rightarrow>
          (let origURI = original_uri r in
           if Contains origURI ''/api/'' then
             \<lparr>apCode = 401, apHeader = [(''Content-Type'', ''application/json'')], apCookie = None,
              apPage = MessagePage ''{\"message\":\"unauthorized\"}''\<rparr>
           else
             (let p = Header_Get r ''X-Forwarded-Proto''; proto = (if p = '''' then ''http'' else p);
                  h = Header_Get r ''X-Forwarded-Host''; host = (if h = '''' then auHost (rqBody r) else h);
                  loginURL = proto @ ''://'' @ host @ ''/login'';
                  rdUrl = (if origURI \<noteq> '''' \<and> origURI \<noteq> ''/login'' \<and> origURI \<noteq> ''/logout''
                           then loginURL @ ''?rd='' @ QueryEscape origURI else loginURL) in
              \<lparr>apCode = 302, apHeader = [(''Location'', rdUrl)], apCookie = None, apPage = NoPage\<rparr>)))"

definition login_page :: "int \<Rightarrow> loginPageData \<Rightarrow> auth_response" where
  "login_page code d =
     \<lparr>apCode = code, apHeader = [(''Content-Type'', ''text/html; charset=utf-8'')], apCookie = None, apPage = LoginPage d\<rparr>"

text \<open>\<open>b\<close> are the 32 random bytes of a new session.\<close>

definition handleLogin :: "(User list \<Rightarrow> User list) \<Rightarrow> nat list \<Rightarrow> auth_request \<Rightarrow> sessions \<Rightarrow> auth_response \<times> sessions" where
  "handleLogin order b r s =
     (let m = auMethod (rqBody r); query = auQuery (rqBody r) in
      if m = ''GET'' then
        (login_page 200 \<lparr>lpError = '''', lpRedirect = first_value query ''rd'', lpUsername = ''''\<rparr>, s)
      else if m = ''POST'' then
        (case auForm (rqBody r) of
           Inl e \<Rightarrow> (login_page 400 \<lparr>lpError = ''Invalid form submission'', lpRedirect = '''', lpUsername = ''''\<rparr>, s)
         | Inr form \<Rightarrow>
             (let username = first_value (form @ query) ''username''; password = first_value (form @ query) ''password'';
                  q = first_value query ''rd''; rd = (if q = '''' then first_value (form @ query) ''rd'' else q);
                  invalid = (login_page 401 \<lparr>lpError = ''Invalid username/email or password.'', lpRedirect = rd,
                               lpUsername = username\<rparr>, s) in
              (case findUser order username of
                 None \<Rightarrow> invalid
               | Some user \<Rightarrow>
                   if usPassword user \<noteq> password then invalid
                   else (case createSession b user s of (token, s') \<Rightarrow>
                     (\<lparr>apCode = 302, apHeader = [(''Location'', if rd = '''' then ''/portal/'' else rd)],
                       apCookie = Some \<lparr>ckName = ''switch_session'', ckValue = token, ckPath = ''/'', ckHttpOnly = True,
                                        ckMaxAge = 86400\<rparr>,
                       apPage = NoPage\<rparr>, s')))))
      else (\<lparr>apCode = 200, apHeader = [], apCookie = None, apPage = NoPage\<rparr>, s))"

definition handleLogout :: "auth_request \<Rightarrow> sessions \<Rightarrow> auth_response \<times> sessions" where
  "handleLogout r s =
     (\<lparr>apCode = 302, apHeader = [(''Location'', ''/login'')],
       apCookie = Some \<lparr>ckName = ''switch_session'', ckValue = '''', ckPath = ''/'', ckHttpOnly = True, ckMaxAge = -1\<rparr>,
       apPage = NoPage\<rparr>,
      case Cookie r ''switch_session'' of None \<Rightarrow> s | Some v \<Rightarrow> deleteSession v s)"

section \<open>The service over time\<close>

text \<open>The requests in the order in which they lock the store of sessions.\<close>

datatype auth_event =
    AuthEvent auth_request
  | LoginEvent "nat list" auth_request
  | LogoutEvent auth_request

fun auth_event_step :: "(User list \<Rightarrow> User list) \<Rightarrow> auth_event \<Rightarrow> sessions \<Rightarrow> sessions" where
  "auth_event_step order (AuthEvent r) s = s"
| "auth_event_step order (LoginEvent b r) s = snd (handleLogin order b r s)"
| "auth_event_step order (LogoutEvent r) s = snd (handleLogout r s)"

definition auth_run :: "(User list \<Rightarrow> User list) \<Rightarrow> auth_event list \<Rightarrow> sessions" where
  "auth_run order es = fold (auth_event_step order) es Map.empty"

text \<open>A login that makes the session \<open>t\<close> of \<open>u\<close>, and a logout that ends \<open>t\<close>.\<close>

definition logs_in :: "string \<Rightarrow> User \<Rightarrow> auth_event \<Rightarrow> bool" where
  "logs_in t u ev \<longleftrightarrow>
     (case ev of
        LoginEvent b r \<Rightarrow>
          t = hex_encode b \<and> auMethod (rqBody r) = ''POST'' \<and>
          (case auForm (rqBody r) of
             Inl e \<Rightarrow> False
           | Inr form \<Rightarrow>
               (let vs = form @ auQuery (rqBody r); login = first_value vs ''username'' in
                (EqualFold (usUsername u) login \<or> EqualFold (usEmail u) login) \<and> first_value vs ''password'' = usPassword u))
      | _ \<Rightarrow> False)"

definition logs_out :: "string \<Rightarrow> auth_event \<Rightarrow> bool" where
  "logs_out t ev \<longleftrightarrow> (case ev of LogoutEvent r \<Rightarrow> Cookie r ''switch_session'' = Some t | _ \<Rightarrow> False)"

section \<open>Lemmas\<close>

definition permutes_users :: "(User list \<Rightarrow> User list) \<Rightarrow> bool" where
  "permutes_users order \<longleftrightarrow> set (order auth_users) = set auth_users"

lemma findUser_SomeD:
  assumes "findUser order i = Some u" "permutes_users order"
  shows "u \<in> set auth_users \<and> (EqualFold (usUsername u) i \<or> EqualFold (usEmail u) i)"
  using assms by (auto simp: findUser_def find_Some_iff permutes_users_def)

text \<open>No two users answer to the same name, so the order of the map does not matter.\<close>

lemma users_disjoint:
  assumes "u \<in> set auth_users" "v \<in> set auth_users"
    and "EqualFold (usUsername u) i \<or> EqualFold (usEmail u) i" "EqualFold (usUsername v) i \<or> EqualFold (usEmail v) i"
  shows "u = v"
proof -
  have one: "\<forall>u\<in>set auth_users. \<forall>v\<in>set auth_users.
      ToLower (usUsername u) = ToLower (usUsername v) \<or> ToLower (usUsername u) = ToLower (usEmail v) \<or>
      ToLower (usEmail u) = ToLower (usUsername v) \<or> ToLower (usEmail u) = ToLower (usEmail v) \<longrightarrow> u = v"
    by code_simp
  from bspec [OF bspec [OF one assms(1)] assms(2)] assms(3,4) show ?thesis
    unfolding EqualFold_def by auto
qed

lemma findUser_order:
  assumes "permutes_users order" "permutes_users order'"
  shows "findUser order i = findUser order' i"
proof -
  have "findUser o1 i = findUser o2 i"
    if o: "permutes_users o1" "permutes_users o2" and s: "findUser o1 i = Some u" for o1 o2 u
  proof (cases "findUser o2 i")
    case None
    with o findUser_SomeD [OF s o(1)] show ?thesis by (auto simp: findUser_def find_None_iff permutes_users_def)
  next
    case (Some v)
    from users_disjoint findUser_SomeD [OF s o(1)] findUser_SomeD [OF Some o(2)] s Some show ?thesis by metis
  qed
  with assms show ?thesis by (cases "findUser order i"; cases "findUser order' i") (metis option.distinct(1))+
qed

lemma login_session:
  assumes "permutes_users order" "snd (handleLogin order b r s) t = Some u"
  shows "s t = Some u \<or> (logs_in t u (LoginEvent b r) \<and> u \<in> set auth_users)"
  using assms(2) findUser_SomeD [OF _ assms(1)]
  by (auto simp: handleLogin_def login_page_def logs_in_def createSession_def Let_def split: if_splits sum.splits option.splits)

lemma auth_event_session:
  assumes "permutes_users order" "auth_event_step order ev s t = Some u"
  shows "(s t = Some u \<and> \<not> logs_out t ev) \<or> (logs_in t u ev \<and> u \<in> set auth_users)"
proof (cases ev)
  case (LoginEvent b r)
  with login_session [OF assms(1), of b r s t u] assms(2) show ?thesis by (auto simp: logs_out_def)
qed (use assms(2) in \<open>auto simp: logs_out_def handleLogout_def deleteSession_def split: option.splits if_splits\<close>)

text \<open>A session comes from a login with the user's password, after which nobody has logged it out.\<close>

lemma auth_run_session:
  assumes "permutes_users order" "auth_run order es t = Some u"
  shows "u \<in> set auth_users \<and> (\<exists>pre ev post. es = pre @ ev # post \<and> logs_in t u ev \<and> list_all (\<lambda>e. \<not> logs_out t e) post)"
  using assms(2)
proof (induction es rule: rev_induct)
  case (snoc e es)
  from snoc.prems have "auth_event_step order e (auth_run order es) t = Some u" by (simp add: auth_run_def)
  from auth_event_session [OF assms(1) this] show ?case
  proof
    assume a: "auth_run order es t = Some u \<and> \<not> logs_out t e"
    with snoc.IH obtain pre ev post where "u \<in> set auth_users" "es = pre @ ev # post" "logs_in t u ev"
      "list_all (\<lambda>e. \<not> logs_out t e) post" by blast
    moreover from this(2) have "es @ [e] = pre @ ev # (post @ [e])" by simp
    moreover have "list_all (\<lambda>e. \<not> logs_out t e) (post @ [e])" using a calculation(4) by simp
    ultimately show ?thesis by blast
  next
    assume "logs_in t u e \<and> u \<in> set auth_users"
    then show ?thesis by (intro conjI exI [of _ es] exI [of _ e] exI [of _ "[]"]) auto
  qed
qed (simp add: auth_run_def)

text \<open>The proxy (\<^verbatim>\<open>authResponseHeaders\<close> of src/deploy/traefik/dynamic.yaml) passes a request on with the
  headers of the answer in place of the caller's.\<close>

definition forwarded :: "auth_response \<Rightarrow> portal_request \<Rightarrow> portal_request" where
  "forwarded a r = r\<lparr>rqHeader := apHeader a @ rqHeader r, rqBody := (rqBody r)\<lparr>inClaims := None\<rparr>\<rparr>"

definition claims_of :: "User \<Rightarrow> Claims" where
  "claims_of u = \<lparr>clSub = usUsername u, clUsername = usUsername u, clRole = usRole u, clParticipantID = usParticipantID u\<rparr>"

lemma forwarded_claims:
  assumes "apCode (handleAuth r s) = 200"
  shows "\<exists>t u. Cookie r ''switch_session'' = Some t \<and> s t = Some u \<and> FromRequest (forwarded (handleAuth r s) q) = claims_of u"
proof -
  from assms obtain u where u: "session_user r s = Some u"
    by (auto simp: handleAuth_def Let_def split: option.splits if_splits)
  then have "FromRequest (forwarded (handleAuth r s) q) = claims_of u"
    by (simp add: handleAuth_def forwarded_def FromRequest_def Header_Get_def user_headers_def claims_of_def)
  with u show ?thesis by (auto simp: session_user_def getSession_def split: option.splits if_splits)
qed

lemma user_roles: "u \<in> set auth_users \<Longrightarrow> IsSwitchStaff (claims_of u) \<or> (IsBankRole (claims_of u) \<and> usParticipantID u \<noteq> '''')"
  by (auto simp: auth_users_def claims_of_def IsSwitchStaff_def IsBankRole_def go_string)

end
