(* ===== verification/PortalExamples.thy ===== *)
theory PortalExamples
  imports PortalScope AuthService Examples
begin

text \<open>
  Concrete requests to the portal and to the authentication service, on which their properties are
  exercised: two banks of src/migrations/postgres/0004_seed.sql, two transactions of which one concerns
  the first bank only, an administrator who creates a bank, a bank's user who lists transactions, and a
  session of \<^verbatim>\<open>bank-viewer\<close>.
\<close>

definition portal_bank :: "string \<Rightarrow> string \<Rightarrow> bank_row" where
  "portal_bank uuid bic = (demo_bank_row bic)\<lparr>bID := uuid, bStatus := ''PRODUCTION_ACTIVE'', bOnboardedAt := Some 0\<rparr>"

definition portal_view :: "string \<Rightarrow> string \<Rightarrow> string \<Rightarrow> txview_row" where
  "portal_view i source destination =
     \<lparr>tvPaymentID = i, tvEndToEndID = ''e2e'', tvUetr = None, tvInstructionID = None, tvSourceBic = source,
      tvSourceBankName = source, tvDestinationBic = destination, tvDestinationBankName = destination, tvAmount = 5000,
      tvCurrency = ''USD'', tvStatus = ''SETTLED'', tvAbortReason = None, tvChargeBearer = None, tvSettlementDate = None,
      tvDebtorName = None, tvCreditorName = None, tvPurposeCode = None, tvRemittanceInfo = None,
      tvCreatedAt = 62999999000000000000, tvUpdatedAt = 62999999000000000000\<rparr>"

definition portal_pdb :: pdb where
  "portal_pdb =
     \<lparr>pdPg = (empty_database [portal_bank ''a0a0a0a0-aaaa-4000-8000-000000000001'' ''BANKUS33'',
                             portal_bank ''b0b0b0b0-bbbb-4000-8000-000000000002'' ''BANKDEFF''])
        \<lparr>pg_clock := 63000000000000000000,
         txview_tbl := [portal_view ''00000000-0000-4000-8000-000000000001'' ''BANKUS33'' ''BANKDEFF'',
                        portal_view ''00000000-0000-4000-8000-000000000002'' ''BANKUS33'' ''BANKGB2L'']\<rparr>,
      pdCerts = [], pdAudit = [], pdJobs = []\<rparr>"

definition demo_portal :: portal where
  "demo_portal = \<lparr>ptDb = portal_pdb,
     ptCsrf = \<lparr>csSecret = ''secret'', csTokens = [token_key ''ann'' ''token'' \<mapsto> 64000000000000000000]\<rparr>\<rparr>"

definition demo_penv :: portal_env where
  "demo_penv =
     \<lparr>peNow = utc 63000000000000000000, peUUID = ''c0c0c0c0-cccc-4000-8000-000000000003'',
      peAuditUUID = ''d0d0d0d0-dddd-4000-8000-000000000004'', peNonce = [1, 2], peMac = (\<lambda>k d. d), peSha256 = map of_char,
      pePemDecode = (\<lambda>s. None), peParseCertificate = (\<lambda>s. Inl (ErrMsg ''malformed'')), peWindowID = (\<lambda>d. d),
      peBankOrd = (\<lambda>x. x), peCertOrd = (\<lambda>x. x), peTxOrd = (\<lambda>x. x), peAuditOrd = (\<lambda>x. x), peReasonOrd = (\<lambda>x. x),
      pePositionOrd = (\<lambda>x. x)\<rparr>"

definition claims_headers :: "string \<Rightarrow> string \<Rightarrow> string \<Rightarrow> (string \<times> string) list" where
  "claims_headers sub rol bic =
     [(''X-Authentik-Uid'', sub), (''X-User-Role'', rol), (''X-Participant-Id'', bic), (''X-Csrf-Token'', ''token'')]"

definition portal_req :: "string \<Rightarrow> string \<Rightarrow> string \<Rightarrow> json_body \<Rightarrow> portal_request" where
  "portal_req sub rol bic body =
     \<lparr>rqHeader = claims_headers sub rol bic, rqTLS = None, ctxParticipant = None, ctxIdempotencyKey = None,
      rqBody = \<lparr>inQuery = [], inClaims = None, inJson = body\<rparr>\<rparr>"

definition create_bank_req :: portal_request where
  "create_bank_req = portal_req ''ann'' ''SWITCH_ADMIN'' '''' (Inr (createBankRequest_json
     \<lparr>cqBIC = ''BANKGB2L'', cqName = ''London Clearing Bank'', cqCountry = ''GB'', cqSettlementAccount = ''GBP-NOSTRO-001'',
      cqNotes = ''''\<rparr>))"

definition suspend_req :: portal_request where
  "suspend_req = portal_req ''ann'' ''SWITCH_ADMIN'' '''' (Inr (updateStatusRequest_json
     \<lparr>uqStatus = ''SUSPENDED'', uqReason = ''audit''\<rparr>))"

definition viewer_req :: portal_request where
  "viewer_req = portal_req ''bob'' ''BANK_VIEWER'' ''BANKDEFF'' (Inl (ErrMsg ''EOF''))"

definition created :: "portal_response option \<times> portal" where
  "created = portal_http demo_penv '''' ''POST'' [''api'', ''v1'', ''banks''] create_bank_req demo_portal"

definition suspended :: "portal_response option \<times> portal" where
  "suspended = portal_http demo_penv '''' ''PATCH''
     [''portal'', ''api'', ''v1'', ''banks'', ''a0a0a0a0-aaaa-4000-8000-000000000001'', ''status''] suspend_req demo_portal"

definition listed :: "portal_response option \<times> portal" where
  "listed = portal_http demo_penv '''' ''GET'' [''api'', ''v1'', ''transactions''] viewer_req demo_portal"

lemma demo_portal_ok: "portal_ok (ptDb demo_portal)"
  by code_simp

lemma demo_created: "map bBic (pd_banks (ptDb (snd created))) = [''BANKUS33'', ''BANKDEFF'', ''BANKGB2L'']"
  by code_simp

lemma demo_banks: "map bBic (pd_banks (ptDb demo_portal)) = [''BANKUS33'', ''BANKDEFF'']"
  by code_simp

lemma demo_suspended: "map bStatus (pd_banks (ptDb (snd suspended))) = [''SUSPENDED'', ''PRODUCTION_ACTIVE'']"
  by code_simp

lemma demo_listed:
  "case fst listed of
     Some a \<Rightarrow> (case poDoc a of TransactionsDoc ts \<Rightarrow> map smPaymentID (pgData ts) = [''00000000-0000-4000-8000-000000000001''] | _ \<Rightarrow> False)
   | None \<Rightarrow> False"
  by code_simp

lemma demo_env_ok: "env_ok demo_penv"
  by (simp add: env_ok_def reorders_def demo_penv_def)

lemma viewer_of_bank: "of_bank viewer_req ''BANKDEFF''"
  by (simp add: of_bank_def viewer_req_def portal_req_def claims_headers_def FromRequest_def Header_Get_def IsBankRole_def go_string)

section \<open>A session\<close>

definition auth_req :: "string \<Rightarrow> (string \<times> string) list \<Rightarrow> (string \<times> string) list \<Rightarrow> auth_request" where
  "auth_req m cookies form =
     \<lparr>rqHeader = [], rqTLS = None, ctxParticipant = None, ctxIdempotencyKey = None,
      rqBody = \<lparr>auMethod = m, auHost = ''switch.local'', auCookies = cookies, auQuery = [], auForm = Inr form\<rparr>\<rparr>"

definition viewer_session :: "auth_event list" where
  "viewer_session =
     [LoginEvent [1, 171] (auth_req ''POST'' [] [(''username'', ''Bank-Viewer''), (''password'', ''wrong'')]),
      LoginEvent [2, 171] (auth_req ''POST'' [] [(''username'', ''Bank-Viewer''), (''password'', ''bankviewer'')]),
      LogoutEvent (auth_req ''GET'' [(''switch_session'', ''01ab'')] [])]"

definition viewer_cookie :: auth_request where
  "viewer_cookie = auth_req ''GET'' [(''switch_session'', ''02ab'')] []"

lemma demo_authenticated: "apCode (handleAuth viewer_cookie (auth_run (\<lambda>us. us) viewer_session)) = 200"
  by code_simp

end
