(* ===== verification/Deploy.thy ===== *)
theory Deploy
  imports Config
begin

text \<open>
  Which services run in process and which behind gRPC makes no difference to a payment: a simulation
  between two step lists (\<open>sims\<close>) carries a run of one to a run of the other, and the assembly of
  \<^verbatim>\<open>main\<close> under any configuration simulates the in-process one (\<open>gateway_ports\<close>) when the
  connections lead to the services. Only the text of errors differs: gRPC adds its own prefix.
\<close>

section \<open>Simulation of steps\<close>

text \<open>From every world in \<open>I\<close> the steps fail or succeed together and leave the same payment and world, in \<open>J\<close> on
  success.\<close>

definition step_sim :: "('w \<Rightarrow> bool) \<Rightarrow> 'w Step \<Rightarrow> 'w Step \<Rightarrow> ('w \<Rightarrow> bool) \<Rightarrow> bool" where
  "step_sim I st st' J \<longleftrightarrow> Compensate st = Compensate st' \<and>
     (\<forall>p w r p1 w1. I w \<longrightarrow> Execute st' p w = (r, p1, w1) \<longrightarrow>
        (\<exists>r'. Execute st p w = (r', p1, w1) \<and> (r' = None \<longleftrightarrow> r = None)) \<and> (r = None \<longrightarrow> J w1))"

inductive sims :: "('w \<Rightarrow> bool) \<Rightarrow> 'w Step list \<Rightarrow> 'w Step list \<Rightarrow> bool" where
  sims_nil: "sims I [] []"
| sims_cons: "step_sim I st st' J \<Longrightarrow> sims J sts sts' \<Longrightarrow> sims I (st # sts) (st' # sts')"

lemma step_sim_refl: "(\<And>p w p1 w1. I w \<Longrightarrow> Execute st p w = (None, p1, w1) \<Longrightarrow> J w1) \<Longrightarrow> step_sim I st st J"
  unfolding step_sim_def by blast

lemma compensate_all_map: "map Compensate xs = map Compensate ys \<Longrightarrow> compensate_all xs p w = compensate_all ys p w"
proof (induction xs arbitrary: ys p w)
  case (Cons x xs)
  then obtain y ys' where "ys = y # ys'" "Compensate x = Compensate y" "map Compensate xs = map Compensate ys'" by auto
  with Cons.IH show ?case by (auto split: prod.splits)
qed simp

lemma sims_run_loop:
  assumes "sims I sts sts'" "I w" "map Compensate done' = map Compensate done0"
    and "run_loop sts' done0 n p w = (r, m, p1, w1)"
  shows "\<exists>r'. run_loop sts done' n p w = (r', m, p1, w1) \<and> (r' = None \<longleftrightarrow> r = None)"
  using assms
proof (induction arbitrary: w done' done0 n p rule: sims.induct)
  case (sims_cons I st st' J sts sts')
  obtain x p2 w2 where e: "Execute st' p w = (x, p2, w2)" by (cases "Execute st' p w") auto
  with sims_cons.hyps(1) sims_cons.prems(1) obtain x' where
    e': "Execute st p w = (x', p2, w2)" "x' = None \<longleftrightarrow> x = None" "x = None \<Longrightarrow> J w2" and c: "Compensate st = Compensate st'"
    unfolding step_sim_def by metis
  show ?case
  proof (cases x)
    case None
    with e e' sims_cons.prems(3) have "run_loop sts' (done0 @ [st']) (n + 1) p2 w2 = (r, m, p1, w1)"
      by (simp add: execStep_def)
    from sims_cons.IH [OF e'(3) [OF None] _ this, of "done' @ [st]"] c sims_cons.prems(2) None e' show ?thesis
      by (simp add: execStep_def)
  next
    case (Some err)
    then obtain err' where "x' = Some err'" using e'(2) by (cases x') auto
    moreover have "rollback p2 done' w2 = rollback p2 done0 w2"
      unfolding rollback_def by (rule compensate_all_map) (use sims_cons.prems(2) in \<open>simp add: rev_map [symmetric]\<close>)
    ultimately show ?thesis using Some e e'(1) sims_cons.prems(3) by (auto simp: execStep_def split: prod.splits)
  qed
qed auto

lemma sims_Run:
  assumes "sims I sts sts'" "I w" "Run (New_saga sts') p w = (r, s, p1, w1)"
  shows "\<exists>r' s'. Run (New_saga sts) p w = (r', s', p1, w1) \<and> (r' = None \<longleftrightarrow> r = None) \<and> completedSteps s' = completedSteps s"
proof -
  obtain x m p2 w2 where l: "run_loop sts' [] 0 p w = (x, m, p2, w2)" by (cases "run_loop sts' [] 0 p w") auto
  with assms(3) have "x = r" "p2 = p1" "w2 = w1" "completedSteps s = m" by (auto simp: Run_def New_saga_def)
  with sims_run_loop [OF assms(1,2) _ l, of "[]"] show ?thesis by (auto simp: Run_def New_saga_def)
qed

section \<open>Connections that lead to the services\<close>

definition lookup_here :: "string \<Rightarrow> (switch, BankInfo) call" where
  "lookup_here bic w = (case lookup_server_ResolveBIC None (swBanks w) bic () of (r, _) \<Rightarrow> (r, w))"

definition services_behind :: "quote_env \<Rightarrow> dials \<Rightarrow> bool" where
  "services_behind env net \<longleftrightarrow> (\<forall>a.
     pred_option (\<lambda>rpc. delivers rpc compliance_server_Screen) (dlCompliance net a) \<and>
     pred_option (\<lambda>rpc. delivers rpc lookup_here) (dlLookup net a) \<and>
     pred_option (\<lambda>rpc. delivers rpc (\<lambda>q. lift swWindow swWindow_update (SubmitForSettlement q))) (dlSettlement net a) \<and>
     pred_option (\<lambda>rpc. delivers rpc (\<lambda>q. lift swQuotes swQuotes_update (quoting_server_GetQuote env q))) (dlQuoting net a) \<and>
     pred_option (\<lambda>rpc. delivers rpc (\<lambda>q. lift swNotify swNotify_update (notification_server_Notify q))) (dlNotification net a) \<and>
     pred_option (\<lambda>rpc. delivers rpc (\<lambda>q. lift swRoutes swRoutes_update (routing_server_FindRoute q))) (dlRouting net a) \<and>
     pred_option (\<lambda>rpc. delivers rpc (\<lambda>q. lift swRecon swRecon_update (recon_server_AddRecord q))) (dlReconciliation net a))"

text \<open>The estimates of the route table fit in the message's 32 bits.\<close>

definition routes_fit :: "switch \<Rightarrow> bool" where
  "routes_fit w \<longleftrightarrow> list_all (\<lambda>r. - (2 ^ 31) \<le> sint (rtEstimatedMs r) \<and> sint (rtEstimatedMs r) < 2 ^ 31) (swRoutes w)"

lemma delivers_lift:
  assumes "delivers rpc (\<lambda>q. lift get upd (srv q))"
  shows "rpc q w = lift get upd (loopback srv q) w"
  by (simp add: deliversD [OF assms] lift_def loopback_def split: prod.splits sum.splits)

text \<open>\<open>tagged\<close>: an answer that came over gRPC.\<close>

definition tagged :: "(goerror + 'a) \<times> 'w \<Rightarrow> (goerror + 'a) \<times> 'w" where
  "tagged x = (case x of (Inl e, w) \<Rightarrow> (Inl (grpc_error e), w) | (Inr a, w) \<Rightarrow> (Inr a, w))"

lemma lookup_over_grpc:
  assumes "delivers rpc lookup_here"
  shows "lookup_client_ResolveBIC rpc bic w = tagged (case ResolveBIC None (swBanks w) bic () of (r, _) \<Rightarrow> (r, w))"
  by (simp add: lookup_client_ResolveBIC_def deliversD [OF assms] lookup_here_def lookup_server_ResolveBIC_def
      ResolveBIC_def tagged_def split: prod.splits sum.splits)

lemma routing_over_grpc:
  assumes "delivers rpc (\<lambda>q. lift swRoutes swRoutes_update (routing_server_FindRoute q))" "routes_fit w"
  shows "routing_client_FindRoute rpc sb db ccy w = tagged (lift swRoutes swRoutes_update (FindRoute sb db ccy) w)"
proof -
  have "routing_client_FindRoute rpc sb db ccy w =
      lift swRoutes swRoutes_update (routing_client_FindRoute (loopback routing_server_FindRoute) sb db ccy) w"
    by (simp add: routing_client_FindRoute_def delivers_lift [OF assms(1)] lift_def split: prod.splits sum.splits)
  also have "\<dots> = tagged (lift swRoutes swRoutes_update (FindRoute sb db ccy) w)"
    using assms(2) by (simp add: lift_def routing_client_FindRoute_eq [OF delivers_loopback] routes_fit_def list_all_iff
        tagged_def split: prod.splits sum.splits)
  finally show ?thesis .
qed

lemma quoting_over_grpc:
  assumes "delivers rpc (\<lambda>q. lift swQuotes swQuotes_update (quoting_server_GetQuote env q))"
  shows "quoting_client_GetQuote rpc sb db m ccy w = tagged (lift swQuotes swQuotes_update (GetQuote env sb db m ccy) w)"
proof -
  have "quoting_client_GetQuote rpc sb db m ccy w =
      lift swQuotes swQuotes_update (quoting_client_GetQuote (loopback (quoting_server_GetQuote env)) sb db m ccy) w"
    by (simp add: quoting_client_GetQuote_def delivers_lift [OF assms] lift_def split: prod.splits sum.splits)
  then show ?thesis
    by (auto simp: lift_def quoting_client_GetQuote_eq [OF delivers_loopback] tagged_def split: prod.splits sum.splits)
qed

lemma screening_over_grpc:
  "delivers rpc compliance_server_Screen \<Longrightarrow> compliance_client_Screen rpc p w = tagged (Screen p w)"
  by (simp add: compliance_client_Screen_eq tagged_def)

lemma notification_over_grpc:
  assumes "delivers rpc (\<lambda>q. lift swNotify swNotify_update (notification_server_Notify q))"
  shows "notification_client_Notify rpc b ch t bd i st w = lift swNotify swNotify_update (Notify b ch t bd i st) w"
proof -
  have "notification_client_Notify rpc b ch t bd i st w =
      lift swNotify swNotify_update (notification_client_Notify (loopback notification_server_Notify) b ch t bd i st) w"
    by (simp add: notification_client_Notify_def delivers_lift [OF assms] lift_def split: prod.splits)
  then show ?thesis by (simp add: lift_def notification_client_Notify_eq [OF delivers_loopback])
qed

lemma reconciliation_over_grpc:
  assumes "delivers rpc (\<lambda>q. lift swRecon swRecon_update (recon_server_AddRecord q))"
  shows "recon_client_AddRecord rpc i sb db m ccy st w = lift swRecon swRecon_update (AddRecord i sb db m ccy st) w"
proof -
  have "recon_client_AddRecord rpc i sb db m ccy st w =
      lift swRecon swRecon_update (recon_client_AddRecord (loopback recon_server_AddRecord) i sb db m ccy st) w"
    by (simp add: recon_client_AddRecord_def delivers_lift [OF assms] lift_def split: prod.splits)
  then show ?thesis by (simp add: lift_def recon_client_AddRecord_eq [OF delivers_loopback])
qed

section \<open>The steps over agreeing clients\<close>

definition agrees :: "(goerror + 'a) \<times> 'w \<Rightarrow> (goerror + 'a) \<times> 'w \<Rightarrow> bool" where
  "agrees x y \<longleftrightarrow> x = y \<or> x = tagged y"

lemma agrees_cases:
  assumes "agrees x y"
  obtains (error) e e' w where "x = (Inl e, w)" "y = (Inl e', w)" | (answer) a w where "x = (Inr a, w)" "y = (Inr a, w)"
proof (cases y)
  case (Pair r w)
  with assms that show thesis by (cases r) (auto simp: agrees_def tagged_def)
qed

text \<open>What a step must keep for the steps after it.\<close>

definition step_keeps :: "('w \<Rightarrow> bool) \<Rightarrow> 'w Step \<Rightarrow> ('w \<Rightarrow> bool) \<Rightarrow> bool" where
  "step_keeps I st J \<longleftrightarrow> (\<forall>p w p1 w1. I w \<longrightarrow> Execute st p w = (None, p1, w1) \<longrightarrow> J w1)"

lemma LookupStep_sim:
  assumes "\<And>bic w. agrees (c bic w) (c' bic w)" "step_keeps I (LookupStep c' repo) J"
  shows "step_sim I (LookupStep c repo) (LookupStep c' repo) J"
  unfolding step_sim_def
proof (intro conjI allI impI)
  fix p w r p1 w1
  assume i: "I w" and e: "Execute (LookupStep c' repo) p w = (r, p1, w1)"
  from assms(1) [of "pDestinationBIC p" w] e show "\<exists>r'. Execute (LookupStep c repo) p w = (r', p1, w1) \<and> (r' = None \<longleftrightarrow> r = None)"
    by (cases rule: agrees_cases) (auto simp: LookupStep_def LookupStep_Execute_def)
  show "r = None \<Longrightarrow> J w1" using assms(2) i e by (auto simp: step_keeps_def)
qed (simp add: LookupStep_def)

lemma RouteStep_sim:
  assumes "\<And>sb db ccy w. I w \<Longrightarrow> agrees (c sb db ccy w) (c' sb db ccy w)" "step_keeps I (RouteStep c' repo) J"
  shows "step_sim I (RouteStep c repo) (RouteStep c' repo) J"
  unfolding step_sim_def
proof (intro conjI allI impI)
  fix p w r p1 w1
  assume i: "I w" and e: "Execute (RouteStep c' repo) p w = (r, p1, w1)"
  from assms(1) [OF i, of "pSourceBIC p" "pDestinationBIC p" "pCurrency p"] e
  show "\<exists>r'. Execute (RouteStep c repo) p w = (r', p1, w1) \<and> (r' = None \<longleftrightarrow> r = None)"
    by (cases rule: agrees_cases) (auto simp: RouteStep_def RouteStep_Execute_def)
  show "r = None \<Longrightarrow> J w1" using assms(2) i e by (auto simp: step_keeps_def)
qed (simp add: RouteStep_def)

lemma QuoteStep_sim:
  assumes "\<And>sb db m ccy w. agrees (c sb db m ccy w) (c' sb db m ccy w)" "step_keeps I (QuoteStep c' repo) J"
  shows "step_sim I (QuoteStep c repo) (QuoteStep c' repo) J"
  unfolding step_sim_def
proof (intro conjI allI impI)
  fix p w r p1 w1
  assume i: "I w" and e: "Execute (QuoteStep c' repo) p w = (r, p1, w1)"
  from assms(1) [of "pSourceBIC p" "pDestinationBIC p" "pAmount p" "pCurrency p" w] e
  show "\<exists>r'. Execute (QuoteStep c repo) p w = (r', p1, w1) \<and> (r' = None \<longleftrightarrow> r = None)"
    by (cases rule: agrees_cases) (auto simp: QuoteStep_def QuoteStep_Execute_def)
  show "r = None \<Longrightarrow> J w1" using assms(2) i e by (auto simp: step_keeps_def)
qed (simp add: QuoteStep_def)

lemma ScreenStep_sim:
  assumes "\<And>p w. agrees (c p w) (c' p w)" "step_keeps I (ScreenStep c' repo) J"
  shows "step_sim I (ScreenStep c repo) (ScreenStep c' repo) J"
  unfolding step_sim_def
proof (intro conjI allI impI)
  fix p w r p1 w1
  assume i: "I w" and e: "Execute (ScreenStep c' repo) p w = (r, p1, w1)"
  from assms(1) [of p w] e show "\<exists>r'. Execute (ScreenStep c repo) p w = (r', p1, w1) \<and> (r' = None \<longleftrightarrow> r = None)"
    by (cases rule: agrees_cases) (auto simp: ScreenStep_def ScreenStep_Execute_def)
  show "r = None \<Longrightarrow> J w1" using assms(2) i e by (auto simp: step_keeps_def)
qed (simp add: ScreenStep_def)

lemma same_sim: "step_keeps I st J \<Longrightarrow> step_sim I st st J"
  by (auto simp: step_keeps_def intro: step_sim_refl)

lemma sims_same: "sims (\<lambda>_. True) sts sts"
  by (induction sts) (auto intro: sims.intros step_sim_refl)

lemma keeps_True: "step_keeps I st (\<lambda>_. True)"
  by (simp add: step_keeps_def)

section \<open>The assembly under any configuration\<close>

lemma before_routing_keeps_routes:
  "step_keeps routes_fit (ValidateStep (portRepo (gateway_ports env))) routes_fit"
  "step_keeps routes_fit (LookupStep (portLookup (gateway_ports env)) (portRepo (gateway_ports env))) routes_fit"
  by (auto simp: step_keeps_def ValidateStep_def ValidateStep_Execute_def LookupStep_def LookupStep_Execute_def
      set_status_def lift_def routes_fit_def gateway_ports_def lift_repo_sel
      split: if_splits prod.splits option.splits sum.splits)

lemma resolved:
  assumes "(if a \<noteq> '''' then map_option f dialled else Some l) = Some x" "pred_option Q dialled"
  obtains (remote) rpc where "x = f rpc" "Q rpc" | (here) "x = l"
  using assms by (auto split: if_splits)

lemma services_behindD:
  assumes "services_behind env net"
  shows "pred_option (\<lambda>rpc. delivers rpc compliance_server_Screen) (dlCompliance net a)"
    "pred_option (\<lambda>rpc. delivers rpc lookup_here) (dlLookup net a)"
    "pred_option (\<lambda>rpc. delivers rpc (\<lambda>q. lift swWindow swWindow_update (SubmitForSettlement q))) (dlSettlement net a)"
    "pred_option (\<lambda>rpc. delivers rpc (\<lambda>q. lift swQuotes swQuotes_update (quoting_server_GetQuote env q))) (dlQuoting net a)"
    "pred_option (\<lambda>rpc. delivers rpc (\<lambda>q. lift swNotify swNotify_update (notification_server_Notify q))) (dlNotification net a)"
    "pred_option (\<lambda>rpc. delivers rpc (\<lambda>q. lift swRoutes swRoutes_update (routing_server_FindRoute q))) (dlRouting net a)"
    "pred_option (\<lambda>rpc. delivers rpc (\<lambda>q. lift swRecon swRecon_update (recon_server_AddRecord q))) (dlReconciliation net a)"
  using assms unfolding services_behind_def by blast+

lemma gateway_clients:
  "portLookup (gateway_ports env) = (\<lambda>bic w. case ResolveBIC None (swBanks w) bic () of (r, _) \<Rightarrow> (r, w))"
  "portRouting (gateway_ports env) = (\<lambda>sb db ccy. lift swRoutes swRoutes_update (FindRoute sb db ccy))"
  "portQuoting (gateway_ports env) = (\<lambda>sb db m ccy. lift swQuotes swQuotes_update (GetQuote env sb db m ccy))"
  "portCompliance (gateway_ports env) = Screen"
  "portNotification (gateway_ports env) = (\<lambda>b ch t bd i st. lift swNotify swNotify_update (Notify b ch t bd i st))"
  "portReconciliation (gateway_ports env) = (\<lambda>i sb db m ccy st. lift swRecon swRecon_update (AddRecord i sb db m ccy st))"
  by (simp_all add: gateway_ports_def)

lemma configured_clients:
  assumes "services_behind env net" "main_ports env cfg net mock = Some P"
  shows "agrees (portLookup P bic w) (portLookup (gateway_ports env) bic w)"
    "routes_fit w \<Longrightarrow> agrees (portRouting P sb db ccy w) (portRouting (gateway_ports env) sb db ccy w)"
    "agrees (portQuoting P sb db m ccy w) (portQuoting (gateway_ports env) sb db m ccy w)"
    "agrees (portCompliance P p w) (portCompliance (gateway_ports env) p w)"
    "portNotification P = portNotification (gateway_ports env)"
    "portReconciliation P = portReconciliation (gateway_ports env)"
    "cfSettlementAddr cfg \<noteq> '''' \<Longrightarrow> portSettlement P = portSettlement (gateway_ports env)"
proof -
  note s = services_behindD [OF assms(1)]
  note c = assms(2) [THEN main_ports_SomeE]
  have l: "resolveLookupClient cfg net = Some (portLookup P)" and r: "resolveRoutingClient cfg net = Some (portRouting P)"
    and q: "resolveQuotingClient env cfg net = Some (portQuoting P)" and sc: "resolveComplianceClient cfg net = Some (portCompliance P)"
    and n: "resolveNotificationClient cfg net = Some (portNotification P)" and rc: "resolveReconciliationClient cfg net = Some (portReconciliation P)"
    and st: "portSettlement P = (if cfSettlementAddr cfg \<noteq> '''' then resolveSettlementClient cfg net else None)"
      "cfSettlementAddr cfg \<noteq> '''' \<Longrightarrow> resolveSettlementClient cfg net \<noteq> None"
    by (rule c, assumption)+
  show "agrees (portLookup P bic w) (portLookup (gateway_ports env) bic w)"
    by (rule resolved [OF l [unfolded resolveLookupClient_def] s(2)])
       (simp_all only: agrees_def gateway_clients lookup_over_grpc simp_thms)
  show "routes_fit w \<Longrightarrow> agrees (portRouting P sb db ccy w) (portRouting (gateway_ports env) sb db ccy w)"
    by (rule resolved [OF r [unfolded resolveRoutingClient_def] s(6)])
       (simp_all only: agrees_def gateway_clients routing_over_grpc simp_thms)
  show "agrees (portQuoting P sb db m ccy w) (portQuoting (gateway_ports env) sb db m ccy w)"
    by (rule resolved [OF q [unfolded resolveQuotingClient_def] s(4)])
       (simp_all only: agrees_def gateway_clients quoting_over_grpc simp_thms)
  show "agrees (portCompliance P p w) (portCompliance (gateway_ports env) p w)"
    by (rule resolved [OF sc [unfolded resolveComplianceClient_def] s(1)])
       (simp_all only: agrees_def gateway_clients screening_over_grpc simp_thms)
  show "portNotification P = portNotification (gateway_ports env)"
    by (rule resolved [OF n [unfolded resolveNotificationClient_def] s(5)])
       (simp_all only: fun_eq_iff gateway_clients notification_over_grpc simp_thms)
  show "portReconciliation P = portReconciliation (gateway_ports env)"
    by (rule resolved [OF rc [unfolded resolveReconciliationClient_def] s(7)])
       (simp_all only: fun_eq_iff gateway_clients reconciliation_over_grpc simp_thms)
  show "portSettlement P = portSettlement (gateway_ports env)" if a: "cfSettlementAddr cfg \<noteq> ''''"
  proof -
    from st a obtain rpc where rpc: "dlSettlement net (cfSettlementAddr cfg) = Some rpc" "portSettlement P = Some (settlement_Submit rpc)"
      by (auto simp: resolveSettlementClient_def)
    with s(3) [of "cfSettlementAddr cfg"] have "delivers rpc (\<lambda>q. lift swWindow swWindow_update (SubmitForSettlement q))" by simp
    then have "settlement_Submit rpc = settlement_Submit (\<lambda>q. lift swWindow swWindow_update (loopback SubmitForSettlement q))"
      by (simp add: settlement_Submit_def fun_eq_iff delivers_lift)
    with rpc(2) show ?thesis by (simp add: gateway_ports_def)
  qed
qed

lemma configured_steps_sim:
  assumes "services_behind env net" "main_ports env cfg net mock = Some P" "cfBankAPIEnabled cfg" "cfSettlementAddr cfg \<noteq> ''''"
  shows "sims routes_fit (gateway_steps P) (gateway_steps (gateway_ports env))"
proof -
  note c = configured_clients [OF assms(1,2)]
  have repo: "portRepo P = portRepo (gateway_ports env)" and bank: "portBank P = portBank (gateway_ports env)"
    using assms(2,3) by (auto elim!: main_ports_SomeE simp: main_bank_def)
  note k = before_routing_keeps_routes [of env]
  show ?thesis
    unfolding gateway_steps_def repo bank c(5,6) c(7) [OF assms(4)] append_Cons append_Nil
    by (intro sims_cons [OF same_sim [OF k(1)]] sims_cons [OF LookupStep_sim [OF c(1) k(2)]]
        sims_cons [OF RouteStep_sim [OF c(2) keeps_True]] sims_cons [OF QuoteStep_sim [OF c(3) keeps_True]]
        sims_cons [OF ScreenStep_sim [OF c(4) keeps_True]] sims_same)
qed

text \<open>A loaded configuration, whatever it makes remote, runs payments as the assembly in one process does.\<close>

lemma configured_run:
  assumes "Load v = Inr cfg" "empty_is_unset v" "services_behind env net" "main_saga env cfg net mock = Some sg"
    and "cfBankAPIEnabled cfg" "routes_fit w"
  shows "\<exists>r' s' r s p1 w1. Run sg p w = (r', s', p1, w1) \<and> Run (gateway_saga env) p w = (r, s, p1, w1) \<and>
    (r' = None \<longleftrightarrow> r = None) \<and> completedSteps s' = completedSteps s"
proof -
  from assms(4) obtain P where P: "main_ports env cfg net mock = Some P" "sg = New_saga (gateway_steps P)" by (auto simp: main_saga_def)
  obtain r s p1 w1 where g: "Run (gateway_saga env) p w = (r, s, p1, w1)" by (cases "Run (gateway_saga env) p w") auto
  from sims_Run [OF configured_steps_sim [OF assms(3) P(1) assms(5) Load_addresses(3) [OF assms(1,2)]] assms(6)
      g [unfolded gateway_saga_def]] g P(2) show ?thesis by blast
qed

lemma configured_steps:
  assumes "Load v = Inr cfg" "empty_is_unset v" "main_saga env cfg net mock = Some sg"
  shows "length (sagaSteps sg) = 10"
  using settlement_always_configured [OF assms(1,2)] assms(3) by (auto simp: main_saga_def New_saga_def)

section \<open>A deployment\<close>

text \<open>Every address leads to the service in the same world, and the environment sets one address and one switch.\<close>

definition loop_net :: "quote_env \<Rightarrow> dials" where
  "loop_net env =
     \<lparr>dlCompliance = (\<lambda>_. Some (loopback compliance_server_Screen)),
      dlLookup = (\<lambda>_. Some (loopback lookup_here)),
      dlSettlement = (\<lambda>_. Some (loopback (\<lambda>q. lift swWindow swWindow_update (SubmitForSettlement q)))),
      dlQuoting = (\<lambda>_. Some (loopback (\<lambda>q. lift swQuotes swQuotes_update (quoting_server_GetQuote env q)))),
      dlNotification = (\<lambda>_. Some (loopback (\<lambda>q. lift swNotify swNotify_update (notification_server_Notify q)))),
      dlRouting = (\<lambda>_. Some (loopback (\<lambda>q. lift swRoutes swRoutes_update (routing_server_FindRoute q)))),
      dlReconciliation = (\<lambda>_. Some (loopback (\<lambda>q. lift swRecon swRecon_update (recon_server_AddRecord q))))\<rparr>"

lemma loop_net_behind: "services_behind env (loop_net env)"
  by (simp add: services_behind_def loop_net_def delivers_loopback)

definition demo_viper :: viper where
  "demo_viper =
     \<lparr>vpText = (\<lambda>k d. if k = ''ROUTING_ADDR'' then ''routing-service:9090'' else case d of None \<Rightarrow> '''' | Some t \<Rightarrow> t),
      vpBool = (\<lambda>k d. Inr (k = ''BANK_API_ENABLED'' \<or> d)), vpSlice = (\<lambda>_ _. [])\<rparr>"

definition demo_config :: Config where
  "demo_config = projr (Load demo_viper)"

lemma demo_config_loaded: "Load demo_viper = Inr demo_config" "cfBankAPIEnabled demo_config"
  by (simp_all add: demo_config_def Load_def demo_viper_def)

lemma demo_viper_ok: "empty_is_unset demo_viper"
  by (simp add: empty_is_unset_def demo_viper_def)

lemma demo_addresses:
  "cfRoutingAddr demo_config = ''routing-service:9090''" "cfNotificationAddr demo_config = ''''"
  by (simp_all add: demo_config_def Load_def demo_viper_def)

end
