(* ===== verification/Ledger.thy ===== *)
theory Ledger
  imports Settlement Calendar
begin

text \<open>
  The settlement ledger: the Scylla table of src/migrations/scylla/0001_ledger.cql, its driver-level store
  (src/pkg/ledger/scylla.go) and the adapter through which a settled window writes to it
  (src/cmd/settlement-service/main.go). A row is identified by participant, day, payment and creation
  time in milliseconds; inserting one with the same key overwrites it. The text of a UUID is marshalled by
  the driver (\<open>uuid\<close>). Statements fail as the fault list says. The lemmas show what is read back,
  that an overwritten row is lost, and that the net positions of a window never reach the table.
\<close>

section \<open>scylla.go\<close>

record Entry =
  leParticipantID :: string
  leDateBucket :: string
  lePaymentID :: string
  leEventType :: string
  lePayload :: string
  leCreatedAt :: time

text \<open>\<open>lgClock\<close> are the readings of the clock to come.\<close>

record ledger_db =
  lgRows :: "Entry list"
  lgFaults :: "goerror option list"
  lgClock :: "time list"

definition cql :: "(ledger_db, 'a) call \<Rightarrow> (ledger_db, 'a) call" where
  "cql body s =
     (let s' = s\<lparr>lgFaults := tl (lgFaults s)\<rparr> in
      case lgFaults s of Some e # _ \<Rightarrow> (Inl e, s') | _ \<Rightarrow> body s')"

definition cql_timestamp :: "time \<Rightarrow> time" where
  "cql_timestamp t = Truncate t 1000000"

definition ledger_key :: "Entry \<Rightarrow> string \<times> string \<times> string \<times> time" where
  "ledger_key e = (leParticipantID e, leDateBucket e, lePaymentID e, leCreatedAt e)"

definition Append :: "(string \<Rightarrow> string option) \<Rightarrow> Entry \<Rightarrow> ledger_db \<Rightarrow> goerror option \<times> ledger_db" where
  "Append uuid entry s =
     (case uuid (lePaymentID entry) of
        None \<Rightarrow> (Some (ErrMsg ''can not marshal string into uuid''), s)
      | Some u \<Rightarrow>
          (let e = entry\<lparr>lePaymentID := u, leCreatedAt := cql_timestamp (leCreatedAt entry)\<rparr> in
           case cql (\<lambda>s. (Inr (), s\<lparr>lgRows := filter (\<lambda>r. ledger_key r \<noteq> ledger_key e) (lgRows s) @ [e]\<rparr>)) s of
             (r, s') \<Rightarrow> (err_of r, s')))"

text \<open>\<open>ord\<close> is the clustering order of a partition. The error of \<^verbatim>\<open>iter.Close\<close> comes with
  the entries read before it.\<close>

fun iter_scan :: "Entry list \<Rightarrow> Entry list \<Rightarrow> ledger_db \<Rightarrow> (Entry list \<times> goerror option) \<times> ledger_db" where
  "iter_scan [] acc s = (case cql (okE ()) s of (r, s') \<Rightarrow> ((acc, err_of r), s'))"
| "iter_scan (e # es) acc s =
     (case cql (okE ()) s of
        (Inl err, s') \<Rightarrow> ((acc, Some err), s')
      | (Inr _, s') \<Rightarrow> iter_scan es (acc @ [e]) s')"

definition GetByParticipant ::
  "(Entry list \<Rightarrow> Entry list) \<Rightarrow> string \<Rightarrow> string \<Rightarrow> ledger_db \<Rightarrow> (Entry list \<times> goerror option) \<times> ledger_db" where
  "GetByParticipant ord participantID dateBucket s =
     iter_scan (ord (filter (\<lambda>e. leParticipantID e = participantID \<and> leDateBucket e = dateBucket) (lgRows s))) [] s"

section \<open>cmd/settlement-service/main.go\<close>

definition read_clock :: "ledger_db \<Rightarrow> time \<times> ledger_db" where
  "read_clock s = (case lgClock s of [] \<Rightarrow> (0, s) | t # ts \<Rightarrow> (t, s\<lparr>lgClock := ts\<rparr>))"

definition adapter_WriteSettlement :: "(string \<Rightarrow> string option) \<Rightarrow> ledger_db LedgerWriter" where
  "adapter_WriteSettlement uuid bic paymentID eventType payload amount s =
     (case read_clock s of (t1, s1) \<Rightarrow>
      case read_clock s1 of (t2, s2) \<Rightarrow>
        Append uuid \<lparr>leParticipantID = bic, leDateBucket = Format_date (utc t1), lePaymentID = paymentID,
          leEventType = eventType, lePayload = payload, leCreatedAt = t2\<rparr> s2)"

definition service_window :: "(string \<Rightarrow> string option) \<Rightarrow> bool \<Rightarrow> ledger_db Window" where
  "service_window uuid connected =
     (NewWindow (5 * Minute) 100)\<lparr>wnLedger := if connected then Some (adapter_WriteSettlement uuid) else None\<rparr>"

section \<open>Lemmas\<close>

definition ledger_ok :: "ledger_db \<Rightarrow> bool" where
  "ledger_ok s \<longleftrightarrow> distinct (map ledger_key (lgRows s))"

lemma cql_cases:
  assumes "cql body s = (r, s')"
  obtains (fault) e where "r = Inl e" "lgRows s' = lgRows s" "lgClock s' = lgClock s"
  | (ran) fs where "body (s\<lparr>lgFaults := fs\<rparr>) = (r, s')"
  using assms by (auto simp: cql_def Let_def split: list.splits option.splits)

text \<open>Keys stay unique; what succeeds is stored, and only a row with the same key can be lost.\<close>

lemma Append_ok:
  assumes "Append uuid e s = (None, s')"
  obtains u where "uuid (lePaymentID e) = Some u"
    "lgRows s' = filter (\<lambda>r. ledger_key r \<noteq> (leParticipantID e, leDateBucket e, u, cql_timestamp (leCreatedAt e))) (lgRows s) @
       [e\<lparr>lePaymentID := u, leCreatedAt := cql_timestamp (leCreatedAt e)\<rparr>]"
proof -
  from assms obtain u where u: "uuid (lePaymentID e) = Some u" by (auto simp: Append_def split: option.splits)
  let ?e = "e\<lparr>lePaymentID := u, leCreatedAt := cql_timestamp (leCreatedAt e)\<rparr>"
  obtain r d where c: "cql (\<lambda>s. (Inr (), s\<lparr>lgRows := filter (\<lambda>r. ledger_key r \<noteq> ledger_key ?e) (lgRows s) @ [?e]\<rparr>)) s = (r, d)" by fastforce
  with assms u have "err_of r = None" "s' = d" by (simp_all add: Append_def)
  with c u that show thesis by (cases rule: cql_cases) (auto simp: ledger_key_def)
qed

lemma Append_error: "Append uuid e s = (Some err, s') \<Longrightarrow> lgRows s' = lgRows s"
  by (auto simp: Append_def Let_def split: option.splits prod.splits elim!: cql_cases)

lemma Append_keeps_ok:
  assumes "ledger_ok s" "Append uuid e s = (r, s')"
  shows "ledger_ok s'"
proof (cases r)
  case None
  with assms(2) obtain u where "lgRows s' = filter (\<lambda>r. ledger_key r \<noteq> (leParticipantID e, leDateBucket e, u, cql_timestamp (leCreatedAt e))) (lgRows s) @
       [e\<lparr>lePaymentID := u, leCreatedAt := cql_timestamp (leCreatedAt e)\<rparr>]" by (auto elim: Append_ok)
  with assms(1) show ?thesis by (auto simp: ledger_ok_def distinct_map_filter ledger_key_def)
next
  case (Some err)
  with Append_error assms show ?thesis by (auto simp: ledger_ok_def)
qed

lemma iter_scan_all: "list_all (\<lambda>f. f = None) (lgFaults s) \<Longrightarrow> fst (iter_scan es acc s) = (acc @ es, None)"
proof (induction es arbitrary: acc s)
  case (Cons e es)
  then have "list_all (\<lambda>f. f = None) (tl (lgFaults s))" by (cases "lgFaults s") auto
  with Cons show ?case by (cases "lgFaults s") (auto simp: cql_def Let_def split: list.splits option.splits)
next
  case Nil
  then show ?case by (cases "lgFaults s") (auto simp: cql_def Let_def okE_def split: list.splits option.splits)
qed

text \<open>Round trip: after a successful append the entry is read back for its participant and day, with the
  time in milliseconds.\<close>

lemma Append_GetByParticipant:
  assumes "Append uuid e s = (None, s')" "list_all (\<lambda>f. f = None) (lgFaults s')" "\<And>es. set (ord es) = set es"
  shows "\<exists>u. uuid (lePaymentID e) = Some u \<and> snd (fst (GetByParticipant ord (leParticipantID e) (leDateBucket e) s')) = None \<and>
    e\<lparr>lePaymentID := u, leCreatedAt := cql_timestamp (leCreatedAt e)\<rparr> \<in>
      set (fst (fst (GetByParticipant ord (leParticipantID e) (leDateBucket e) s')))"
  using assms(1)
proof (rule Append_ok)
  fix u
  assume u: "uuid (lePaymentID e) = Some u"
    "lgRows s' = filter (\<lambda>r. ledger_key r \<noteq> (leParticipantID e, leDateBucket e, u, cql_timestamp (leCreatedAt e))) (lgRows s) @
       [e\<lparr>lePaymentID := u, leCreatedAt := cql_timestamp (leCreatedAt e)\<rparr>]"
  then show ?thesis by (simp add: GetByParticipant_def iter_scan_all [OF assms(2)] assms(3))
qed

text \<open>Two events of one payment and participant in the same millisecond: the later overwrites the earlier,
  as when a bank pays itself.\<close>

lemma same_millisecond_overwrites:
  assumes "Append uuid e s = (None, s1)" "Append uuid e' s1 = (None, s2)"
    and "leParticipantID e' = leParticipantID e" "leDateBucket e' = leDateBucket e" "lePaymentID e' = lePaymentID e"
      "cql_timestamp (leCreatedAt e') = cql_timestamp (leCreatedAt e)"
  shows "filter (\<lambda>r. ledger_key r = (leParticipantID e, leDateBucket e, the (uuid (lePaymentID e)), cql_timestamp (leCreatedAt e))) (lgRows s2) =
    [e'\<lparr>lePaymentID := the (uuid (lePaymentID e)), leCreatedAt := cql_timestamp (leCreatedAt e)\<rparr>]"
  using assms(2) by (rule Append_ok) (use assms(3-6) in \<open>auto simp: ledger_key_def\<close>)

text \<open>Net positions are written under the payment id \<open>net\<close>, which is no UUID: none of them is stored.\<close>

lemma net_not_stored:
  assumes "uuid ''net'' = None"
  shows "lgRows (snd (adapter_WriteSettlement uuid bic ''net'' ev pl am s)) = lgRows s"
  using assms by (auto simp: adapter_WriteSettlement_def read_clock_def Append_def split: list.splits)

lemma write_types:
  assumes "r \<in> set (lgRows (snd (adapter_WriteSettlement uuid bic i ev pl am s)))"
  shows "r \<in> set (lgRows s) \<or> leEventType r = ev"
proof -
  obtain t1 s1 t2 s2 where c: "read_clock s = (t1, s1)" "read_clock s1 = (t2, s2)" by fastforce
  then have rows: "lgRows s2 = lgRows s" by (auto simp: read_clock_def split: list.splits)
  obtain x s' where a: "Append uuid \<lparr>leParticipantID = bic, leDateBucket = Format_date (utc t1), lePaymentID = i,
      leEventType = ev, lePayload = pl, leCreatedAt = t2\<rparr> s2 = (x, s')" by fastforce
  with assms c have r: "r \<in> set (lgRows s')" by (simp add: adapter_WriteSettlement_def)
  show ?thesis
  proof (cases x)
    case None
    with a r rows show ?thesis by (auto elim!: Append_ok)
  next
    case (Some e)
    with Append_error a r rows show ?thesis by auto
  qed
qed

text \<open>After a window has been settled, the ledger holds debits and credits of its payments only.\<close>

lemma settled_ledger_has_no_net:
  assumes "uuid ''net'' = None" "Settle ord (w\<lparr>wnLedger := Some (adapter_WriteSettlement uuid)\<rparr>) l = (r, w', l')"
    and "e \<in> set (lgRows l')" "e \<notin> set (lgRows l)"
  shows "leEventType e \<in> {''settlement.debit'', ''settlement.credit''}"
proof -
  let ?wr = "\<lambda>(b, i, t, pl, a) l. snd (adapter_WriteSettlement uuid b i t pl a l)"
  have step: "e \<in> set (lgRows (fold ?wr xs s)) \<Longrightarrow>
      e \<in> set (lgRows s) \<or> leEventType e \<in> {''settlement.debit'', ''settlement.credit''}"
    if "\<forall>(b, i, t, pl, a)\<in>set xs. i = ''net'' \<or> t \<in> {''settlement.debit'', ''settlement.credit''}" for xs s
    using that
  proof (induction xs arbitrary: s)
    case (Cons x xs)
    obtain b i t pl a where x: "x = (b, i, t, pl, a)" by (metis prod.exhaust)
    with Cons have "e \<in> set (lgRows (?wr x s)) \<or> leEventType e \<in> {''settlement.debit'', ''settlement.credit''}" by auto
    with Cons.prems(2) x show ?case
      using net_not_stored [of uuid, OF assms(1)] write_types [of e uuid b i t pl a s] by auto
  qed simp
  have "\<forall>(b, i, t, pl, a)\<in>set (ledger_entries es ps). i = ''net'' \<or> t \<in> {''settlement.debit'', ''settlement.credit''}" for es ps
    by (auto simp: ledger_entries_def)
  from step [OF this] assms(2-4) show ?thesis
    by (auto simp: Settle_def write_ledger_def Let_def split: if_splits)
qed

end
