(* ===== verification/Services.thy ===== *)
theory Services
  imports Config Ledger PortalAuth
begin

text \<open>
  What the other processes put together when they start: the settlement service's engine
  (src/cmd/settlement-service), the audit service's consumers (src/cmd/audit-service), the participants of the
  certificate service (src/cmd/certificate-service), the directory's cache (src/cmd/lookup-service), the address of
  the bank service (src/cmd/bank-service), the portal's CSRF secret (src/cmd/portal-api) and the message a
  producer sends (src/pkg/eventbus/producer.go). The lemmas show that the settlement engine always has its window,
  and which transitions of a payment the audit service never hears of.
\<close>

section \<open>cmd/settlement-service\<close>

text \<open>\<open>connect\<close>: whether the connection to the hosts succeeds; when it fails the service goes on without a ledger.\<close>

definition settlement_engine :: "(string \<Rightarrow> string option) \<Rightarrow> (string list \<Rightarrow> string \<Rightarrow> bool) \<Rightarrow> Config \<Rightarrow> ledger_db Engine" where
  "settlement_engine uuid connect cfg =
     AddWindow (service_window uuid (cfScyllaHosts cfg \<noteq> [] \<and> connect (cfScyllaHosts cfg) (cfScyllaKeyspace cfg))) NewEngine"

text \<open>On shutdown the window is settled and the result dropped.\<close>

definition settlement_shutdown :: "(string list \<Rightarrow> string list) \<Rightarrow> ledger_db Engine \<times> ledger_db \<Rightarrow> ledger_db" where
  "settlement_shutdown ord s = (case fst s of [] \<Rightarrow> snd s | w # ws \<Rightarrow> (case Settle ord w (snd s) of (_, _, l) \<Rightarrow> l))"

section \<open>cmd/audit-service\<close>

definition audit_topics :: "string list" where
  "audit_topics = [''payment.received'', ''payment.validated'', ''payment.reserved'', ''payment.committed'', ''payment.aborted'']"

text \<open>The consumer of a topic in the group \<open>audit-service\<close>; a message is what its payload decodes to.\<close>

definition audit_consumer :: "string \<Rightarrow> (nat \<Rightarrow> goerror option) \<Rightarrow> (goerror + PaymentEvent) fetch list \<Rightarrow>
    consumer_state \<Rightarrow> goerror option \<times> consumer_state" where
  "audit_consumer topic = Consume (\<lambda>payload. fst (HandlePaymentEvent topic payload []))"

section \<open>cmd/certificate-service\<close>

definition demo_participants :: "Participant list" where
  "demo_participants =
     [\<lparr>partID = ''bank-a'', partName = ''Bank A'', partBIC = ''BANKUS33'', partAccount = ''ACC-A'', partCertHash = ''''\<rparr>,
      \<lparr>partID = ''bank-b'', partName = ''Bank B'', partBIC = ''BANKDEFF'', partAccount = ''ACC-B'', partCertHash = ''''\<rparr>]"

definition loadDemoParticipants :: "Registry \<Rightarrow> Registry" where
  "loadDemoParticipants r = fold (\<lambda>p r. snd (Register p r)) demo_participants r"

section \<open>cmd/lookup-service, cmd/bank-service, cmd/portal-api\<close>

definition lookup_cache :: "Config \<Rightarrow> (string \<Rightarrow> 'c Cache) \<Rightarrow> 'c Cache option" where
  "lookup_cache cfg redis = (if cfRedisAddr cfg \<noteq> '''' then Some (redis (cfRedisAddr cfg)) else None)"

definition bank_addr :: "string \<Rightarrow> string" where
  "bank_addr addr = (if addr = '''' then '':8081'' else addr)"

text \<open>\<^const>\<open>None\<close>: the process exits. \<open>decode\<close> is \<^verbatim>\<open>hex.DecodeString\<close>, \<open>random\<close> what
  \<^verbatim>\<open>rand.Read\<close> yields.\<close>

definition portal_csrf_store :: "Config \<Rightarrow> (string \<Rightarrow> goerror + string) \<Rightarrow> goerror + string \<Rightarrow> CSRFStore option" where
  "portal_csrf_store cfg decode random =
     (case (if cfCSRFSecret cfg \<noteq> '''' then decode (cfCSRFSecret cfg) else random) of
        Inl e \<Rightarrow> None
      | Inr secret \<Rightarrow> Some (NewCSRFStore secret))"

section \<open>pkg/eventbus/producer.go\<close>

record 'v kafka_message =
  kmTopic :: string
  kmKey :: string
  kmValue :: 'v

definition Producer_Publish :: "('v kafka_message list \<Rightarrow> 'k \<Rightarrow> goerror option \<times> 'k) \<Rightarrow>
    string \<Rightarrow> string \<Rightarrow> 'v \<Rightarrow> 'k \<Rightarrow> goerror option \<times> 'k" where
  "Producer_Publish writeMessages topic key payload = writeMessages [\<lparr>kmTopic = topic, kmKey = key, kmValue = payload\<rparr>]"

section \<open>Lemmas\<close>

text \<open>The engine has exactly its window after any of its calls, so that none panics.\<close>

lemma settlement_engine_one: "settlement_engine uuid connect cfg = [service_window uuid (cfScyllaHosts cfg \<noteq> [] \<and> connect (cfScyllaHosts cfg) (cfScyllaKeyspace cfg))]"
  by (simp add: settlement_engine_def AddWindow_def NewEngine_def)

lemma engine_submit_total: "\<exists>r w'. engine_SubmitForSettlement req [w] = Some (r, [w'])"
  by (simp add: engine_SubmitForSettlement_def split: prod.splits)

lemma engine_settle_total: "\<exists>r w' l'. engine_SettleWindow ord ([w], l) = Some (r, [w'], l')"
  by (simp add: engine_SettleWindow_def split: prod.splits)

text \<open>On shutdown no net position reaches the ledger either.\<close>

lemma shutdown_has_no_net:
  assumes "uuid ''net'' = None" "e \<in> set (lgRows (settlement_shutdown ord ([w\<lparr>wnLedger := Some (adapter_WriteSettlement uuid)\<rparr>], l)))"
    and "e \<notin> set (lgRows l)"
  shows "leEventType e \<in> {''settlement.debit'', ''settlement.credit''}"
proof -
  obtain r w' l' where s: "Settle ord (w\<lparr>wnLedger := Some (adapter_WriteSettlement uuid)\<rparr>) l = (r, w', l')"
    by (cases "Settle ord (w\<lparr>wnLedger := Some (adapter_WriteSettlement uuid)\<rparr>) l") auto
  with assms(2) have "e \<in> set (lgRows l')" by (simp add: settlement_shutdown_def)
  from settled_ledger_has_no_net [OF assms(1) s this assms(3)] show ?thesis .
qed

text \<open>The events of a status reach the audit service for five of the ten statuses; that a payment was settled is
  not among them.\<close>

lemma audited_statuses:
  "filter (\<lambda>st. ''payment.'' @ ToLower st \<in> set audit_topics) all_statuses =
     [StatusReceived, StatusValidated, StatusReserved, StatusCommitted, StatusAborted]"
  by code_simp

text \<open>The participants of the certificate service carry no certificate.\<close>

lemma demo_registry_no_certificate: "regByCertHash (loadDemoParticipants NewRegistry) = Map.empty"
  by (simp add: loadDemoParticipants_def demo_participants_def Register_def NewRegistry_def row_by_def)

lemma csrf_store_fresh: "portal_csrf_store cfg decode random = Some s \<Longrightarrow> csTokens s = Map.empty"
  by (auto simp: portal_csrf_store_def NewCSRFStore_def split: sum.splits)

end
