(* ===== verification/Startup.thy ===== *)
theory Startup
  imports Services PortalRoutes
begin

text \<open>
  How a process comes up: the telemetry (src/pkg/telemetry), the metrics registry (src/pkg/metrics), the Redis
  client (src/pkg/cache), the resilience helpers (src/pkg/resilience), and the main functions that put a service
  on its listener (src/cmd). The exporters, the metrics registry, the listeners, Redis and the circuit breaker
  are other people's code and parameters here. The lemmas say which failures stop a process and which it
  survives, and that the services serve what the other theories model.
\<close>

section \<open>pkg/telemetry\<close>

text \<open>Connecting an exporter to an endpoint, and describing the process, may fail.\<close>

record otel_env =
  oeTraceExporter :: "string \<Rightarrow> goerror option"
  oeLogExporter :: "string \<Rightarrow> goerror option"
  oeResource :: "string \<Rightarrow> goerror option"

text \<open>The global state of the process that telemetry sets: the tracer provider (endpoint and service name), the
  propagators, the package variable \<^verbatim>\<open>Tracer\<close>, and the handlers of the default logger.\<close>

datatype log_handler = JSONStdout string | OtelBridge string string

record otel_globals =
  ogProvider :: "(string \<times> string) option"
  ogPropagators :: "string list"
  ogTracer :: "string option"
  ogDefaultLogger :: "log_handler list"

definition no_telemetry :: otel_globals where
  "no_telemetry = \<lparr>ogProvider = None, ogPropagators = [], ogTracer = None, ogDefaultLogger = []\<rparr>"

definition InitTracer :: "otel_env \<Rightarrow> string \<Rightarrow> string \<Rightarrow> otel_globals \<Rightarrow> (goerror + string \<times> string) \<times> otel_globals" where
  "InitTracer T otlpEndpoint serviceName G =
     (case oeTraceExporter T otlpEndpoint of
        Some e \<Rightarrow> (Inl e, G)
      | None \<Rightarrow>
          (case oeResource T serviceName of
             Some e \<Rightarrow> (Inl e, G)
           | None \<Rightarrow>
               (let tp = (otlpEndpoint, serviceName) in
                (Inr tp, G\<lparr>ogProvider := Some tp, ogPropagators := [''tracecontext'', ''baggage''],
                           ogTracer := Some serviceName\<rparr>))))"

text \<open>The result is the logger's handlers and the provider to shut down, if there is one.\<close>

definition InitLogger :: "otel_env \<Rightarrow> string \<Rightarrow> string \<Rightarrow> otel_globals \<Rightarrow>
    (goerror + log_handler list \<times> string option) \<times> otel_globals" where
  "InitLogger T otlpEndpoint serviceName G =
     (let lp = (if otlpEndpoint \<noteq> '''' then
                  (case oeLogExporter T otlpEndpoint of
                     Some e \<Rightarrow> Inl e
                   | None \<Rightarrow> (case oeResource T serviceName of Some e \<Rightarrow> Inl e | None \<Rightarrow> Inr (Some otlpEndpoint)))
                else Inr None)
      in case lp of
           Inl e \<Rightarrow> (Inl e, G)
         | Inr prov \<Rightarrow>
             (let handlers = JSONStdout serviceName #
                    (case prov of Some ep \<Rightarrow> [OtelBridge serviceName ep] | None \<Rightarrow> []) in
              (Inr (handlers, prov), G\<lparr>ogDefaultLogger := handlers\<rparr>)))"

definition SpanAttrs :: "string \<Rightarrow> string \<Rightarrow> string \<Rightarrow> (string \<times> string) list" where
  "SpanAttrs paymentID endToEndID status =
     [(''payment.id'', paymentID), (''payment.end_to_end_id'', endToEndID), (''payment.status'', status)]"

section \<open>pkg/metrics\<close>

datatype metric_kind = CounterVec | HistogramVec | Counter | Gauge

record collector =
  mcKind :: metric_kind
  mcName :: string
  mcLabels :: "string list"

definition collectors :: "collector list" where
  "collectors =
     [\<lparr>mcKind = CounterVec, mcName = ''http_requests_total'', mcLabels = [''method'', ''path'', ''status'']\<rparr>,
      \<lparr>mcKind = HistogramVec, mcName = ''http_request_duration_seconds'', mcLabels = [''method'', ''path'']\<rparr>,
      \<lparr>mcKind = CounterVec, mcName = ''payments_total'', mcLabels = [''status'']\<rparr>,
      \<lparr>mcKind = CounterVec, mcName = ''saga_steps_total'', mcLabels = [''step'', ''result'']\<rparr>,
      \<lparr>mcKind = Counter, mcName = ''outbox_events_total'', mcLabels = []\<rparr>,
      \<lparr>mcKind = Gauge, mcName = ''active_payments'', mcLabels = []\<rparr>]"

text \<open>What \<^verbatim>\<open>prometheus.Register\<close> answers, over a registry \<open>'r\<close>; the first component of a call's result is
  the panic, if any.\<close>

datatype register_result = Registered | AlreadyRegistered | RegisterErr goerror

definition registerSafely :: "(collector \<Rightarrow> 'r \<Rightarrow> register_result \<times> 'r) \<Rightarrow> collector \<Rightarrow> 'r \<Rightarrow> string option \<times> 'r" where
  "registerSafely register c reg =
     (case register c reg of
        (RegisterErr e, reg') \<Rightarrow> (Some (''failed to register metric: '' @ Error e), reg')
      | (_, reg') \<Rightarrow> (None, reg'))"

fun register_each :: "(collector \<Rightarrow> 'r \<Rightarrow> register_result \<times> 'r) \<Rightarrow> collector list \<Rightarrow> 'r \<Rightarrow> string option \<times> 'r" where
  "register_each register [] reg = (None, reg)"
| "register_each register (c # cs) reg =
     (case registerSafely register c reg of
        (Some panic, reg') \<Rightarrow> (Some panic, reg')
      | (None, reg') \<Rightarrow> register_each register cs reg')"

text \<open>\<^verbatim>\<open>sync.Once\<close>: the function runs at most once, and a panic counts as having run.\<close>

definition metrics_Init :: "(collector \<Rightarrow> 'r \<Rightarrow> register_result \<times> 'r) \<Rightarrow> bool \<times> 'r \<Rightarrow> string option \<times> bool \<times> 'r" where
  "metrics_Init register m =
     (case m of (fired, reg) \<Rightarrow>
        if fired then (None, m)
        else (case register_each register collectors reg of (panic, reg') \<Rightarrow> (panic, True, reg')))"

section \<open>pkg/cache\<close>

text \<open>The client of a Redis server with state \<open>'s\<close>.\<close>

record 's redis =
  rdSet :: "string \<Rightarrow> string \<Rightarrow> duration \<Rightarrow> 's \<Rightarrow> goerror option \<times> 's"
  rdSetNX :: "string \<Rightarrow> string \<Rightarrow> duration \<Rightarrow> ('s, bool) call"
  rdGet :: "string \<Rightarrow> ('s, string) call"
  rdClose :: "'s \<Rightarrow> goerror option \<times> 's"

definition Cache_New :: "(string \<Rightarrow> 's redis) \<Rightarrow> string \<Rightarrow> 's redis" where
  "Cache_New newClient addr = newClient addr"

definition Cache_Set :: "'s redis \<Rightarrow> string \<Rightarrow> string \<Rightarrow> duration \<Rightarrow> 's \<Rightarrow> goerror option \<times> 's" where
  "Cache_Set c key val ttl s = rdSet c key val ttl s"

definition Cache_SetNX :: "'s redis \<Rightarrow> string \<Rightarrow> string \<Rightarrow> duration \<Rightarrow> ('s, bool) call" where
  "Cache_SetNX c key val ttl s = rdSetNX c key val ttl s"

definition Cache_Get :: "'s redis \<Rightarrow> string \<Rightarrow> ('s, string) call" where
  "Cache_Get c key s = rdGet c key s"

definition Cache_Close :: "'s redis \<Rightarrow> 's \<Rightarrow> goerror option \<times> 's" where
  "Cache_Close c s = rdClose c s"

text \<open>The cache of the BIC directory over it; \<open>marshal\<close> and \<open>unmarshal\<close> are the JSON codec.\<close>

definition directory_cache :: "(json \<Rightarrow> string) \<Rightarrow> (string \<Rightarrow> json_body) \<Rightarrow> 's redis \<Rightarrow> 's Cache" where
  "directory_cache marshal unmarshal c =
     \<lparr>cacheGet = (\<lambda>key s. case Cache_Get c key s of
                    (Inl e, s') \<Rightarrow> (Inl e, s')
                  | (Inr val, s') \<Rightarrow> (Inr (if val = '''' then None else Some (unmarshal val)), s')),
      cacheSet = (\<lambda>key j ttl s. Cache_Set c key (marshal j) ttl s)\<rparr>"

section \<open>pkg/resilience\<close>

record breaker_settings =
  bsName :: string
  bsMaxRequests :: nat
  bsInterval :: duration
  bsTimeout :: duration
  bsReadyToTrip :: "nat \<Rightarrow> bool"

text \<open>The predicate sees the number of consecutive failures; the breaker itself is a parameter.\<close>

definition NewBankBreaker :: "(breaker_settings \<Rightarrow> 'b) \<Rightarrow> string \<Rightarrow> 'b" where
  "NewBankBreaker newBreaker bankBIC = newBreaker
     \<lparr>bsName = ''bank-'' @ bankBIC, bsMaxRequests = 5, bsInterval = 30 * Second, bsTimeout = 15 * Second,
      bsReadyToTrip = (\<lambda>consecutiveFailures. consecutiveFailures > 5)\<rparr>"

record retry_options =
  roAttempts :: nat
  roDelay :: duration
  roBackOff :: bool

definition WithBackoff :: "(('w \<Rightarrow> goerror option \<times> 'w) \<Rightarrow> retry_options \<Rightarrow> 'w \<Rightarrow> goerror option \<times> 'w) \<Rightarrow>
    ('w \<Rightarrow> goerror option \<times> 'w) \<Rightarrow> 'w \<Rightarrow> goerror option \<times> 'w" where
  "WithBackoff retryDo fn w = retryDo fn \<lparr>roAttempts = 3, roDelay = 100 * 1000000, roBackOff = True\<rparr> w"

section \<open>The gateway's metrics\<close>

text \<open>The counter \<^verbatim>\<open>http_requests_total\<close> by its labels, beside the world of the handler. The status label is
  always empty.\<close>

definition metricsMiddleware :: "string \<Rightarrow> string \<Rightarrow> ('k, 'b, 'x, 'w) handler \<Rightarrow>
    ('k, 'b, 'x, (string \<times> string \<times> string \<Rightarrow> nat) \<times> 'w) handler" where
  "metricsMiddleware meth path next r s =
     (case s of (n, w) \<Rightarrow>
      case next r w of (resp, w') \<Rightarrow> (resp, n((meth, path, '''') := Suc (n (meth, path, ''''))), w'))"

section \<open>Coming up\<close>

text \<open>What a main function comes to: it exits at a step it names, a panic ends it, or it serves. What it does when a
  signal stops it is left out.\<close>

datatype 'a boot = Exits string | Panics string | Serves 'a

record 'r host =
  hsOtel :: otel_env
  hsRegister :: "collector \<Rightarrow> 'r \<Rightarrow> register_result \<times> 'r"
  hsListen :: "string \<Rightarrow> goerror option"

type_synonym 'r process = "otel_globals \<times> bool \<times> 'r"

text \<open>Every main function begins with the configuration, the logger and, where an endpoint is configured, the tracer,
  whose failure is only logged.\<close>

definition boot_telemetry :: "'r host \<Rightarrow> string \<Rightarrow> viper \<Rightarrow> 'r process \<Rightarrow> (string + Config) \<times> 'r process" where
  "boot_telemetry h name v s =
     (case s of (G, m) \<Rightarrow>
      case Load v of
        Inl e \<Rightarrow> (Inl ''load config'', s)
      | Inr cfg \<Rightarrow>
          (case InitLogger (hsOtel h) (cfOTLPEndpoint cfg) name G of
             (Inl e, G1) \<Rightarrow> (Inl ''init logger'', G1, m)
           | (Inr _, G1) \<Rightarrow>
               (Inr cfg, if cfOTLPEndpoint cfg \<noteq> '''' then snd (InitTracer (hsOtel h) (cfOTLPEndpoint cfg) name G1) else G1, m)))"

text \<open>\<^verbatim>\<open>metrics.Listen\<close>: the server of the metrics runs beside the service and its failure is only logged.\<close>

definition metrics_Listen :: "'r host \<Rightarrow> string \<Rightarrow> 'r process \<Rightarrow> (string + string) \<times> 'r process" where
  "metrics_Listen h addr s =
     (case s of (G, m) \<Rightarrow>
      case metrics_Init (hsRegister h) m of
        (Some panic, m') \<Rightarrow> (Inl panic, G, m')
      | (None, m') \<Rightarrow> (Inr addr, G, m'))"

record 's grpc_server =
  gsAddr :: string
  gsMetrics :: string
  gsStats :: bool
  gsService :: 's

definition grpc_main :: "'r host \<Rightarrow> string \<Rightarrow> bool \<Rightarrow> (Config \<Rightarrow> 's) \<Rightarrow> viper \<Rightarrow> 'r process \<Rightarrow> 's grpc_server boot \<times> 'r process" where
  "grpc_main h name stats svc v s =
     (case boot_telemetry h name v s of
        (Inl msg, s1) \<Rightarrow> (Exits msg, s1)
      | (Inr cfg, s1) \<Rightarrow>
          (case metrics_Listen h (cfMetricsAddr cfg) s1 of
             (Inl panic, s2) \<Rightarrow> (Panics panic, s2)
           | (Inr addr, s2) \<Rightarrow>
               (case hsListen h (cfGRPCAddr cfg) of
                  Some e \<Rightarrow> (Exits ''listen'', s2)
                | None \<Rightarrow> (Serves \<lparr>gsAddr = cfGRPCAddr cfg, gsMetrics = addr, gsStats = stats, gsService = svc cfg\<rparr>, s2))))"

text \<open>The services without state of their own serve the unit value.\<close>

definition routing_main :: "'r host \<Rightarrow> viper \<Rightarrow> 'r process \<Rightarrow> RoutingService grpc_server boot \<times> 'r process" where
  "routing_main h = grpc_main h ''routing-service'' False (\<lambda>_. routing_seedDefaults)"

definition quoting_main :: "'r host \<Rightarrow> viper \<Rightarrow> 'r process \<Rightarrow> QuotingService grpc_server boot \<times> 'r process" where
  "quoting_main h = grpc_main h ''quoting-service'' True (\<lambda>_. New_quoting)"

definition compliance_main :: "'r host \<Rightarrow> viper \<Rightarrow> 'r process \<Rightarrow> unit grpc_server boot \<times> 'r process" where
  "compliance_main h = grpc_main h ''compliance-service'' True (\<lambda>_. ())"

definition notification_main :: "'r host \<Rightarrow> viper \<Rightarrow> 'r process \<Rightarrow> notify_log grpc_server boot \<times> 'r process" where
  "notification_main h = grpc_main h ''notification-service'' True (\<lambda>_. [])"

definition reconciliation_main :: "'r host \<Rightarrow> viper \<Rightarrow> 'r process \<Rightarrow> ReconService grpc_server boot \<times> 'r process" where
  "reconciliation_main h = grpc_main h ''reconciliation-service'' True (\<lambda>_. New_recon)"

definition lookup_main :: "(string \<Rightarrow> 'c Cache) \<Rightarrow> 'r host \<Rightarrow> viper \<Rightarrow> 'r process \<Rightarrow> (banks_map \<times> 'c Cache option) grpc_server boot \<times> 'r process" where
  "lookup_main redis h = grpc_main h ''lookup-service'' True (\<lambda>cfg. (lookup_seedDefaults, lookup_cache cfg redis))"

definition settlement_main :: "(string \<Rightarrow> string option) \<Rightarrow> (string list \<Rightarrow> string \<Rightarrow> bool) \<Rightarrow> 'r host \<Rightarrow> viper \<Rightarrow> 'r process \<Rightarrow>
    ledger_db Engine grpc_server boot \<times> 'r process" where
  "settlement_main uuid connect h = grpc_main h ''settlement-service'' True (settlement_engine uuid connect)"

text \<open>The certificate service loads its participants and then only waits.\<close>

definition certificate_main :: "viper \<Rightarrow> Registry boot" where
  "certificate_main v = (case Load v of Inl e \<Rightarrow> Exits ''load config'' | Inr _ \<Rightarrow> Serves (loadDemoParticipants NewRegistry))"

text \<open>The audit service starts one consumer per topic; a consumer that ends with an error is only logged.\<close>

definition audit_main :: "viper \<Rightarrow> (string list \<times> string list) boot" where
  "audit_main v = (case Load v of Inl e \<Rightarrow> Exits ''load config'' | Inr cfg \<Rightarrow> Serves (cfKafkaBrokers cfg, audit_topics))"

text \<open>\<open>listen\<close>: whether the address can be listened on.\<close>

definition bank_main :: "(string \<Rightarrow> goerror option) \<Rightarrow> string \<Rightarrow> (string \<times> BankState) boot" where
  "bank_main listen env_addr =
     (let addr = bank_addr env_addr in
      case listen addr of Some e \<Rightarrow> Exits ''bank service failed'' | None \<Rightarrow> Serves (addr, New_bank_server))"

section \<open>The gateway and the portal\<close>

record gateway_process =
  gpAddr :: string
  gpSaga :: "switch Saga"
  gpHandler :: "switch Handler"
  gpRelayEvery :: "duration option"
  gpSweepEvery :: duration

text \<open>\<open>connect\<close>: opening the pool of database connections. A connection to a service that cannot be set up ends the
  process as well.\<close>

definition gateway_main :: "(string \<Rightarrow> goerror option) \<Rightarrow> quote_env \<Rightarrow> dials \<Rightarrow> switch BankClient \<Rightarrow> 'r host \<Rightarrow> viper \<Rightarrow>
    'r process \<Rightarrow> gateway_process boot \<times> 'r process" where
  "gateway_main connect env net mock h v s =
     (case boot_telemetry h ''gateway'' v s of
        (Inl msg, s1) \<Rightarrow> (Exits msg, s1)
      | (Inr cfg, s1) \<Rightarrow>
          (case connect (cfPostgresDSN cfg) of
             Some e \<Rightarrow> (Exits ''connect postgres'', s1)
           | None \<Rightarrow>
               (case main_saga env cfg net mock of
                  None \<Rightarrow> (Exits ''connect'', s1)
                | Some paymentSaga \<Rightarrow>
                    (case metrics_Listen h (cfMetricsAddr cfg) s1 of
                       (Inl panic, s2) \<Rightarrow> (Panics panic, s2)
                     | (Inr _, s2) \<Rightarrow>
                         (case hsListen h (cfHTTPAddr cfg) of
                            Some e \<Rightarrow> (Exits ''serve'', s2)
                          | None \<Rightarrow>
                              (Serves \<lparr>gpAddr = cfHTTPAddr cfg, gpSaga = paymentSaga, gpHandler = main_handler cfg net,
                                 gpRelayEvery = (if cfKafkaBrokers cfg \<noteq> [] then Some Second else None),
                                 gpSweepEvery = 30 * Second\<rparr>, s2))))))"

record portal_process =
  ppAddr :: string
  ppCSRF :: CSRFStore
  ppOrigin :: string
  ppCleanEvery :: duration

definition portal_main :: "(string \<Rightarrow> goerror option) \<Rightarrow> (string \<Rightarrow> goerror + string) \<Rightarrow> goerror + string \<Rightarrow> 'r host \<Rightarrow> viper \<Rightarrow>
    'r process \<Rightarrow> portal_process boot \<times> 'r process" where
  "portal_main connect decode random h v s =
     (case boot_telemetry h ''portal-api'' v s of
        (Inl msg, s1) \<Rightarrow> (Exits msg, s1)
      | (Inr cfg, s1) \<Rightarrow>
          (case connect (cfPostgresDSN cfg) of
             Some e \<Rightarrow> (Exits ''connect postgres'', s1)
           | None \<Rightarrow>
               (case portal_csrf_store cfg decode random of
                  None \<Rightarrow> (Exits ''csrf secret'', s1)
                | Some csrf \<Rightarrow>
                    (case metrics_Listen h (cfMetricsAddr cfg) s1 of
                       (Inl panic, s2) \<Rightarrow> (Panics panic, s2)
                     | (Inr _, s2) \<Rightarrow>
                         (case hsListen h (cfHTTPAddr cfg) of
                            Some e \<Rightarrow> (Exits ''serve'', s2)
                          | None \<Rightarrow>
                              (Serves \<lparr>ppAddr = cfHTTPAddr cfg, ppCSRF = csrf, ppOrigin = cfPortalOrigin cfg,
                                 ppCleanEvery = Hour\<rparr>, s2))))))"

section \<open>cmd/certgen\<close>

record cert_template =
  ctSerial :: int
  ctOrganization :: string
  ctCommonName :: string
  ctNotBefore :: time
  ctNotAfter :: time
  ctCA :: bool
  ctKeyUsage :: "string list"
  ctExtKeyUsage :: "string list"
  ctDNSNames :: "string list"
  ctIPs :: "string list"

text \<open>Keys \<open>'k\<close> and encoded certificates \<open>'d\<close>: generating the n-th key, signing a template with its parent and the
  parent's key, reading a certificate back; the clock at its n-th reading; whether a file can be created and
  whether \<^verbatim>\<open>pem.Encode\<close> can write into it. The result of the latter is dropped: a file without its block stays.\<close>

record ('k, 'd) cert_env =
  ceGenerate :: "nat \<Rightarrow> goerror + 'k"
  ceSign :: "cert_template \<Rightarrow> cert_template \<Rightarrow> 'k \<Rightarrow> 'k \<Rightarrow> goerror + 'd"
  ceParse :: "'d \<Rightarrow> goerror + cert_template"
  ceNow :: "nat \<Rightarrow> time"
  ceCreate :: "string \<Rightarrow> goerror option"
  ceEncode :: "string \<Rightarrow> goerror option"

datatype ('k, 'd) pem = PemCert 'd | PemKey 'k

type_synonym ('k, 'd) files = "(string \<times> (string \<times> ('k, 'd) pem) option) list"

definition writePEM :: "('k, 'd) cert_env \<Rightarrow> string \<Rightarrow> string \<Rightarrow> ('k, 'd) pem \<Rightarrow> (('k, 'd) files, unit) call" where
  "writePEM E path kind data fs =
     (case ceCreate E path of
        Some e \<Rightarrow> (Inl e, fs)
      | None \<Rightarrow> (Inr (), fs @ [(path, case ceEncode E path of Some e \<Rightarrow> None | None \<Rightarrow> Some (kind, data))]))"

definition ten_years :: duration where
  "ten_years = 10 * 365 * 24 * Hour"

definition ca_template :: "('k, 'd) cert_env \<Rightarrow> cert_template" where
  "ca_template E =
     \<lparr>ctSerial = 1, ctOrganization = ''Switch Dev CA'', ctCommonName = '''', ctNotBefore = ceNow E 0,
      ctNotAfter = ceNow E 1 + ten_years, ctCA = True, ctKeyUsage = [''CertSign'', ''DigitalSignature''],
      ctExtKeyUsage = [], ctDNSNames = [], ctIPs = []\<rparr>"

definition server_template :: "('k, 'd) cert_env \<Rightarrow> cert_template" where
  "server_template E =
     \<lparr>ctSerial = 2, ctOrganization = ''Switch Dev Server'', ctCommonName = '''', ctNotBefore = ceNow E 2,
      ctNotAfter = ceNow E 3 + ten_years, ctCA = False, ctKeyUsage = [''DigitalSignature''],
      ctExtKeyUsage = [''ServerAuth'', ''ClientAuth''], ctDNSNames = [''localhost'', ''gateway'', ''*.payment-switch.svc''],
      ctIPs = [''127.0.0.1'']\<rparr>"

definition client_template :: "('k, 'd) cert_env \<Rightarrow> nat \<Rightarrow> int \<times> string \<Rightarrow> cert_template" where
  "client_template E n c =
     (case c of (serial, cn) \<Rightarrow>
        \<lparr>ctSerial = serial, ctOrganization = ''Switch Dev Client '' @ cn, ctCommonName = cn, ctNotBefore = ceNow E n,
         ctNotAfter = ceNow E (Suc n) + ten_years, ctCA = False, ctKeyUsage = [''DigitalSignature''],
         ctExtKeyUsage = [''ClientAuth''], ctDNSNames = [], ctIPs = []\<rparr>)"

text \<open>One certificate: generate a key, sign, write both files. \<open>n\<close> counts the keys so far, each certificate reads the
  clock twice.\<close>

definition issue :: "('k, 'd) cert_env \<Rightarrow> cert_template \<Rightarrow> 'k \<Rightarrow> nat \<Rightarrow> cert_template \<Rightarrow> string \<Rightarrow> (('k, 'd) files, unit) call" where
  "issue E parent caKey n tmpl file =
     bindE (\<lambda>fs. (ceGenerate E n, fs)) (\<lambda>key.
     bindE (\<lambda>fs. (ceSign E tmpl parent key caKey, fs)) (\<lambda>der.
     bindE (writePEM E (file @ ''-cert.pem'') ''CERTIFICATE'' (PemCert der)) (\<lambda>_.
     writePEM E (file @ ''-key.pem'') ''RSA PRIVATE KEY'' (PemKey key))))"

definition certgen_participants :: "(int \<times> string) list" where
  "certgen_participants = [(4, ''bank-b''), (5, ''bank-c'')]"

fun issue_clients :: "('k, 'd) cert_env \<Rightarrow> cert_template \<Rightarrow> 'k \<Rightarrow> nat \<Rightarrow> (int \<times> string) list \<Rightarrow> (('k, 'd) files, unit) call" where
  "issue_clients E parent caKey n [] = okE ()"
| "issue_clients E parent caKey n (c # cs) =
     bindE (issue E parent caKey n (client_template E (2 * n) c) (''client-'' @ snd c)) (\<lambda>_.
     issue_clients E parent caKey (Suc n) cs)"

definition certgen_main :: "('k, 'd) cert_env \<Rightarrow> (('k, 'd) files, unit) call" where
  "certgen_main E =
     bindE (\<lambda>fs. (ceGenerate E 0, fs)) (\<lambda>caKey.
     bindE (\<lambda>fs. (ceSign E (ca_template E) (ca_template E) caKey caKey, fs)) (\<lambda>caDER.
     bindE (writePEM E ''ca-cert.pem'' ''CERTIFICATE'' (PemCert caDER)) (\<lambda>_.
     bindE (writePEM E ''ca-key.pem'' ''RSA PRIVATE KEY'' (PemKey caKey)) (\<lambda>_.
     bindE (\<lambda>fs. (ceGenerate E 1, fs)) (\<lambda>serverKey.
     bindE (\<lambda>fs. (ceParse E caDER, fs)) (\<lambda>caCert.
     bindE (\<lambda>fs. (ceSign E (server_template E) caCert serverKey caKey, fs)) (\<lambda>serverDER.
     bindE (writePEM E ''server-cert.pem'' ''CERTIFICATE'' (PemCert serverDER)) (\<lambda>_.
     bindE (writePEM E ''server-key.pem'' ''RSA PRIVATE KEY'' (PemKey serverKey)) (\<lambda>_.
     issue_clients E caCert caKey 2 ((3, ''bank-a'') # certgen_participants))))))))))"

section \<open>Lemmas\<close>

text \<open>Without an endpoint no exporter is asked, and the logger cannot fail.\<close>

lemma InitLogger_local: "InitLogger T '''' name G = (Inr ([JSONStdout name], None), G\<lparr>ogDefaultLogger := [JSONStdout name]\<rparr>)"
  by (simp add: InitLogger_def Let_def)

lemma boot_telemetry_ok:
  "(\<exists>s'. boot_telemetry h name v s = (Inr cfg, s')) \<longleftrightarrow>
     Load v = Inr cfg \<and> (cfOTLPEndpoint cfg = '''' \<or>
       oeLogExporter (hsOtel h) (cfOTLPEndpoint cfg) = None \<and> oeResource (hsOtel h) name = None)"
  by (auto simp: boot_telemetry_def InitLogger_def Let_def split: sum.splits prod.splits option.splits)

text \<open>The metrics are registered once, under six different names, and refusing one of them is what makes a
  process panic.\<close>

lemma collectors_distinct: "distinct (map mcName collectors)"
  by (simp add: collectors_def)

lemma metrics_Init_once:
  assumes "metrics_Init register m = (r, m')"
  shows "metrics_Init register m' = (None, m')"
  using assms by (auto simp: metrics_Init_def split: prod.splits if_splits)

lemma register_each_None:
  assumes "\<And>c reg e reg'. c \<in> set cs \<Longrightarrow> register c reg \<noteq> (RegisterErr e, reg')"
  shows "fst (register_each register cs reg) = None"
  using assms
proof (induction cs arbitrary: reg)
  case (Cons c cs)
  obtain x reg' where r: "register c reg = (x, reg')" by fastforce
  with Cons.prems [of c reg] have "registerSafely register c reg = (None, reg')"
    by (cases x) (auto simp: registerSafely_def)
  with Cons show ?case by simp
qed simp

lemma metrics_never_panic:
  assumes "\<And>c reg e reg'. hsRegister h c reg \<noteq> (RegisterErr e, reg')"
  shows "\<exists>s'. metrics_Listen h addr s = (Inr addr, s')"
proof -
  obtain G fired reg where s: "s = (G, fired, reg)" by (cases s) auto
  have "fst (register_each (hsRegister h) collectors reg) = None" by (rule register_each_None) (rule assms)
  then show ?thesis by (cases "register_each (hsRegister h) collectors reg") (auto simp: s metrics_Listen_def metrics_Init_def)
qed

text \<open>What a service that comes up serves, and what it takes: neither the tracer nor the server of the metrics.\<close>

lemma grpc_main_serves:
  assumes "grpc_main h name stats svc v s = (Serves srv, s')"
  obtains cfg where "Load v = Inr cfg" "hsListen h (cfGRPCAddr cfg) = None"
    "srv = \<lparr>gsAddr = cfGRPCAddr cfg, gsMetrics = cfMetricsAddr cfg, gsStats = stats, gsService = svc cfg\<rparr>"
  using assms
  by (auto simp: grpc_main_def metrics_Listen_def boot_telemetry_def Let_def
      split: sum.splits prod.splits option.splits if_splits)

lemma grpc_main_comes_up:
  assumes "Load v = Inr cfg" "cfOTLPEndpoint cfg = '''' \<or> oeLogExporter (hsOtel h) (cfOTLPEndpoint cfg) = None \<and> oeResource (hsOtel h) name = None"
    and "\<And>c reg e reg'. hsRegister h c reg \<noteq> (RegisterErr e, reg')" "hsListen h (cfGRPCAddr cfg) = None"
  shows "fst (grpc_main h name stats svc v s) =
    Serves \<lparr>gsAddr = cfGRPCAddr cfg, gsMetrics = cfMetricsAddr cfg, gsStats = stats, gsService = svc cfg\<rparr>"
proof -
  from assms(1,2) boot_telemetry_ok obtain s1 where b: "boot_telemetry h name v s = (Inr cfg, s1)" by blast
  from metrics_never_panic [OF assms(3)] obtain s2 where m: "metrics_Listen h (cfMetricsAddr cfg) s1 = (Inr (cfMetricsAddr cfg), s2)" by blast
  show ?thesis by (simp add: grpc_main_def b m assms(4))
qed

text \<open>A service that is not told another address listens where the gateway expects none of them: the gateway's default
  addresses have the ports 9091 to 9094, while every service's default is port 9090.\<close>

definition unset :: viper where
  "unset = \<lparr>vpText = (\<lambda>_ d. case d of Some t \<Rightarrow> t | None \<Rightarrow> ''''), vpBool = (\<lambda>_ b. Inr b), vpSlice = (\<lambda>_ _. [])\<rparr>"

lemma default_addresses_apart:
  "case Load unset of
     Inl e \<Rightarrow> False
   | Inr cfg \<Rightarrow> list_all (\<lambda>a. a \<noteq> ''localhost'' @ cfGRPCAddr cfg)
       [cfComplianceAddr cfg, cfLookupAddr cfg, cfSettlementAddr cfg, cfQuotingAddr cfg]"
  by (simp add: Load_def unset_def)

text \<open>A gateway that comes up has the ten steps of the saga.\<close>

lemma gateway_main_steps:
  assumes "gateway_main connect env net mock h v s = (Serves g, s')" "empty_is_unset v"
  shows "length (sagaSteps (gpSaga g)) = 10"
proof -
  from assms(1) obtain cfg s1 where b: "boot_telemetry h ''gateway'' v s = (Inr cfg, s1)" and m: "main_saga env cfg net mock = Some (gpSaga g)"
    by (auto simp: gateway_main_def split: sum.splits prod.splits option.splits)
  from b boot_telemetry_ok have l: "Load v = Inr cfg" by blast
  from m obtain P where P: "main_ports env cfg net mock = Some P" "gpSaga g = New_saga (gateway_steps P)"
    by (auto simp: main_saga_def)
  from settlement_always_configured(2) [OF l assms(2) P(1)] P(2) show ?thesis by (simp add: New_saga_def)
qed

text \<open>The generator's clients are the participants of the gateway, and a run that ends well has written ten files, one
  that stops has written the first of them.\<close>

lemma certgen_clients:
  "map (\<lambda>c. ctCommonName (client_template E n c)) ((3, ''bank-a'') # certgen_participants) = map partID gateway_participants"
  by (simp add: client_template_def certgen_participants_def gateway_participants_def)

definition certgen_files :: "string list" where
  "certgen_files = [''ca-cert.pem'', ''ca-key.pem'', ''server-cert.pem'', ''server-key.pem'',
     ''client-bank-a-cert.pem'', ''client-bank-a-key.pem'', ''client-bank-b-cert.pem'', ''client-bank-b-key.pem'',
     ''client-bank-c-cert.pem'', ''client-bank-c-key.pem'']"

text \<open>\<open>writes_files m ns\<close>: \<open>m\<close> appends the files \<open>ns\<close>, or fails after some of them.\<close>

definition writes_files :: "(('k, 'd) files, 'a) call \<Rightarrow> string list \<Rightarrow> bool" where
  "writes_files m ns \<longleftrightarrow> (\<forall>fs r fs'. m fs = (r, fs') \<longrightarrow>
     (\<exists>k. map fst fs' = map fst fs @ take k ns \<and> (\<forall>a. r = Inr a \<longrightarrow> length ns \<le> k)))"

lemma writes_bind:
  assumes "writes_files m ns" "\<And>a. writes_files (f a) ms"
  shows "writes_files (bindE m f) (ns @ ms)"
  unfolding writes_files_def
proof (intro allI impI)
  fix fs r fs' assume b: "bindE m f fs = (r, fs')"
  obtain x fs1 where x: "m fs = (x, fs1)" by fastforce
  with assms(1) obtain k where k: "map fst fs1 = map fst fs @ take k ns" "\<And>a. x = Inr a \<Longrightarrow> length ns \<le> k"
    unfolding writes_files_def by blast
  show "\<exists>k. map fst fs' = map fst fs @ take k (ns @ ms) \<and> (\<forall>a. r = Inr a \<longrightarrow> length (ns @ ms) \<le> k)"
  proof (cases x)
    case (Inl e)
    with b x k show ?thesis by (intro exI [of _ "min k (length ns)"]) (auto simp: bindE_def min_def)
  next
    case (Inr a)
    with b x have "f a fs1 = (r, fs')" by (simp add: bindE_def)
    with assms(2) obtain j where "map fst fs' = map fst fs1 @ take j ms" "\<And>a. r = Inr a \<Longrightarrow> length ms \<le> j"
      unfolding writes_files_def by blast
    with k Inr show ?thesis by (intro exI [of _ "length ns + j"]) auto
  qed
qed

lemma writes_quiet: "writes_files (\<lambda>fs. (r, fs)) []"
  by (simp add: writes_files_def)

lemma writes_PEM: "writes_files (writePEM E path kind data) [path]"
  unfolding writes_files_def writePEM_def
  by (auto split: option.splits intro: exI [of _ 0] exI [of _ 1])

lemma writes_okE: "writes_files (okE a) []"
  by (simp add: writes_files_def)

lemma writes_issue: "writes_files (issue E parent caKey n tmpl file) [file @ ''-cert.pem'', file @ ''-key.pem'']"
proof -
  have "writes_files (issue E parent caKey n tmpl file) ([] @ [] @ [file @ ''-cert.pem''] @ [file @ ''-key.pem''])"
    unfolding issue_def by (intro writes_bind writes_quiet writes_PEM)
  then show ?thesis by simp
qed

lemma writes_clients:
  "writes_files (issue_clients E parent caKey n cs)
     (concat (map (\<lambda>c. [''client-'' @ snd c @ ''-cert.pem'', ''client-'' @ snd c @ ''-key.pem'']) cs))"
proof (induction cs arbitrary: n)
  case Nil
  show ?case unfolding issue_clients.simps list.map concat.simps by (rule writes_okE)
next
  case (Cons c cs)
  have "writes_files (issue_clients E parent caKey n (c # cs))
      ([(''client-'' @ snd c) @ ''-cert.pem'', (''client-'' @ snd c) @ ''-key.pem''] @
       concat (map (\<lambda>c. [''client-'' @ snd c @ ''-cert.pem'', ''client-'' @ snd c @ ''-key.pem'']) cs))"
    unfolding issue_clients.simps by (intro writes_bind writes_issue Cons.IH)
  then show ?case by simp
qed

lemma certgen_writes: "writes_files (certgen_main E) certgen_files"
proof -
  let ?cs = "(3, ''bank-a'') # certgen_participants"
  have "writes_files (certgen_main E) ([] @ [] @ [''ca-cert.pem''] @ [''ca-key.pem''] @ [] @ [] @ [] @ [''server-cert.pem''] @
      [''server-key.pem''] @ concat (map (\<lambda>c. [''client-'' @ snd c @ ''-cert.pem'', ''client-'' @ snd c @ ''-key.pem'']) ?cs))"
    unfolding certgen_main_def by (intro writes_bind writes_quiet writes_PEM writes_clients)
  then show ?thesis by (simp add: certgen_files_def certgen_participants_def)
qed

end
