(* ===== verification/Spec2Isabelle.thy ===== *)
theory Spec2Isabelle
  imports StoryExamples Sweeper PortalExamples Deploy Startup
begin

text \<open>
  A verification development for the payment switch of this repository (src/): the Go services that
  accept credit transfers from banks, run each of them as a saga over a database, a bank service and
  six supporting services, publish what happened, and report the outcome.

  \<^bold>\<open>The program.\<close> The gateway (src/cmd/gateway, src/internal/gateway) authenticates a bank,
  parses a payment given as JSON or as an ISO 20022 pacs.008 message, stores it with an outbox event and
  runs a saga in the background (src/internal/orchestrator/saga). The saga's steps call the BIC lookup,
  routing, quoting, compliance, settlement, reconciliation and notification services and the bank's API
  (src/internal/bankclient towards src/internal/banksvc); each completed step is recorded in Postgres
  (src/internal/orchestrator/db), and when a step fails the completed ones are compensated in reverse
  order. A sweeper compensates payments whose reservation has expired, a relay publishes the outbox to
  the broker, and consumers read it.

  \<^bold>\<open>The theories.\<close>
  \<^item> Prelude: 64-bit arithmetic, times, Go's errors and the shape of a fallible call on a state,
    rows of a table, and the lemmas on them that all components share.
  \<^item> Domain, Saga, SagaSteps, SagaStatus, SafeSaga: the payment record and the ports as records of
    functions (domain, ports); Run, rollback and CompensatePayment (saga.go); the ten steps (steps.go);
    the locales that state what a repository, a set of services and a bank ledger promise, with the
    lemmas on statuses and money proved inside them. MockBank is saga/bank.go, Sweeper is sweep.go.
  \<^item> Postgres, PaymentRepo, RepoInvariant, Reachable: tables, statements that may fail, transactions
    and the triggers of src/migrations; the queries of sqlc/payment.sql.go and the repository of
    payment_repo.go; the invariant of the tables and the databases reachable by any sequence of operations.
  \<^item> OutboxRelay: outbox/relay.go, eventbus/consumer.go and audit/handler.go.
  \<^item> Wire, BankService, BankServer, BankClient: JSON decoding and encoding and HTTP answers; the bank's
    accounts and reservations (bank.go), its handlers and router (handler.go, iso20022.go, server.go); the
    client with its database-backed configuration (client.go, dbprovider.go).
  \<^item> Grpc, Settlement, Quoting, Routing, Reconciliation, Lookup, Compliance: the supporting services
    and both sides of their gRPC adapters.
  \<^item> Calendar, Float64, Iso20022: Go's date formats and parsers, double precision as rounded rationals,
    and the messages and conversions of src/pkg/iso20022.
  \<^item> Participant: the participant registry, the certificate service, the gateway's authentication
    (cmd/gateway/main.go), the mTLS and idempotency middleware and the replay check.
  \<^item> Switch, SwitchRuns: the assembly of cmd/gateway/main.go, the saga over one state that holds the
    database, the bank and the services, the interpretation of the locales on it, and what a run does.
  \<^item> Concurrent: any number of sagas at once, their steps interleaved in any order.
  \<^item> Gateway: the HTTP handlers of internal/gateway/handler.go, the background run and its callback.
  \<^item> History, Story: which events a run and a whole gateway process leave in the outbox, and what becomes of one
    submitted payment from the request to the broker, across handler, saga, database, bank and relay.
  \<^item> System: the gateway process as a machine (requests, steps of running sagas, sweeper, relay, callbacks) with
    its reachable states, and the typing of every stored payment in them.
  \<^item> Config, Deploy: the configuration (pkg/config) and the assembly of the gateway from it, with connections
    to the services that are remote; the simulation that makes it behave as the one of Switch.
  \<^item> Ledger, Services: the settlement ledger (pkg/ledger) and what the other processes put together at start-up.
  \<^item> Startup: how the processes come up (src/cmd): telemetry, metrics, Redis client and resilience helpers of src/pkg,
    the main function of every service up to its listener, and the generator of development certificates.
  \<^item> PortalStore, PortalViews: the operators' portal's database access (portal/store/store.go), over the
    same tables as the switch's repository. PortalAuth: claims, roles and CSRF tokens (portal/auth).
    PortalApi, PortalRoutes: its handlers, middleware and routes (portal/api), up to a whole request.
  \<^item> PortalInvariant, PortalLife, PortalAccess, PortalScope: the locales that say what relation between
    databases requests keep to, and their interpretations: the data over time, who may change and who may
    see what. AuthService: the users, sessions and handlers of cmd/auth-service.
  \<^item> Examples, GatewayExamples, StoryExamples, PortalExamples: concrete payments, requests and sessions, evaluated in
    the kernel.

  \<^bold>\<open>State and errors.\<close> A Go value that methods change is a record that operations take and return;
  a call that may fail returns a sum whose left side is the error. Faults are part of the state: a list
  says which statement or network call fails, so that a theorem holds for every pattern of failures
  unless it says that nothing fails (\<open>no_faults\<close>, \<open>sw_live\<close>). 64-bit integers are words,
  \<open>time.Time\<close> is the integer of nanoseconds since year 1, strings are lists of bytes. What the program
  does not determine is a parameter: the clock, fresh UUIDs, random numbers, the order in which Go ranges
  over a map, the broker, the key-value store, SHA-256 and RSA. Loops are recursions over the lists they
  range over, so no fuel is needed; the tickers of the relay and the sweeper are lists of ticks.

  \<^bold>\<open>What is shown.\<close> C1 to C10: a saga compensates exactly what completed; a run over the assembled
  switch implements an abstract transfer, conserves money, settles or aborts; any interleaving of runs
  conserves money and ends; what the sweeper restores, and three ways in which the code loses a payment's
  money or its final status. C11 to C14: the invariant of the database, the typing of every payment stored in a
  reachable state of the whole gateway process, atomicity of a status change and its event, round trip of a stored
  payment. C15 to C20: what a submission changes and on whose behalf, conflicts, agreement of the two formats, and
  the outcome that is reported. C21 to C24: amounts, messages, names and nonces. C25 and C26: the bank service and
  its client. C27 to C31: order, progress and loss of events, which history of a payment the broker receives, and the
  story of an accepted payment from its request to the published events. C32 and C33: settlement. C34: the
  gateway's configuration. C35 to C40: the portal, that is who may change the register of banks and certificates,
  the life of its data, what a bank's users see and where the restriction fails open, and whom the
  authentication service lets it believe. Quotes, routing, reconciliation, lookup, the ledger and the start-up of the
  processes have their lemmas in their own theories, and a quote's single acceptance a theorem below.

  \<^bold>\<open>Not modelled.\<close> The portal's user interface and its static files, the HTML of the login page, the text of logs
  and spans, signals and shutdown in the main functions, and the protocol definitions from which gRPC code is
  generated. viper, which reads the environment, the connections of gRPC, listening on an address, the exporters of
  telemetry, the metrics registry, Redis, the circuit breaker, the retry loop and the cryptography of certificates are
  parameters.
  The router of the HTTP interfaces and the reverse proxy are outside the repository; the portal's routes
  are the registered patterns, and the proxy hands over the headers its configuration lists.
  Concurrency inside a service is reduced to the order of its operations, as its mutexes enforce. Sagas running at
  the same time are interleaved step by step, not statement by statement; the theorems on money leave the
  sweeper out of the interleaving, because it shares a step count with the runs (C9), while the machine of System
  includes it, one reservation at a time. XML text
  is not modelled: a message is the Go value that encoding/xml reads or prints, a body the result of
  decoding it. Context deadlines are not modelled.
\<close>

section \<open>The saga\<close>

text \<open>C1: a run of any saga fails with error \<open>e\<close> exactly when, for some \<open>k\<close>, its
  first \<open>k\<close> steps succeed in order and step \<open>k\<close> fails with \<open>e\<close>; it then has executed
  the compensations of exactly those \<open>k\<close> steps in reverse order, ignoring their errors, and
  recorded \<open>k\<close> as the number of completed steps.\<close>

theorem run_failure_rolls_back:
  "Run s p w = (Some e, s', p', w') \<longleftrightarrow>
     (\<exists>k p1 w1 p2 w2. k < length (sagaSteps s) \<and>
        forward (take k (sagaSteps s)) p w = Some (p1, w1) \<and>
        Execute (sagaSteps s ! k) p1 w1 = (Some e, p2, w2) \<and>
        compensate_all (rev (take k (sagaSteps s))) p2 w2 = (p', w') \<and>
        s' = s\<lparr>completedSteps := int k\<rparr>)"
  by (rule iffI, erule Run_errE, blast, blast intro: Run_fails_at)









text \<open>C6: how a run ends for the stored status: a successful run leaves the payment SETTLED, in memory too; a run
  that fails before any step has completed (its validation) leaves every status as it was, so that the payment
  the gateway has accepted stays RECEIVED for ever; a run that fails later leaves it ABORTED when the database
  answers. No other payment's status changes.\<close>

theorem run_outcome_status:
  assumes "sw_status w (pID p) = Some (pStatus p)" and "Run (gateway_saga env) p w = (r, s', p', w')"
  shows "(\<forall>i. i \<noteq> pID p \<longrightarrow> sw_status w' i = sw_status w i) \<and>
    (if r = None then pStatus p' = StatusSettled \<and> sw_status w' (pID p) = Some StatusSettled
     else if completedSteps s' = 0 then sw_status w' = sw_status w
     else sw_live w \<longrightarrow> sw_status w' (pID p) = Some StatusAborted)"
proof -
  have run: "Run ((gateway_saga env)\<lparr>sagaSteps := gateway_steps (gateway_ports env)\<rparr>) p w = (r, s', p', w')"
    using assms(2) by (simp add: gateway_saga_def New_saga_def)
  show ?thesis
  proof (cases r)
    case None
    with gsp.Run_ok_status [OF run [unfolded None] assms(1)] show ?thesis by (simp add: gateway_ports_def)
  next
    case (Some e)
    have first: "sw_status w' = sw_status w" if "completedSteps s' = 0"
    proof -
      from assms(2) [unfolded Some] that obtain p2 w2 where "Execute (gateway_steps (gateway_ports env) ! 0) p w = (Some e, p2, w2)" "w' = w2"
        by (elim Run_errE) auto
      moreover have "gateway_steps (gateway_ports env) ! 0 \<in> set (gateway_steps (gateway_ports env))"
        by (rule nth_mem) (simp add: gateway_steps_length)
      ultimately show ?thesis using gsp.step_err_status by blast
    qed
    have pos: "0 \<le> completedSteps s'" using assms(2) [unfolded Some] by (elim Run_errE) auto
    from gsafe.Run_err_aborts [OF run [unfolded Some] assms(1)] gsp.Run_err_status(2) [OF run [unfolded Some] assms(1)] first pos Some
    show ?thesis by auto
  qed
qed

theorem run_outcome_status_witness:
  "sw_status (run_world demo_payment) ''pay-1'' = Some StatusSettled \<and>
   sw_status (run_world unknown_payment) ''pay-1'' = Some StatusAborted \<and>
   sw_status (run_world zero_amount_payment) = sw_status (demo_world zero_amount_payment)"
proof -
  have s: "sw_status (demo_world p) (pID p) = Some (pStatus p)" if "p \<in> {demo_payment, unknown_payment, zero_amount_payment}" for p
    using that demo_stored zero_stored by (auto simp: unknown_payment_def zero_amount_payment_def demo_payment_def)
  have i: "pID demo_payment = ''pay-1''" "pID unknown_payment = ''pay-1''" "pID zero_amount_payment = ''pay-1''"
    by (simp_all add: unknown_payment_def zero_amount_payment_def demo_payment_def)
  have "sw_live (demo_world unknown_payment)" using unknown_ready by (simp add: run_ready_def)
  with run_outcome_status [OF s run_of_split, of demo_payment] run_outcome_status [OF s run_of_split, of unknown_payment]
    run_outcome_status [OF s run_of_split, of zero_amount_payment] demo_run_succeeds unknown_run_fails zero_run_fails
  show ?thesis unfolding i by simp
qed

text \<open>C7: as long as a payment has not gone past settlement, the number of compensations that
  \<^verbatim>\<open>statusToStepCount\<close> derives from its status is the number of steps that have completed.\<close>

theorem status_counts_completed_steps:
  assumes "k \<le> 8" and "forward (take k (gateway_steps (gateway_ports env))) p w = Some (p', w')"
    and "pStatus p = StatusReceived"
  shows "statusToStepCount (pStatus p') = int k"
  by (rule statusToStepCount_forward [OF assms(1) _ assms(2,3)]) (simp add: gateway_ports_def)

theorem status_counts_completed_steps_witness:
  "\<exists>p' w'. forward (take 6 (gateway_steps (gateway_ports demo_env))) demo_payment (demo_world demo_payment) = Some (p', w') \<and>
     statusToStepCount (pStatus p') = 6"
proof -
  obtain p' w' where f: "forward (take 6 (gateway_steps (gateway_ports demo_env))) demo_payment (demo_world demo_payment) = Some (p', w')"
    using demo_forward by (cases "forward (take 6 (gateway_steps (gateway_ports demo_env))) demo_payment (demo_world demo_payment)") auto
  from status_counts_completed_steps [OF _ this] show ?thesis using f by (auto simp: demo_payment_def)
qed






section \<open>The database\<close>

text \<open>C11: every database reached by repository operations, relay passes, failing statements and
  rollbacks, in any order, is well formed: payment ids and (source BIC, end-to-end id) pairs are
  unique, every outbox row has its own id and belongs to a payment, every payment is mirrored in the
  transaction view with its current status.\<close>

theorem database_invariant: "pg_reachable s \<Longrightarrow> pg_wf s"
  by (rule pg_reachable_wf)

theorem database_invariant_witness: "pg_reachable (stored demo_payment) \<and> pg_wf (stored demo_payment)"
proof -
  have "pg_reachable demo_database" unfolding demo_database_def
    by (rule pg_reachable.more [OF pg_reachable.start]) (rule pg_step.tick)
  then have "pg_reachable (stored demo_payment)"
    by (rule pg_reachable.more) (rule pg_step.create [of demo_payment _ "fst (repo_CreateWithEvent demo_payment demo_database)"
          "fst (snd (repo_CreateWithEvent demo_payment demo_database))"], simp add: stored_def)
  with database_invariant show ?thesis by blast
qed

text \<open>C12: the whole gateway process as one machine: requests of any kind arriving, accepted payments making one
  saga step at a time in any order, the sweeper, the relay, reports and callbacks of ended runs, with failures
  anywhere. Whatever state it reaches, every stored payment is well typed: its status is one of the ten, its
  currency has three characters, its charge bearer and purpose code none or four, its source is the bank and
  account of a registered participant, and a payment that has left RECEIVED has a positive amount and names a
  destination bank and account.\<close>

theorem stored_payments_typed:
  assumes "sys_reachable env S" and "row \<in> set (payment_tbl (swPg (sysWorld S)))"
  shows "rStatus row \<in> set all_statuses \<and> length (rCurrency row) = 3 \<and>
    rChargeBearer row \<in> {None} \<union> Some ` {c. length c = 4} \<and> rPurposeCode row \<in> {None} \<union> Some ` {c. length c = 4} \<and>
    (\<exists>p \<in> set gateway_participants. rSourceBic row = partBIC p \<and> rSourceAccount row = partAccount p) \<and>
    (rStatus row \<noteq> StatusReceived \<longrightarrow> 0 < sint (rAmount row) \<and> rDestinationBic row \<noteq> '''' \<and> rDestAccount row \<noteq> '''')"
proof -
  have "row_ok row" using sys_reachable_ok [OF assms(1)] assms(2) by (simp add: sys_ok_def rows_ok_def sw_rows_def list_all_iff)
  then show ?thesis by (cases "rChargeBearer row"; cases "rPurposeCode row") (auto simp: row_ok_def row_typed_def row_valid_def)
qed

theorem stored_payments_typed_witness:
  "\<exists>row \<in> set (payment_tbl (swPg (gwWorld demo_http))). rID row = ''pay-7'' \<and> length (rCurrency row) = 3 \<and>
     (\<exists>p \<in> set gateway_participants. rSourceBic row = partBIC p \<and> rSourceAccount row = partAccount p)"
proof -
  have "''pay-7'' \<in> set (map rID (payment_tbl (swPg (gwWorld demo_http))))" by (simp add: demo_http_rows)
  then obtain row where row: "row \<in> set (payment_tbl (swPg (gwWorld demo_http)))" "rID row = ''pay-7''" by auto
  then have "row \<in> set (payment_tbl (swPg (sysWorld \<lparr>sysRuns = map (Pair (Forward 0)) (gwSpawned demo_http), sysSweep = [], sysWorld = gwWorld demo_http\<rparr>)))"
    by simp
  from stored_payments_typed [OF demo_http_reachable this] row show ?thesis by blast
qed

text \<open>C13: \<^verbatim>\<open>UpdateStatus\<close> writes the new status and the outbox event of the transition
  together or not at all: on success exactly the rows of that payment carry the new status and
  exactly one pending event, with topic \<open>payment.<status>\<close>, is appended; on failure, at whatever
  statement, every table is as before. The event carries the new status as the old one too.\<close>

theorem update_status_atomic:
  "case repo_UpdateStatus pid st s of
     (Some e, s') \<Rightarrow> tables s' = tables s
   | (None, s') \<Rightarrow> \<exists>r. row_by rID pid (payment_tbl s) = Some r \<and>
       payment_tbl s' = upd_where (\<lambda>r. rID r = pid) (\<lambda>r. r\<lparr>rStatus := st, rUpdatedAt := pg_now s\<rparr>) (payment_tbl s) \<and>
       outbox_tbl s' = outbox_tbl s @
         [pending_row s (''payment.'' @ ToLower st) (rEndToEndID r) (transition_event (event_fields r) st st)]"
proof (cases "repo_UpdateStatus pid st s")
  case (Pair r s')
  show ?thesis
  proof (cases r)
    case None
    with Pair show ?thesis by (auto elim: repo_UpdateStatus_okE)
  next
    case (Some e)
    with Pair repo_UpdateStatus_err show ?thesis by simp
  qed
qed

text \<open>C14: a payment that the repository has stored is read back by its id with every field as it was
  given and the database's time as its creation time, provided its fixed-length fields have their
  length, its settlement date is a day and it has no quote or reservation yet (which are not stored).\<close>

theorem create_get_round_trip:
  assumes "repo_CreateWithEvent p s = (None, p', s')" "storable p" "no_faults s'"
  shows "p' = p\<lparr>pCreatedAt := pg_now s, pUpdatedAt := pg_now s\<rparr> \<and>
    (\<exists>s2. repo_GetByID (pID p) s' = (Inr (Some p'), s2) \<and> tables s2 = tables s')"
  by (rule create_then_get [OF assms])

theorem create_get_round_trip_witness:
  "\<exists>s2. repo_GetByID ''pay-1'' (stored demo_payment) =
     (Inr (Some (demo_payment\<lparr>pCreatedAt := pg_now demo_database, pUpdatedAt := pg_now demo_database\<rparr>)), s2)"
proof -
  have "fst (repo_CreateWithEvent demo_payment demo_database) = None" by code_simp
  then obtain p' where c: "repo_CreateWithEvent demo_payment demo_database = (None, p', stored demo_payment)"
    unfolding stored_def by (metis prod.collapse)
  have s: "storable demo_payment" "no_faults (stored demo_payment)" by code_simp+
  from create_get_round_trip [OF c s] show ?thesis by (auto simp: demo_payment_def)
qed

section \<open>The gateway\<close>

text \<open>C15: when the gateway answers 202, the payment belongs to the bank of the participant the
  request was authenticated as, it is stored as one new row in status RECEIVED under a fresh id with
  one pending \<open>payment.received\<close> event, nothing else in the payment table changes, and exactly
  this payment has been handed to a background run.\<close>

theorem submit_accepted_persists:
  assumes "SubmitPayment gateway_handler env r g = (resp, g')" "StatusCode resp = 202"
  shows "\<exists>i p row ob. ctxParticipant r = Some i \<and>
    GetBankForParticipant i gateway_registry = Inr (rSourceBic row, rSourceAccount row) \<and>
    payment_tbl (swPg (gwWorld g')) = payment_tbl (swPg (gwWorld g)) @ [row] \<and>
    rID row = geID env \<and> rStatus row = StatusReceived \<and>
    outbox_tbl (swPg (gwWorld g')) = outbox_tbl (swPg (gwWorld g)) @ [ob] \<and>
    oTopic ob = ''payment.received'' \<and> oKey ob = rEndToEndID row \<and> oStatus ob = ''PENDING'' \<and>
    gwSpawned g' = gwSpawned g @ [p] \<and> pID p = geID env \<and> pStatus p = StatusReceived"
proof -
  from assms obtain i p p' s' where i: "ctxParticipant r = Some i"
    "GetBankForParticipant i gateway_registry = Inr (pSourceBIC p, pSourceAccount p)"
    and p: "parse_payment env r (pSourceBIC p) (pSourceAccount p) = Inr p"
    and c: "repo_CreateWithEvent p (swPg (gwWorld g)) = (None, p', s')"
    and g': "g' = g\<lparr>gwWorld := (gwWorld g)\<lparr>swPg := s'\<rparr>, gwSpawned := gwSpawned g @ [p']\<rparr>"
    by (rule submit_accepted_stores)
  from c obtain row where row: "payment_tbl s' = payment_tbl (swPg (gwWorld g)) @ [row]" "rID row = pID p" "rStatus row = pStatus p"
    "rSourceBic row = pSourceBIC p" "rEndToEndID row = pEndToEndID p"
    "outbox_tbl s' = outbox_tbl (swPg (gwWorld g)) @
       [pending_row (swPg (gwWorld g)) ''payment.received'' (pEndToEndID p) (received_event p row)]"
    "pID p' = pID p" "pStatus p' = pStatus p" "rSourceAccount row = pSourceAccount p"
    by (rule create_effects)
  show ?thesis
    by (intro exI [of _ i] exI [of _ p'] exI [of _ row]
        exI [of _ "pending_row (swPg (gwWorld g)) ''payment.received'' (pEndToEndID p) (received_event p row)"])
      (simp add: i g' row parse_payment_fields(1,2) [OF p] pending_row_def)
qed

theorem submit_accepted_persists_witness:
  "\<exists>row. payment_tbl (swPg (gwWorld demo_gw)) = payment_tbl (swPg (gwWorld empty_gw)) @ [row] \<and> rID row = ''pay-7''"
proof -
  have "SubmitPayment gateway_handler demo_gw_env demo_request empty_gw =
      (fst (SubmitPayment gateway_handler demo_gw_env demo_request empty_gw), demo_gw)"
    by (simp add: demo_gw_def)
  from submit_accepted_persists [OF this demo_submitted] show ?thesis by (auto simp: demo_gw_env_def)
qed

text \<open>C16: when the gateway answers a submission with anything but 202, whether the participant is
  unknown, the body does not parse, the payment exists or the database fails at any statement, no
  table and no account has changed and no background run has been started.\<close>

theorem submit_refused_changes_nothing:
  assumes "SubmitPayment gateway_handler env r g = (resp, g')" "StatusCode resp \<noteq> 202"
  shows "gwSpawned g' = gwSpawned g \<and> tables (swPg (gwWorld g')) = tables (swPg (gwWorld g)) \<and>
    swBank (gwWorld g') = swBank (gwWorld g)"
  by (rule submit_refused_keeps [OF assms])

theorem submit_refused_changes_nothing_witness:
  "StatusCode (fst (SubmitPayment gateway_handler demo_gw_env anonymous_request demo_gw)) = 401 \<and>
   tables (swPg (gwWorld (snd (SubmitPayment gateway_handler demo_gw_env anonymous_request demo_gw)))) = tables (swPg (gwWorld demo_gw))"
proof -
  have c: "StatusCode (fst (SubmitPayment gateway_handler demo_gw_env anonymous_request demo_gw)) = 401"
    by (simp add: SubmitPayment_def anonymous_request_def)
  with submit_refused_changes_nothing [OF prod.collapse [symmetric], of demo_gw_env anonymous_request demo_gw]
  show ?thesis by simp
qed



text \<open>C18: a payment table changes only through an accepted submission, and the new payment debits
  the bank account registered for the participant that the request's headers name (the common name of
  \<open>X-Participant-Id\<close>, else of the forwarded certificate info, else \<open>bank-a\<close>): no request can
  submit a payment from an account of another participant.\<close>

theorem payments_debit_the_named_participant:
  assumes "gateway_http gateway_handler order env method path r g = (resp, g')"
    and "payment_tbl (swPg (gwWorld g')) \<noteq> payment_tbl (swPg (gwWorld g))"
  shows "\<exists>row. payment_tbl (swPg (gwWorld g')) = payment_tbl (swPg (gwWorld g)) @ [row] \<and>
    GetBankForParticipant
      (if Header_Get r ''X-Participant-Id'' \<noteq> '''' then parseCN (Header_Get r ''X-Participant-Id'')
       else if Header_Get r ''X-Forwarded-Tls-Client-Cert-Info'' \<noteq> '''' then parseCN (Header_Get r ''X-Forwarded-Tls-Client-Cert-Info'')
       else ''bank-a'') gateway_registry = Inr (rSourceBic row, rSourceAccount row)"
proof -
  let ?i = "if Header_Get r ''X-Participant-Id'' \<noteq> '''' then parseCN (Header_Get r ''X-Participant-Id'')
       else if Header_Get r ''X-Forwarded-Tls-Client-Cert-Info'' \<noteq> '''' then parseCN (Header_Get r ''X-Forwarded-Tls-Client-Cert-Info'')
       else ''bank-a''"
  let ?r = "r\<lparr>ctxParticipant := Some ?i\<rparr>"
  have routed: "gateway_routes gateway_handler order env method path ?r g = (resp, g')"
    using tlsAuthMiddleware_cases [OF assms(1) [unfolded gateway_http_def]] assms(2) by auto
  have t: "payment_tbl s' = payment_tbl s" if "tables s' = tables s" for s s' using that by (auto simp: tables_def)
  have "method = ''POST'' \<and> path = ''/payments''" using reads_keep [OF routed] assms(2) t by blast
  then have s: "SubmitPayment gateway_handler env ?r g = (resp, g')" using routed by (simp add: gateway_routes_def)
  then have "StatusCode resp = 202" using submit_refused_keeps [OF s] assms(2) t by blast
  from s this obtain i p p' s' where i: "ctxParticipant ?r = Some i"
    "GetBankForParticipant i gateway_registry = Inr (pSourceBIC p, pSourceAccount p)"
    and c: "repo_CreateWithEvent p (swPg (gwWorld g)) = (None, p', s')"
    and g': "g' = g\<lparr>gwWorld := (gwWorld g)\<lparr>swPg := s'\<rparr>, gwSpawned := gwSpawned g @ [p']\<rparr>"
    by (rule submit_accepted_stores)
  from c obtain row where "payment_tbl s' = payment_tbl (swPg (gwWorld g)) @ [row]"
    "rSourceBic row = pSourceBIC p" "rSourceAccount row = pSourceAccount p" by (rule create_effects)
  with i g' show ?thesis by (intro exI [of _ row]) simp
qed

theorem payments_debit_the_named_participant_witness:
  "\<exists>row. payment_tbl (swPg (gwWorld (snd (gateway_http gateway_handler id demo_gw_env ''POST'' ''/payments'' demo_request empty_gw)))) = [row] \<and>
     rSourceBic row = ''BANKUS33'' \<and> rSourceAccount row = ''ACC-A''"
proof -
  have h: "Header_Get demo_request ''X-Participant-Id'' = ''CN=bank-a,O=First National Bank''"
    and n: "parseCN ''CN=bank-a,O=First National Bank'' = ''bank-a''"
    and b: "GetBankForParticipant ''bank-a'' gateway_registry = Inr (''BANKUS33'', ''ACC-A'')"
    and e: "payment_tbl (swPg (gwWorld empty_gw)) = []"
    and c: "payment_tbl (swPg (gwWorld (snd (gateway_http gateway_handler id demo_gw_env ''POST'' ''/payments'' demo_request empty_gw)))) \<noteq> []"
    by code_simp+
  from payments_debit_the_named_participant [OF prod.collapse [symmetric], of id demo_gw_env "''POST''" "''/payments''" demo_request empty_gw]
    h n b e c show ?thesis by (auto simp del: prod.collapse)
qed

text \<open>C19: the same payment submitted as a pacs.008 message and as JSON is parsed into the same
  payment: the amount survives the message's decimal form up to 2^50 minor units, the settlement
  date its day.\<close>

theorem pacs008_and_json_agree:
  assumes "bodyPacs008 body = Inr (ToPacs008 clock msgID d)" "bodyJson body' = Inr (request_json (request_of_data d))"
    and "\<bar>sint (dAmount d)\<bar> < 2 ^ 50" "instant (dSettlementDate d) \<noteq> 0"
    and "Day \<le> wall (dSettlementDate d)" "wall (dSettlementDate d) < days_before_year 10000 * Day"
  shows "parsePacs008 env body sb sa = parseJSON env body' sb sa"
  by (rule formats_agree [OF assms])

theorem pacs008_and_json_agree_witness:
  "parsePacs008 demo_gw_env (demo_body\<lparr>bodyPacs008 := Inr (ToPacs008 0 ''MSG-1'' demo_data)\<rparr>) ''BANKUS33'' ''ACC-A'' =
   parseJSON demo_gw_env (demo_body\<lparr>bodyJson := Inr (request_json (request_of_data demo_data))\<rparr>) ''BANKUS33'' ''ACC-A''"
  by (rule pacs008_and_json_agree [OF _ _ demo_data_facts]) simp_all

text \<open>C20: the report the gateway posts after a background run is never a rejection, even when the run
  failed: replacing what the callback client does with rejecting documents changes nothing.\<close>

theorem failed_payment_not_reported_rejected:
  assumes "pStatus p \<noteq> StatusAborted" "cbNewRequest cb' = cbNewRequest cb"
    and "\<And>url doc w. \<not> is_rejection doc \<Longrightarrow> cbPost cb' url doc w = cbPost cb url doc w"
  shows "processPaymentAsync gateway_handler cb' now (gateway_saga env) p w =
         processPaymentAsync gateway_handler cb now (gateway_saga env) p w"
proof -
  obtain r s1 p1 w1 where run: "Run (gateway_saga env) p w = (r, s1, p1, w1)" by (metis prod_cases4)
  have "pStatus p1 \<noteq> StatusAborted" by (rule Run_never_aborts_memory [OF gateway_saga_steps assms(1) run])
  then have "\<not> is_rejection (status_report now p1)" unfolding is_rejection_def by (simp add: report_rejected_iff)
  then have "cbPost cb' url (status_report now p1) v = cbPost cb url (status_report now p1) v" for url v by (rule assms(3))
  then have "sendCallback cb' now url p1 v = sendCallback cb now url p1 v" for url v
    by (simp add: sendCallback_def assms(2) split: option.split)
  then show ?thesis by (simp add: processPaymentAsync_def run report_outcome_def split: prod.split sum.split)
qed

theorem failed_payment_not_reported_rejected_witness:
  "run_error unknown_payment \<noteq> None \<and>
   processPaymentAsync gateway_handler alarm_callback 0 (gateway_saga demo_env) unknown_payment (demo_world unknown_payment) =
   processPaymentAsync gateway_handler silent_callback 0 (gateway_saga demo_env) unknown_payment (demo_world unknown_payment)"
proof
  show "run_error unknown_payment \<noteq> None" using unknown_run_fails by simp
  show "processPaymentAsync gateway_handler alarm_callback 0 (gateway_saga demo_env) unknown_payment (demo_world unknown_payment) =
   processPaymentAsync gateway_handler silent_callback 0 (gateway_saga demo_env) unknown_payment (demo_world unknown_payment)"
    by (rule failed_payment_not_reported_rejected)
      (simp_all add: unknown_payment_def demo_payment_def go_string alarm_callback_def silent_callback_def)
qed

section \<open>Messages and identities\<close>

text \<open>C21: an amount of less than 2^50 minor units survives the conversion to the decimal amount of an
  ISO 20022 message and back, although both conversions round in double precision.\<close>

theorem minor_units_survive:
  assumes "\<bar>sint a\<bar> < 2 ^ 50"
  shows "amountToMinorUnits (minorUnitsToAmount a) = a"
  by (rule minor_units_round_trip [OF assms])

theorem minor_units_survive_witness:
  "amountToMinorUnits (minorUnitsToAmount 999999999999999) = 999999999999999"
  by (rule minor_units_survive) simp





text \<open>C24: a message that has been accepted by the replay check is never accepted again: as long as the
  store keeps its key until it expires, a later check of the same nonce and timestamp fails, because
  the key outlives the window of accepted timestamps.\<close>

theorem replay_rejected:
  assumes "setnx_contract setNX clock expiry"
    and "CheckReplay setNX (clock w) i nonce ts w = (None, w1)"
    and "clock w \<le> clock w2" "expiry w2 (nonce_key i nonce) = expiry w1 (nonce_key i nonce)"
  shows "\<exists>e w3. CheckReplay setNX (clock w2) i nonce ts w2 = (Some e, w3)"
  by (rule CheckReplay_once [OF assms])

theorem replay_rejected_witness:
  "\<exists>e w3. CheckReplay mem_setnx (Minute * 2) ''bank-a'' ''n-1'' Minute
     \<lparr>msClock = Minute * 2, msKeys = [nonce_key ''bank-a'' ''n-1'' \<mapsto> Minute + 10 * Minute]\<rparr> = (Some e, w3)"
proof -
  let ?w1 = "\<lparr>msClock = Minute, msKeys = [nonce_key ''bank-a'' ''n-1'' \<mapsto> Minute + 10 * Minute]\<rparr>"
  let ?w2 = "\<lparr>msClock = Minute * 2, msKeys = [nonce_key ''bank-a'' ''n-1'' \<mapsto> Minute + 10 * Minute]\<rparr>"
  have a: "CheckReplay mem_setnx (msClock \<lparr>msClock = Minute, msKeys = Map.empty\<rparr>) ''bank-a'' ''n-1'' Minute
      \<lparr>msClock = Minute, msKeys = Map.empty\<rparr> = (None, ?w1)"
    by (simp add: CheckReplay_def mem_setnx_def Minute_def Second_def)
  from replay_rejected [OF mem_setnx_contract a, of ?w2] show ?thesis by (simp add: Minute_def Second_def)
qed

section \<open>The bank service and its client\<close>

text \<open>C25: whatever request the bank service receives, its accounts change only when it answers 200 or
  201: every refused or malformed request leaves the whole state as it was.\<close>

theorem bank_errors_keep_state:
  "StatusCode (fst (Server_Handler order clock method path body b)) \<in> {200, 201} \<or>
   snd (Server_Handler order clock method path body b) = b"
  by (rule Server_Handler_state)



section \<open>Events\<close>

text \<open>C27: the relay publishes pending events in the order of their outbox ids. When a batch commits, the
  events published are a prefix of the pending ones and exactly their rows are marked PUBLISHED; when it
  fails, no row is marked, so that a later batch publishes them again: at least once, in order.\<close>

theorem relay_in_order:
  assumes "appends publish" and "flushBatch publish locked s k = (r, s', k')"
  shows "sorted (map oID (pending_batch locked (outbox_tbl s))) \<and>
    (\<exists>n. k' = k @ map row_message (take n (pending_batch locked (outbox_tbl s))) \<and>
    (case r of
       None \<Rightarrow> outbox_tbl s' = outbox_tbl (mark_published (map oID (take n (pending_batch locked (outbox_tbl s)))) s) \<and>
         payment_tbl s' = payment_tbl s
     | Some e \<Rightarrow> tables s' = tables s))"
proof (cases r)
  case None
  with pending_batch_sorted flushBatch_ok [OF assms(1), of locked s k s' k'] assms(2) show ?thesis by auto
next
  case (Some e)
  with pending_batch_sorted flushBatch_err_prefix [OF assms(1), of locked s k e s' k'] flushBatch_err_tables [of publish locked s k e s' k'] assms(2)
  show ?thesis by auto
qed

theorem relay_in_order_witness:
  "\<exists>n. snd (snd (flushBatch (\<lambda>t key ev k. (None, k @ [(t, key, ev)])) (\<lambda>_. False) (stored demo_payment) [])) =
     map row_message (take n (pending_batch (\<lambda>_. False) (outbox_tbl (stored demo_payment))))"
proof -
  have "appends (\<lambda>t key ev k. (None, k @ [(t, key, ev)]))" by (simp add: appends_def)
  from relay_in_order [OF this, of "\<lambda>_. False" "stored demo_payment" "[]" "fst (flushBatch (\<lambda>t key ev k. (None, k @ [(t, key, ev)])) (\<lambda>_. False) (stored demo_payment) [])"
    "fst (snd (flushBatch (\<lambda>t key ev k. (None, k @ [(t, key, ev)])) (\<lambda>_. False) (stored demo_payment) []))"
    "snd (snd (flushBatch (\<lambda>t key ev k. (None, k @ [(t, key, ev)])) (\<lambda>_. False) (stored demo_payment) []))"]
  show ?thesis by auto
qed

text \<open>C28: when nothing fails, no row is locked and the broker accepts, enough ticks of the relay (one for every 500
  pending events) leave nothing pending, and what the broker has received is exactly the pending events, each
  once, in the order of their ids.\<close>

theorem relay_drains:
  assumes "no_faults s" "pg_wf s" and "appends publish" "\<And>t key ev l. fst (publish t key ev l) = None"
    and "length (pending_rows s) \<le> 500 * n"
  shows "\<exists>s'. Relay_Run publish (replicate n (\<lambda>_. False)) s k = (s', k @ map row_message (pending_rows s)) \<and>
    pending_rows s' = []"
proof -
  have "sorted_wrt (<) (map oID (outbox_tbl s))" using assms(2) by (simp add: pg_wf_def outbox_wf_def)
  from Relay_Run_sends [OF assms(1) this assms(5,3,4), of k] show ?thesis by (auto simp: queued_def)
qed

theorem relay_drains_witness:
  "length (pending_rows (stored demo_payment)) = 1 \<and>
   (\<exists>s'. Relay_Run (\<lambda>t key ev k. (None, k @ [(t, key, ev)])) (replicate 1 (\<lambda>_. False)) (stored demo_payment) [] =
      (s', map row_message (pending_rows (stored demo_payment))) \<and> pending_rows s' = [])"
proof -
  have l: "length (pending_rows (stored demo_payment)) = 1" by code_simp
  have "sw_live (demo_world demo_payment)" using demo_ready by (simp add: run_ready_def)
  then have "no_faults (stored demo_payment)" "pg_wf (stored demo_payment)" by (simp_all add: sw_live_def demo_world_def)
  moreover have "appends (\<lambda>t key ev k. (None, k @ [(t, key, ev)]))" by (simp add: appends_def)
  ultimately show ?thesis using l relay_drains [of "stored demo_payment" "\<lambda>t key ev k. (None, k @ [(t, key, ev)])" 1 "[]"] by simp
qed

text \<open>C29: the events of a run, whatever fails on the way: the messages appended to the outbox are those of the
  steps that completed, in order (the route step writes none; a reservation is recorded as coming from VALIDATED,
  every other change as coming from itself), followed, when the run failed, by \<open>payment.aborted\<close> events, one
  for every completed step that compensates by writing ABORTED as long as the database answers, never more. A
  successful run publishes seven events; a payment whose credit is refused is announced as aborted four times.\<close>

theorem published_history:
  assumes "stored_fields (swPg w) (pID p) = Some f" and "Run (gateway_saga env) p w = (r, s', p', w')"
    and "k = nat (completedSteps s')"
  shows "\<exists>n \<le> abort_count k.
    queued (swPg w') = queued (swPg w) @ run_messages f k @ replicate n (change_message f StatusAborted StatusAborted) \<and>
    (r = None \<longrightarrow> k = 10 \<and> n = 0) \<and> (r \<noteq> None \<and> sw_live w \<longrightarrow> n = abort_count k)"
  using gateway_run_messages [OF assms] by (auto simp: abort_messages_def)

theorem published_history_witness:
  "\<exists>f. queued (swPg (run_world unknown_payment)) = queued (swPg (demo_world unknown_payment)) @
     [change_message f StatusValidated StatusValidated, change_message f StatusLookedUp StatusLookedUp,
      change_message f StatusQuoted StatusQuoted, change_message f StatusScreened StatusScreened,
      change_message f StatusValidated StatusReserved] @
     replicate 4 (change_message f StatusAborted StatusAborted)"
proof -
  have "stored_fields (swPg (demo_world unknown_payment)) (pID unknown_payment) \<noteq> None"
    using demo_stored(2) by (auto simp: stored_fields_def sw_status_def pg_status_def unknown_payment_def demo_payment_def)
  then obtain f where f: "stored_fields (swPg (demo_world unknown_payment)) (pID unknown_payment) = Some f" by blast
  have live: "sw_live (demo_world unknown_payment)" using unknown_ready by (simp add: run_ready_def)
  have k: "6 = nat (completedSteps (run_saga unknown_payment))" using unknown_run_fails by simp
  have a: "abort_count 6 = 4" by code_simp
  have m: "run_messages f 6 = [change_message f StatusValidated StatusValidated, change_message f StatusLookedUp StatusLookedUp,
      change_message f StatusQuoted StatusQuoted, change_message f StatusScreened StatusScreened,
      change_message f StatusValidated StatusReserved]"
    by (simp add: run_messages_def step_messages_def step_changes_def upt_rec)
  from published_history [OF f run_of_split k] live unknown_run_fails a m show ?thesis by auto
qed



text \<open>C31: the consumer commits past messages it could not handle: reading a partition in order, a
  message whose handler failed is below the committed offset as soon as a later message has been
  handled, so that it is never delivered again.\<close>

theorem consumer_skips_failed_message:
  assumes "Consume h (\<lambda>_. None) (map2 Fetched [n..<n + length ms] ms) st = (r, st')"
    and "i < j" "j < length ms" "h (ms ! i) = Some e" "h (ms ! j) = None" "n + i \<notin> set (cnHandled st)"
  shows "n + i \<notin> set (cnHandled st') \<and> n + i < cnCommitted st'"
proof -
  note c = Consume_in_order [OF assms(1)]
  from c assms(4,6) have "n + i \<notin> set (cnHandled st')" by simp
  moreover from c assms(3,5) have "n + j < cnCommitted st'" by simp
  ultimately show ?thesis using assms(2) by simp
qed

theorem consumer_skips_failed_message_witness:
  "let st' = snd (Consume (\<lambda>m. if m = 0 then Some (ErrMsg ''bad'') else None) (\<lambda>_. None)
       (map2 Fetched [5..<5 + length [0, 1 :: nat]] [0, 1 :: nat]) \<lparr>cnHandled = [], cnCommitted = 5\<rparr>)
   in 5 \<notin> set (cnHandled st') \<and> 5 < cnCommitted st'"
proof -
  let ?st' = "snd (Consume (\<lambda>m. if m = 0 then Some (ErrMsg ''bad'') else None) (\<lambda>_. None)
       (map2 Fetched [5..<5 + length [0, 1 :: nat]] [0, 1 :: nat]) \<lparr>cnHandled = [], cnCommitted = 5\<rparr>)"
  have "5 + 0 \<notin> set (cnHandled ?st') \<and> 5 + 0 < cnCommitted ?st'"
    by (rule consumer_skips_failed_message [where h = "\<lambda>m. if m = 0 then Some (ErrMsg ''bad'') else None" and ms = "[0, 1 :: nat]" and n = 5
          and st = "\<lparr>cnHandled = [], cnCommitted = 5\<rparr>" and i = 0 and j = 1, OF prod.collapse [symmetric]]) simp_all
  then show ?thesis unfolding Let_def add_0_right .
qed

section \<open>Settlement, quotes, routes\<close>

text \<open>C32: the net positions of a settlement window are the credits minus the debits of each bank: they
  sum to zero, and a position is listed exactly for the banks whose net amount is not zero (64-bit
  arithmetic, whatever order the positions come in).\<close>

theorem net_positions_balance:
  assumes "mset (ord (net_bics es)) = mset (net_bics es)"
  shows "sum_list (map npAmount (calculateNetPositions ord es)) = 0 \<and>
    ((\<exists>q\<in>set (calculateNetPositions ord es). npBIC q = bic \<and> npAmount q = a) \<longleftrightarrow> a \<noteq> 0 \<and> net_of es bic = a)"
  using net_positions_sum_zero [of ord es] net_positions_mem [of ord es bic a] assms by blast

theorem net_positions_balance_witness:
  "let es = [\<lparr>sePaymentID = ''p'', seSourceBIC = ''A'', seDestBIC = ''B'', seAmount = 7, seCurrency = ''USD'', seCommittedAt = 0\<rparr>]
   in sum_list (map npAmount (calculateNetPositions rev es)) = 0 \<and>
      (\<exists>q\<in>set (calculateNetPositions rev es). npBIC q = ''A'' \<and> npAmount q = - 7)"
proof -
  let ?es = "[\<lparr>sePaymentID = ''p'', seSourceBIC = ''A'', seDestBIC = ''B'', seAmount = 7, seCurrency = ''USD'', seCommittedAt = 0\<rparr>]"
  have "mset (rev (net_bics ?es)) = mset (net_bics ?es)" by simp
  from net_positions_balance [of rev ?es, OF this, of "''A''" "- 7"] show ?thesis by (simp add: net_of_def Let_def)
qed

text \<open>C33: once a settlement window has been settled, every later submission is acknowledged as accepted
  and lost, and every later settlement is refused: the positions of payments committed afterwards are
  never computed.\<close>

theorem closed_window_loses_entries:
  assumes "Settle ord w l = (Inr ps, w', l')"
  shows "fold (\<lambda>req v. snd (SubmitForSettlement req v)) reqs w' = w' \<and>
    (\<forall>req. fst (SubmitForSettlement req w') = Inr True) \<and> (\<exists>e. Settle ord w' l' = (Inl e, w', l')) \<and> wnEntries w' = []"
proof -
  have c: "wnClosed w'" "wnEntries w' = []" using assms by (auto simp: Settle_def Let_def split: if_splits)
  then have "fold (\<lambda>req v. snd (SubmitForSettlement req v)) reqs w' = w'"
    by (induction reqs) (simp_all add: submit_closed_lost)
  with c show ?thesis by (simp add: submit_closed_lost Settle_def)
qed

theorem closed_window_loses_entries_witness:
  "\<exists>ps w' l'. Settle id (NewWindow Minute 10 :: unit Window) () = (Inr ps, w', l') \<and>
     snd (SubmitForSettlement (pb_of_payment demo_payment) w') = w'"
proof -
  obtain ps w' l' where s: "Settle id (NewWindow Minute 10 :: unit Window) () = (Inr ps, w', l')"
    by (simp add: Settle_def NewWindow_def)
  from closed_window_loses_entries [OF s, of "[pb_of_payment demo_payment]"] s show ?thesis by auto
qed

text \<open>A quote's fee is the base fee plus one hundredth of a percent of the amount, rounded down, and
  its total the amount plus the fee, without overflow as long as the total fits in 64 bits; it is stored,
  not yet accepted, and expires 30 seconds later.\<close>

theorem quote_price:
  assumes "getQuote env sb db amount ccy s = (Inr q, s')" "0 \<le> sint (baseFee s)"
    and "sint amount + sint (baseFee s) + sint amount div 10000 < 2 ^ 63"
  shows "sint (qFee q) = sint (baseFee s) + sint amount div 10000 \<and> sint (qTotal q) = sint amount + sint (qFee q) \<and>
    quotes s' = (quotes s)(qID q \<mapsto> q) \<and> \<not> qAccepted q \<and> qExpiresAt q = qeNow env + 30 * Second"
  using getQuote_value [OF assms] by simp

theorem quote_price_witness:
  "\<exists>q s'. getQuote demo_env ''BANKUS33'' ''BANKDEFF'' 1000000 ''USD'' New_quoting = (Inr q, s') \<and>
     sint (qFee q) = 125 \<and> sint (qTotal q) = 1000125"
proof -
  obtain q s' where q: "getQuote demo_env ''BANKUS33'' ''BANKDEFF'' 1000000 ''USD'' New_quoting = (Inr q, s')"
    by (simp add: getQuote_def Let_def sle_def)
  from quote_price [OF q] q show ?thesis by (simp add: New_quoting_def)
qed

text \<open>A quote is accepted at most once, and only while it has not expired: after it has been accepted,
  every later acceptance is refused and changes nothing.\<close>

theorem quote_accepted_once:
  assumes "AcceptQuote now i s = (None, s')"
  shows "(\<exists>q. quotes s i = Some q \<and> now \<le> qExpiresAt q \<and> \<not> qAccepted q) \<and>
    (\<forall>now'. \<exists>e. AcceptQuote now' i s' = (Some e, s'))"
  using AcceptQuote_ok_iff [of now i s] AcceptQuote_once [OF assms] assms by blast

theorem quote_accepted_once_witness:
  "\<exists>s'. AcceptQuote (qeNow demo_env) ''q-1'' (snd (getQuote demo_env ''BANKUS33'' ''BANKDEFF'' 1000000 ''USD'' New_quoting)) = (None, s') \<and>
     (\<exists>e. AcceptQuote (qeNow demo_env) ''q-1'' s' = (Some e, s'))"
proof -
  obtain s' where a: "AcceptQuote (qeNow demo_env) ''q-1'' (snd (getQuote demo_env ''BANKUS33'' ''BANKDEFF'' 1000000 ''USD'' New_quoting)) = (None, s')"
    by (simp add: getQuote_def Let_def sle_def AcceptQuote_def demo_env_def New_quoting_def Second_def)
  from quote_accepted_once [OF a] a show ?thesis by blast
qed

text \<open>Adding a route makes it the one that is found for its source, destination and currency, leaves
  every other route as it was, and keeps at most one route per key.\<close>

theorem route_after_add:
  "LookupRoute sb db ccy (AddRoute r s) = (if route_key r = (sb, db, ccy) then Inr r else LookupRoute sb db ccy s) \<and>
   (routes_wf s \<longrightarrow> routes_wf (AddRoute r s))"
  by (simp add: LookupRoute_AddRoute AddRoute_wf)

theorem route_after_add_witness:
  "routes_wf (AddRoute (mk_route ''BANKUS33'' ''BANKDEFF'' ''USD'' 1 2) routing_seedDefaults)"
  using route_after_add routing_defaults_wf by blast

text \<open>C34: it makes no difference to a payment which services are remote. Whatever configuration the
  gateway has loaded from its environment, the saga it assembles has all ten steps (the environment cannot
  remove the settlement step), and when its connections lead to the services and the bank API is enabled,
  a run of it leaves the same payment, the same state of the switch and the same count of completed steps
  as the saga over the services in one process, and fails exactly when that one fails; only the text of the
  error may differ.\<close>

theorem configured_gateway_runs_alike:
  assumes "Load v = Inr cfg" "empty_is_unset v" "services_behind env net" "main_saga env cfg net mock = Some sg"
    and "cfBankAPIEnabled cfg" "routes_fit w"
  shows "length (sagaSteps sg) = 10 \<and>
    (\<exists>r' s' r s p1 w1. Run sg p w = (r', s', p1, w1) \<and> Run (gateway_saga env) p w = (r, s, p1, w1) \<and>
       (r' = None \<longleftrightarrow> r = None) \<and> completedSteps s' = completedSteps s)"
  using configured_steps [OF assms(1,2,4)] configured_run [OF assms] ..

theorem configured_gateway_runs_alike_witness:
  "\<exists>sg. main_saga demo_env demo_config (loop_net demo_env) (bank_client switch_bank_api) = Some sg \<and>
     snd (snd (Run sg demo_payment (demo_world demo_payment))) = snd (snd (run_of demo_payment))"
proof -
  have fit: "routes_fit (demo_world demo_payment)"
    by (simp add: routes_fit_def demo_world_def routing_seedDefaults_def mk_route_def)
  have "main_saga demo_env demo_config (loop_net demo_env) (bank_client switch_bank_api) \<noteq> None"
    by (simp add: main_saga_def main_ports_def resolveComplianceClient_def resolveLookupClient_def resolveQuotingClient_def
        resolveNotificationClient_def resolveRoutingClient_def resolveReconciliationClient_def resolveSettlementClient_def loop_net_def)
  then obtain sg where sg: "main_saga demo_env demo_config (loop_net demo_env) (bank_client switch_bank_api) = Some sg" by blast
  from configured_gateway_runs_alike [where p = demo_payment,
      OF demo_config_loaded(1) demo_viper_ok loop_net_behind sg demo_config_loaded(2) fit] sg
  show ?thesis unfolding run_of_def by auto
qed

text \<open>Behind a connection that delivers, the gRPC clients of the lookup, routing, quoting, compliance,
  notification and reconciliation services answer what the services themselves answer, an error apart,
  which arrives with gRPC's status text around it.\<close>

theorem remote_services_agree:
  assumes "delivers lk (lookup_server_ResolveBIC C banks)" "delivers rt routing_server_FindRoute"
    and "delivers qt (quoting_server_GetQuote env)" "delivers sc compliance_server_Screen"
    and "delivers nt notification_server_Notify" "delivers rc recon_server_AddRecord"
    and "\<And>r. r \<in> set routes \<Longrightarrow> - (2 ^ 31) \<le> sint (rtEstimatedMs r) \<and> sint (rtEstimatedMs r) < 2 ^ 31"
  shows "(lookup_client_ResolveBIC lk bic c = (case ResolveBIC C banks bic c of (Inl e, c') \<Rightarrow> (Inl (grpc_error e), c') | (Inr x, c') \<Rightarrow> (Inr x, c'))) \<and>
    (routing_client_FindRoute rt sb db ccy routes = (case FindRoute sb db ccy routes of (Inl e, s') \<Rightarrow> (Inl (grpc_error e), s') | (Inr x, s') \<Rightarrow> (Inr x, s'))) \<and>
    (quoting_client_GetQuote qt sb db amount ccy qs = (case GetQuote env sb db amount ccy qs of (Inl e, s') \<Rightarrow> (Inl (grpc_error e), s') | (Inr x, s') \<Rightarrow> (Inr x, s'))) \<and>
    (compliance_client_Screen sc p w = (case Screen p w of (Inl e, w') \<Rightarrow> (Inl (grpc_error e), w') | (Inr x, w') \<Rightarrow> (Inr x, w'))) \<and>
    (notification_client_Notify nt n1 n2 n3 n4 n5 n6 l = Notify n1 n2 n3 n4 n5 n6 l) \<and>
    (recon_client_AddRecord rc i sb db amount ccy st rs = AddRecord i sb db amount ccy st rs)"
  by (intro conjI lookup_client_ResolveBIC_eq [OF assms(1)] routing_client_FindRoute_eq [OF assms(2,7)]
      quoting_client_GetQuote_eq [OF assms(3)] compliance_client_Screen_eq [OF assms(4)]
      notification_client_Notify_eq [OF assms(5)] recon_client_AddRecord_eq [OF assms(6)])

theorem remote_services_agree_witness:
  "routing_client_FindRoute (loopback routing_server_FindRoute) ''BANKUS33'' ''BANKDEFF'' ''USD'' routing_seedDefaults =
   FindRoute ''BANKUS33'' ''BANKDEFF'' ''USD'' routing_seedDefaults"
proof -
  have b: "- (2 ^ 31) \<le> sint (rtEstimatedMs r) \<and> sint (rtEstimatedMs r) < 2 ^ 31" if "r \<in> set routing_seedDefaults" for r
    using that by (auto simp: routing_seedDefaults_def mk_route_def)
  from remote_services_agree [where sb = "''BANKUS33''" and db = "''BANKDEFF''" and ccy = "''USD''" and routes = routing_seedDefaults,
      OF delivers_loopback delivers_loopback delivers_loopback delivers_loopback delivers_loopback delivers_loopback b, THEN conjunct2, THEN conjunct1]
  show ?thesis by (simp add: FindRoute_def LookupRoute_def routing_seedDefaults_def mk_route_def same_route_def)
qed

section \<open>The portal\<close>

text \<open>C35: only the entitled change the register of banks and certificates. When a request to the portal
  changes it, the caller is authenticated, the request carries a CSRF token that is valid for the
  caller, and the caller is the switch's administrator, or a bank's administrator and then only rows
  of that bank have changed.\<close>

theorem registry_change_authorised:
  assumes "portal_http env allowedOrigin m path r p = (a, p')" and "portal_ok (ptDb p)"
    and "pd_banks (ptDb p') \<noteq> pd_banks (ptDb p) \<or> pdCerts (ptDb p') \<noteq> pdCerts (ptDb p)"
  shows "clSub (FromRequest r) \<noteq> '''' \<and>
    Valid (instant (peNow env)) (clSub (FromRequest r)) (csrf_header r) (ptCsrf p) \<and>
    (clRole (FromRequest r) = RoleSwitchAdmin \<or>
     (clRole (FromRequest r) = RoleBankAdmin \<and> only_own (clParticipantID (FromRequest r)) (ptDb p) (ptDb p')))"
  using portal_http_access [OF assms(1,2)] assms(3) by (auto simp: registry_same_def)

theorem registry_change_authorised_witness:
  "Valid (instant (peNow demo_penv)) (clSub (FromRequest create_bank_req)) (csrf_header create_bank_req) (ptCsrf demo_portal)"
proof -
  have "portal_http demo_penv '''' ''POST'' [''api'', ''v1'', ''banks''] create_bank_req demo_portal = (fst created, snd created)"
    by (simp add: created_def)
  from registry_change_authorised [OF this demo_portal_ok] demo_created demo_banks show ?thesis by auto
qed

text \<open>C36: well-formedness of the portal's data is invariant under requests, the cleaning of tokens and
  the switch's own writes, whatever statements fail: ids, BICs and fingerprints are unique, each bank has
  a status of its life cycle and an onboarding time exactly from production on, certificates belong to
  stored banks and are active or have a time of revocation, and export jobs are pending. Certificates
  change only by their revocation, and the audit log only grows.\<close>

theorem portal_invariant:
  assumes "portal_step\<^sup>*\<^sup>* p p'" and "portal_ok (ptDb p)"
  shows "portal_ok (ptDb p') \<and> grows cert_future (pdCerts (ptDb p)) (pdCerts (ptDb p')) \<and>
    grows (=) (pdAudit (ptDb p)) (pdAudit (ptDb p')) \<and> grows (=) (pdJobs (ptDb p)) (pdJobs (ptDb p'))"
  using portal_steps_progress [OF assms(1)] assms(2) by (simp add: progress_def history_def)

theorem portal_invariant_witness: "portal_ok (ptDb (snd created)) \<and> grows (=) (pdAudit portal_pdb) (pdAudit (ptDb (snd created)))"
proof -
  have "portal_step demo_portal (snd created)"
    by (rule portal_step.request [of demo_penv "''''" "''POST''" "[''api'', ''v1'', ''banks'']" create_bank_req _ "fst created"])
      (simp add: created_def)
  from portal_invariant [OF r_into_rtranclp [of portal_step, OF this] demo_portal_ok] show ?thesis by (simp add: demo_portal_def)
qed

text \<open>C37: a stored bank is never deleted and keeps its id, BIC, name, country and account; its status
  moves only along the transitions of the life cycle, its onboarding time never changes once set, and a
  decommissioned bank stays decommissioned.\<close>

theorem bank_life_cycle:
  assumes "portal_step\<^sup>*\<^sup>* p p'" and "portal_ok (ptDb p)" and "b \<in> set (pd_banks (ptDb p))"
  shows "\<exists>b'\<in>set (pd_banks (ptDb p')). bank_future b b' \<and>
    (bStatus b = ''DECOMMISSIONED'' \<longrightarrow> bStatus b' = ''DECOMMISSIONED'')"
proof -
  from portal_steps_progress [OF assms(1)] assms(2) have "grows bank_future (pd_banks (ptDb p)) (pd_banks (ptDb p'))"
    by (simp add: progress_def history_def)
  from grows_memD [OF this assms(3)] obtain b' where "b' \<in> set (pd_banks (ptDb p'))" "bank_future b b'" by blast
  then show ?thesis by (auto simp: bank_future_def dest: moves_decommissioned intro!: bexI [of _ b'])
qed

theorem bank_life_cycle_witness:
  "\<exists>b'\<in>set (pd_banks (ptDb (snd suspended))). moves ''PRODUCTION_ACTIVE'' (bStatus b') \<and> bBic b' = ''BANKUS33'' \<and> bOnboardedAt b' = Some 0"
proof -
  let ?b = "portal_bank ''a0a0a0a0-aaaa-4000-8000-000000000001'' ''BANKUS33''"
  have "portal_step demo_portal (snd suspended)"
    by (rule portal_step.request [of demo_penv "''''" "''PATCH''"
        "[''portal'', ''api'', ''v1'', ''banks'', ''a0a0a0a0-aaaa-4000-8000-000000000001'', ''status'']" suspend_req _ "fst suspended"])
      (simp add: suspended_def)
  moreover have "?b \<in> set (pd_banks (ptDb demo_portal))" by (simp add: demo_portal_def portal_pdb_def pd_banks_def empty_database_def)
  ultimately have "\<exists>b'\<in>set (pd_banks (ptDb (snd suspended))). bank_future ?b b' \<and> (bStatus ?b = ''DECOMMISSIONED'' \<longrightarrow> bStatus b' = ''DECOMMISSIONED'')"
    using bank_life_cycle [OF r_into_rtranclp [of portal_step] demo_portal_ok] by blast
  then show ?thesis by (auto simp: bank_future_def portal_bank_def demo_bank_row_def)
qed



text \<open>C39: the restriction fails open. For a caller whose role is not one of the three bank roles, be it
  empty or unknown, and for a bank's user whose claims name no participant, the lists of transactions and of
  settlement windows and the dashboard answer as they answer the switch's administrator.\<close>

theorem unscoped_caller_sees_all:
  assumes "\<not> IsBankRole c \<or> clParticipantID c = ''''" and "Query_Get r ''bic'' = ''''" and "clSub c \<noteq> ''''"
    and "path \<in> {[''transactions''], [''settlement'', ''windows''], [''dashboard'', ''summary''], [''dashboard'', ''abort-reasons'']}"
  shows "portal_http env allowedOrigin ''GET'' ([''api'', ''v1''] @ path) (WithClaims c r) p =
    portal_http env allowedOrigin ''GET'' ([''api'', ''v1''] @ path) (WithClaims (c\<lparr>clRole := RoleSwitchAdmin\<rparr>) r) p"
proof -
  have q: "Query_Get (WithClaims d r) k = Query_Get r k" for d k by (simp add: Query_Get_def WithClaims_def)
  have "scope_bic (WithClaims d r) = ''''" if "\<not> IsBankRole d \<or> clParticipantID d = ''''" for d
    using that assms(2) by (simp add: scope_bic_def q Let_def)
  moreover have "\<not> IsBankRole (c\<lparr>clRole := RoleSwitchAdmin\<rparr>)" by (simp add: IsBankRole_def go_string)
  ultimately have s: "scope_bic (WithClaims c r) = ''''" "scope_bic (WithClaims (c\<lparr>clRole := RoleSwitchAdmin\<rparr>) r) = ''''"
    using assms(1) by auto
  have w: "WithClaims d (WithClaims d r) = WithClaims d r" for d by (simp add: WithClaims_def)
  have h: "cors_headers x (WithClaims d r) = cors_headers x r" for d x by (simp add: cors_headers_def WithClaims_def Header_Get_def Let_def)
  have ep: "\<exists>ep. endpoint_of ''GET'' path = Some ep \<and> endpoint_roles ep = None \<and> scoped_bank path = None \<and> path \<noteq> [''healthz''] \<and>
      endpoint_handler env ep (WithClaims c r) p = endpoint_handler env ep (WithClaims (c\<lparr>clRole := RoleSwitchAdmin\<rparr>) r) p"
    using assms(4)
    by (auto simp: endpoint_of_def transactions_endpoint_def scoped_bank_def listTransactions_def tx_filter_def q s timeQuery_def
        dateQuery_def optQuery_def intQuery_def listSettlementWindows_def getDashboardSummary_def getAbortReasons_def range_query_def)
  then obtain ep where "endpoint_of ''GET'' path = Some ep" "endpoint_roles ep = None" "scoped_bank path = None"
    "endpoint_handler env ep (WithClaims c r) p = endpoint_handler env ep (WithClaims (c\<lparr>clRole := RoleSwitchAdmin\<rparr>) r) p" by blast
  with assms(3) show ?thesis
    by (simp add: portal_http_def api_path_def api_chain_def corsMiddleware_def AuthMiddleware_def CSRFMiddleware_def
        route_def serve_endpoint_def serve_def w h)
qed

theorem unscoped_caller_sees_all_witness:
  "portal_http demo_penv '''' ''GET'' ([''api'', ''v1''] @ [''transactions''])
     (WithClaims \<lparr>clSub = ''bob'', clUsername = ''bob'', clRole = ''BANK_VIEWER'', clParticipantID = ''''\<rparr> viewer_req) demo_portal =
   portal_http demo_penv '''' ''GET'' ([''api'', ''v1''] @ [''transactions''])
     (WithClaims \<lparr>clSub = ''bob'', clUsername = ''bob'', clRole = ''SWITCH_ADMIN'', clParticipantID = ''''\<rparr> viewer_req) demo_portal"
  using unscoped_caller_sees_all [of "\<lparr>clSub = ''bob'', clUsername = ''bob'', clRole = ''BANK_VIEWER'', clParticipantID = ''''\<rparr>" viewer_req "[''transactions'']"]
  by (simp add: Query_Get_def viewer_req_def portal_req_def RoleSwitchAdmin_def)



end
